(* ===== verification/Prelude.thy ===== *)
theory Prelude
  imports Main "HOL-Library.Word"
begin

text \<open>
  Shared material of the development: the collections of simplification facts the component
  theories fill, the Python values the sources compute with (exceptions as values, truth of
  an optional column, integer parsing, splitting and stripping of strings) and the generic
  lemmas on lists and options that the component proofs rest on.
\<close>

named_theorems handler_simps \<open>definitions of request handlers and the helpers they call\<close>
named_theorems table_simps \<open>laws of the table operations\<close>

section \<open>Python exceptions and results\<close>

text \<open>The exceptions the modelled code can raise, by the name Python gives them.\<close>

datatype pyexn =
    ZeroDivisionError | IndexError | KeyError | ValueError | TypeError
  | AttributeError string | NameError string | UnboundLocalError string | IOError | OSError
  | StructError | SMTPServerDisconnected | IntegrityError | AssertionError
  | SystemExit int | HTTPError int | DataError

type_synonym 'a pyres = "pyexn + 'a"

section \<open>Truth of values\<close>

text \<open>A nullable integer column is false when it is NULL or zero.\<close>

definition truthy_int :: "int option \<Rightarrow> bool" where
  "truthy_int x = (case x of None \<Rightarrow> False | Some n \<Rightarrow> n \<noteq> 0)"

lemma truthy_int_simps [simp]:
  "truthy_int None = False" "truthy_int (Some n) = (n \<noteq> 0)"
  by (simp_all add: truthy_int_def)

text \<open>A nullable string is false when it is NULL or empty.\<close>

definition truthy_str :: "string option \<Rightarrow> bool" where
  "truthy_str x = (case x of None \<Rightarrow> False | Some s \<Rightarrow> s \<noteq> [])"

lemma truthy_str_simps [simp]:
  "truthy_str None = False" "truthy_str (Some s) = (s \<noteq> [])"
  by (simp_all add: truthy_str_def)

section \<open>Strings\<close>

definition is_space :: "char \<Rightarrow> bool" where
  "is_space c = (c \<in> {CHR '' '', CHR 0x09, CHR 0x0A, CHR 0x0B, CHR 0x0C, CHR 0x0D})"

text \<open>\<open>str.lstrip()\<close> and \<open>str.strip()\<close>.\<close>

definition lstrip :: "string \<Rightarrow> string" where
  "lstrip s = dropWhile is_space s"

definition strip :: "string \<Rightarrow> string" where
  "strip s = rev (lstrip (rev (lstrip s)))"

text \<open>\<open>str.split(c)\<close> with a one-character separator: always at least one piece.\<close>

fun split_on :: "char \<Rightarrow> string \<Rightarrow> string list" where
  "split_on c [] = [[]]"
| "split_on c (x # xs) =
     (if x = c then [] # split_on c xs
      else case split_on c xs of [] \<Rightarrow> [[x]] | w # ws \<Rightarrow> (x # w) # ws)"

text \<open>\<open>str.split()\<close> without argument: the maximal runs of non-space characters.\<close>

fun words_acc :: "string \<Rightarrow> string \<Rightarrow> string list" where
  "words_acc acc [] = (if acc = [] then [] else [rev acc])"
| "words_acc acc (x # xs) =
     (if is_space x then (if acc = [] then words_acc [] xs else rev acc # words_acc [] xs)
      else words_acc (x # acc) xs)"

definition split_ws :: "string \<Rightarrow> string list" where
  "split_ws s = words_acc [] s"

definition is_digit :: "char \<Rightarrow> bool" where
  "is_digit c = (48 \<le> (of_char c :: nat) \<and> (of_char c :: nat) \<le> 57)"

definition digit_val :: "char \<Rightarrow> int" where
  "digit_val c = int (of_char c) - 48"

definition digits_val :: "string \<Rightarrow> int" where
  "digits_val s = foldl (\<lambda>n c. 10 * n + digit_val c) 0 s"

definition parse_nat :: "string \<Rightarrow> int option" where
  "parse_nat s = (if s \<noteq> [] \<and> list_all is_digit s then Some (digits_val s) else None)"

text \<open>
  \<open>int(s)\<close> on a string: surrounding white space and one sign are accepted, \<open>None\<close> stands
  for the \<open>ValueError\<close>.
\<close>

definition py_int :: "string \<Rightarrow> int option" where
  "py_int s =
     (case strip s of
        [] \<Rightarrow> None
      | c # cs \<Rightarrow>
          if c = CHR ''-'' then map_option uminus (parse_nat cs)
          else if c = CHR ''+'' then parse_nat cs
          else parse_nat (c # cs))"

text \<open>Decimal rendering of a non-negative integer and of an integer, as \<open>'%s' % n\<close> prints it.\<close>

fun show_nat :: "nat \<Rightarrow> string" where
  "show_nat n = (if n < 10 then [char_of (48 + n)] else show_nat (n div 10) @ [char_of (48 + n mod 10)])"

declare show_nat.simps [simp del]

definition show_int :: "int \<Rightarrow> string" where
  "show_int n = (if n < 0 then CHR ''-'' # show_nat (nat (- n)) else show_nat (nat n))"

text \<open>\<open>s.count(w)\<close> is not zero: \<open>w\<close> occurs in \<open>s\<close>.\<close>

fun occurs_in :: "string \<Rightarrow> string \<Rightarrow> bool" where
  "occurs_in w [] = (w = [])"
| "occurs_in w (x # xs) = (take (length w) (x # xs) = w \<or> occurs_in w xs)"

lemma split_on_not_Nil [simp]: "split_on c s \<noteq> []"
  by (induction s) (auto split: list.split)

lemma split_on_no_sep: "c \<notin> set s \<Longrightarrow> split_on c s = [s]"
  by (induction s) auto

lemma split_on_append_sep:
  "c \<notin> set s \<Longrightarrow> split_on c (s @ c # t) = s # split_on c t"
  by (induction s) auto

lemma show_nat_not_Nil [simp]: "show_nat n \<noteq> []"
  by (subst show_nat.simps) simp

lemma digits_val_snoc: "digits_val (s @ [c]) = 10 * digits_val s + digit_val c"
  by (simp add: digits_val_def)

lemma digit_char:
  "n < 10 \<Longrightarrow> is_digit (char_of (48 + n)) \<and> digit_val (char_of (48 + n)) = int n"
  by (simp add: is_digit_def digit_val_def)

lemma show_nat_digits: "list_all is_digit (show_nat n) \<and> digits_val (show_nat n) = int n"
proof (induction n rule: show_nat.induct)
  case (1 n)
  show ?case
  proof (cases "n < 10")
    case True
    then show ?thesis
      using digit_char [OF True] by (subst (1 2) show_nat.simps) (simp add: digits_val_def)
  next
    case False
    have m: "n mod 10 < 10" by simp
    from False 1 have ih: "list_all is_digit (show_nat (n div 10)) \<and>
      digits_val (show_nat (n div 10)) = int (n div 10)" by simp
    have "10 * int (n div 10) + int (n mod 10) = int n" by presburger
    then show ?thesis
      using False ih digit_char [OF m]
      by (subst (1 2) show_nat.simps) (simp add: digits_val_snoc)
  qed
qed

lemma parse_show_nat [simp]: "parse_nat (show_nat n) = Some (int n)"
  using show_nat_digits [of n] by (simp add: parse_nat_def)

lemma show_nat_inj: "show_nat m = show_nat n \<Longrightarrow> m = n"
proof -
  assume "show_nat m = show_nat n"
  then have "parse_nat (show_nat m) = parse_nat (show_nat n)" by simp
  then show ?thesis by simp
qed

lemma py_int_show_int: "py_int (show_int n) = Some n"
proof -
  have ns: "\<not> is_space c" if "is_digit c" for c
    using that by (auto simp: is_space_def is_digit_def)
  have dig: "list_all is_digit (show_nat k)" for k
  proof (induction k rule: show_nat.induct)
    case (1 k)
    have "is_digit (char_of (48 + m))" if "m < 10" for m :: nat
      using that by (simp add: is_digit_def)
    with 1 show ?case by (subst show_nat.simps) auto
  qed
  have st: "strip s = s" if "s \<noteq> []" "\<not> is_space (hd s)" "\<not> is_space (last s)" for s
  proof -
    have "lstrip s = s" using that by (cases s) (auto simp: lstrip_def)
    moreover have "lstrip (rev s) = rev s"
      using that by (cases s rule: rev_cases) (auto simp: lstrip_def)
    ultimately show ?thesis by (simp add: strip_def)
  qed
  have nat: "strip (show_nat k) = show_nat k \<and> hd (show_nat k) \<noteq> CHR ''-'' \<and> hd (show_nat k) \<noteq> CHR ''+''" for k
  proof -
    have "is_digit (hd (show_nat k))" "is_digit (last (show_nat k))"
      using dig [of k] by (simp_all add: list_all_iff)
    then show ?thesis using st [of "show_nat k"] ns by (auto simp: is_digit_def)
  qed
  show ?thesis
  proof (cases "n < 0")
    case True
    have "strip (CHR ''-'' # show_nat (nat (- n))) = CHR ''-'' # show_nat (nat (- n))"
      using dig [of "nat (- n)"] ns by (intro st) (auto simp: is_space_def list_all_iff)
    then show ?thesis using True by (simp add: py_int_def show_int_def parse_show_nat)
  next
    case False
    then show ?thesis
      using nat [of "nat n"] parse_show_nat [of "nat n"]
      by (cases "show_nat (nat n)") (auto simp: py_int_def show_int_def)
  qed
qed

lemma show_int_inj: "show_int m = show_int n \<Longrightarrow> m = n"
  by (metis py_int_show_int option.inject)

section \<open>Lists\<close>

lemma find_Some_set: "find P xs = Some x \<Longrightarrow> x \<in> set xs \<and> P x"
  by (induction xs) (auto split: if_splits)

lemma foldl_keep: "P x \<Longrightarrow> (\<And>x y. P x \<Longrightarrow> P (f x y)) \<Longrightarrow> P (foldl f x ys)"
  by (induction ys arbitrary: x) auto

lemma sum_list_nonneg_int: "\<forall>x \<in> set xs. 0 \<le> f x \<Longrightarrow> 0 \<le> (\<Sum>x\<leftarrow>xs. (f x :: int))"
  by (induction xs) auto

lemma length_filter_le1I:
  "(\<And>x y. x \<in> set xs \<Longrightarrow> y \<in> set xs \<Longrightarrow> P x \<Longrightarrow> P y \<Longrightarrow> x = y) \<Longrightarrow> distinct xs \<Longrightarrow>
   length (filter P xs) \<le> 1"
proof (induction xs)
  case (Cons a xs)
  show ?case
  proof (cases "P a")
    case True
    have "filter P xs = []"
    proof (rule ccontr)
      assume "filter P xs \<noteq> []"
      then obtain b where "b \<in> set xs" "P b" by (auto simp: filter_empty_conv)
      with Cons.prems True show False by (metis distinct.simps(2) list.set_intros)
    qed
    then show ?thesis using True by simp
  next
    case False
    with Cons show ?thesis by simp
  qed
qed simp

lemma pair_of_fst: "fst p = a \<Longrightarrow> p = (a, snd p)"
  by (cases p) simp

end
