(* ===== verification/Lyauth.thy ===== *)
theory Lyauth
  imports Prelude
begin

text \<open>
  The stream cipher of the OS manager's challenge and response
  (\<^verbatim>\<open>osmanager/bin/pyosm/lyauth.py\<close>): the module globals \<open>i\<close>, \<open>j\<close> and \<open>SBox\<close>
  are a record, \<open>generateKey\<close>, \<open>getByte\<close> and \<open>encode\<close> act on it as in the source, on lists of numbers
  whose access raises \<open>IndexError\<close> out of range. The reference is the cipher RC4 as it is published, on
  8-bit words and functions between them. The lemmas relate the two step by step; that no index leaves
  the lists comes with it.
\<close>

unbundle bit_operations_syntax

section \<open>State and operations\<close>

record rc4 =
  rc_i :: nat
  rc_j :: nat
  rc_S :: "nat list"

definition SIZE :: nat where
  "SIZE = 256"

text \<open>What follows is done unless an exception was raised; \<open>xs[i]\<close> and \<open>xs[i] = v\<close> on a list.\<close>

definition and_then :: "'a pyres \<Rightarrow> ('a \<Rightarrow> 'b pyres) \<Rightarrow> 'b pyres" where
  "and_then r f = (case r of Inl e \<Rightarrow> Inl e | Inr x \<Rightarrow> f x)"

definition py_at :: "'a list \<Rightarrow> nat \<Rightarrow> 'a pyres" where
  "py_at xs i = (if i < length xs then Inr (xs ! i) else Inl IndexError)"

definition py_set :: "'a list \<Rightarrow> nat \<Rightarrow> 'a \<Rightarrow> 'a list pyres" where
  "py_set xs i v = (if i < length xs then Inr (xs[i := v]) else Inl IndexError)"

text \<open>Exchange of two cells, through the temporary \<open>tmp\<close>.\<close>

definition swap_cells :: "nat list \<Rightarrow> nat \<Rightarrow> nat \<Rightarrow> nat list pyres" where
  "swap_cells S a b =
     and_then (py_at S a) (\<lambda>tmp.
     and_then (py_at S b) (\<lambda>v.
     and_then (py_set S a v) (\<lambda>S1. py_set S1 b tmp)))"

text \<open>
  The second loop of \<open>generateKey\<close>, over the list of indices it still has to visit; \<open>i % keylen\<close> raises
  \<open>ZeroDivisionError\<close> on an empty key.
\<close>

fun key_box :: "string \<Rightarrow> nat list \<Rightarrow> nat list pyres" where
  "key_box mykey [] = Inr []"
| "key_box mykey (i # is) =
     (if length mykey = 0 then Inl ZeroDivisionError
      else and_then (py_at mykey (i mod length mykey)) (\<lambda>c.
           and_then (key_box mykey is) (\<lambda>KBox. Inr (of_char c # KBox))))"

text \<open>The third loop.\<close>

fun mix_box :: "nat list \<Rightarrow> nat list \<Rightarrow> nat \<times> nat list \<Rightarrow> (nat \<times> nat list) pyres" where
  "mix_box KBox [] (j, S) = Inr (j, S)"
| "mix_box KBox (i # is) (j, S) =
     and_then (py_at S i) (\<lambda>s.
     and_then (py_at KBox i) (\<lambda>k.
       let j' = (j + s + k) mod SIZE
       in and_then (swap_cells S i j') (\<lambda>S'. mix_box KBox is (j', S'))))"

text \<open>The loop variable is the global \<open>i\<close>, so it is left at the last index.\<close>

definition generateKey :: "string \<Rightarrow> rc4 pyres" where
  "generateKey mykey =
     and_then (key_box mykey [0..<SIZE]) (\<lambda>KBox.
     and_then (mix_box KBox [0..<SIZE] (0, [0..<SIZE])) (\<lambda>(j, S).
       Inr \<lparr>rc_i = SIZE - 1, rc_j = j, rc_S = S\<rparr>))"

definition getByte :: "rc4 \<Rightarrow> (nat \<times> rc4) pyres" where
  "getByte st =
     (let i = (rc_i st + 1) mod SIZE in
      and_then (py_at (rc_S st) i) (\<lambda>s.
        let j = (rc_j st + s) mod SIZE in
        and_then (swap_cells (rc_S st) i j) (\<lambda>S.
        and_then (py_at S i) (\<lambda>a.
        and_then (py_at S j) (\<lambda>b.
        and_then (py_at S ((a + b) mod SIZE)) (\<lambda>g.
          Inr (g, \<lparr>rc_i = i, rc_j = j, rc_S = S\<rparr>)))))))"

fun encode_loop :: "rc4 \<Rightarrow> nat list \<Rightarrow> nat list pyres" where
  "encode_loop st [] = Inr []"
| "encode_loop st (d # ds) =
     and_then (getByte st) (\<lambda>(g, st').
     and_then (encode_loop st' ds) (\<lambda>retval. Inr ((d XOR g) # retval)))"

definition encode :: "string \<Rightarrow> nat list \<Rightarrow> nat list pyres" where
  "encode mykey data =
     and_then (generateKey mykey) (\<lambda>st. encode_loop (st\<lparr>rc_i := 0, rc_j := 0\<rparr>) data)"

section \<open>The published cipher\<close>

text \<open>
  RC4 on bytes, whose addition is modulo 256: the box is a function from bytes to bytes, the identity at
  first; the key schedule exchanges two values for each index, and so does every byte of the key stream.
\<close>

definition exchange :: "('a \<Rightarrow> 'b) \<Rightarrow> 'a \<Rightarrow> 'a \<Rightarrow> 'a \<Rightarrow> 'b" where
  "exchange f a b = f(a := f b, b := f a)"

primrec rc4_schedule :: "(nat \<Rightarrow> 8 word) \<Rightarrow> nat \<Rightarrow> 8 word \<times> (8 word \<Rightarrow> 8 word)" where
  "rc4_schedule key 0 = (0, id)"
| "rc4_schedule key (Suc n) =
     (let (j, f) = rc4_schedule key n; j' = j + f (of_nat n) + key n
      in (j', exchange f (of_nat n) j'))"

primrec rc4_bytes :: "nat \<Rightarrow> 8 word \<Rightarrow> 8 word \<Rightarrow> (8 word \<Rightarrow> 8 word) \<Rightarrow> 8 word list" where
  "rc4_bytes 0 i j f = []"
| "rc4_bytes (Suc n) i j f =
     (let i' = i + 1; j' = j + f i'; f' = exchange f i' j'
      in f' (f' i' + f' j') # rc4_bytes n i' j' f')"

definition rc4_key :: "string \<Rightarrow> nat \<Rightarrow> 8 word" where
  "rc4_key k n = of_nat (of_char (k ! (n mod length k)))"

definition rc4_stream :: "string \<Rightarrow> nat \<Rightarrow> 8 word list" where
  "rc4_stream k n = rc4_bytes n 0 0 (snd (rc4_schedule (rc4_key k) 256))"

definition rc4_cipher :: "string \<Rightarrow> nat list \<Rightarrow> nat list" where
  "rc4_cipher k ds = map2 (XOR) ds (map unat (rc4_stream k (length ds)))"

section \<open>The lists implement the published cipher\<close>

lemma and_then_simps [simp]: "and_then (Inl e) f = Inl e" "and_then (Inr x) f = f x"
  by (simp_all add: and_then_def)

lemma and_then_assoc: "and_then (and_then r f) g = and_then r (\<lambda>x. and_then (f x) g)"
  by (cases r) simp_all

text \<open>The list \<open>S\<close> holds the box \<open>f\<close>.\<close>

definition holds :: "nat list \<Rightarrow> (8 word \<Rightarrow> 8 word) \<Rightarrow> bool" where
  "holds S f \<longleftrightarrow> length S = SIZE \<and> (\<forall>w. S ! unat w = unat (f w))"

lemma SIZE_pos [simp]: "0 < SIZE"
  by (simp add: SIZE_def)

lemma unat_byte [simp]: "unat (w :: 8 word) < SIZE"
  using unsigned_less [of w] by (simp add: SIZE_def)

lemma mod_SIZE: "n mod SIZE = unat (of_nat n :: 8 word)"
  by (simp add: SIZE_def unat_of_nat)

lemma at_holds: "holds S f \<Longrightarrow> py_at S (unat w) = Inr (unat (f w))"
  by (simp add: holds_def py_at_def)

lemma swap_holds: "holds S f \<Longrightarrow> \<exists>S'. swap_cells S (unat a) (unat b) = Inr S' \<and> holds S' (exchange f a b)"
  by (auto simp: swap_cells_def py_at_def py_set_def holds_def exchange_def nth_list_update unsigned_word_eqI dest!: word_unat_eq_iff [THEN iffD2])

lemma init_holds: "holds [0..<SIZE] id"
  by (simp add: holds_def)

lemma mix_box_append:
  "mix_box K (xs @ ys) st = and_then (mix_box K xs st) (mix_box K ys)"
  by (induction K xs st rule: mix_box.induct) (simp_all add: and_then_assoc Let_def)

lemma mix_box_holds:
  assumes "length K = SIZE" and "\<And>m. m < SIZE \<Longrightarrow> K ! m = unat (key m)"
  shows "n \<le> SIZE \<Longrightarrow> \<exists>S. mix_box K [0..<n] (0, [0..<SIZE]) = Inr (unat (fst (rc4_schedule key n)), S) \<and>
           holds S (snd (rc4_schedule key n))"
proof (induction n)
  case (Suc n)
  obtain j f where jf: "rc4_schedule key n = (j, f)" by (cases "rc4_schedule key n")
  obtain S where S: "mix_box K [0..<n] (0, [0..<SIZE]) = Inr (unat j, S)" "holds S f" using Suc jf by auto
  have n: "n = unat (of_nat n :: 8 word)" using Suc.prems mod_SIZE [of n] by simp
  let ?j = "j + f (of_nat n) + key n"
  have j: "(unat j + unat (f (of_nat n)) + unat (key n)) mod SIZE = unat ?j" by (simp add: mod_SIZE)
  obtain S' where S': "swap_cells S n (unat ?j) = Inr S'" "holds S' (exchange f (of_nat n) ?j)"
    using swap_holds [OF S(2), of "of_nat n" ?j] n by auto
  have "py_at S n = Inr (unat (f (of_nat n)))" using at_holds [OF S(2), of "of_nat n"] n by simp
  moreover have "py_at K n = Inr (unat (key n))" using assms Suc.prems by (simp add: py_at_def)
  ultimately show ?case using S S' by (simp add: mix_box_append jf j Let_def)
qed (simp add: init_holds)

lemma key_box_spec: "k \<noteq> [] \<Longrightarrow> key_box k is = Inr (map (\<lambda>i. of_char (k ! (i mod length k))) is)"
  by (induction "is") (simp_all add: py_at_def)

lemma generateKey_spec:
  assumes "k \<noteq> []"
  shows "\<exists>st. generateKey k = Inr st \<and> holds (rc_S st) (snd (rc4_schedule (rc4_key k) 256))"
proof -
  let ?K = "map (\<lambda>i. of_char (k ! (i mod length k)) :: nat) [0..<SIZE]"
  have byte: "of_char (k ! i) mod SIZE = (of_char (k ! i) :: nat)" for i
    by (simp add: SIZE_def)
  have K: "?K ! m = unat (rc4_key k m)" if "m < SIZE" for m
    using that byte by (simp add: rc4_key_def flip: mod_SIZE)
  obtain S where "mix_box ?K [0..<SIZE] (0, [0..<SIZE]) = Inr (unat (fst (rc4_schedule (rc4_key k) SIZE)), S)"
    "holds S (snd (rc4_schedule (rc4_key k) SIZE))"
    using mix_box_holds [of ?K "rc4_key k" SIZE] K by auto
  then show ?thesis using key_box_spec [OF assms] by (simp add: generateKey_def SIZE_def)
qed

lemma getByte_spec:
  assumes "holds (rc_S st) f" and "rc_i st = unat i" and "rc_j st = unat j"
  defines "i' \<equiv> i + 1" and "j' \<equiv> j + f (i + 1)"
  shows "\<exists>S. getByte st = Inr (unat (exchange f i' j' (exchange f i' j' i' + exchange f i' j' j')),
             \<lparr>rc_i = unat i', rc_j = unat j', rc_S = S\<rparr>) \<and> holds S (exchange f i' j')"
proof -
  have i: "(rc_i st + 1) mod SIZE = unat i'" using assms(2) by (simp add: mod_SIZE i'_def add.commute)
  have j: "(rc_j st + unat (f i')) mod SIZE = unat j'" using assms(3) by (simp add: mod_SIZE i'_def j'_def)
  obtain S where S: "swap_cells (rc_S st) (unat i') (unat j') = Inr S" "holds S (exchange f i' j')"
    using swap_holds [OF assms(1)] by blast
  have "(unat a + unat b) mod SIZE = unat (a + b)" for a b :: "8 word" by (simp add: mod_SIZE)
  then show ?thesis
    unfolding getByte_def i Let_def at_holds [OF assms(1)] and_then_simps j S(1) at_holds [OF S(2)] using S(2)
    by (auto simp: at_holds [OF S(2)])
qed

lemma encode_loop_spec:
  "holds (rc_S st) f \<Longrightarrow> rc_i st = unat i \<Longrightarrow> rc_j st = unat j \<Longrightarrow>
   encode_loop st ds = Inr (map2 (XOR) ds (map unat (rc4_bytes (length ds) i j f)))"
proof (induction ds arbitrary: st i j f)
  case (Cons d ds)
  obtain S where S: "getByte st = Inr (unat (exchange f (i + 1) (j + f (i + 1)) (exchange f (i + 1) (j + f (i + 1)) (i + 1) +
      exchange f (i + 1) (j + f (i + 1)) (j + f (i + 1)))), \<lparr>rc_i = unat (i + 1), rc_j = unat (j + f (i + 1)), rc_S = S\<rparr>)"
    "holds S (exchange f (i + 1) (j + f (i + 1)))"
    using getByte_spec [OF Cons.prems] by blast
  show ?case unfolding encode_loop.simps S(1) using Cons.IH [OF _ rc4.select_convs(1,2)] S(2) by (simp add: Let_def)
qed simp

lemma encode_Inr: "k \<noteq> [] \<Longrightarrow> encode k ds = Inr (rc4_cipher k ds)"
proof -
  assume "k \<noteq> []"
  then obtain st where st: "generateKey k = Inr st" "holds (rc_S st) (snd (rc4_schedule (rc4_key k) 256))"
    using generateKey_spec by blast
  have "encode_loop (st\<lparr>rc_i := 0, rc_j := 0\<rparr>) ds =
      Inr (map2 (XOR) ds (map unat (rc4_bytes (length ds) 0 0 (snd (rc4_schedule (rc4_key k) 256)))))"
    by (rule encode_loop_spec) (use st(2) in simp_all)
  then show ?thesis by (simp add: encode_def st(1) rc4_cipher_def rc4_stream_def)
qed

lemma encode_empty: "encode [] ds = Inl ZeroDivisionError"
  by (simp add: encode_def generateKey_def upt_conv_Cons [of 0 SIZE])

section \<open>The box and the key stream\<close>

text \<open>The box stays a permutation of the bytes.\<close>

lemma exchange_inj: "inj f \<Longrightarrow> inj (exchange f a b)"
  by (auto simp: inj_def exchange_def)

lemma rc4_schedule_inj: "inj (snd (rc4_schedule key n))"
  by (induction n) (simp_all add: case_prod_beta Let_def exchange_inj)

lemma length_rc4_bytes [simp]: "length (rc4_bytes n i j f) = n"
  by (induction n arbitrary: i j f) (simp_all add: Let_def)

lemma length_rc4_cipher [simp]: "length (rc4_cipher k ds) = length ds"
  by (simp add: rc4_cipher_def rc4_stream_def)

lemma take_rc4_bytes: "take m (rc4_bytes n i j f) = rc4_bytes (min m n) i j f"
  by (induction n arbitrary: m i j f) (auto simp: Let_def take_Cons split: nat.split)

lemma take_rc4_cipher: "rc4_cipher k (take n ds) = take n (rc4_cipher k ds)"
  by (simp add: rc4_cipher_def rc4_stream_def take_map take_zip take_rc4_bytes min.commute)

lemma map2_xor_twice:
  "length gs = length ds \<Longrightarrow> map2 (XOR) (map2 (XOR) ds gs) gs = (ds :: nat list)"
  by (induction ds gs rule: list_induct2') (simp_all add: xor.assoc)

lemma rc4_cipher_twice: "rc4_cipher k (rc4_cipher k ds) = ds"
  unfolding rc4_cipher_def [of k "rc4_cipher k ds"] length_rc4_cipher
  unfolding rc4_cipher_def by (rule map2_xor_twice) (simp add: rc4_stream_def)

lemma xor_byte: "(a :: nat) < SIZE \<Longrightarrow> b < SIZE \<Longrightarrow> a XOR b < SIZE"
proof -
  assume "a < SIZE" "b < SIZE"
  then have "take_bit 8 a = a" "take_bit 8 b = b"
    by (simp_all add: SIZE_def take_bit_nat_eq_self_iff)
  then have "take_bit 8 (a XOR b) = a XOR b" by (simp add: take_bit_xor)
  then have "a XOR b < 2 ^ 8" by (simp only: take_bit_nat_eq_self_iff)
  then show ?thesis by (simp add: SIZE_def)
qed

lemma rc4_cipher_bytes: "\<forall>d \<in> set ds. d < SIZE \<Longrightarrow> \<forall>c \<in> set (rc4_cipher k ds). c < SIZE"
  unfolding rc4_cipher_def by (fastforce intro!: xor_byte dest: set_zip_leftD set_zip_rightD)

section \<open>Properties\<close>

text \<open>
  C26. For every key but the empty one, which is a division by zero, \<open>encode\<close> is the published cipher RC4: the key schedule, every
  byte of the key stream and the combination with the data agree with the reference on 8-bit words, and no index leaves
  the lists. Encoding the result again under the same key gives the data back, and bytes are turned into bytes, so that \<open>chr\<close> takes them.
\<close>

theorem encode_is_rc4:
  "encode [] ds = Inl ZeroDivisionError \<and>
   (k \<noteq> [] \<longrightarrow> encode k ds = Inr (map2 (XOR) ds (map unat (rc4_stream k (length ds)))) \<and>
      (\<exists>c. encode k ds = Inr c \<and> length c = length ds \<and> encode k c = Inr ds \<and>
         ((\<forall>d \<in> set ds. d < 256) \<longrightarrow> (\<forall>b \<in> set c. b < 256))))"
  using encode_empty encode_Inr [of k] rc4_cipher_twice [of k ds] rc4_cipher_bytes [of ds k]
  by (simp add: SIZE_def) (simp add: rc4_cipher_def)

theorem encode_is_rc4_witness:
  "encode ''Key'' [1, 2, 255] = Inr (map2 (XOR) [1, 2, 255] (map unat (rc4_stream ''Key'' 3)))"
  using encode_is_rc4 [of "[1, 2, 255]" "''Key''"] by (simp add: numeral_3_eq_3)

text \<open>The result of a prefix of the data is the prefix of the result.\<close>

lemma encode_prefix: "encode k ds = Inr cs \<Longrightarrow> encode k (take n ds) = Inr (take n cs)"
  by (cases "k = []") (auto simp: encode_empty encode_Inr take_rc4_cipher)

end
