(* ===== verification/Lyutil.thy ===== *)
theory Lyutil
  imports Prelude
begin

text \<open>
  Packet framing of the OS manager (\<^verbatim>\<open>osmanager/bin/pyosm/lyutil.py\<close> and the constants of
  \<^verbatim>\<open>lydef.py\<close>). A packet is a header of two little-endian 32-bit words, type and payload
  length, and the payload. The receiving side of a socket is the list of what successive
  \<open>select\<close>/\<open>recv\<close> calls find: data chunks, a timeout or an error; an empty chunk is the
  end of the stream, and an exhausted list behaves as a timeout. Bytes are natural numbers
  below 256.
\<close>

section \<open>Constants of lydef.py\<close>

definition PKT_TYPE_JOIN_REQUEST :: nat where "PKT_TYPE_JOIN_REQUEST = 101"
definition PKT_TYPE_TEST_ECHO_REQUEST :: nat where "PKT_TYPE_TEST_ECHO_REQUEST = 901"
definition PKT_TYPE_TEST_ECHO_REPLY :: nat where "PKT_TYPE_TEST_ECHO_REPLY = 902"
definition PKT_TYPE_CLC_OSM_QUERY_REQUEST :: nat where "PKT_TYPE_CLC_OSM_QUERY_REQUEST = 20033"
definition PKT_TYPE_CLC_OSM_QUERY_REPLY :: nat where "PKT_TYPE_CLC_OSM_QUERY_REPLY = 20034"
definition PKT_TYPE_OSM_REGISTER_REQUEST :: nat where "PKT_TYPE_OSM_REGISTER_REQUEST = 40001"
definition PKT_TYPE_OSM_REGISTER_REPLY :: nat where "PKT_TYPE_OSM_REGISTER_REPLY = 40002"
definition PKT_TYPE_OSM_REPORT :: nat where "PKT_TYPE_OSM_REPORT = 40003"
definition PKT_TYPE_OSM_AUTH_REQUEST :: nat where "PKT_TYPE_OSM_AUTH_REQUEST = 40011"
definition PKT_TYPE_OSM_AUTH_REPLY :: nat where "PKT_TYPE_OSM_AUTH_REPLY = 40012"
definition LY_S_REGISTERING_DONE_SUCCESS :: int where "LY_S_REGISTERING_DONE_SUCCESS = 1021"
definition LY_S_APP_RUNNING :: int where "LY_S_APP_RUNNING = 2000"
definition LY_S_APP_UNKNOWN :: int where "LY_S_APP_UNKNOWN = 2128"
definition OSM_STATUS_INIT :: int where "OSM_STATUS_INIT = 2"
definition OSM_STATUS_UNREGISTERED :: int where "OSM_STATUS_UNREGISTERED = 7"
definition OSM_STATUS_REGISTERED :: int where "OSM_STATUS_REGISTERED = 9"
definition LUOYUN_AUTH_DATA_LEN :: nat where "LUOYUN_AUTH_DATA_LEN = 40"

lemmas lydef_defs =
  PKT_TYPE_JOIN_REQUEST_def PKT_TYPE_TEST_ECHO_REQUEST_def PKT_TYPE_TEST_ECHO_REPLY_def
  PKT_TYPE_CLC_OSM_QUERY_REQUEST_def PKT_TYPE_CLC_OSM_QUERY_REPLY_def
  PKT_TYPE_OSM_REGISTER_REQUEST_def PKT_TYPE_OSM_REGISTER_REPLY_def PKT_TYPE_OSM_REPORT_def
  PKT_TYPE_OSM_AUTH_REQUEST_def PKT_TYPE_OSM_AUTH_REPLY_def LY_S_REGISTERING_DONE_SUCCESS_def
  LY_S_APP_RUNNING_def LY_S_APP_UNKNOWN_def OSM_STATUS_INIT_def OSM_STATUS_UNREGISTERED_def
  OSM_STATUS_REGISTERED_def LUOYUN_AUTH_DATA_LEN_def

section \<open>The struct formats\<close>

type_synonym bytes = "nat list"

text \<open>Format \<open>L\<close> of \<open>struct\<close> with standard sizes: four bytes, least significant first.\<close>

definition le32 :: "nat \<Rightarrow> bytes" where
  "le32 n = [n mod 256, n div 256 mod 256, n div 65536 mod 256, n div 16777216 mod 256]"

fun of_le32 :: "bytes \<Rightarrow> nat" where
  "of_le32 [a, b, c, d] = a + 256 * b + 65536 * c + 16777216 * d"
| "of_le32 _ = 0"

text \<open>Format \<open>i\<close>: the same four bytes as two's complement.\<close>

definition le32s :: "int \<Rightarrow> bytes" where
  "le32s n = le32 (nat (n mod 4294967296))"

definition of_le32s :: "bytes \<Rightarrow> int" where
  "of_le32s bs = (let n = int (of_le32 bs) in if n < 2147483648 then n else n - 4294967296)"

text \<open>\<open>struct.calcsize("=LL")\<close>\<close>

definition headlen :: nat where
  "headlen = 8"

text \<open>\<open>struct.unpack("=LL", data)\<close> on a header.\<close>

definition unpack_LL :: "bytes \<Rightarrow> (nat \<times> nat) pyres" where
  "unpack_LL bs =
     (if length bs = headlen then Inr (of_le32 (take 4 bs), of_le32 (drop 4 bs))
      else Inl StructError)"

text \<open>The bytes \<open>socksend\<close> hands to the socket: \<open>struct.pack("=LL%ds" % l, type, l, data)\<close>.\<close>

definition pack_packet :: "nat \<Rightarrow> bytes \<Rightarrow> bytes" where
  "pack_packet ty ds = le32 ty @ le32 (length ds) @ ds"

text \<open>
  \<open>socksend\<close>: a value that does not fit in 32 bits raises \<open>struct.error\<close> outside the
  \<open>try\<close>; \<open>sent\<close> says what \<open>sock.send\<close> does: it takes the whole packet, takes only the first bytes of it,
  or raises. The count it returns is not looked at. The result is the return code and the bytes sent.
\<close>

datatype sending = SentAll | SentOnly nat | SendRaises

definition socksend :: "sending \<Rightarrow> nat \<Rightarrow> bytes \<Rightarrow> (int \<times> bytes) pyres" where
  "socksend sent ty ds =
     (if ty < 2 ^ 32 \<and> length ds < 2 ^ 32
      then Inr (case sent of
             SentAll \<Rightarrow> (0, pack_packet ty ds)
           | SentOnly n \<Rightarrow> (0, take n (pack_packet ty ds))
           | SendRaises \<Rightarrow> (- 1, []))
      else Inl StructError)"

section \<open>Receiving\<close>

datatype sev = Chunk bytes | Tmo | SockErr

text \<open>How one of the two reading loops of \<open>sockrecv\<close> ends.\<close>

datatype rd = Complete bytes | Eof bytes | Timeout bytes | Failed

text \<open>
  The loop body: \<open>recv(target - len(data))\<close>, an empty result ends the loop, a full buffer ends
  it, anything else goes round again. What is left of a chunk stays readable.
\<close>

fun read_to :: "nat \<Rightarrow> bytes \<Rightarrow> sev list \<Rightarrow> rd \<times> sev list" where
  "read_to target dat [] = (Timeout dat, [])"
| "read_to target dat (Tmo # es) = (Timeout dat, es)"
| "read_to target dat (SockErr # es) = (Failed, es)"
| "read_to target dat (Chunk bs # es) =
     (let n = target - length dat; d = take n bs; left = drop n bs in
      if d = [] then (Eof dat, Chunk bs # es)
      else let dat' = dat @ d; es' = (if left = [] then es else Chunk left # es) in
        if length dat' = target then (Complete dat', es')
        else read_to target dat' es)"

text \<open>\<open>sockrecv(sock, length, timeout)\<close>: the return code, the data (\<open>None\<close> where the source
  returns \<open>None\<close>) and what is left on the socket.\<close>

definition sockrecv :: "nat \<Rightarrow> sev list \<Rightarrow> (int \<times> bytes option) \<times> sev list" where
  "sockrecv len evs =
     (case read_to headlen [] evs of
        (Eof _, es) \<Rightarrow> ((0, None), es)
      | (Timeout _, es) \<Rightarrow> ((- 1, None), es)
      | (Failed, es) \<Rightarrow> ((0, None), es)
      | (Complete head, es) \<Rightarrow>
          (let datalen = of_le32 (drop 4 head) in
           if datalen = 0 \<or> len \<le> headlen then ((0, Some head), es)
           else
             let pktlen = min (headlen + datalen) len in
             case read_to pktlen head es of
               (Eof d, es') \<Rightarrow> ((0, Some d), es')
             | (Timeout d, es') \<Rightarrow> ((- 1, Some d), es')
             | (Failed, es') \<Rightarrow> ((0, None), es')
             | (Complete d, es') \<Rightarrow> ((int pktlen, Some d), es')))"

section \<open>Round trip of the words\<close>

lemma length_le32 [simp]: "length (le32 n) = 4"
  by (simp add: le32_def)

lemma le32_digits:
  "(n :: nat) = n mod 256 + 256 * (n div 256 mod 256) + 65536 * (n div 65536 mod 256)
     + 16777216 * (n div 16777216)"
proof -
  have d: "n div 65536 = n div 256 div 256" "n div 16777216 = n div 256 div 256 div 256"
    by (simp_all add: div_mult2_eq [symmetric])
  have e: "m = m mod 256 + 256 * (m div 256)" for m :: nat by simp
  show ?thesis
    unfolding d using e [of n] e [of "n div 256"] e [of "n div 256 div 256"] by linarith
qed

lemma of_le32_le32: "n < 2 ^ 32 \<Longrightarrow> of_le32 (le32 n) = n"
  using le32_digits [of n] by (simp add: le32_def)

lemma length_le32s [simp]: "length (le32s n) = 4"
  by (simp add: le32s_def)

lemma of_le32s_le32s: "- (2 ^ 31) \<le> n \<Longrightarrow> n < 2 ^ 31 \<Longrightarrow> of_le32s (le32s n) = n"
proof -
  assume "- (2 ^ 31) \<le> n" "n < 2 ^ 31"
  then have "n mod 4294967296 = (if n < 0 then n + 4294967296 else n)"
    using mod_pos_pos_trivial [of "n + 4294967296" 4294967296] by simp
  then show ?thesis
    using \<open>n < 2 ^ 31\<close> \<open>- (2 ^ 31) \<le> n\<close> by (auto simp: le32s_def of_le32s_def of_le32_le32 Let_def)
qed

lemma unpack_pack_header:
  "ty < 2 ^ 32 \<Longrightarrow> length ds < 2 ^ 32 \<Longrightarrow>
   unpack_LL (take headlen (pack_packet ty ds)) = Inr (ty, length ds)"
  by (simp add: unpack_LL_def pack_packet_def headlen_def of_le32_le32)

lemma length_pack_packet [simp]: "length (pack_packet ty ds) = headlen + length ds"
  by (simp add: pack_packet_def headlen_def)

section \<open>Reading from a chunked stream\<close>

fun chunk_bytes :: "sev \<Rightarrow> bytes" where
  "chunk_bytes (Chunk bs) = bs"
| "chunk_bytes _ = []"

text \<open>Only data, no end of stream, no timeout, no error.\<close>

fun data_only :: "sev list \<Rightarrow> bool" where
  "data_only [] = True"
| "data_only (Chunk bs # es) = (bs \<noteq> [] \<and> data_only es)"
| "data_only _ = False"

definition stream :: "sev list \<Rightarrow> bytes" where
  "stream es = concat (map chunk_bytes es)"

lemma stream_simps [simp]:
  "stream [] = []" "stream (e # es) = chunk_bytes e @ stream es"
  by (simp_all add: stream_def)

text \<open>However the bytes are cut into chunks, the loop collects exactly the next ones.\<close>

lemma read_to_stream:
  assumes "data_only es" and "length dat < target" and "target - length dat \<le> length (stream es)"
  shows "\<exists>es'. read_to target dat es = (Complete (dat @ take (target - length dat) (stream es)), es')
    \<and> data_only es' \<and> stream es' = drop (target - length dat) (stream es)"
  using assms
proof (induction target dat es rule: read_to.induct)
  case (4 target dat bs es)
  let ?n = "target - length dat"
  show ?case
  proof (cases "?n \<le> length bs")
    case True
    then show ?thesis using "4.prems" by (auto simp: Let_def)
  next
    case False
    with "4.prems" have "\<exists>es'. read_to target (dat @ bs) es =
        (Complete ((dat @ bs) @ take (target - length (dat @ bs)) (stream es)), es')
        \<and> data_only es' \<and> stream es' = drop (target - length (dat @ bs)) (stream es)"
      by (intro "4.IH" [OF refl refl refl]) (auto simp: Let_def)
    with False "4.prems" show ?thesis by (auto simp: Let_def)
  qed
qed auto

lemma sockrecv_stream:
  assumes "data_only es" and st: "stream es = pack_packet ty ds @ rest"
    and ty: "ty < 2 ^ 32" and "ds \<noteq> []" and len: "headlen < len" and b: "length ds < 2 ^ 32"
  shows "\<exists>es'. sockrecv len es =
      ((int (min (headlen + length ds) len), Some (take len (pack_packet ty ds))), es')
    \<and> data_only es' \<and> stream es' = drop (len - headlen) ds @ rest"
proof -
  let ?m = "min (headlen + length ds) len"
  have "headlen \<le> length (stream es)" by (simp add: st)
  then obtain es1 where r1: "read_to headlen [] es = (Complete (take headlen (stream es)), es1)"
    and d1: "data_only es1" and s1: "stream es1 = drop headlen (stream es)"
    using read_to_stream [OF assms(1), of "[]" headlen] by (auto simp: headlen_def)
  let ?h = "take headlen (stream es)"
  have h: "?h = le32 ty @ le32 (length ds)" by (simp add: st pack_packet_def headlen_def)
  have s1': "stream es1 = ds @ rest" by (simp add: s1 st pack_packet_def headlen_def)
  have "length ?h < ?m" and "?m - length ?h \<le> length (stream es1)"
    unfolding h s1' using assms(4) len by (auto simp: headlen_def)
  then obtain es2 where r2: "read_to ?m ?h es1 =
      (Complete (?h @ take (?m - length ?h) (stream es1)), es2)"
    and d2: "data_only es2" and s2: "stream es2 = drop (?m - length ?h) (stream es1)"
    using read_to_stream [OF d1, of ?h ?m] by blast
  have dl: "of_le32 (drop 4 ?h) = length ds" using b by (simp add: h of_le32_le32)
  have "?h @ take (?m - length ?h) (stream es1) = take len (pack_packet ty ds)"
    unfolding h s1' using len by (auto simp: pack_packet_def headlen_def min_def)
  moreover have "drop (?m - length ?h) (stream es1) = drop (len - headlen) ds @ rest"
    unfolding h s1' using len by (auto simp: headlen_def min_def)
  ultimately show ?thesis
    using assms(4) len d2 s2 by (simp add: sockrecv_def r1 r2 dl)
qed

section \<open>Properties\<close>

text \<open>
  C27. What \<open>socksend\<close> sends, \<open>sockrecv\<close> with its default limit of 1024 bytes returns whole,
  for every way the network cuts the stream into chunks, when the payload has between 1 and 1016
  bytes; what follows the packet is left on the socket untouched.
\<close>

theorem sockrecv_socksend:
  assumes "data_only es" and "socksend SentAll ty ds = Inr (0, pkt)" and "stream es = pkt @ rest"
    and "ds \<noteq> []" and "length ds \<le> 1016"
  shows "\<exists>es'. sockrecv 1024 es = ((int (8 + length ds), Some pkt), es')
    \<and> data_only es' \<and> stream es' = rest"
proof -
  from assms(2) have pkt: "pkt = pack_packet ty ds" and ty: "ty < 2 ^ 32"
    by (simp_all add: socksend_def split: if_splits)
  have "length ds < 2 ^ 32" and "headlen < 1024" using assms(5) by (simp_all add: headlen_def)
  then show ?thesis
    using sockrecv_stream [OF assms(1) _ ty assms(4), of rest 1024] assms(3,5)
    by (simp add: pkt headlen_def)
qed

theorem sockrecv_socksend_witness:
  "\<exists>es'. sockrecv 1024 [Chunk [67, 156, 0], Chunk [0, 2, 0], Chunk [0, 0, 5, 6, 9]]
     = ((10, Some [67, 156, 0, 0, 2, 0, 0, 0, 5, 6]), es') \<and> data_only es' \<and> stream es' = [9]"
  using sockrecv_socksend [of "[Chunk [67, 156, 0], Chunk [0, 2, 0], Chunk [0, 0, 5, 6, 9]]"
      40003 "[5, 6]" "[67, 156, 0, 0, 2, 0, 0, 0, 5, 6]" "[9]"]
  by (simp add: socksend_def pack_packet_def le32_def)

text \<open>
  The two payload sizes outside that range. A packet without payload that arrives whole is
  reported with code 0, the code of a closed connection. A payload above 1016 bytes is cut at 1024
  bytes and its tail stays on the socket, where the next call reads it as a header.
\<close>

theorem sockrecv_other_sizes:
  assumes "data_only es" and "ty < 2 ^ 32" and "length ds < 2 ^ 32"
    and "stream es = pack_packet ty ds @ rest"
  shows "(ds = [] \<longrightarrow> fst (sockrecv 1024 es) = (0, Some (pack_packet ty [])))
    \<and> (1016 < length ds \<longrightarrow>
        (\<exists>es'. sockrecv 1024 es = ((1024, Some (take 1024 (pack_packet ty ds))), es')
           \<and> stream es' = drop 1016 ds @ rest \<and> drop 1016 ds \<noteq> []))"
proof (intro conjI impI)
  assume e: "ds = []"
  have "\<exists>es'. read_to headlen [] es = (Complete (take headlen (stream es)), es')"
    using read_to_stream [OF assms(1), of "[]" headlen] assms(4) by (auto simp: headlen_def)
  then show "fst (sockrecv 1024 es) = (0, Some (pack_packet ty []))"
    using assms(4) e by (auto simp: sockrecv_def pack_packet_def headlen_def of_le32_le32)
next
  assume b: "1016 < length ds"
  then have "ds \<noteq> []" by auto
  with sockrecv_stream [OF assms(1,4,2), of 1024] assms(3) b
  show "\<exists>es'. sockrecv 1024 es = ((1024, Some (take 1024 (pack_packet ty ds))), es')
      \<and> stream es' = drop 1016 ds @ rest \<and> drop 1016 ds \<noteq> []"
    by (auto simp: headlen_def min_def)
qed

theorem sockrecv_other_sizes_witness:
  "fst (sockrecv 1024 [Chunk [133, 3, 0, 0, 0, 0, 0, 0]]) = (0, Some (pack_packet 901 []))
   \<and> (\<exists>es'. sockrecv 1024 [Chunk (pack_packet 901 (replicate 1017 1))]
        = ((1024, Some (take 1024 (pack_packet 901 (replicate 1017 1)))), es')
        \<and> stream es' = drop 1016 (replicate 1017 1))"
proof -
  have ne: "pack_packet 901 (replicate 1017 1) \<noteq> []" by (simp add: pack_packet_def le32_def)
  show ?thesis
    using sockrecv_other_sizes [of "[Chunk [133, 3, 0, 0, 0, 0, 0, 0]]" 901 "[]" "[]"]
      sockrecv_other_sizes [of "[Chunk (pack_packet 901 (replicate 1017 1))]" 901
        "replicate 1017 1" "[]"] ne
    by (auto simp: pack_packet_def [of 901 "[]"] le32_def)
qed

end
