(* ===== verification/Lyconn.thy ===== *)
theory Lyconn
  imports Lyauth Lyutil
begin

text \<open>
  Configuration and registration of the OS manager (\<^verbatim>\<open>osmanager/bin/pyosm\<close>:
  \<^verbatim>\<open>lyconf.py\<close>, \<^verbatim>\<open>lyconn.py\<close>, \<^verbatim>\<open>lyproc.py\<close>). The class attributes of
  \<open>Config\<close> are a record that every function passes on. A connection is what is still to be
  received and what has been sent; whether each \<open>sock.send\<close> succeeds is an input.
\<close>

section \<open>lyconf.py\<close>

record osm_config =
  cfg_tag :: int
  cfg_clc_ip :: string
  cfg_clc_port :: int
  cfg_mcast_ip :: string
  cfg_mcast_port :: int
  cfg_key :: string
  cfg_json :: string
  cfg_local_ip :: string
  cfg_status :: int

text \<open>The class attributes before any file is read.\<close>

definition config0 :: osm_config where
  "config0 = \<lparr>cfg_tag = 0, cfg_clc_ip = [], cfg_clc_port = 0, cfg_mcast_ip = [],
     cfg_mcast_port = 0, cfg_key = [], cfg_json = [], cfg_local_ip = [], cfg_status = OSM_STATUS_INIT\<rparr>"

definition set_int :: "string \<Rightarrow> (int \<Rightarrow> osm_config) \<Rightarrow> osm_config pyres" where
  "set_int v f = (case py_int v of None \<Rightarrow> Inl ValueError | Some n \<Rightarrow> Inr (f n))"

text \<open>One line of the file: \<open>k,v = l.split('=', 1)\<close> and the chain of assignments.\<close>

definition config_line :: "string \<Rightarrow> osm_config \<Rightarrow> osm_config pyres" where
  "config_line line c =
     (let l = strip line in
      if l = [] then Inr c
      else if CHR ''='' \<notin> set l then Inl ValueError
      else
        let k = takeWhile (\<lambda>x. x \<noteq> CHR ''='') l; v = tl (dropWhile (\<lambda>x. x \<noteq> CHR ''='') l) in
        if k = ''CLC_IP'' then Inr (c\<lparr>cfg_clc_ip := v\<rparr>)
        else if k = ''CLC_PORT'' then set_int v (\<lambda>n. c\<lparr>cfg_clc_port := n\<rparr>)
        else if k = ''CLC_MCAST_IP'' then Inr (c\<lparr>cfg_mcast_ip := v\<rparr>)
        else if k = ''CLC_MCAST_PORT'' then set_int v (\<lambda>n. c\<lparr>cfg_mcast_port := n\<rparr>)
        else if k = ''TAG'' then set_int v (\<lambda>n. c\<lparr>cfg_tag := n\<rparr>)
        else if k = ''KEY'' then Inr (c\<lparr>cfg_key := v\<rparr>)
        else if k = ''JSON'' then Inr (c\<lparr>cfg_json := v\<rparr>)
        else Inr c)"

fun config_lines :: "string list \<Rightarrow> osm_config \<Rightarrow> osm_config pyres" where
  "config_lines [] c = Inr c"
| "config_lines (l # ls) c =
     (case config_line l c of Inl e \<Rightarrow> Inl e | Inr c' \<Rightarrow> config_lines ls c')"

text \<open>\<open>Config.__init__\<close>: the file as its lines, or \<open>None\<close> where opening or reading raises
  \<open>IOError\<close>, after which the program exits.\<close>

definition Config :: "string list option \<Rightarrow> osm_config \<Rightarrow> osm_config pyres" where
  "Config file c = (case file of None \<Rightarrow> Inl (SystemExit 1) | Some ls \<Rightarrow> config_lines ls c)"

section \<open>Sending and receiving on a connection\<close>

record link =
  lk_evs :: "sev list"
  lk_sent :: "bytes list"
  lk_oks :: "sending list"

text \<open>\<open>lyutil.socksend\<close> on the connection: the return code, -1 where \<open>sock.send\<close> raises, and
  the connection after it.\<close>

definition sock_send :: "nat \<Rightarrow> bytes \<Rightarrow> link \<Rightarrow> (int \<times> link) pyres" where
  "sock_send ty ds lk =
     (let ok = (case lk_oks lk of [] \<Rightarrow> SentAll | b # _ \<Rightarrow> b) in
      case socksend ok ty ds of
        Inl e \<Rightarrow> Inl e
      | Inr (r, bs) \<Rightarrow> Inr (r, lk\<lparr>lk_sent := (if ok \<noteq> SendRaises then lk_sent lk @ [bs] else lk_sent lk),
                                  lk_oks := tl (lk_oks lk)\<rparr>))"

text \<open>A call of \<open>socksend\<close> whose return code is not looked at.\<close>

definition link_send :: "nat \<Rightarrow> bytes \<Rightarrow> link \<Rightarrow> link pyres" where
  "link_send ty ds lk = (case sock_send ty ds lk of Inl e \<Rightarrow> Inl e | Inr (_, lk') \<Rightarrow> Inr lk')"

definition link_recv :: "link \<Rightarrow> (int \<times> bytes option) \<times> link" where
  "link_recv lk = (let (r, es) = sockrecv 1024 (lk_evs lk) in (r, lk\<lparr>lk_evs := es\<rparr>))"

definition str_bytes :: "string \<Rightarrow> bytes" where
  "str_bytes s = map of_char s"

text \<open>\<open>struct.pack("i40s", tag, s)\<close>: the tag must fit in 32 signed bits, the string is cut or
  filled with zeros to 40 bytes.\<close>

definition pack_i40s :: "int \<Rightarrow> bytes \<Rightarrow> bytes pyres" where
  "pack_i40s tag s =
     (if - (2 ^ 31) \<le> tag \<and> tag < 2 ^ 31
      then Inr (le32s tag @ take LUOYUN_AUTH_DATA_LEN (s @ replicate LUOYUN_AUTH_DATA_LEN 0))
      else Inl StructError)"

text \<open>The payload of \<open>struct.unpack("=LLi40s", response)\<close> on 52 bytes.\<close>

definition unpack_LLi40s :: "bytes \<Rightarrow> nat \<times> nat \<times> int \<times> bytes" where
  "unpack_LLi40s bs =
     (of_le32 (take 4 bs), of_le32 (take 4 (drop 4 bs)), of_le32s (take 4 (drop 8 bs)), drop 12 bs)"

section \<open>lyconn.py: regclc\<close>

text \<open>
  The body of the \<open>try\<close> of \<open>regclc\<close>. \<open>Inr False\<close> is a \<open>return None\<close>, \<open>Inr True\<close> the end of
  the body, \<open>Inl\<close> an exception (for instance \<open>len(None)\<close> after a closed connection).
\<close>

definition recv_auth :: "link \<Rightarrow> bytes option pyres \<times> link" where
  "recv_auth lk =
     (let ((result, response), lk') = link_recv lk in
      (if result = - 1 then Inr None
       else case response of
          None \<Rightarrow> Inl TypeError
        | Some bs \<Rightarrow>
            if length bs \<noteq> 12 + LUOYUN_AUTH_DATA_LEN then Inr None
            else if result = 0 then Inr None else Inr (Some bs), lk'))"

definition regclc_register :: "osm_config \<Rightarrow> link \<Rightarrow> bool pyres \<times> link" where
  "regclc_register c lk =
     (let regstr = show_int (cfg_tag c) @ '' '' @ show_int OSM_STATUS_UNREGISTERED @ '' ''
                     @ cfg_local_ip c in
      case link_send PKT_TYPE_OSM_REGISTER_REQUEST (str_bytes regstr) lk of
        Inl e \<Rightarrow> (Inl e, lk)
      | Inr lk1 \<Rightarrow>
          (let ((result, response), lk2) = link_recv lk1 in
           (if result = - 1 \<or> result = 0 then Inr False
            else case response of
               None \<Rightarrow> Inl TypeError
             | Some bs \<Rightarrow>
                 if length bs \<noteq> 12 then Inl StructError
                 else if of_le32 (take 4 bs) \<noteq> PKT_TYPE_OSM_REGISTER_REPLY then Inr False
                 else if of_le32s (drop 8 bs) \<noteq> LY_S_REGISTERING_DONE_SUCCESS then Inr False
                 else Inr True, lk2)))"

definition regclc_answer :: "osm_config \<Rightarrow> link \<Rightarrow> bool pyres \<times> link" where
  "regclc_answer c lk =
     (case recv_auth lk of
        (Inl e, lk1) \<Rightarrow> (Inl e, lk1)
      | (Inr None, lk1) \<Rightarrow> (Inr False, lk1)
      | (Inr (Some response), lk1) \<Rightarrow>
          (let (t, l, rettag, challenge) = unpack_LLi40s response in
           if t \<noteq> PKT_TYPE_OSM_AUTH_REQUEST then (Inr False, lk1)
           else case encode (cfg_key c) challenge of
             Inl e \<Rightarrow> (Inl e, lk1)
           | Inr answer \<Rightarrow>
               (case pack_i40s (cfg_tag c) answer of
                  Inl e \<Rightarrow> (Inl e, lk1)
                | Inr d \<Rightarrow>
                    (case link_send PKT_TYPE_OSM_AUTH_REPLY d lk1 of
                       Inl e \<Rightarrow> (Inl e, lk1)
                     | Inr lk2 \<Rightarrow> regclc_register c lk2))))"

definition regclc_try :: "osm_config \<Rightarrow> bytes \<Rightarrow> bytes \<Rightarrow> link \<Rightarrow> bool pyres \<times> link" where
  "regclc_try c myuuid challenge lk =
     (case pack_i40s (cfg_tag c) challenge of
        Inl e \<Rightarrow> (Inl e, lk)
      | Inr d \<Rightarrow>
          (case link_send PKT_TYPE_OSM_AUTH_REQUEST d lk of
             Inl e \<Rightarrow> (Inl e, lk)
           | Inr lk1 \<Rightarrow>
               (case recv_auth lk1 of
                  (Inl e, lk2) \<Rightarrow> (Inl e, lk2)
                | (Inr None, lk2) \<Rightarrow> (Inr False, lk2)
                | (Inr (Some response), lk2) \<Rightarrow>
                    (let (t, l, rettag, answer) = unpack_LLi40s response in
                     if t \<noteq> PKT_TYPE_OSM_AUTH_REPLY then (Inr False, lk2)
                     else if rettag \<noteq> cfg_tag c then (Inr False, lk2)
                     else if answer \<noteq> myuuid then (Inr False, lk2)
                     else regclc_answer c lk2))))"

text \<open>The challenge, filled with zeros up to 40 characters.\<close>

definition pad_uuid :: "string \<Rightarrow> bytes" where
  "pad_uuid u = str_bytes u @ replicate (LUOYUN_AUTH_DATA_LEN - length u) 0"

text \<open>
  \<open>regclc\<close>: \<open>uuid\<close> is what \<open>lyutil.myuuid()\<close> gives (\<open>None\<close> for its error value 1),
  \<open>conn\<close> what connecting gives: \<open>None\<close> for a socket error, else the local address and the
  connection. The \<open>return\<close> statements of the \<open>finally\<close> clause replace those of the body and
  swallow its exceptions: the socket is returned whenever the status is \<open>REGISTERED\<close>.
\<close>

definition regclc ::
  "string option \<Rightarrow> (string \<times> link) option \<Rightarrow> osm_config \<Rightarrow> (link option \<times> osm_config) pyres" where
  "regclc uuid conn c =
     (case uuid of
        None \<Rightarrow> Inr (None, c)
      | Some u \<Rightarrow>
          (let myuuid = pad_uuid u in
           case encode (cfg_key c) myuuid of
             Inl e \<Rightarrow> Inl e
           | Inr challenge \<Rightarrow>
               (case conn of
                  None \<Rightarrow> Inr (None, c)
                | Some (ip, lk) \<Rightarrow>
                    (let c1 = c\<lparr>cfg_local_ip := (if ip = [] then ''empty'' else ip)\<rparr>;
                         (r, lk') = regclc_try c1 myuuid challenge lk;
                         c2 = (if r = Inr True then c1\<lparr>cfg_status := OSM_STATUS_REGISTERED\<rparr> else c1)
                     in if cfg_status c2 \<noteq> OSM_STATUS_REGISTERED then Inr (None, c2)
                        else Inr (Some lk', c2)))))"

section \<open>lyconn.py: getclcparm and connclc\<close>

text \<open>
  The multicast packets received, each with the time that has passed, in seconds, since the loop
  started; the list ends where \<open>recv\<close> raises (a timeout is a \<open>socket.error\<close>). The result is
  the return code with the configuration, or the \<open>ValueError\<close> of a packet that does not have
  three fields or has a port that is no number.
\<close>

fun getclcparm :: "(bytes \<times> int) list \<Rightarrow> osm_config \<Rightarrow> (int \<times> osm_config) pyres" where
  "getclcparm [] c = Inr (1, c)"
| "getclcparm ((pkt, t) # ps) c =
     (if length pkt < 8 then Inr (1, c)
      else if of_le32 (take 4 pkt) \<noteq> PKT_TYPE_JOIN_REQUEST then
        (if t > 60 then Inr (1, c) else getclcparm ps c)
      else case split_on CHR '' '' (map char_of (drop 8 pkt)) of
        [join, ip, port] \<Rightarrow>
          if join \<noteq> ''join'' then getclcparm ps c
          else if ip \<noteq> [] \<and> port \<noteq> [] then
            (case py_int port of
               None \<Rightarrow> Inl ValueError
             | Some n \<Rightarrow> Inr (0, c\<lparr>cfg_clc_port := n, cfg_clc_ip := ip\<rparr>))
          else Inr (1, c)
      | _ \<Rightarrow> Inl ValueError)"

text \<open>\<open>connclc\<close> with the inputs of its (at most two) calls of \<open>regclc\<close>. \<open>mcast\<close> is \<open>None\<close>
  where the multicast socket cannot be set up.\<close>

definition connclc ::
  "string option \<Rightarrow> (string \<times> link) option \<Rightarrow> (bytes \<times> int) list option \<Rightarrow>
   string option \<Rightarrow> (string \<times> link) option \<Rightarrow> osm_config \<Rightarrow> (link option \<times> osm_config) pyres" where
  "connclc uuid1 conn1 mcast uuid2 conn2 c =
     (let clc_ip = cfg_clc_ip c; clc_port = cfg_clc_port c in
      case (if clc_ip \<noteq> [] \<and> clc_port \<noteq> 0 then regclc uuid1 conn1 c else Inr (None, c)) of
        Inl e \<Rightarrow> Inl e
      | Inr (Some lk, c1) \<Rightarrow> Inr (Some lk, c1)
      | Inr (None, c1) \<Rightarrow>
          (case (case mcast of None \<Rightarrow> Inr (1, c1) | Some ps \<Rightarrow> getclcparm ps c1) of
             Inl e \<Rightarrow> Inl e
           | Inr (_, c2) \<Rightarrow>
               if clc_ip = cfg_clc_ip c2 \<and> clc_port = cfg_clc_port c2 then Inr (None, c2)
               else if cfg_clc_ip c2 \<noteq> [] \<and> cfg_clc_port c2 \<noteq> 0 then regclc uuid2 conn2 c2
               else Inr (None, c2)))"

section \<open>lyproc.py\<close>

text \<open>
  \<open>procOSMQuery\<close> uses \<open>lyconf\<close>, which \<^verbatim>\<open>lyproc.py\<close> does not import, and the echo branch
  of \<open>process\<close> calls \<open>socksend\<close> on the socket object, which has no such method: both raise.
\<close>

definition procOSMQuery :: "nat \<Rightarrow> bytes \<Rightarrow> int pyres" where
  "procOSMQuery datalen dat =
     (if datalen \<noteq> 4 \<or> length dat \<noteq> 4 then Inr 1 else Inl (NameError ''lyconf''))"

definition process :: "bytes \<Rightarrow> unit pyres" where
  "process packet =
     (case unpack_LL (take headlen packet) of
        Inl e \<Rightarrow> Inl e
      | Inr (type, datalen) \<Rightarrow>
          if type = PKT_TYPE_TEST_ECHO_REQUEST then Inl (AttributeError ''socksend'')
          else if type = PKT_TYPE_CLC_OSM_QUERY_REQUEST then
            (case procOSMQuery datalen (drop headlen packet) of
               Inl e \<Rightarrow> Inl e | Inr _ \<Rightarrow> Inr ())
          else Inr ())"

section \<open>One packet on a connection\<close>

lemma link_recv_packet:
  assumes "data_only (lk_evs lk)" and "stream (lk_evs lk) = pack_packet ty ds @ rest"
    and "ty < 2 ^ 32" and "ds \<noteq> []" and "length ds \<le> 1016"
  shows "\<exists>es. link_recv lk = ((int (8 + length ds), Some (pack_packet ty ds)), lk\<lparr>lk_evs := es\<rparr>)
    \<and> data_only es \<and> stream es = rest"
proof -
  have "headlen < 1024" and b: "length ds < 2 ^ 32" using assms(5) by (simp_all add: headlen_def)
  then obtain es where "sockrecv 1024 (lk_evs lk) =
      ((int (min (headlen + length ds) 1024), Some (take 1024 (pack_packet ty ds))), es)"
    and "data_only es" and "stream es = drop (1024 - headlen) ds @ rest"
    using sockrecv_stream [OF assms(1-4)] by blast
  with assms(5) show ?thesis by (auto simp: link_recv_def headlen_def)
qed

lemma recv_auth_packet:
  assumes "data_only (lk_evs lk)" and "stream (lk_evs lk) = pack_packet ty (le32s tg @ ch) @ rest"
    and "ty < 2 ^ 32" and "length ch = LUOYUN_AUTH_DATA_LEN"
  shows "\<exists>es. recv_auth lk = (Inr (Some (pack_packet ty (le32s tg @ ch))), lk\<lparr>lk_evs := es\<rparr>)
    \<and> data_only es \<and> stream es = rest"
proof -
  have "le32s tg @ ch \<noteq> []" "length (le32s tg @ ch) \<le> 1016"
    using assms(4) by (auto simp: LUOYUN_AUTH_DATA_LEN_def)
  from link_recv_packet [OF assms(1-3) this] obtain es where
    "link_recv lk = ((int (8 + length (le32s tg @ ch)), Some (pack_packet ty (le32s tg @ ch))),
      lk\<lparr>lk_evs := es\<rparr>)" "data_only es" "stream es = rest" by blast
  with assms(4) show ?thesis
    by (intro exI [of _ es]) (simp add: recv_auth_def LUOYUN_AUTH_DATA_LEN_def headlen_def)
qed

lemma unpack_pack_auth:
  assumes "ty < 2 ^ 32" and "- (2 ^ 31) \<le> tg" "tg < 2 ^ 31" and "length ch = LUOYUN_AUTH_DATA_LEN"
  shows "unpack_LLi40s (pack_packet ty (le32s tg @ ch)) = (ty, 44, tg, ch)"
  using assms
  by (simp add: unpack_LLi40s_def pack_packet_def LUOYUN_AUTH_DATA_LEN_def of_le32_le32
      of_le32s_le32s)

lemma pack_i40s_exact:
  "- (2 ^ 31) \<le> tg \<Longrightarrow> tg < 2 ^ 31 \<Longrightarrow> length ch = LUOYUN_AUTH_DATA_LEN \<Longrightarrow>
   pack_i40s tg ch = Inr (le32s tg @ ch)"
  by (simp add: pack_i40s_def)

lemma link_send_ok:
  "lk_oks lk = [] \<Longrightarrow> ty < 2 ^ 32 \<Longrightarrow> length ds < 2 ^ 32 \<Longrightarrow>
   link_send ty ds lk = Inr (lk\<lparr>lk_sent := lk_sent lk @ [pack_packet ty ds], lk_oks := []\<rparr>)"
  by (simp add: link_send_def sock_send_def socksend_def)

lemma length_pad_uuid: "length u \<le> LUOYUN_AUTH_DATA_LEN \<Longrightarrow> length (pad_uuid u) = LUOYUN_AUTH_DATA_LEN"
  by (simp add: pad_uuid_def str_bytes_def)

section \<open>The honest exchange\<close>

text \<open>
  What a control server that knows the key sends: the challenge it received, decoded; its own
  challenge \<open>ch\<close>; the confirmation of the registration.
\<close>

definition clc_replies :: "int \<Rightarrow> bytes \<Rightarrow> int \<Rightarrow> bytes \<Rightarrow> bytes" where
  "clc_replies tag decoded tag' ch =
     pack_packet PKT_TYPE_OSM_AUTH_REPLY (le32s tag @ decoded) @
     pack_packet PKT_TYPE_OSM_AUTH_REQUEST (le32s tag' @ ch) @
     pack_packet PKT_TYPE_OSM_REGISTER_REPLY (le32s LY_S_REGISTERING_DONE_SUCCESS)"

definition reg_request :: "osm_config \<Rightarrow> bytes" where
  "reg_request c = str_bytes (show_int (cfg_tag c) @ '' '' @ show_int OSM_STATUS_UNREGISTERED @ '' ''
     @ cfg_local_ip c)"

lemma regclc_register_honest:
  assumes "data_only (lk_evs lk)" and "lk_oks lk = []" and "length (reg_request c) < 2 ^ 32"
    and "stream (lk_evs lk) =
      pack_packet PKT_TYPE_OSM_REGISTER_REPLY (le32s LY_S_REGISTERING_DONE_SUCCESS)"
  shows "\<exists>es. regclc_register c lk = (Inr True, lk\<lparr>lk_evs := es,
      lk_sent := lk_sent lk @ [pack_packet PKT_TYPE_OSM_REGISTER_REQUEST (reg_request c)], lk_oks := []\<rparr>)"
proof -
  let ?lk1 = "lk\<lparr>lk_sent := lk_sent lk @ [pack_packet PKT_TYPE_OSM_REGISTER_REQUEST (reg_request c)],
    lk_oks := []\<rparr>"
  have s: "link_send PKT_TYPE_OSM_REGISTER_REQUEST (reg_request c) lk = Inr ?lk1"
    using assms(2,3) by (intro link_send_ok) (simp_all add: PKT_TYPE_OSM_REGISTER_REQUEST_def)
  obtain es where r: "link_recv ?lk1 = ((int (8 + 4),
      Some (pack_packet PKT_TYPE_OSM_REGISTER_REPLY (le32s LY_S_REGISTERING_DONE_SUCCESS))),
      ?lk1\<lparr>lk_evs := es\<rparr>)"
    using link_recv_packet [of ?lk1 PKT_TYPE_OSM_REGISTER_REPLY
        "le32s LY_S_REGISTERING_DONE_SUCCESS" "[]"] assms(1,4)
    by (force simp: PKT_TYPE_OSM_REGISTER_REPLY_def le32s_def le32_def)
  have "of_le32s (le32s LY_S_REGISTERING_DONE_SUCCESS) = LY_S_REGISTERING_DONE_SUCCESS"
    by (rule of_le32s_le32s) (simp_all add: LY_S_REGISTERING_DONE_SUCCESS_def)
  then show ?thesis
    using s r unfolding regclc_register_def reg_request_def
    by (intro exI [of _ es], cases lk) (simp add: pack_packet_def of_le32_le32 PKT_TYPE_OSM_REGISTER_REPLY_def headlen_def)
qed

lemma regclc_answer_honest:
  assumes "data_only (lk_evs lk)" and "lk_oks lk = []" and len: "length (reg_request c) < 2 ^ 32"
    and tag: "- (2 ^ 31) \<le> cfg_tag c" "cfg_tag c < 2 ^ 31" and "- (2 ^ 31) \<le> tag'" "tag' < 2 ^ 31"
    and ch: "length ch = LUOYUN_AUTH_DATA_LEN" and enc: "encode (cfg_key c) ch = Inr ans"
    and alen: "length ans = length ch"
    and st: "stream (lk_evs lk) = pack_packet PKT_TYPE_OSM_AUTH_REQUEST (le32s tag' @ ch) @
      pack_packet PKT_TYPE_OSM_REGISTER_REPLY (le32s LY_S_REGISTERING_DONE_SUCCESS)"
  shows "\<exists>es. regclc_answer c lk = (Inr True, lk\<lparr>lk_evs := es, lk_sent := lk_sent lk @
      [pack_packet PKT_TYPE_OSM_AUTH_REPLY (le32s (cfg_tag c) @ ans),
       pack_packet PKT_TYPE_OSM_REGISTER_REQUEST (reg_request c)], lk_oks := []\<rparr>)"
proof -
  have ty: "PKT_TYPE_OSM_AUTH_REQUEST < 2 ^ 32" "PKT_TYPE_OSM_AUTH_REPLY < 2 ^ 32"
    by (simp_all add: lydef_defs)
  obtain es where r: "recv_auth lk =
      (Inr (Some (pack_packet PKT_TYPE_OSM_AUTH_REQUEST (le32s tag' @ ch))), lk\<lparr>lk_evs := es\<rparr>)"
    and es: "data_only es"
      "stream es = pack_packet PKT_TYPE_OSM_REGISTER_REPLY (le32s LY_S_REGISTERING_DONE_SUCCESS)"
    using recv_auth_packet [OF assms(1) st ty(1) ch] by auto
  let ?lk2 = "lk\<lparr>lk_evs := es, lk_sent := lk_sent lk @
    [pack_packet PKT_TYPE_OSM_AUTH_REPLY (le32s (cfg_tag c) @ ans)], lk_oks := []\<rparr>"
  have s: "link_send PKT_TYPE_OSM_AUTH_REPLY (le32s (cfg_tag c) @ ans) (lk\<lparr>lk_evs := es\<rparr>) = Inr ?lk2"
    using assms(2) ch alen ty(2)
    by (subst link_send_ok) (simp_all add: LUOYUN_AUTH_DATA_LEN_def)
  obtain es' where "regclc_register c ?lk2 = (Inr True, ?lk2\<lparr>lk_evs := es',
      lk_sent := lk_sent ?lk2 @ [pack_packet PKT_TYPE_OSM_REGISTER_REQUEST (reg_request c)], lk_oks := []\<rparr>)"
    using regclc_register_honest [of ?lk2 c] es len by auto
  then show ?thesis
    using r s tag ch alen enc unpack_pack_auth [OF ty(1) assms(6,7) ch]
    unfolding regclc_answer_def by (intro exI [of _ es'], cases lk) (simp add: pack_i40s_exact)
qed

lemma regclc_try_honest:
  assumes "data_only (lk_evs lk)" and "lk_oks lk = []" and "length (reg_request c) < 2 ^ 32"
    and tag: "- (2 ^ 31) \<le> cfg_tag c" "cfg_tag c < 2 ^ 31" and tag': "- (2 ^ 31) \<le> tag'" "tag' < 2 ^ 31"
    and "length u = LUOYUN_AUTH_DATA_LEN" "length chal = LUOYUN_AUTH_DATA_LEN"
    and ch: "length ch = LUOYUN_AUTH_DATA_LEN" "encode (cfg_key c) ch = Inr ans" "length ans = length ch"
    and st: "stream (lk_evs lk) = clc_replies (cfg_tag c) u tag' ch"
  shows "\<exists>es. regclc_try c u chal lk = (Inr True, lk\<lparr>lk_evs := es, lk_sent := lk_sent lk @
      [pack_packet PKT_TYPE_OSM_AUTH_REQUEST (le32s (cfg_tag c) @ chal),
       pack_packet PKT_TYPE_OSM_AUTH_REPLY (le32s (cfg_tag c) @ ans),
       pack_packet PKT_TYPE_OSM_REGISTER_REQUEST (reg_request c)], lk_oks := []\<rparr>)"
proof -
  have ty: "PKT_TYPE_OSM_AUTH_REQUEST < 2 ^ 32" "PKT_TYPE_OSM_AUTH_REPLY < 2 ^ 32"
    by (simp_all add: lydef_defs)
  let ?lk1 = "lk\<lparr>lk_sent := lk_sent lk @ [pack_packet PKT_TYPE_OSM_AUTH_REQUEST
    (le32s (cfg_tag c) @ chal)], lk_oks := []\<rparr>"
  have s: "link_send PKT_TYPE_OSM_AUTH_REQUEST (le32s (cfg_tag c) @ chal) lk = Inr ?lk1"
    using assms(2,9) ty(1) by (subst link_send_ok) (simp_all add: LUOYUN_AUTH_DATA_LEN_def)
  obtain es where r: "recv_auth ?lk1 =
      (Inr (Some (pack_packet PKT_TYPE_OSM_AUTH_REPLY (le32s (cfg_tag c) @ u))), ?lk1\<lparr>lk_evs := es\<rparr>)"
    and es: "data_only es" "stream es = pack_packet PKT_TYPE_OSM_AUTH_REQUEST (le32s tag' @ ch) @
      pack_packet PKT_TYPE_OSM_REGISTER_REPLY (le32s LY_S_REGISTERING_DONE_SUCCESS)"
    using recv_auth_packet [of ?lk1 PKT_TYPE_OSM_AUTH_REPLY "cfg_tag c" u] assms(1,8) ty(2) st
    by (auto simp: clc_replies_def)
  let ?lk2 = "?lk1\<lparr>lk_evs := es\<rparr>"
  obtain es' where "regclc_answer c ?lk2 = (Inr True, ?lk2\<lparr>lk_evs := es', lk_sent := lk_sent ?lk2 @
      [pack_packet PKT_TYPE_OSM_AUTH_REPLY (le32s (cfg_tag c) @ ans),
       pack_packet PKT_TYPE_OSM_REGISTER_REQUEST (reg_request c)], lk_oks := []\<rparr>)"
    using regclc_answer_honest [of ?lk2 c tag' ch ans] es assms(3) tag tag' ch by auto
  then show ?thesis
    using s r tag assms(9) unpack_pack_auth [OF ty(2) tag assms(8)]
    unfolding regclc_try_def by (intro exI [of _ es'], cases lk) (simp add: pack_i40s_exact)
qed

lemma regclc_try_verified:
  assumes "regclc_try c u chal lk = (Inr True, lk')"
  shows "\<exists>r bs es l. sockrecv 1024 (lk_evs lk) = ((r, Some bs), es) \<and> length bs = 52 \<and>
    unpack_LLi40s bs = (PKT_TYPE_OSM_AUTH_REPLY, l, cfg_tag c, u)"
  using assms
  by (auto simp: regclc_try_def recv_auth_def link_recv_def link_send_def sock_send_def LUOYUN_AUTH_DATA_LEN_def
      Let_def split: sum.splits prod.splits option.splits if_splits)

lemma regclc_honest:
  assumes "cfg_key c \<noteq> []" and "- (2 ^ 31) \<le> cfg_tag c" "cfg_tag c < 2 ^ 31"
    and "- (2 ^ 31) \<le> tag'" "tag' < 2 ^ 31" and "length u \<le> 40" and "length ch = 40"
    and "ip \<noteq> []" and "length (reg_request (c\<lparr>cfg_local_ip := ip\<rparr>)) < 2 ^ 32"
    and "data_only es" and "stream es = clc_replies (cfg_tag c) (pad_uuid u) tag' ch"
  shows "\<exists>lk' c' chal ans.
    regclc (Some u) (Some (ip, \<lparr>lk_evs = es, lk_sent = [], lk_oks = []\<rparr>)) c = Inr (Some lk', c')
    \<and> cfg_status c' = OSM_STATUS_REGISTERED
    \<and> lk_sent lk' = [pack_packet PKT_TYPE_OSM_AUTH_REQUEST (le32s (cfg_tag c) @ chal),
         pack_packet PKT_TYPE_OSM_AUTH_REPLY (le32s (cfg_tag c) @ ans),
         pack_packet PKT_TYPE_OSM_REGISTER_REQUEST (reg_request c')]
    \<and> encode (cfg_key c) chal = Inr (pad_uuid u) \<and> encode (cfg_key c) ans = Inr ch"
proof -
  have u: "length (pad_uuid u) = LUOYUN_AUTH_DATA_LEN" and ch: "length ch = LUOYUN_AUTH_DATA_LEN"
    using assms(6,7) by (simp_all add: length_pad_uuid LUOYUN_AUTH_DATA_LEN_def)
  note enc = encode_Inr [OF assms(1)]
  let ?c1 = "c\<lparr>cfg_local_ip := ip\<rparr>" and ?lk = "\<lparr>lk_evs = es, lk_sent = [], lk_oks = []\<rparr>"
  obtain es' where t: "regclc_try ?c1 (pad_uuid u) (rc4_cipher (cfg_key c) (pad_uuid u)) ?lk =
      (Inr True, ?lk\<lparr>lk_evs := es', lk_sent := lk_sent ?lk @
      [pack_packet PKT_TYPE_OSM_AUTH_REQUEST (le32s (cfg_tag ?c1) @ rc4_cipher (cfg_key c) (pad_uuid u)),
       pack_packet PKT_TYPE_OSM_AUTH_REPLY (le32s (cfg_tag ?c1) @ rc4_cipher (cfg_key c) ch),
       pack_packet PKT_TYPE_OSM_REGISTER_REQUEST (reg_request ?c1)], lk_oks := []\<rparr>)"
    using regclc_try_honest [of ?lk ?c1 tag' "pad_uuid u" "rc4_cipher (cfg_key c) (pad_uuid u)" ch
        "rc4_cipher (cfg_key c) ch"] assms u ch enc by auto
  show ?thesis
    by (intro exI [of _ "rc4_cipher (cfg_key c) (pad_uuid u)"] exI [of _ "rc4_cipher (cfg_key c) ch"]
        exI [of _ "?lk\<lparr>lk_evs := es', lk_sent := lk_sent ?lk @
          [pack_packet PKT_TYPE_OSM_AUTH_REQUEST (le32s (cfg_tag ?c1) @ rc4_cipher (cfg_key c) (pad_uuid u)),
           pack_packet PKT_TYPE_OSM_AUTH_REPLY (le32s (cfg_tag ?c1) @ rc4_cipher (cfg_key c) ch),
           pack_packet PKT_TYPE_OSM_REGISTER_REQUEST (reg_request ?c1)], lk_oks := []\<rparr>"]
        exI [of _ "?c1\<lparr>cfg_status := OSM_STATUS_REGISTERED\<rparr>"])
      (use t assms(8) in \<open>simp add: regclc_def enc rc4_cipher_twice reg_request_def\<close>)
qed

section \<open>Properties\<close>

text \<open>
  C28. Completeness of the registration. Against a control server that knows the key, whatever the
  chunking of its replies, an OS manager with a non-empty key, a tag that fits in 32 bits and a uuid
  of at most 40 characters gets a connection, ends in state REGISTERED, and has sent the encoded
  uuid, the encoded server challenge and the registration; the server recovers both plain texts by
  encoding them with the same key.
\<close>

theorem regclc_complete:
  assumes "cfg_key c \<noteq> []" and "- (2 ^ 31) \<le> cfg_tag c" "cfg_tag c < 2 ^ 31"
    and "- (2 ^ 31) \<le> tag'" "tag' < 2 ^ 31" and "length u \<le> 40" and "length ch = 40"
    and "ip \<noteq> []" and "length (reg_request (c\<lparr>cfg_local_ip := ip\<rparr>)) < 2 ^ 32"
    and "data_only es" and "stream es = clc_replies (cfg_tag c) (pad_uuid u) tag' ch"
  shows "\<exists>lk' c' chal ans.
    regclc (Some u) (Some (ip, \<lparr>lk_evs = es, lk_sent = [], lk_oks = []\<rparr>)) c = Inr (Some lk', c')
    \<and> cfg_status c' = OSM_STATUS_REGISTERED
    \<and> lk_sent lk' = [pack_packet PKT_TYPE_OSM_AUTH_REQUEST (le32s (cfg_tag c) @ chal),
         pack_packet PKT_TYPE_OSM_AUTH_REPLY (le32s (cfg_tag c) @ ans),
         pack_packet PKT_TYPE_OSM_REGISTER_REQUEST (reg_request c')]
    \<and> encode (cfg_key c) chal = Inr (pad_uuid u) \<and> encode (cfg_key c) ans = Inr ch"
  using assms by (rule regclc_honest)

text \<open>
  C29. Soundness of the registration. An OS manager that is not yet registered only gets a connection
  from a server whose first reply is a complete authentication reply with its own tag and its own
  uuid in the clear, and the connection comes with the state REGISTERED.
\<close>

theorem regclc_sound:
  assumes "cfg_status c \<noteq> OSM_STATUS_REGISTERED"
    and "regclc (Some u) (Some (ip, lk)) c = Inr (Some lk', c')"
  shows "cfg_status c' = OSM_STATUS_REGISTERED \<and>
    (\<exists>r bs es l. sockrecv 1024 (lk_evs lk) = ((r, Some bs), es) \<and> length bs = 52 \<and>
       unpack_LLi40s bs = (PKT_TYPE_OSM_AUTH_REPLY, l, cfg_tag c, pad_uuid u))"
proof -
  obtain chal where "encode (cfg_key c) (pad_uuid u) = Inr chal"
    using assms(2) by (auto simp: regclc_def Let_def split: sum.splits)
  let ?c1 = "c\<lparr>cfg_local_ip := (if ip = [] then ''empty'' else ip)\<rparr>"
  have "regclc_try ?c1 (pad_uuid u) chal lk = (Inr True, lk')" "cfg_status c' = OSM_STATUS_REGISTERED"
    using assms \<open>encode _ _ = _\<close> by (auto simp: regclc_def Let_def split: prod.splits if_splits)
  then show ?thesis using regclc_try_verified [of ?c1 "pad_uuid u" chal lk lk'] by simp
qed

text \<open>
  C40. The check is lost on reconnection. Once the state is REGISTERED, which nothing resets,
  \<open>regclc\<close> hands back the new connection whatever the other side has sent, an empty stream included.
\<close>

theorem regclc_reconnect_unchecked:
  assumes "cfg_status c = OSM_STATUS_REGISTERED" and "cfg_key c \<noteq> []"
  shows "\<exists>lk' c'. regclc (Some u) (Some (ip, lk)) c = Inr (Some lk', c')
    \<and> cfg_status c' = OSM_STATUS_REGISTERED"
  using encode_Inr [OF assms(2)] assms(1)
  by (auto simp: regclc_def Let_def split: prod.splits)

text \<open>Concrete configurations for the witnesses.\<close>

definition cfg_ex :: osm_config where
  "cfg_ex = config0\<lparr>cfg_tag := 10, cfg_key := ''k'', cfg_clc_ip := ''10.0.0.1'', cfg_clc_port := 1369\<rparr>"

lemma cfg_ex_request: "length (reg_request (cfg_ex\<lparr>cfg_local_ip := ''10.0.0.7''\<rparr>)) < 2 ^ 32"
proof -
  have "length (show_int 10) = 2" "length (show_int OSM_STATUS_UNREGISTERED) = 1"
    by (simp_all add: show_int_def show_nat.simps OSM_STATUS_UNREGISTERED_def)
  then show ?thesis by (simp add: reg_request_def str_bytes_def cfg_ex_def)
qed

theorem regclc_complete_witness:
  "\<exists>lk' c'. regclc (Some ''u'') (Some (''10.0.0.7'', \<lparr>lk_evs =
       [Chunk (clc_replies 10 (pad_uuid ''u'') 10 (replicate 40 1))], lk_sent = [], lk_oks = []\<rparr>)) cfg_ex
     = Inr (Some lk', c') \<and> cfg_status c' = OSM_STATUS_REGISTERED \<and> length (lk_sent lk') = 3"
proof -
  have ne: "clc_replies 10 (pad_uuid ''u'') 10 (replicate 40 1) \<noteq> []"
    by (simp add: clc_replies_def pack_packet_def le32_def)
  show ?thesis
    using cfg_ex_request regclc_complete [of cfg_ex 10 "''u''" "replicate 40 1" "''10.0.0.7''"
        "[Chunk (clc_replies 10 (pad_uuid ''u'') 10 (replicate 40 1))]"] ne
    by (fastforce simp: cfg_ex_def)
qed

lemma cfg_ex_run:
  "\<exists>lk' c'. regclc (Some ''u'') (Some (''10.0.0.7'', \<lparr>lk_evs =
       [Chunk (clc_replies 10 (pad_uuid ''u'') 10 (replicate 40 1))], lk_sent = [], lk_oks = []\<rparr>)) cfg_ex
     = Inr (Some lk', c')"
proof -
  have ne: "clc_replies 10 (pad_uuid ''u'') 10 (replicate 40 1) \<noteq> []"
    by (simp add: clc_replies_def pack_packet_def le32_def)
  show ?thesis
    using regclc_honest [of cfg_ex 10 "''u''" "replicate 40 1" "''10.0.0.7''"
        "[Chunk (clc_replies 10 (pad_uuid ''u'') 10 (replicate 40 1))]"] ne cfg_ex_request
    by (fastforce simp: cfg_ex_def)
qed

theorem regclc_sound_witness:
  "\<exists>r bs es l. sockrecv 1024 [Chunk (clc_replies 10 (pad_uuid ''u'') 10 (replicate 40 1))]
      = ((r, Some bs), es) \<and> length bs = 52 \<and>
     unpack_LLi40s bs = (PKT_TYPE_OSM_AUTH_REPLY, l, 10, pad_uuid ''u'')"
  using cfg_ex_run regclc_sound [of cfg_ex "''u''" "''10.0.0.7''"]
  by (fastforce simp: cfg_ex_def config0_def lydef_defs)

theorem regclc_reconnect_unchecked_witness:
  "\<exists>lk' c'. regclc (Some ''u'') (Some (''10.0.0.7'', \<lparr>lk_evs = [], lk_sent = [], lk_oks = []\<rparr>))
      (cfg_ex\<lparr>cfg_status := OSM_STATUS_REGISTERED\<rparr>) = Inr (Some lk', c')
    \<and> cfg_status c' = OSM_STATUS_REGISTERED"
  using regclc_reconnect_unchecked [of "cfg_ex\<lparr>cfg_status := OSM_STATUS_REGISTERED\<rparr>"]
  by (simp add: cfg_ex_def)

end
