(* ===== verification/Lyosm.thy ===== *)
theory Lyosm
  imports Lyconn
begin

text \<open>
  The main loop of the OS manager (\<^verbatim>\<open>osmanager/bin/pyosm/lyosm.py\<close>) and the status script of
  the application (\<^verbatim>\<open>lyapp.py\<close>). The module variables \<open>APP_Status\<close> and \<open>APP_Pending\<close> and the
  local variables of \<open>main\<close> are records; one iteration of the loop is a function of the state
  and of what the outside does in it (\<open>osm_input\<close>): the new connection or the multicast packets,
  what the script does, and the time. An exception ends the program. Signals end it
  between two iterations and are not part of the state.
\<close>

section \<open>lyapp.py\<close>

text \<open>\<open>APP_Pending\<close> has at most the key \<open>'status'\<close>, the only name \<open>runcmd\<close> is called with;
  the process in it matters only through what \<open>poll\<close> says.\<close>

record app_state =
  APP_Status :: int
  APP_Pending :: bool

text \<open>What the system answers in one call of \<open>runcmd\<close>: whether the file exists and may be
  executed, whether \<open>Popen\<close> starts it or raises \<open>OSError\<close>, and what \<open>poll\<close> returns (the exit
  status, or minus the number of the signal that ended the process).\<close>

record script =
  sc_access :: bool
  sc_popen :: bool
  sc_poll :: "int option"

text \<open>\<open>runcmd\<close>: the first component of the result and whether the second is a process.\<close>

definition runcmd :: "script \<Rightarrow> app_state \<Rightarrow> ((int option \<times> bool) \<times> app_state) pyres" where
  "runcmd sc a =
     (if \<not> APP_Pending a \<and> sc_access sc \<and> \<not> sc_popen sc then Inl OSError
      else
        let a1 = (if \<not> APP_Pending a \<and> sc_access sc then a\<lparr>APP_Pending := True\<rparr> else a) in
        if APP_Pending a1 then
          Inr ((sc_poll sc, True), if sc_poll sc \<noteq> None then a1\<lparr>APP_Pending := False\<rparr> else a1)
        else Inr ((Some (- 1), False), a1))"

text \<open>The translation of the exit status of the script into a status of the application.\<close>

definition app_code :: "int \<Rightarrow> int" where
  "app_code s =
     (if s < 0 then LY_S_APP_UNKNOWN
      else if s > 0 then s + LY_S_APP_RUNNING
      else LY_S_APP_RUNNING)"

text \<open>\<open>struct.pack('i', s)\<close>\<close>

definition pack_i :: "int \<Rightarrow> bytes pyres" where
  "pack_i n = (if - (2 ^ 31) \<le> n \<and> n < 2 ^ 31 then Inr (le32s n) else Inl StructError)"

text \<open>The report of a status, where there is a connection: the return code of \<open>socksend\<close>.\<close>

definition send_report :: "int \<Rightarrow> link option \<Rightarrow> (int \<times> link option) pyres" where
  "send_report s sock =
     (case sock of
        None \<Rightarrow> Inr (0, None)
      | Some lk \<Rightarrow>
          (case pack_i s of
             Inl e \<Rightarrow> Inl e
           | Inr d \<Rightarrow>
               (case sock_send PKT_TYPE_OSM_REPORT d lk of
                  Inl e \<Rightarrow> Inl e
                | Inr (r, lk') \<Rightarrow> Inr (r, Some lk'))))"

text \<open>\<open>run(sock, notify)\<close>: 0 while the script runs, 1 when its status is known, -1 when the
  report could not be sent.\<close>

definition app_run ::
  "script \<Rightarrow> link option \<Rightarrow> bool \<Rightarrow> app_state \<Rightarrow> (int \<times> link option \<times> app_state) pyres" where
  "app_run sc sock notify a =
     (case runcmd sc a of
        Inl e \<Rightarrow> Inl e
      | Inr ((None, _), a1) \<Rightarrow> Inr (0, sock, a1)
      | Inr ((Some s, _), a1) \<Rightarrow>
          (let s' = app_code s in
           if s' \<noteq> APP_Status a1 \<or> notify then
             (case send_report s' sock of
                Inl e \<Rightarrow> Inl e
              | Inr (r, sock') \<Rightarrow> Inr (if r < 0 then - 1 else 1, sock', a1\<lparr>APP_Status := s'\<rparr>))
           else Inr (1, sock, a1)))"

section \<open>lyosm.py\<close>

text \<open>The local variables of \<open>main\<close> and the module variables it reaches.\<close>

record osm_state =
  os_sock :: "link option"
  os_notify :: bool
  os_appstatus :: int
  os_timenow :: int
  os_config :: osm_config
  os_app :: app_state

text \<open>What happens outside during one iteration; the first five fields are the inputs of
  \<open>connclc\<close>.\<close>

record osm_input =
  in_uuid1 :: "string option"
  in_conn1 :: "(string \<times> link) option"
  in_mcast :: "(bytes \<times> int) list option"
  in_uuid2 :: "string option"
  in_conn2 :: "(string \<times> link) option"
  in_script :: script
  in_time :: int

definition osm_timeout :: int where
  "osm_timeout = 3600"

text \<open>\<open>main\<close> up to the loop: the configuration file is read, the clock is taken.\<close>

definition osm_start :: "string list option \<Rightarrow> int \<Rightarrow> osm_state pyres" where
  "osm_start file now =
     (case Config file config0 of
        Inl e \<Rightarrow> Inl e
      | Inr c \<Rightarrow> Inr \<lparr>os_sock = None, os_notify = False, os_appstatus = - 1, os_timenow = now,
          os_config = c, os_app = \<lparr>APP_Status = - 1, APP_Pending = False\<rparr>\<rparr>)"

text \<open>The first half of the loop body: connect, or receive one packet.\<close>

definition osm_connect :: "osm_input \<Rightarrow> osm_state \<Rightarrow> osm_state pyres" where
  "osm_connect i st =
     (case os_sock st of
        None \<Rightarrow>
          (case connclc (in_uuid1 i) (in_conn1 i) (in_mcast i) (in_uuid2 i) (in_conn2 i)
                  (os_config st) of
             Inl e \<Rightarrow> Inl e
           | Inr (None, c) \<Rightarrow> Inr (st\<lparr>os_config := c\<rparr>)
           | Inr (Some lk, c) \<Rightarrow>
               Inr (st\<lparr>os_sock := Some lk, os_notify := True, os_config := c\<rparr>))
      | Some lk \<Rightarrow>
          (let ((result, response), lk') = link_recv lk in
           if result = 0 then Inr (st\<lparr>os_sock := None\<rparr>)
           else if result > 0 then
             (case response of
                None \<Rightarrow> Inl TypeError
              | Some packet \<Rightarrow>
                  (case process packet of
                     Inl e \<Rightarrow> Inl e
                   | Inr _ \<Rightarrow> Inr (st\<lparr>os_sock := Some lk'\<rparr>)))
           else Inr (st\<lparr>os_sock := Some lk'\<rparr>)))"

text \<open>The second half: run the status script when the time has come, while it is running, or
  while a new connection has to be told.\<close>

definition osm_app :: "osm_input \<Rightarrow> osm_state \<Rightarrow> osm_state pyres" where
  "osm_app i st =
     (if in_time i - os_timenow st \<ge> osm_timeout \<or> os_appstatus st = 0 \<or> os_notify st then
        (case app_run (in_script i) (os_sock st) (os_notify st) (os_app st) of
           Inl e \<Rightarrow> Inl e
         | Inr (r, sock, a) \<Rightarrow>
             Inr (st\<lparr>os_timenow := in_time i, os_sock := sock, os_app := a, os_appstatus := r,
                     os_notify := (if r > 0 then False else os_notify st)\<rparr>))
      else Inr st)"

definition osm_step :: "osm_input \<Rightarrow> osm_state \<Rightarrow> osm_state pyres" where
  "osm_step i st = (case osm_connect i st of Inl e \<Rightarrow> Inl e | Inr st' \<Rightarrow> osm_app i st')"

fun osm_loop :: "osm_input list \<Rightarrow> osm_state \<Rightarrow> osm_state pyres" where
  "osm_loop [] st = Inr st"
| "osm_loop (i # is) st = (case osm_step i st of Inl e \<Rightarrow> Inl e | Inr st' \<Rightarrow> osm_loop is st')"

text \<open>\<open>main\<close>, up to a number of iterations.\<close>

definition osm_main :: "string list option \<Rightarrow> int \<Rightarrow> osm_input list \<Rightarrow> osm_state pyres" where
  "osm_main file now is =
     (case osm_start file now of Inl e \<Rightarrow> Inl e | Inr st \<Rightarrow> osm_loop is st)"

section \<open>Connections whose sends succeed\<close>

text \<open>A property of what connecting gives.\<close>

definition conn_ok :: "(link \<Rightarrow> bool) \<Rightarrow> (string \<times> link) option \<Rightarrow> bool" where
  "conn_ok P conn = (case conn of None \<Rightarrow> True | Some (_, lk) \<Rightarrow> P lk)"

text \<open>A property of connections that sending and receiving keep is kept by the registration and by
  the search for the control server.\<close>

locale link_property =
  fixes P :: "link \<Rightarrow> bool"
  assumes send: "P lk \<Longrightarrow> sock_send ty ds lk = Inr (r, lk') \<Longrightarrow> P lk'"
    and recv: "P lk \<Longrightarrow> P (lk\<lparr>lk_evs := es\<rparr>)"
begin

lemma send_keep: "P lk \<Longrightarrow> link_send ty ds lk = Inr lk' \<Longrightarrow> P lk'"
  by (auto simp: link_send_def split: sum.splits prod.splits dest: send)

lemma recv_keep: "P lk \<Longrightarrow> P (snd (link_recv lk))"
  by (simp add: link_recv_def recv split: prod.split)

lemma recv_auth_keep: "P lk \<Longrightarrow> P (snd (recv_auth lk))"
  using recv_keep [of lk] by (auto simp: recv_auth_def split: prod.split)

lemma register_keep:
  assumes "P lk"
  shows "P (snd (regclc_register c lk))"
proof -
  have "P (snd (link_recv lk'))" if "link_send ty ds lk = Inr lk'" for ty ds lk'
    using recv_keep send_keep [OF assms that] by blast
  then show ?thesis
    using assms by (fastforce simp: regclc_register_def Let_def split: prod.split sum.split)
qed

lemma answer_keep:
  assumes "P lk"
  shows "P (snd (regclc_answer c lk))"
proof -
  obtain r lk1 where r: "recv_auth lk = (r, lk1)" and "P lk1"
    using recv_auth_keep [OF assms] by (metis surj_pair snd_conv)
  then show ?thesis
    by (auto simp: regclc_answer_def Let_def dest: send_keep intro: register_keep
        split: prod.split sum.split option.split)
qed

lemma try_keep:
  assumes "P lk"
  shows "P (snd (regclc_try c u ch lk))"
proof (cases "pack_i40s (cfg_tag c) ch")
  case (Inr d)
  show ?thesis
  proof (cases "link_send PKT_TYPE_OSM_AUTH_REQUEST d lk")
    case send: (Inr lk1)
    obtain r lk2 where "recv_auth lk1 = (r, lk2)" and "P lk2"
      using recv_auth_keep [OF send_keep [OF assms send]] by (metis surj_pair snd_conv)
    with Inr send show ?thesis
      by (auto simp: regclc_try_def Let_def intro: answer_keep split: prod.split sum.split option.split)
  qed (simp add: Inr regclc_try_def assms)
qed (simp add: regclc_try_def assms)

lemma regclc_keep:
  assumes "regclc u conn c = Inr (Some lk, c')" and "conn_ok P conn"
  shows "P lk"
proof -
  obtain ip lk0 where conn: "conn = Some (ip, lk0)" and "P lk0"
    using assms by (auto simp: regclc_def conn_ok_def Let_def split: option.splits sum.splits)
  with assms(1) show ?thesis
    using try_keep [OF \<open>P lk0\<close>]
    by (auto simp: regclc_def Let_def split: option.splits sum.splits prod.splits if_splits)
      (metis snd_conv)+
qed

lemma connclc_keep:
  "connclc u1 conn1 mc u2 conn2 c = Inr (Some lk, c') \<Longrightarrow> conn_ok P conn1 \<Longrightarrow> conn_ok P conn2 \<Longrightarrow> P lk"
  by (auto simp: connclc_def Let_def dest: regclc_keep split: option.splits sum.splits prod.splits if_splits)

end

definition sends_ok :: "link \<Rightarrow> bool" where
  "sends_ok lk \<longleftrightarrow> set (lk_oks lk) \<subseteq> {SentAll}"

lemma sock_send_sends_ok:
  assumes "sends_ok lk" and "sock_send ty ds lk = Inr (r, lk')"
  shows "r = 0 \<and> sends_ok lk' \<and> lk_sent lk' = lk_sent lk @ [pack_packet ty ds]"
  using assms by (cases "lk_oks lk") (auto simp: sends_ok_def sock_send_def socksend_def split: if_splits)

interpretation good: link_property sends_ok
proof unfold_locales
  show "sends_ok lk'" if "sends_ok lk" "sock_send ty ds lk = Inr (r, lk')" for lk ty ds r lk'
    using sock_send_sends_ok that by blast
qed (simp add: sends_ok_def)

section \<open>The last report\<close>

definition inputs_ok :: "osm_input \<Rightarrow> bool" where
  "inputs_ok i \<longleftrightarrow> conn_ok sends_ok (in_conn1 i) \<and> conn_ok sends_ok (in_conn2 i)"

definition report :: "int \<Rightarrow> bytes" where
  "report s = pack_packet PKT_TYPE_OSM_REPORT (le32s s)"

text \<open>Where the new connection has been told, the last packet on it is the report of the current
  status.\<close>

definition report_inv :: "osm_state \<Rightarrow> bool" where
  "report_inv st \<longleftrightarrow> (case os_sock st of None \<Rightarrow> True
     | Some lk \<Rightarrow> sends_ok lk \<and> (\<not> os_notify st \<longrightarrow>
         lk_sent lk \<noteq> [] \<and> last (lk_sent lk) = report (APP_Status (os_app st))))"

lemma send_report_ok:
  assumes "sends_ok lk" and "send_report s (Some lk) = Inr (r, sock')"
  shows "r = 0 \<and> (\<exists>lk'. sock' = Some lk' \<and> sends_ok lk' \<and> lk_sent lk' = lk_sent lk @ [report s])"
  using assms
  by (auto simp: send_report_def pack_i_def report_def dest: sock_send_sends_ok
      split: sum.splits prod.splits if_splits)

lemma runcmd_status: "runcmd sc a = Inr (r, a') \<Longrightarrow> APP_Status a' = APP_Status a"
  by (auto simp: runcmd_def Let_def split: if_splits)

lemma app_run_report:
  assumes "app_run sc (Some lk) n a = Inr (r, sock, a')" and "sends_ok lk"
  shows "\<exists>lk'. sock = Some lk' \<and> sends_ok lk' \<and>
    (lk' = lk \<and> APP_Status a' = APP_Status a \<and> (n \<longrightarrow> r = 0) \<or>
     lk_sent lk' = lk_sent lk @ [report (APP_Status a')] \<and> r = 1)"
proof (cases "runcmd sc a")
  case (Inr p)
  obtain s b a1 where p: "p = ((s, b), a1)" by (metis surj_pair)
  show ?thesis
  proof (cases "s = None \<or> \<not> n \<and> app_code (the s) = APP_Status a1")
    case True
    then have "r = (if s = None then 0 else 1)" "sock = Some lk" "a' = a1" "s \<noteq> None \<longrightarrow> \<not> n"
      using assms(1) by (auto simp: app_run_def Inr p Let_def split: option.splits)
    with assms(2) show ?thesis using runcmd_status [OF Inr [unfolded p]] by auto
  next
    case False
    then obtain t where t: "s = Some t" by auto
    with False assms obtain r' where "send_report (app_code t) (Some lk) = Inr (r', sock)"
      "r = (if r' < 0 then - 1 else 1)" "a' = a1\<lparr>APP_Status := app_code t\<rparr>"
      by (auto simp: app_run_def Inr p Let_def split: sum.splits if_splits)
    then show ?thesis using send_report_ok [OF assms(2)] by fastforce
  qed
qed (use assms in \<open>simp add: app_run_def\<close>)

lemma report_inv_connect:
  assumes "inputs_ok i" and "report_inv st" and "osm_connect i st = Inr st'"
  shows "report_inv st'"
proof (cases "os_sock st")
  case None
  have "sends_ok lk" if "connclc (in_uuid1 i) (in_conn1 i) (in_mcast i) (in_uuid2 i) (in_conn2 i)
      (os_config st) = Inr (Some lk, c)" for lk c
    using good.connclc_keep [OF that] assms(1) by (simp add: inputs_ok_def)
  with None assms(3) show ?thesis
    by (auto simp: osm_connect_def report_inv_def split: sum.splits option.splits)
next
  case (Some lk)
  obtain result response lk' where r: "link_recv lk = ((result, response), lk')"
    by (metis surj_pair)
  have "sends_ok lk'" "lk_sent lk' = lk_sent lk"
    using assms(2) Some good.recv_keep [of lk] r
    by (auto simp: report_inv_def link_recv_def split: prod.splits)
  with assms Some r show ?thesis
    by (auto simp: osm_connect_def report_inv_def split: if_splits option.splits sum.splits)
qed

lemma report_inv_app:
  assumes "report_inv st" and "osm_app i st = Inr st'"
  shows "report_inv st'"
proof (cases "os_sock st")
  case None
  with assms show ?thesis
    by (auto simp: osm_app_def app_run_def report_inv_def send_report_def Let_def
        split: if_splits sum.splits option.splits prod.splits)
next
  case (Some lk)
  then have "sends_ok lk" using assms(1) by (simp add: report_inv_def)
  with assms Some show ?thesis
    by (auto simp: osm_app_def report_inv_def dest!: app_run_report
        split: if_splits sum.splits option.splits prod.splits)
qed

lemma report_inv_loop:
  "\<forall>i \<in> set is. inputs_ok i \<Longrightarrow> report_inv st \<Longrightarrow> osm_loop is st = Inr st' \<Longrightarrow> report_inv st'"
  by (induction "is" st rule: osm_loop.induct)
    (auto simp: osm_step_def dest: report_inv_connect report_inv_app split: sum.splits)

lemma report_inv_start: "osm_start file now = Inr st \<Longrightarrow> report_inv st"
  by (auto simp: osm_start_def report_inv_def split: sum.splits)

section \<open>The exceptions that end the program\<close>

lemma read_to_complete:
  "length dat \<le> target \<Longrightarrow> read_to target dat es = (Complete d, es') \<Longrightarrow> length d = target"
  by (induction target dat es rule: read_to.induct) (auto simp: Let_def split: if_splits)

lemma sockrecv_positive:
  assumes "sockrecv len evs = ((r, resp), es)" and "r > 0"
  shows "\<exists>d. resp = Some d \<and> headlen \<le> length d"
proof -
  obtain h es1 where h: "read_to headlen [] evs = (Complete h, es1)"
    using assms by (auto simp: sockrecv_def split: prod.splits rd.splits)
  then have "length h = headlen" using read_to_complete [of "[]"] by simp
  moreover from this have "headlen \<le> length d"
    if "read_to (min (headlen + n) len) h es1 = (Complete d, es2)" "\<not> len \<le> headlen" for n d es2
    using that read_to_complete [OF _ that(1)] by simp
  ultimately show ?thesis
    using h assms by (auto simp: sockrecv_def Let_def split: prod.splits rd.splits if_splits)
qed

lemma encode_Inl: "encode k ds = Inl e \<Longrightarrow> e = ZeroDivisionError"
  by (cases "k = []") (auto simp: encode_empty encode_Inr)

lemma regclc_Inl: "regclc u conn c = Inl e \<Longrightarrow> e = ZeroDivisionError"
  by (auto simp: regclc_def Let_def dest: encode_Inl split: option.splits sum.splits prod.splits if_splits)

lemma getclcparm_Inl: "getclcparm ps c = Inl e \<Longrightarrow> e = ValueError"
  by (induction ps c rule: getclcparm.induct) (auto split: if_splits list.splits option.splits)

lemma connclc_Inl:
  "connclc u1 conn1 mc u2 conn2 c = Inl e \<Longrightarrow> e \<in> {ZeroDivisionError, ValueError}"
  by (auto simp: connclc_def Let_def dest: regclc_Inl getclcparm_Inl
      split: option.splits sum.splits prod.splits if_splits)

lemma process_Inl:
  "process packet = Inl e \<Longrightarrow> headlen \<le> length packet \<Longrightarrow>
   e \<in> {AttributeError ''socksend'', NameError ''lyconf''}"
  by (auto simp: process_def unpack_LL_def procOSMQuery_def split: if_splits sum.splits)

text \<open>Exit statuses are at most 255.\<close>

definition script_ok :: "script \<Rightarrow> bool" where
  "script_ok sc \<longleftrightarrow> (case sc_poll sc of None \<Rightarrow> True | Some s \<Rightarrow> s \<le> 255)"

lemma app_code_range: "s \<le> 255 \<Longrightarrow> 2000 \<le> app_code s \<and> app_code s \<le> 2255"
  by (auto simp: app_code_def LY_S_APP_RUNNING_def LY_S_APP_UNKNOWN_def)

lemma sock_send_Inr: "ty < 2 ^ 32 \<Longrightarrow> length ds < 2 ^ 32 \<Longrightarrow> \<exists>r lk'. sock_send ty ds lk = Inr (r, lk')"
  by (simp add: sock_send_def socksend_def Let_def case_prod_beta)

lemma send_report_Inr: "2000 \<le> s \<Longrightarrow> s \<le> 2255 \<Longrightarrow> send_report s sock \<noteq> Inl e"
  using sock_send_Inr [of PKT_TYPE_OSM_REPORT "le32s s"]
  by (auto simp: send_report_def pack_i_def PKT_TYPE_OSM_REPORT_def le32s_def split: option.splits)
    (metis Inr_not_Inl case_prod_conv sum.simps(6))

lemma runcmd_poll:
  "runcmd sc a = Inr ((Some s, b), a') \<Longrightarrow> script_ok sc \<Longrightarrow> s \<le> 255"
  by (auto simp: runcmd_def script_ok_def Let_def split: if_splits)

lemma app_run_Inl: "app_run sc sock n a = Inl e \<Longrightarrow> script_ok sc \<Longrightarrow> e = OSError"
proof (cases "runcmd sc a")
  case (Inr p)
  assume "app_run sc sock n a = Inl e" "script_ok sc"
  moreover have "app_code t \<le> 2255" "2000 \<le> app_code t" if "p = ((Some t, b), a1)" for t b a1
    using that Inr runcmd_poll \<open>script_ok sc\<close> app_code_range by blast+
  ultimately show ?thesis
    using send_report_Inr by (fastforce simp: app_run_def Inr Let_def split: prod.splits option.splits if_splits sum.splits)
qed (auto simp: app_run_def runcmd_def Let_def split: if_splits)

lemma app_run_notify:
  assumes "sends_ok lk" and "sc_access sc" "sc_popen sc" "sc_poll sc = Some s" "s \<le> 255"
  shows "\<exists>lk' a'. app_run sc (Some lk) True a = Inr (1, Some lk', a')
    \<and> lk_sent lk' = lk_sent lk @ [report (app_code s)] \<and> APP_Status a' = app_code s"
proof -
  obtain r sock where "send_report (app_code s) (Some lk) = Inr (r, sock)"
    using send_report_Inr app_code_range [OF assms(5)] by (metis sum.exhaust surj_pair)
  moreover from this obtain lk' where "r = 0" "sock = Some lk'"
    "lk_sent lk' = lk_sent lk @ [report (app_code s)]"
    using send_report_ok [OF assms(1)] by blast
  ultimately show ?thesis using assms(2-4) by (auto simp: app_run_def runcmd_def Let_def)
qed

definition osm_exns :: "pyexn set" where
  "osm_exns = {ZeroDivisionError, ValueError, AttributeError ''socksend'', NameError ''lyconf'', OSError}"

lemma osm_connect_Inl:
  assumes "osm_connect i st = Inl e"
  shows "e \<in> osm_exns"
proof (cases "os_sock st")
  case None
  with assms connclc_Inl show ?thesis
    by (fastforce simp: osm_connect_def osm_exns_def split: sum.splits option.splits)
next
  case (Some lk)
  obtain r resp es where "sockrecv 1024 (lk_evs lk) = ((r, resp), es)" by (metis surj_pair)
  with assms Some show ?thesis
    by (auto simp: osm_connect_def link_recv_def osm_exns_def dest!: sockrecv_positive dest: process_Inl
        split: if_splits option.splits sum.splits)
qed

lemma osm_loop_Inl:
  "osm_loop is st = Inl e \<Longrightarrow> \<forall>i \<in> set is. script_ok (in_script i) \<Longrightarrow> e \<in> osm_exns"
proof (induction "is" st rule: osm_loop.induct)
  case (2 i "is" st)
  have "e' \<in> osm_exns" if step: "osm_step i st = Inl e'" for e'
  proof (cases "osm_connect i st")
    case (Inr st')
    with step have "app_run (in_script i) (os_sock st') (os_notify st') (os_app st') = Inl e'"
      by (auto simp: osm_step_def osm_app_def split: sum.splits if_splits)
    with 2(3) show ?thesis using app_run_Inl by (fastforce simp: osm_exns_def)
  qed (use step osm_connect_Inl in \<open>auto simp: osm_step_def\<close>)
  with 2 show ?case by (auto split: sum.splits)
qed simp

lemma set_int_Inl: "set_int v f = Inl e \<Longrightarrow> e = ValueError"
  by (simp add: set_int_def split: option.splits)

lemma config_line_Inl: "config_line l c = Inl e \<Longrightarrow> e = ValueError"
  unfolding config_line_def Let_def by (simp only: split: if_splits) (auto dest: set_int_Inl)

lemma config_lines_Inl: "config_lines ls c = Inl e \<Longrightarrow> e = ValueError"
  by (induction ls c rule: config_lines.induct) (auto dest: config_line_Inl split: sum.splits)

section \<open>The first iteration\<close>

lemma of_le32s_report: "2000 \<le> s \<Longrightarrow> s \<le> 2255 \<Longrightarrow> of_le32s (drop 8 (report s)) = s"
  using of_le32s_le32s [of s] by (simp add: report_def pack_packet_def)

lemma osm_first_step:
  assumes "os_sock st = None"
    and "cfg_clc_ip (os_config st) \<noteq> []" "cfg_clc_port (os_config st) \<noteq> 0"
    and "cfg_key (os_config st) \<noteq> []"
    and "- (2 ^ 31) \<le> cfg_tag (os_config st)" "cfg_tag (os_config st) < 2 ^ 31"
    and "- (2 ^ 31) \<le> tag'" "tag' < 2 ^ 31" and "length u \<le> 40" and "length ch = 40"
    and "ip \<noteq> []" and "length (reg_request ((os_config st)\<lparr>cfg_local_ip := ip\<rparr>)) < 2 ^ 32"
    and "data_only es" and "stream es = clc_replies (cfg_tag (os_config st)) (pad_uuid u) tag' ch"
    and "in_uuid1 i = Some u" "in_conn1 i = Some (ip, \<lparr>lk_evs = es, lk_sent = [], lk_oks = []\<rparr>)"
    and "in_script i = \<lparr>sc_access = True, sc_popen = True, sc_poll = Some s\<rparr>" "s \<le> 255"
  shows "\<exists>st' lk. osm_step i st = Inr st' \<and> os_sock st' = Some lk \<and> \<not> os_notify st'
    \<and> APP_Status (os_app st') = app_code s \<and> cfg_status (os_config st') = OSM_STATUS_REGISTERED
    \<and> length (lk_sent lk) = 4 \<and> last (lk_sent lk) = report (app_code s)
    \<and> of_le32s (drop 8 (last (lk_sent lk))) = app_code s"
proof -
  let ?conn = "Some (ip, \<lparr>lk_evs = es, lk_sent = [], lk_oks = []\<rparr>)"
  obtain lk c chal ans where reg: "regclc (Some u) ?conn (os_config st) = Inr (Some lk, c)"
    "cfg_status c = OSM_STATUS_REGISTERED" "length (lk_sent lk) = 3"
    using regclc_honest [OF assms(4-14)] by fastforce
  have "sends_ok lk" using good.regclc_keep [OF reg(1)] by (simp add: conn_ok_def sends_ok_def)
  then obtain lk' a' where run: "app_run (in_script i) (Some lk) True (os_app st) = Inr (1, Some lk', a')"
    "lk_sent lk' = lk_sent lk @ [report (app_code s)]" "APP_Status a' = app_code s"
    using app_run_notify [of lk "in_script i" s "os_app st"] assms(17,18) by auto
  have "of_le32s (drop 8 (report (app_code s))) = app_code s"
    using of_le32s_report app_code_range [OF assms(18)] by blast
  with run reg assms(1-3,15,16) show ?thesis
    by (simp add: osm_step_def osm_connect_def osm_app_def connclc_def Let_def)
qed

section \<open>Properties\<close>


text \<open>
  C34. The control server knows the state of the application. While the sends succeed and take whole packets, whatever
  connections, packets and exit statuses come, on a connection on which nothing is waiting to be
  told the last packet sent is the report of the current status.
\<close>

theorem osm_report_current:
  assumes "osm_main file now is = Inr st" and "\<forall>i \<in> set is. inputs_ok i"
    and "os_sock st = Some lk" and "\<not> os_notify st"
  shows "lk_sent lk \<noteq> [] \<and> last (lk_sent lk) = report (APP_Status (os_app st))"
proof -
  obtain st0 where "osm_start file now = Inr st0" "osm_loop is st0 = Inr st"
    using assms(1) by (auto simp: osm_main_def split: sum.splits)
  then have "report_inv st" using report_inv_loop report_inv_start assms(2) by blast
  with assms(3,4) show ?thesis by (simp add: report_inv_def)
qed

text \<open>
  What can end the OS manager: a configuration file that cannot be read or parsed, an empty
  key, a malformed multicast packet, a status script that cannot be started, and, through the two
  faults of \<open>process\<close>, an echo request or a query of the control server. No report and no packet
  cut short ends it.
\<close>

theorem osm_exceptions:
  assumes "osm_main file now is = Inl e" and "\<forall>i \<in> set is. script_ok (in_script i)"
  shows "e \<in> {SystemExit 1, ZeroDivisionError, ValueError, AttributeError ''socksend'',
    NameError ''lyconf'', OSError}"
  using assms osm_loop_Inl
  by (auto simp: osm_main_def osm_start_def Config_def osm_exns_def dest!: config_lines_Inl
      split: sum.splits option.splits)

text \<open>
  A packet of the control server ends the OS manager: an echo request by its missing method, a
  well-formed query by its missing module.
\<close>

theorem osm_packet_ends:
  assumes "os_sock st = Some lk" and "data_only (lk_evs lk)"
    and "stream (lk_evs lk) = pack_packet ty ds @ rest" and "ds \<noteq> []" and "length ds \<le> 1016"
  shows "(ty = PKT_TYPE_TEST_ECHO_REQUEST \<longrightarrow> osm_step i st = Inl (AttributeError ''socksend''))
    \<and> (ty = PKT_TYPE_CLC_OSM_QUERY_REQUEST \<and> length ds = 4 \<longrightarrow>
         osm_step i st = Inl (NameError ''lyconf''))"
proof (cases "ty < 2 ^ 32")
  case True
  with assms link_recv_packet [of lk ty ds rest] obtain es where
    "link_recv lk = ((int (8 + length ds), Some (pack_packet ty ds)), lk\<lparr>lk_evs := es\<rparr>)" by blast
  moreover have "process (pack_packet PKT_TYPE_TEST_ECHO_REQUEST ds) = Inl (AttributeError ''socksend'')"
    by (simp add: process_def pack_packet_def unpack_LL_def headlen_def of_le32_le32 lydef_defs)
  moreover have "process (pack_packet PKT_TYPE_CLC_OSM_QUERY_REQUEST ds) = Inl (NameError ''lyconf'')"
    if "length ds = 4"
    using that by (simp add: process_def pack_packet_def unpack_LL_def headlen_def of_le32_le32
        lydef_defs procOSMQuery_def)
  ultimately show ?thesis by (simp add: osm_step_def osm_connect_def assms(1))
qed (auto simp: lydef_defs)

text \<open>
  The first report. An OS manager that is not connected and meets a control server that knows
  the key, while its status script exits at once, is connected after one iteration, and has sent the
  three packets of the registration and the report of the status; nothing is left to be told.
\<close>

theorem osm_first_report:
  assumes "os_sock st = None"
    and "cfg_clc_ip (os_config st) \<noteq> []" "cfg_clc_port (os_config st) \<noteq> 0"
    and "cfg_key (os_config st) \<noteq> []"
    and "- (2 ^ 31) \<le> cfg_tag (os_config st)" "cfg_tag (os_config st) < 2 ^ 31"
    and "- (2 ^ 31) \<le> tag'" "tag' < 2 ^ 31" and "length u \<le> 40" and "length ch = 40"
    and "ip \<noteq> []" and "length (reg_request ((os_config st)\<lparr>cfg_local_ip := ip\<rparr>)) < 2 ^ 32"
    and "data_only es" and "stream es = clc_replies (cfg_tag (os_config st)) (pad_uuid u) tag' ch"
    and "in_uuid1 i = Some u" "in_conn1 i = Some (ip, \<lparr>lk_evs = es, lk_sent = [], lk_oks = []\<rparr>)"
    and "in_script i = \<lparr>sc_access = True, sc_popen = True, sc_poll = Some s\<rparr>" "s \<le> 255"
  shows "\<exists>st' lk. osm_step i st = Inr st' \<and> os_sock st' = Some lk \<and> \<not> os_notify st'
    \<and> APP_Status (os_app st') = app_code s \<and> cfg_status (os_config st') = OSM_STATUS_REGISTERED
    \<and> length (lk_sent lk) = 4 \<and> last (lk_sent lk) = report (app_code s)
    \<and> of_le32s (drop 8 (last (lk_sent lk))) = app_code s"
  using assms by (rule osm_first_step)

text \<open>A status script that exits with 128 is reported like one that does not exist; below 128 the
  reports are different.\<close>

lemma app_code_inj:
  "0 \<le> s \<Longrightarrow> s < 128 \<Longrightarrow> 0 \<le> t \<Longrightarrow> t < 128 \<Longrightarrow>
   app_code s \<noteq> LY_S_APP_UNKNOWN \<and> (app_code s = app_code t \<longleftrightarrow> s = t)"
  by (auto simp: app_code_def LY_S_APP_RUNNING_def LY_S_APP_UNKNOWN_def)

lemma app_code_128: "app_code 128 = app_code (- 1)"
  by (simp add: app_code_def LY_S_APP_RUNNING_def LY_S_APP_UNKNOWN_def)

text \<open>A change of status whose report fails on a connection that stays open is recorded as told, and
  the next run of the script with the same status sends nothing.\<close>

lemma failed_report_forgotten:
  assumes "lk_oks lk = SendRaises # oks" and "sc_access sc" "sc_popen sc" "sc_poll sc = Some s" "s \<le> 255"
    and "app_code s \<noteq> APP_Status a"
  shows "\<exists>lk' a'. app_run sc (Some lk) False a = Inr (- 1, Some lk', a') \<and> lk_sent lk' = lk_sent lk
    \<and> app_run sc (Some lk') False a' = Inr (1, Some lk', a')"
  using assms app_code_range [OF assms(5)]
  by (auto simp: app_run_def runcmd_def send_report_def pack_i_def sock_send_def socksend_def
      PKT_TYPE_OSM_REPORT_def le32s_def Let_def)

section \<open>Witnesses\<close>

definition osm_file_ex :: "string list" where
  "osm_file_ex = [''CLC_IP=10.0.0.1'', ''CLC_PORT=1369'', ''TAG=10'', ''KEY=k'']"

definition osm_state_ex :: osm_state where
  "osm_state_ex = \<lparr>os_sock = None, os_notify = False, os_appstatus = - 1, os_timenow = 0,
     os_config = cfg_ex, os_app = \<lparr>APP_Status = - 1, APP_Pending = False\<rparr>\<rparr>"

definition osm_input_ex :: osm_input where
  "osm_input_ex = \<lparr>in_uuid1 = Some ''u'', in_conn1 = Some (''10.0.0.7'', \<lparr>lk_evs =
       [Chunk (clc_replies 10 (pad_uuid ''u'') 10 (replicate 40 1))], lk_sent = [], lk_oks = []\<rparr>),
     in_mcast = None, in_uuid2 = None, in_conn2 = None,
     in_script = \<lparr>sc_access = True, sc_popen = True, sc_poll = Some 3\<rparr>, in_time = 1\<rparr>"

lemma osm_start_ex: "osm_start (Some osm_file_ex) 0 = Inr osm_state_ex"
  by code_simp

lemmas osm_ex = osm_state_ex_def osm_input_ex_def cfg_ex_def config0_def

lemma osm_ex_chunk: "clc_replies 10 (pad_uuid ''u'') 10 (replicate 40 1) \<noteq> []"
  by (simp add: clc_replies_def pack_packet_def le32_def)

lemma osm_main_ex:
  "\<exists>st lk. osm_main (Some osm_file_ex) 0 [osm_input_ex] = Inr st \<and> os_sock st = Some lk
    \<and> \<not> os_notify st \<and> APP_Status (os_app st) = 2003"
  using osm_first_step [of osm_state_ex 10 "''u''" "replicate 40 1" "''10.0.0.7''"
      "[Chunk (clc_replies 10 (pad_uuid ''u'') 10 (replicate 40 1))]" osm_input_ex 3]
    cfg_ex_request osm_ex_chunk
  by (auto simp: osm_main_def osm_start_ex osm_ex app_code_def LY_S_APP_RUNNING_def)

theorem osm_report_current_witness:
  "\<exists>st lk. osm_main (Some osm_file_ex) 0 [osm_input_ex] = Inr st \<and> os_sock st = Some lk
    \<and> last (lk_sent lk) = report 2003"
proof -
  obtain st lk where r: "osm_main (Some osm_file_ex) 0 [osm_input_ex] = Inr st" "os_sock st = Some lk"
    "\<not> os_notify st" "APP_Status (os_app st) = 2003" using osm_main_ex by blast
  have "\<forall>i \<in> set [osm_input_ex]. inputs_ok i"
    by (simp add: inputs_ok_def conn_ok_def sends_ok_def osm_input_ex_def)
  from osm_report_current [OF r(1) this r(2,3)] r show ?thesis by auto
qed

theorem osm_exceptions_witness:
  "osm_main (Some [''CLC_PORT=x'']) 0 [] = Inl ValueError \<and>
   ValueError \<in> {SystemExit 1, ZeroDivisionError, ValueError, AttributeError ''socksend'',
     NameError ''lyconf'', OSError}"
proof -
  have "osm_main (Some [''CLC_PORT=x'']) 0 [] = Inl ValueError" by code_simp
  with osm_exceptions [OF this] show ?thesis by simp
qed

theorem osm_packet_ends_witness:
  "osm_step osm_input_ex (osm_state_ex\<lparr>os_sock := Some \<lparr>lk_evs =
      [Chunk (pack_packet PKT_TYPE_TEST_ECHO_REQUEST [104, 105])], lk_sent = [], lk_oks = []\<rparr>\<rparr>)
    = Inl (AttributeError ''socksend'')"
  using osm_packet_ends [of "osm_state_ex\<lparr>os_sock := Some \<lparr>lk_evs =
      [Chunk (pack_packet PKT_TYPE_TEST_ECHO_REQUEST [104, 105])], lk_sent = [], lk_oks = []\<rparr>\<rparr>"
      "\<lparr>lk_evs = [Chunk (pack_packet PKT_TYPE_TEST_ECHO_REQUEST [104, 105])], lk_sent = [], lk_oks = []\<rparr>"
      PKT_TYPE_TEST_ECHO_REQUEST "[104, 105]" "[]" osm_input_ex]
  by (simp add: pack_packet_def le32_def)

theorem osm_first_report_witness:
  "\<exists>st lk. osm_step osm_input_ex osm_state_ex = Inr st \<and> os_sock st = Some lk
    \<and> length (lk_sent lk) = 4 \<and> last (lk_sent lk) = report 2003"
  using osm_first_report [of osm_state_ex 10 "''u''" "replicate 40 1" "''10.0.0.7''"
      "[Chunk (clc_replies 10 (pad_uuid ''u'') 10 (replicate 40 1))]" osm_input_ex 3]
    cfg_ex_request osm_ex_chunk
  by (auto simp: osm_ex app_code_def LY_S_APP_RUNNING_def)

end
