(* ===== verification/Orm.thy ===== *)
theory Orm
  imports Prelude
begin

text \<open>
  Tables and sessions as the object-relational mapper gives them to the handlers
  (\<^verbatim>\<open>lyweb/lib/yweb/orm.py\<close> over SQLAlchemy). A table is its rows in the order of their primary
  keys together with the last value of the sequence that hands the keys out: keys are never used
  again. A session has a working state, which the handlers change, and the committed state;
  \<open>commit\<close> makes the working state permanent and the \<open>remove\<close> of
  \<open>RequestHandler.on_finish\<close> (\<^verbatim>\<open>lycustom.py\<close>) drops what was not committed.
\<close>

section \<open>Tables\<close>

record 'a table =
  rows :: "(int \<times> 'a) list"
  seq :: int

definition t_empty :: "'a table" where
  "t_empty = \<lparr>rows = [], seq = 0\<rparr>"

text \<open>\<open>query(T).get(k)\<close>\<close>

definition t_get :: "'a table \<Rightarrow> int \<Rightarrow> 'a option" where
  "t_get t k = map_of (rows t) k"

text \<open>\<open>db.add(row)\<close> for a new row, which gets the next key.\<close>

definition t_newid :: "'a table \<Rightarrow> int" where
  "t_newid t = seq t + 1"

definition t_add :: "'a \<Rightarrow> 'a table \<Rightarrow> 'a table" where
  "t_add v t = t\<lparr>rows := rows t @ [(seq t + 1, v)], seq := seq t + 1\<rparr>"

text \<open>Assignment to the attributes of the row \<open>k\<close>, and of all rows that satisfy a condition.\<close>

definition t_upd_where :: "(int \<Rightarrow> 'a \<Rightarrow> bool) \<Rightarrow> ('a \<Rightarrow> 'a) \<Rightarrow> 'a table \<Rightarrow> 'a table" where
  "t_upd_where P f t = t\<lparr>rows := map (\<lambda>(k, v). (k, if P k v then f v else v)) (rows t)\<rparr>"

definition t_upd :: "int \<Rightarrow> ('a \<Rightarrow> 'a) \<Rightarrow> 'a table \<Rightarrow> 'a table" where
  "t_upd k f t = t_upd_where (\<lambda>k' v. k' = k) f t"

text \<open>\<open>db.delete(row)\<close>, and the deletion of all rows that satisfy a condition.\<close>

definition t_del_where :: "(int \<Rightarrow> 'a \<Rightarrow> bool) \<Rightarrow> 'a table \<Rightarrow> 'a table" where
  "t_del_where P t = t\<lparr>rows := filter (\<lambda>(k, v). \<not> P k v) (rows t)\<rparr>"

definition t_del :: "int \<Rightarrow> 'a table \<Rightarrow> 'a table" where
  "t_del k t = t_del_where (\<lambda>k' v. k' = k) t"

text \<open>\<open>query(T).filter(...).all()\<close> and \<open>.first()\<close>, with the keys, in key order.\<close>

definition t_select :: "(int \<Rightarrow> 'a \<Rightarrow> bool) \<Rightarrow> 'a table \<Rightarrow> (int \<times> 'a) list" where
  "t_select P t = filter (\<lambda>(k, v). P k v) (rows t)"

definition t_first :: "(int \<Rightarrow> 'a \<Rightarrow> bool) \<Rightarrow> 'a table \<Rightarrow> (int \<times> 'a) option" where
  "t_first P t = find (\<lambda>(k, v). P k v) (rows t)"

text \<open>Keys are positive, increasing along the rows and at most the sequence's value.\<close>

definition t_ok :: "'a table \<Rightarrow> bool" where
  "t_ok t \<longleftrightarrow> sorted_wrt (<) (map fst (rows t)) \<and> (\<forall>k \<in> fst ` set (rows t). 0 < k \<and> k \<le> seq t) \<and> 0 \<le> seq t"

section \<open>The interface the handlers rely on\<close>

text \<open>
  What a keyed table promises: which row a key has after each operation, that every operation keeps
  the table well formed, and that a new key is fresh.
\<close>

locale keyed_table =
  fixes get :: "'t \<Rightarrow> int \<Rightarrow> 'a option"
    and newid :: "'t \<Rightarrow> int"
    and add :: "'a \<Rightarrow> 't \<Rightarrow> 't"
    and upd :: "(int \<Rightarrow> 'a \<Rightarrow> bool) \<Rightarrow> ('a \<Rightarrow> 'a) \<Rightarrow> 't \<Rightarrow> 't"
    and del :: "(int \<Rightarrow> 'a \<Rightarrow> bool) \<Rightarrow> 't \<Rightarrow> 't"
    and ok :: "'t \<Rightarrow> bool"
  assumes get_newid: "ok t \<Longrightarrow> get t (newid t) = None"
    and get_add: "ok t \<Longrightarrow> get (add v t) k = (if k = newid t then Some v else get t k)"
    and get_upd: "get (upd P f t) k = map_option (\<lambda>v. if P k v then f v else v) (get t k)"
    and get_del: "ok t \<Longrightarrow> get (del P t) k = (case get t k of None \<Rightarrow> None | Some v \<Rightarrow> if P k v then None else Some v)"
    and ok_add: "ok t \<Longrightarrow> ok (add v t)"
    and ok_upd: "ok t \<Longrightarrow> ok (upd P f t)"
    and ok_del: "ok t \<Longrightarrow> ok (del P t)"
    and newid_upd: "newid (upd P f t) = newid t"
    and newid_del: "newid (del P t) = newid t"
begin

text \<open>A property of all rows, and what keeps it.\<close>

definition all_rows :: "(int \<Rightarrow> 'a \<Rightarrow> bool) \<Rightarrow> 't \<Rightarrow> bool" where
  "all_rows Q t \<longleftrightarrow> (\<forall>k v. get t k = Some v \<longrightarrow> Q k v)"

lemma all_rows_add:
  "ok t \<Longrightarrow> all_rows Q t \<Longrightarrow> Q (newid t) v \<Longrightarrow> all_rows Q (add v t)"
  by (auto simp: all_rows_def get_add)

lemma all_rows_upd:
  "all_rows Q t \<Longrightarrow> (\<And>k v. Q k v \<Longrightarrow> P k v \<Longrightarrow> Q k (f v)) \<Longrightarrow> all_rows Q (upd P f t)"
  by (auto simp: all_rows_def get_upd)

lemma all_rows_del: "ok t \<Longrightarrow> all_rows Q t \<Longrightarrow> all_rows Q (del P t)"
  by (auto simp: all_rows_def get_del split: option.splits if_splits)

lemma get_add_old: "ok t \<Longrightarrow> get t k = Some w \<Longrightarrow> get (add v t) k = Some w"
  using get_newid by (auto simp: get_add)

lemma get_upd_other: "(\<And>v. get t k = Some v \<Longrightarrow> \<not> P k v) \<Longrightarrow> get (upd P f t) k = get t k"
  by (cases "get t k") (auto simp: get_upd)

lemma get_del_self: "ok t \<Longrightarrow> get (del (\<lambda>k' v. k' = k) t) k = None"
  by (simp add: get_del split: option.split)

end

section \<open>The tables provide it\<close>

lemma rows_table_simps [table_simps, simp]:
  "rows (t_add v t) = rows t @ [(seq t + 1, v)]" "seq (t_add v t) = seq t + 1"
  "rows (t_upd_where P f t) = map (\<lambda>(k, v). (k, if P k v then f v else v)) (rows t)"
  "seq (t_upd_where P f t) = seq t"
  "rows (t_del_where P t) = filter (\<lambda>(k, v). \<not> P k v) (rows t)" "seq (t_del_where P t) = seq t"
  "rows t_empty = []" "seq t_empty = 0"
  by (simp_all add: t_add_def t_upd_where_def t_del_where_def t_empty_def)

lemma t_ok_distinct: "t_ok t \<Longrightarrow> distinct (map fst (rows t))"
  unfolding t_ok_def using strict_sorted_iff by blast

lemma t_ok_key: "t_ok t \<Longrightarrow> (k, v) \<in> set (rows t) \<Longrightarrow> 0 < k \<and> k \<le> seq t"
  by (force simp: t_ok_def)

lemma t_get_iff: "t_ok t \<Longrightarrow> t_get t k = Some v \<longleftrightarrow> (k, v) \<in> set (rows t)"
  unfolding t_get_def using t_ok_distinct by (metis map_of_eq_Some_iff)

lemma t_get_in: "t_get t k = Some v \<Longrightarrow> (k, v) \<in> set (rows t)"
  unfolding t_get_def by (rule map_of_SomeD)

lemma map_of_upd_where:
  "map_of (map (\<lambda>(k, v). (k, if P k v then f v else v)) xs) k
     = map_option (\<lambda>v. if P k v then f v else v) (map_of xs k)"
  by (induction xs) auto

lemma map_of_filter_keys:
  "distinct (map fst xs) \<Longrightarrow> map_of (filter (\<lambda>(k, v). \<not> P k v) xs) k
     = (case map_of xs k of None \<Rightarrow> None | Some v \<Rightarrow> if P k v then None else Some v)"
proof (induction xs)
  case (Cons x xs)
  obtain a b where x: "x = (a, b)" by (cases x)
  have "a \<notin> fst ` set (filter (\<lambda>(k, v). \<not> P k v) xs)" using Cons.prems x by auto
  then have n: "map_of (filter (\<lambda>(k, v). \<not> P k v) xs) a = None" by (simp add: map_of_eq_None_iff)
  show ?case
    using Cons x n by (cases "k = a") auto
qed simp

lemma t_ok_add: "t_ok t \<Longrightarrow> t_ok (t_add v t)"
  unfolding t_ok_def by (force simp: sorted_wrt_append)

lemma fst_upd_rows: "map fst (map (\<lambda>(k, v). (k, if P k v then f v else v)) xs) = map fst xs"
  by (induction xs) auto

lemma t_ok_upd: "t_ok t \<Longrightarrow> t_ok (t_upd_where P f t)"
  unfolding t_ok_def rows_table_simps fst_upd_rows by (force simp del: map_map)

lemma t_ok_del: "t_ok t \<Longrightarrow> t_ok (t_del_where P t)"
  unfolding t_ok_def by (auto simp: sorted_wrt_map sorted_wrt_filter)

lemma t_get_newid: "t_ok t \<Longrightarrow> t_get t (t_newid t) = None"
  unfolding t_get_def t_newid_def using t_ok_key [of t "seq t + 1"]
  by (metis map_of_SomeD not_None_eq zless_add1_eq order_less_irrefl linorder_not_le)

lemma t_get_add: "t_ok t \<Longrightarrow> t_get (t_add v t) k = (if k = t_newid t then Some v else t_get t k)"
  using t_get_newid [of t]
  by (auto simp: t_get_def t_newid_def map_add_def split: option.split)

interpretation tb: keyed_table t_get t_newid t_add t_upd_where t_del_where t_ok
proof unfold_locales
  fix P f k and t :: "'a table"
  show "t_get (t_upd_where P f t) k = map_option (\<lambda>v. if P k v then f v else v) (t_get t k)"
    by (simp add: t_get_def map_of_upd_where)
  show "t_newid (t_upd_where P f t) = t_newid t" and "t_newid (t_del_where P t) = t_newid t"
    by (simp_all add: t_newid_def)
  assume "t_ok t"
  then show "t_get (t_del_where P t) k =
      (case t_get t k of None \<Rightarrow> None | Some v \<Rightarrow> if P k v then None else Some v)"
    by (simp add: t_get_def map_of_filter_keys t_ok_distinct)
qed (simp_all add: t_get_newid t_get_add t_ok_add t_ok_upd t_ok_del)

text \<open>The single-row operations.\<close>

lemma t_get_upd: "t_get (t_upd k f t) k' = (if k' = k then map_option f (t_get t k) else t_get t k')"
  by (cases "t_get t k'") (auto simp: t_upd_def tb.get_upd)

lemma t_get_upd_same [simp]: "t_get (t_upd k f t) k = map_option f (t_get t k)"
  by (simp add: t_get_upd)

lemma t_get_upd_other [simp]: "k' \<noteq> k \<Longrightarrow> t_get (t_upd k f t) k' = t_get t k'"
  by (simp add: t_get_upd)

lemma t_ok_upd1 [simp]: "t_ok t \<Longrightarrow> t_ok (t_upd k f t)"
  by (simp add: t_upd_def t_ok_upd)

lemma t_ok_del1 [simp]: "t_ok t \<Longrightarrow> t_ok (t_del k t)"
  by (simp add: t_del_def t_ok_del)

lemma t_get_del: "t_ok t \<Longrightarrow> t_get (t_del k t) k' = (if k' = k then None else t_get t k')"
  by (auto simp: t_del_def tb.get_del split: option.split)

lemma t_ok_empty [simp]: "t_ok t_empty"
  by (simp add: t_ok_def)

lemma t_select_iff: "(k, v) \<in> set (t_select P t) \<longleftrightarrow> (k, v) \<in> set (rows t) \<and> P k v"
  by (auto simp: t_select_def)

lemma t_first_Some: "t_first P t = Some (k, v) \<Longrightarrow> (k, v) \<in> set (rows t) \<and> P k v"
  unfolding t_first_def using find_Some_set by fastforce

lemma t_first_None: "t_first P t = None \<longleftrightarrow> (\<forall>(k, v) \<in> set (rows t). \<not> P k v)"
  unfolding t_first_def by (auto simp: find_None_iff)

section \<open>Sessions\<close>

record 'd session =
  work :: 'd
  store :: 'd

text \<open>\<open>db.commit()\<close>, a change of the working state, and the session a request starts with.\<close>

definition commit :: "'d session \<Rightarrow> 'd session" where
  "commit s = s\<lparr>store := work s\<rparr>"

definition modify :: "('d \<Rightarrow> 'd) \<Rightarrow> 'd session \<Rightarrow> 'd session" where
  "modify f s = s\<lparr>work := f (work s)\<rparr>"

definition open_session :: "'d \<Rightarrow> 'd session" where
  "open_session d = \<lparr>work = d, store = d\<rparr>"

text \<open>\<open>on_finish\<close>: \<open>global_dbsession.remove()\<close> ends the request with the committed state.\<close>

definition on_finish :: "'d session \<Rightarrow> 'd" where
  "on_finish s = store s"

lemma session_simps [handler_simps, simp]:
  "work (commit s) = work s" "store (commit s) = work s"
  "work (modify f s) = f (work s)" "store (modify f s) = store s"
  "work (open_session d) = d" "store (open_session d) = d"
  "on_finish s = store s"
  by (simp_all add: commit_def modify_def open_session_def on_finish_def)

text \<open>A property that holds of the working and of the committed state, and what keeps it.\<close>

definition sess :: "('d \<Rightarrow> bool) \<Rightarrow> 'd session \<Rightarrow> bool" where
  "sess P s \<longleftrightarrow> P (work s) \<and> P (store s)"

lemma sess_open [simp]: "sess P (open_session d) \<longleftrightarrow> P d"
  by (simp add: sess_def)

lemma sess_commit [intro!]: "sess P s \<Longrightarrow> sess P (commit s)"
  by (simp add: sess_def)

lemma sess_modify: "sess P s \<Longrightarrow> P (f (work s)) \<Longrightarrow> sess P (modify f s)"
  by (simp add: sess_def)

lemma sess_on_finish: "sess P s \<Longrightarrow> P (on_finish s)"
  by (simp add: sess_def)

lemma sess_work: "sess P s \<Longrightarrow> P (work s)"
  by (simp add: sess_def)

text \<open>Sums over the rows of a table after one row changed.\<close>

lemma sum_rows_upd:
  "distinct (map fst xs) \<Longrightarrow> (k, v) \<in> set xs \<Longrightarrow>
     (\<Sum>(a, b) \<leftarrow> map (\<lambda>(a, b). (a, if a = k then g b else b)) xs. F a b)
       = (\<Sum>(a, b) \<leftarrow> xs. F a b) - F k v + (F k (g v) :: int)"
proof (induction xs)
  case (Cons x xs)
  obtain a b where x: "x = (a, b)" by (cases x)
  show ?case
  proof (cases "a = k")
    case True
    then have "k \<notin> fst ` set xs" using Cons.prems x by auto
    then have "map (\<lambda>(a, b). (a, if a = k then g b else b)) xs = xs"
      by (induction xs) auto
    moreover have "b = v" using True Cons.prems x \<open>k \<notin> fst ` set xs\<close> by force
    ultimately show ?thesis using True x by simp
  qed (use Cons x in auto)
qed simp

lemma t_select_upd:
  "(\<And>v. P k (f v) = P k v) \<Longrightarrow>
     t_select P (t_upd k f t) = map (\<lambda>(a, b). (a, if a = k then f b else b)) (t_select P t)"
proof -
  assume c: "\<And>v. P k (f v) = P k v"
  have "filter (\<lambda>(a, b). P a b) (map (\<lambda>(a, b). (a, if a = k then f b else b)) xs) =
      map (\<lambda>(a, b). (a, if a = k then f b else b)) (filter (\<lambda>(a, b). P a b) xs)" for xs
    using c by (induction xs) (auto split: if_splits)
  then show ?thesis by (simp add: t_select_def t_upd_def)
qed

lemma t_select_upd_other:
  "(\<And>v. (k, v) \<in> set (rows t) \<Longrightarrow> \<not> P k v \<and> \<not> P k (f v)) \<Longrightarrow> t_select P (t_upd k f t) = t_select P t"
proof -
  assume c: "\<And>v. (k, v) \<in> set (rows t) \<Longrightarrow> \<not> P k v \<and> \<not> P k (f v)"
  have "(\<And>v. (k, v) \<in> set xs \<Longrightarrow> \<not> P k v \<and> \<not> P k (f v)) \<Longrightarrow>
      filter (\<lambda>(a, b). P a b) (map (\<lambda>(a, b). (a, if a = k then f b else b)) xs) = filter (\<lambda>(a, b). P a b) xs" for xs
    by (induction xs) (auto split: if_splits)
  with c show ?thesis by (simp add: t_select_def t_upd_def)
qed

lemma t_select_del_other:
  "(\<And>v. (k, v) \<in> set (rows t) \<Longrightarrow> \<not> P k v) \<Longrightarrow> t_select P (t_del k t) = t_select P t"
proof -
  assume c: "\<And>v. (k, v) \<in> set (rows t) \<Longrightarrow> \<not> P k v"
  have "(\<And>v. (k, v) \<in> set xs \<Longrightarrow> \<not> P k v) \<Longrightarrow>
      filter (\<lambda>(a, b). P a b) (filter (\<lambda>(a, b). a \<noteq> k) xs) = filter (\<lambda>(a, b). P a b) xs" for xs
    by (induction xs) auto
  with c show ?thesis by (simp add: t_select_def t_del_def case_prod_unfold)
qed

lemma t_select_add_row: "t_select P (t_add v t) = t_select P t @ (if P (seq t + 1) v then [(seq t + 1, v)] else [])"
  by (simp add: t_select_def)

lemma t_select_distinct: "t_ok t \<Longrightarrow> distinct (map fst (t_select P t))"
  using t_ok_distinct [of t] by (simp add: t_select_def distinct_map_filter)

lemma t_select_le1:
  assumes "t_ok t"
    and "\<And>k v k' v'. (k, v) \<in> set (rows t) \<Longrightarrow> (k', v') \<in> set (rows t) \<Longrightarrow> P k v \<Longrightarrow> P k' v' \<Longrightarrow> k = k'"
  shows "length (t_select P t) \<le> 1"
  unfolding t_select_def
proof (rule length_filter_le1I)
  show "distinct (rows t)" using t_ok_distinct [OF assms(1)] by (simp add: distinct_map)
next
  fix x y assume xy: "x \<in> set (rows t)" "y \<in> set (rows t)" "case x of (k, v) \<Rightarrow> P k v" "case y of (k, v) \<Rightarrow> P k v"
  then have "fst x = fst y" using assms(2) [of "fst x" "snd x" "fst y" "snd y"] by (simp add: case_prod_unfold)
  then show "x = y" using xy t_ok_distinct [OF assms(1)] by (auto simp: distinct_map inj_on_def)
qed

lemma t_first_select: "t_first P t = (case t_select P t of [] \<Rightarrow> None | x # _ \<Rightarrow> Some x)"
proof -
  have "find Q xs = (case filter Q xs of [] \<Rightarrow> None | x # _ \<Rightarrow> Some x)" for Q :: "int \<times> 'a \<Rightarrow> bool" and xs
    by (induction xs) auto
  then show ?thesis by (simp add: t_first_def t_select_def)
qed

lemma t_get_unique: "t_ok t \<Longrightarrow> t_get t k = Some v \<Longrightarrow> (k, w) \<in> set (rows t) \<Longrightarrow> w = v"
  by (metis option.inject t_get_iff)

lemma t_select_upd_length:
  assumes "t_ok t" "t_get t m = Some v" "\<not> P m v" "P m (f v)"
  shows "length (t_select P (t_upd m f t)) = Suc (length (t_select P t))"
proof -
  have "distinct (map fst xs) \<Longrightarrow> (m, v) \<in> set xs \<Longrightarrow>
      length (filter (\<lambda>(k, v). P k v) (map (\<lambda>(k, v). (k, if k = m then f v else v)) xs)) = Suc (length (filter (\<lambda>(k, v). P k v) xs))" for xs
  proof (induction xs)
    case (Cons x xs)
    obtain a b where x: "x = (a, b)" by (cases x)
    show ?case
    proof (cases "a = m")
      case True
      then have "m \<notin> fst ` set xs" using Cons.prems x by auto
      then have "map (\<lambda>(k, v). (k, if k = m then f v else v)) xs = xs" by (intro map_idI) force
      moreover have "b = v" using Cons.prems x True by (metis fst_conv list.set_map map_of_Cons_code(2) map_of_eq_Some_iff option.inject)
      ultimately show ?thesis using True x assms(3,4) by simp
    qed (use Cons x in auto)
  qed simp
  from this [OF t_ok_distinct [OF assms(1)] t_get_in [OF assms(2)]] show ?thesis
    by (simp add: t_select_def t_upd_def)
qed

lemma t_select_upd_where_same:
  "(\<And>k v. (k, v) \<in> set (rows t) \<Longrightarrow> R k v \<Longrightarrow> \<not> P k v \<and> \<not> P k (f v)) \<Longrightarrow> t_select P (t_upd_where R f t) = t_select P t"
proof -
  assume c: "\<And>k v. (k, v) \<in> set (rows t) \<Longrightarrow> R k v \<Longrightarrow> \<not> P k v \<and> \<not> P k (f v)"
  have "(\<And>k v. (k, v) \<in> set xs \<Longrightarrow> R k v \<Longrightarrow> \<not> P k v \<and> \<not> P k (f v)) \<Longrightarrow>
      filter (\<lambda>(a, b). P a b) (map (\<lambda>(a, b). (a, if R a b then f b else b)) xs) = filter (\<lambda>(a, b). P a b) xs" for xs
  proof (induction xs)
    case (Cons x xs)
    then have "filter (\<lambda>(a, b). P a b) (map (\<lambda>(a, b). (a, if R a b then f b else b)) xs) = filter (\<lambda>(a, b). P a b) xs" by simp
    then show ?case using Cons.prems [of "fst x" "snd x"] by (cases x) auto
  qed simp
  from this [OF c] show ?thesis by (simp add: t_select_def)
qed

lemma t_select_del_where_same:
  "(\<And>k v. (k, v) \<in> set (rows t) \<Longrightarrow> R k v \<Longrightarrow> \<not> P k v) \<Longrightarrow> t_select P (t_del_where R t) = t_select P t"
  by (auto simp: t_select_def intro!: filter_cong)

end
