(* ===== verification/Config_Store.thy ===== *)
theory Config_Store
  imports Prelude "HOL-Library.AList"
begin

text \<open>
  The key-value configuration that \<open>Instance\<close> (\<^verbatim>\<open>lyweb/app/instance/models.py\<close>) and
  \<open>UserProfile\<close> (\<^verbatim>\<open>lyweb/app/account/models.py\<close>) keep as JSON text in one column, with the
  decoded dictionary cached in the object. The text column is represented by the dictionary it
  denotes, NULL and the empty text by \<open>None\<close>. The lemmas show that the cache never disagrees with
  the column and that the three operations implement a plain dictionary.
\<close>

section \<open>JSON values and dictionaries\<close>

datatype json =
    JNull | JBool bool | JInt int | JStr string
  | JList "json list" | JObj "(string \<times> json) list"

type_synonym dict = "(string \<times> json) list"

text \<open>\<open>d[k] = v\<close>, \<open>del d[k]\<close> and \<open>d.get(k, default)\<close>.\<close>

definition d_set :: "string \<Rightarrow> json \<Rightarrow> dict \<Rightarrow> dict" where
  "d_set k v d = AList.update k v d"

definition d_del :: "string \<Rightarrow> dict \<Rightarrow> dict" where
  "d_del k d = AList.delete k d"

definition d_get :: "string \<Rightarrow> json \<Rightarrow> dict \<Rightarrow> json" where
  "d_get k dflt d = (case map_of d k of None \<Rightarrow> dflt | Some v \<Rightarrow> v)"

lemma d_get_set [simp]: "d_get k dflt (d_set k' v d) = (if k = k' then v else d_get k dflt d)"
  by (simp add: d_get_def d_set_def update_conv)

lemma d_get_del [simp]: "d_get k dflt (d_del k' d) = (if k = k' then dflt else d_get k dflt d)"
  by (simp add: d_get_def d_del_def delete_conv)

lemma map_of_d_set: "map_of (d_set k v d) = (map_of d)(k \<mapsto> v)"
  by (simp add: d_set_def update_conv')

lemma map_of_d_del: "map_of (d_del k d) = (map_of d)(k := None)"
  by (simp add: d_del_def delete_conv')

section \<open>The object\<close>

record config_obj =
  co_config :: "dict option"
  co_cache :: dict
  co_updated :: int

text \<open>\<open>json.loads(self.config) if self.config else {}\<close>\<close>

definition loads_config :: "config_obj \<Rightarrow> dict" where
  "loads_config x = (case co_config x of None \<Rightarrow> [] | Some d \<Rightarrow> d)"

text \<open>\<open>get\<close> fills the cache when it is empty; the result is the value and the object.\<close>

definition conf_get :: "string \<Rightarrow> json \<Rightarrow> config_obj \<Rightarrow> json \<times> config_obj" where
  "conf_get name dflt x =
     (let x' = (if co_cache x = [] then x\<lparr>co_cache := loads_config x\<rparr> else x)
      in (d_get name dflt (co_cache x'), x'))"

definition conf_set :: "int \<Rightarrow> string \<Rightarrow> json \<Rightarrow> config_obj \<Rightarrow> config_obj" where
  "conf_set now item value x =
     (let config = d_set item value (loads_config x)
      in x\<lparr>co_config := Some config, co_cache := config, co_updated := now\<rparr>)"

definition conf_delete :: "int \<Rightarrow> string \<Rightarrow> config_obj \<Rightarrow> config_obj" where
  "conf_delete now item x =
     (let config = loads_config x in
      if map_of config item \<noteq> None then
        let config' = d_del item config
        in x\<lparr>co_config := Some config', co_cache := config', co_updated := now\<rparr>
      else x)"

section \<open>The contract and its clients\<close>

text \<open>
  A configuration store as its users see it: an abstract dictionary, which \<open>get\<close> reads without
  changing it and \<open>set\<close> and \<open>delete\<close> change at one key.
\<close>

locale config_store =
  fixes get :: "string \<Rightarrow> json \<Rightarrow> 's \<Rightarrow> json \<times> 's"
    and set :: "int \<Rightarrow> string \<Rightarrow> json \<Rightarrow> 's \<Rightarrow> 's"
    and delete :: "int \<Rightarrow> string \<Rightarrow> 's \<Rightarrow> 's"
    and abs :: "'s \<Rightarrow> string \<Rightarrow> json option"
    and ok :: "'s \<Rightarrow> bool"
  assumes get_val: "ok s \<Longrightarrow> fst (get k d s) = (case abs s k of None \<Rightarrow> d | Some v \<Rightarrow> v)"
    and get_abs: "ok s \<Longrightarrow> abs (snd (get k d s)) = abs s"
    and set_abs: "ok s \<Longrightarrow> abs (set n k v s) = (abs s)(k \<mapsto> v)"
    and delete_abs: "ok s \<Longrightarrow> abs (delete n k s) = (abs s)(k := None)"
    and get_ok: "ok s \<Longrightarrow> ok (snd (get k d s))"
    and set_ok: "ok s \<Longrightarrow> ok (set n k v s)"
    and delete_ok: "ok s \<Longrightarrow> ok (delete n k s)"
begin

lemma get_after_set: "ok s \<Longrightarrow> fst (get k' d (set n k v s)) = (if k' = k then v else fst (get k' d s))"
  by (simp add: get_val set_ok set_abs)

lemma get_after_delete: "ok s \<Longrightarrow> fst (get k' d (delete n k s)) = (if k' = k then d else fst (get k' d s))"
  by (simp add: get_val delete_ok delete_abs)

lemma get_after_get: "ok s \<Longrightarrow> fst (get k' d' (snd (get k d s))) = fst (get k' d' s)"
  by (simp add: get_val get_ok get_abs)

text \<open>A sequence of operations, and the dictionary it computes.\<close>

fun run :: "(string \<times> json option) list \<Rightarrow> 's \<Rightarrow> 's" where
  "run [] s = s"
| "run ((k, Some v) # ops) s = run ops (set 0 k v s)"
| "run ((k, None) # ops) s = run ops (delete 0 k s)"

lemma run_ok_abs:
  "ok s \<Longrightarrow> ok (run ops s) \<and> abs (run ops s) = foldl (\<lambda>m (k, v). m(k := v)) (abs s) ops"
proof (induction ops s rule: run.induct)
  case (2 k v ops s)
  then show ?case using set_ok [OF 2(2), of 0 k v] by (simp add: set_abs)
next
  case (3 k ops s)
  then show ?case using delete_ok [OF 3(2), of 0 k] by (simp add: delete_abs)
qed simp

end

text \<open>The cache is empty or the decoded column.\<close>

definition config_ok :: "config_obj \<Rightarrow> bool" where
  "config_ok x \<longleftrightarrow> co_cache x = [] \<or> co_cache x = loads_config x"

definition config_map :: "config_obj \<Rightarrow> string \<Rightarrow> json option" where
  "config_map x = map_of (loads_config x)"

interpretation co: config_store conf_get conf_set conf_delete config_map config_ok
proof unfold_locales
  fix s k d v n
  assume ok: "config_ok s"
  show "fst (conf_get k d s) = (case config_map s k of None \<Rightarrow> d | Some v \<Rightarrow> v)"
    using ok by (auto simp: conf_get_def config_ok_def config_map_def d_get_def Let_def loads_config_def)
  show "config_map (snd (conf_get k d s)) = config_map s"
    by (simp add: conf_get_def config_map_def Let_def loads_config_def)
  show "config_map (conf_set n k v s) = (config_map s)(k \<mapsto> v)"
    by (simp add: conf_set_def config_map_def Let_def loads_config_def map_of_d_set)
  show "config_map (conf_delete n k s) = (config_map s)(k := None)"
    by (auto simp: conf_delete_def config_map_def Let_def loads_config_def map_of_d_del fun_eq_iff)
  show "config_ok (snd (conf_get k d s))" "config_ok (conf_set n k v s)"
    using ok by (auto simp: conf_get_def conf_set_def config_ok_def Let_def loads_config_def)
  show "config_ok (conf_delete n k s)"
    using ok by (auto simp: conf_delete_def config_ok_def Let_def loads_config_def)
qed

section \<open>Properties\<close>

text \<open>
  C17. The cached configuration object refines a dictionary: from an object whose cache agrees with
  its column, after any sequence of \<open>set\<close> and \<open>delete\<close> the cache still agrees with the column,
  and \<open>get\<close> returns for every key the last value set, or the default after a deletion.
\<close>

theorem config_refines_dict:
  assumes "config_ok x"
  shows "config_ok (co.run ops x) \<and>
    fst (conf_get k d (co.run ops x)) =
      (case foldl (\<lambda>m (k, v). m(k := v)) (config_map x) ops k of None \<Rightarrow> d | Some v \<Rightarrow> v)"
  using co.run_ok_abs [OF assms, of ops] co.get_val [of "co.run ops x" k d] by simp

theorem config_refines_dict_witness:
  "fst (conf_get ''storage'' JNull
      (co.run [(''storage'', Some (JInt 5)), (''domain'', Some (JStr ''a'')), (''storage'', None)]
         \<lparr>co_config = None, co_cache = [], co_updated = 0\<rparr>)) = JNull"
  using config_refines_dict [of "\<lparr>co_config = None, co_cache = [], co_updated = 0\<rparr>"
      "[(''storage'', Some (JInt 5)), (''domain'', Some (JStr ''a'')), (''storage'', None)]"
      "''storage''" JNull]
  by (simp add: config_ok_def)

end
