(* ===== verification/Schema.thy ===== *)
theory Schema
  imports Orm Config_Store
begin

text \<open>
  The data of the web application: one record per model class of \<^verbatim>\<open>lyweb/app/*/models.py\<close>,
  the columns as fields, and the database as the record of its tables. A nullable column is an
  option; the primary key is the key of the row in its table. Times are seconds. A many-to-many
  relation (\<open>User.groups\<close>, \<open>Group.permissions\<close>) is the list of the keys it relates; JSON text
  columns hold the value they denote. Columns that no modelled operation reads or writes (like
  counters, descriptions of catalogues) are left out.
\<close>

section \<open>Accounts (auth, account, registration)\<close>

record user =
  u_username :: string
  u_password :: string
  u_email :: "string option"
  u_email_valid :: bool
  u_nickname :: "string option"
  u_first_name :: "string option"
  u_last_name :: "string option"
  u_is_locked :: bool
  u_notice :: int
  u_language_id :: "int option"
  u_last_active :: "int option"
  u_last_login :: "int option"
  u_groups :: "int list"

record group =
  g_name :: string
  g_description :: "string option"
  g_islocked :: bool
  g_permissions :: "int list"

record permission =
  p_name :: string
  p_codename :: string

record profile =
  pf_user_id :: int
  pf_cpu :: int
  pf_memory :: int
  pf_storage :: int
  pf_instance :: int
  pf_bandwidth :: int
  pf_rx :: int
  pf_tx :: int
  pf_port :: int
  pf_vlan :: int
  pf_domain :: int
  pf_config :: "dict option"

record resource =
  r_user_id :: int
  r_type :: int
  r_size :: int
  r_effect_date :: int
  r_expired_date :: int

record public_key =
  k_user_id :: int
  k_name :: string
  k_data :: string
  k_isdefault :: bool

record resetpass =
  rp_user_id :: int
  rp_key :: string
  rp_created :: int

record auth_key =
  ak_auth_key :: string
  ak_auth_data :: string
  ak_expire_date :: int

record openid =
  oi_user_id :: "int option"
  oi_openid :: string
  oi_type :: int
  oi_config :: "dict option"

record reg_apply =
  ra_email :: string
  ra_key :: string
  ra_created :: int

record websession =
  ws_session_key :: string
  ws_session_data :: string
  ws_expire_date :: int

section \<open>Instances and what they own\<close>

record instance_row =
  i_name :: string
  i_key :: "string option"
  i_summary :: "string option"
  i_description :: "string option"
  i_cpus :: int
  i_memory :: int
  i_vdi_port :: int
  i_user_id :: int
  i_appliance_id :: int
  i_node_id :: "int option"
  i_ip :: "string option"
  i_status :: int
  i_config :: "dict option"
  i_secret_config :: "dict option"
  i_isprivate :: bool
  i_ischanged :: bool
  i_created :: int
  i_updated :: int

record appliance =
  a_name :: string
  a_summary :: "string option"
  a_description :: "string option"
  a_os :: int
  a_user_id :: int
  a_catalog_id :: "int option"
  a_filesize :: int
  a_checksum :: string
  a_islocked :: bool
  a_isuseable :: bool
  a_isprivate :: bool

record catalog =
  ac_name :: string
  ac_summary :: string
  ac_description :: string
  ac_position :: int

record screenshot =
  sc_appliance_id :: "int option"
  sc_filename :: string
  sc_size :: int
  sc_checksum :: string

record networkpool =
  n_name :: string
  n_description :: "string option"
  n_start :: string
  n_end :: string
  n_netmask :: string
  n_gateway :: string
  n_nameservers :: string
  n_exclude_ips :: string

record ippool =
  ip_ip :: string
  ip_network_id :: int
  ip_instance_id :: "int option"
  ip_updated :: int

record gateway =
  gw_name :: string
  gw_description :: "string option"
  gw_ip :: string
  gw_netmask :: string
  gw_start :: int
  gw_end :: int
  gw_exclude_ports :: string

record port_mapping =
  pm_gateway_port :: int
  pm_gateway_id :: int
  pm_ip_port :: "int option"
  pm_ip_id :: "int option"

record storagepool =
  sp_name :: string
  sp_total :: int
  sp_used :: int

record storage_row =
  st_size :: int
  st_pool_id :: int
  st_instance_id :: int

record user_domain =
  ud_domain :: string
  ud_user_id :: int
  ud_instance_id :: int

record node =
  nd_hostname :: string
  nd_ip :: string
  nd_isenable :: bool
  nd_memory :: int
  nd_cpus :: int
  nd_vmemory :: "int option"
  nd_vcpus :: "int option"

record job =
  j_user_id :: int
  j_status :: int
  j_target_type :: int
  j_target_id :: int
  j_action :: int
  j_created :: int

record message =
  m_reply_id :: "int option"
  m_sender_id :: int
  m_receiver_id :: "int option"
  m_text_id :: int
  m_isinbox :: bool
  m_isread :: bool
  m_readtime :: "int option"

record message_text =
  mt_subject :: string
  mt_body :: string

record trace =
  tr_who_id :: int
  tr_target_type :: int
  tr_target_id :: int
  tr_do :: string

section \<open>The database\<close>

record db =
  users :: "user table"
  groups :: "group table"
  permissions :: "permission table"
  profiles :: "profile table"
  resources :: "resource table"
  public_keys :: "public_key table"
  resetpasses :: "resetpass table"
  auth_keys :: "auth_key table"
  openids :: "openid table"
  reg_applies :: "reg_apply table"
  websessions :: "websession table"
  instances :: "instance_row table"
  appliances :: "appliance table"
  catalogs :: "catalog table"
  screenshots :: "screenshot table"
  networkpools :: "networkpool table"
  ippools :: "ippool table"
  gateways :: "gateway table"
  port_mappings :: "port_mapping table"
  storagepools :: "storagepool table"
  storages :: "storage_row table"
  user_domains :: "user_domain table"
  nodes :: "node table"
  jobs :: "job table"
  messages :: "message table"
  message_texts :: "message_text table"
  site_configs :: "(string \<times> string) list"
  traces :: "trace table"

definition db_empty :: db where
  "db_empty = \<lparr>users = t_empty, groups = t_empty, permissions = t_empty, profiles = t_empty,
     resources = t_empty, public_keys = t_empty, resetpasses = t_empty, auth_keys = t_empty, openids = t_empty,
     reg_applies = t_empty, websessions = t_empty, instances = t_empty, appliances = t_empty, catalogs = t_empty, screenshots = t_empty,
     networkpools = t_empty, ippools = t_empty, gateways = t_empty, port_mappings = t_empty,
     storagepools = t_empty, storages = t_empty, user_domains = t_empty, nodes = t_empty,
     jobs = t_empty, messages = t_empty, message_texts = t_empty, site_configs = [], traces = t_empty\<rparr>"

text \<open>Every table is well formed.\<close>

definition db_ok :: "db \<Rightarrow> bool" where
  "db_ok d \<longleftrightarrow> t_ok (users d) \<and> t_ok (groups d) \<and> t_ok (permissions d) \<and> t_ok (profiles d) \<and>
     t_ok (resources d) \<and> t_ok (public_keys d) \<and> t_ok (resetpasses d) \<and> t_ok (auth_keys d) \<and> t_ok (openids d) \<and>
     t_ok (reg_applies d) \<and> t_ok (websessions d) \<and> t_ok (instances d) \<and> t_ok (appliances d) \<and> t_ok (catalogs d) \<and> t_ok (screenshots d) \<and>
     t_ok (networkpools d) \<and> t_ok (ippools d) \<and> t_ok (gateways d) \<and> t_ok (port_mappings d) \<and>
     t_ok (storagepools d) \<and> t_ok (storages d) \<and> t_ok (user_domains d) \<and> t_ok (nodes d) \<and>
     t_ok (jobs d) \<and> t_ok (messages d) \<and> t_ok (message_texts d) \<and> t_ok (traces d)"

section \<open>Relations between the tables\<close>

text \<open>The \<open>backref\<close> lists, ordered by key.\<close>

definition ips_of :: "db \<Rightarrow> int \<Rightarrow> (int \<times> ippool) list" where
  "ips_of d iid = t_select (\<lambda>_ v. ip_instance_id v = Some iid) (ippools d)"

definition storages_of :: "db \<Rightarrow> int \<Rightarrow> (int \<times> storage_row) list" where
  "storages_of d iid = t_select (\<lambda>_ v. st_instance_id v = iid) (storages d)"

definition domains_of :: "db \<Rightarrow> int \<Rightarrow> (int \<times> user_domain) list" where
  "domains_of d iid = t_select (\<lambda>_ v. ud_instance_id v = iid) (user_domains d)"

definition instances_of :: "db \<Rightarrow> int \<Rightarrow> (int \<times> instance_row) list" where
  "instances_of d uid = t_select (\<lambda>_ v. i_user_id v = uid) (instances d)"

definition resources_of :: "db \<Rightarrow> int \<Rightarrow> (int \<times> resource) list" where
  "resources_of d uid = t_select (\<lambda>_ v. r_user_id v = uid) (resources d)"

definition keys_of :: "db \<Rightarrow> int \<Rightarrow> (int \<times> public_key) list" where
  "keys_of d uid = t_select (\<lambda>_ v. k_user_id v = uid) (public_keys d)"

text \<open>\<open>User.profile\<close> (\<open>uselist=False\<close>): the first profile row of the user.\<close>

definition profile_of :: "db \<Rightarrow> int \<Rightarrow> profile option" where
  "profile_of d uid = map_option snd (t_first (\<lambda>_ v. pf_user_id v = uid) (profiles d))"

lemmas relation_defs =
  ips_of_def storages_of_def domains_of_def instances_of_def resources_of_def keys_of_def
  profile_of_def

end
