(* ===== verification/Web.thy ===== *)
theory Web
  imports Schema
begin

text \<open>
  The request handler base class (\<^verbatim>\<open>lyweb/lycustom.py\<close>): arguments, permissions, the login
  session, and the password routines of \<^verbatim>\<open>lyweb/app/auth/utils.py\<close>. A handler is a function
  from the request context and the session to a response and the session. Hashing, base64 and
  pickling are the standard library's: they are a record of functions, and \<open>codec_ok\<close> states what
  the code relies on.
\<close>

section \<open>Requests and responses\<close>

text \<open>
  \<open>c_domain\<close> is what the process holds as \<open>get_runtime_data('domain')\<close>, decoded
  (\<open>None\<close> when it is not set or does not decode); a missing key prints as \<open>None\<close>.
\<close>

record domain_conf =
  dc_topdomain :: "string option"
  dc_prefix :: "string option"
  dc_suffix :: "string option"

record ctx =
  c_user :: "int option"
  c_args :: "(string \<times> string) list"
  c_post :: bool
  c_now :: int
  c_domain :: "domain_conf option"

text \<open>
  \<open>Write\<close> carries the text (a format string and the integers it is filled with), \<open>Render\<close> a
  template, \<open>RenderErr\<close> the form shown again with an error at a field, \<open>Redirect\<close> the name of a
  route and its \<open>id\<close>; \<open>Login\<close> is the redirection to the login page, \<open>NoPermission\<close> that to the
  no-permission page, \<open>NoResource\<close> that to the no-resource page, \<open>Raise\<close> an uncaught exception.
\<close>

datatype resp =
    Write string "int list"
  | Render string
  | RenderErr string string
  | Redirect string "int option"
  | Login
  | NoPermission string
  | NoResource
  | Raise pyexn

type_synonym 'd handler = "ctx \<Rightarrow> 'd session \<Rightarrow> resp \<times> 'd session"

definition get_argument :: "ctx \<Rightarrow> string \<Rightarrow> string option" where
  "get_argument c key = map_option strip (map_of (c_args c) key)"

definition get_int :: "string \<Rightarrow> int option \<Rightarrow> int option" where
  "get_int value dflt = (case py_int value of None \<Rightarrow> dflt | Some n \<Rightarrow> Some n)"

definition get_argument_int :: "ctx \<Rightarrow> string \<Rightarrow> int option \<Rightarrow> int option" where
  "get_argument_int c key dflt =
     (case get_argument c key of None \<Rightarrow> dflt | Some value \<Rightarrow> get_int value dflt)"

section \<open>Permissions\<close>

text \<open>The code names of all permissions of all groups of a user, in the order of the two loops.\<close>

definition group_codenames :: "db \<Rightarrow> int \<Rightarrow> string list" where
  "group_codenames d gid =
     (case t_get (groups d) gid of
        None \<Rightarrow> []
      | Some g \<Rightarrow> map p_codename (List.map_filter (t_get (permissions d)) (g_permissions g)))"

definition user_codenames :: "db \<Rightarrow> int \<Rightarrow> string list" where
  "user_codenames d uid =
     (case t_get (users d) uid of
        None \<Rightarrow> []
      | Some u \<Rightarrow> concat (map (group_codenames d) (u_groups u)))"

definition grants :: "string \<Rightarrow> string list \<Rightarrow> bool" where
  "grants perm codes = list_ex (\<lambda>p. p = perm \<or> p = ''admin'') codes"

text \<open>
  The method \<open>has_permission(perm, user=None)\<close>: the argument \<open>user\<close> only decides whether
  there is a user at all; the groups are those of the current user.
\<close>

definition has_permission :: "db \<Rightarrow> int option \<Rightarrow> string \<Rightarrow> int option \<Rightarrow> bool pyres" where
  "has_permission d cur perm user =
     (let u = (case user of None \<Rightarrow> cur | Some x \<Rightarrow> Some x) in
      case u of
        None \<Rightarrow> Inr False
      | Some _ \<Rightarrow>
          (case cur of
             None \<Rightarrow> Inl (AttributeError ''groups'')
           | Some c \<Rightarrow> Inr (grants perm (user_codenames d c))))"

text \<open>The decorators: \<open>None\<close> lets the method run, \<open>Some r\<close> is the response in its place.\<close>

definition authenticated :: "ctx \<Rightarrow> resp option" where
  "authenticated c =
     (case c_user c of
        None \<Rightarrow> Some (if c_post c then Raise (HTTPError 403) else Login)
      | Some _ \<Rightarrow> None)"

definition require_permission :: "string \<Rightarrow> ctx \<Rightarrow> db \<Rightarrow> resp option" where
  "require_permission codename c d =
     (case c_user c of
        None \<Rightarrow> Some (if c_post c then Raise (HTTPError 403) else Login)
      | Some u \<Rightarrow> if grants codename (user_codenames d u) then None else Some (NoPermission codename))"

definition isadmin :: "db \<Rightarrow> int \<Rightarrow> bool" where
  "isadmin d uid = grants ''admin'' (user_codenames d uid)"

lemma has_permission_self [simp]:
  "has_permission d (Some u) ''admin'' None = Inr (isadmin d u)"
  by (simp add: has_permission_def isadmin_def)

text \<open>
  A method under the decorator \<open>@has_permission(codename)\<close> or \<open>@authenticated\<close>, and an
  expression that may raise before the rest of the method runs.
\<close>

definition with_permission :: "string \<Rightarrow> (ctx \<Rightarrow> db session \<Rightarrow> resp \<times> db session) \<Rightarrow> ctx \<Rightarrow> db session \<Rightarrow> resp \<times> db session" where
  "with_permission codename h c s =
     (case require_permission codename c (work s) of Some r \<Rightarrow> (r, s) | None \<Rightarrow> h c s)"

definition with_login :: "(int \<Rightarrow> ctx \<Rightarrow> db session \<Rightarrow> resp \<times> db session) \<Rightarrow> ctx \<Rightarrow> db session \<Rightarrow> resp \<times> db session" where
  "with_login h c s =
     (case c_user c of
        None \<Rightarrow> (if c_post c then Raise (HTTPError 403) else Login, s)
      | Some u \<Rightarrow> h u c s)"

definition on_value :: "'a pyres \<Rightarrow> 's \<Rightarrow> ('a \<Rightarrow> resp \<times> 's) \<Rightarrow> resp \<times> 's" where
  "on_value r s k = (case r of Inl e \<Rightarrow> (Raise e, s) | Inr x \<Rightarrow> k x)"

text \<open>\<open>query(T).get(ID)\<close> with the text of an argument: the database refuses text that is no number.\<close>

definition get_by_arg :: "'a table \<Rightarrow> string \<Rightarrow> (int \<times> 'a) option pyres" where
  "get_by_arg t ID =
     (case py_int ID of
        None \<Rightarrow> Inl ValueError
      | Some k \<Rightarrow> Inr (map_option (Pair k) (t_get t k)))"

lemma on_value_simps [handler_simps, simp]:
  "on_value (Inl e) s k = (Raise e, s)" "on_value (Inr x) s k = k x"
  by (simp_all add: on_value_def)

lemma get_by_arg_Some: "get_by_arg t ID = Inr (Some (k, v)) \<Longrightarrow> t_get t k = Some v"
  by (auto simp: get_by_arg_def split: option.splits)

text \<open>A small database: user 1 is an administrator, user 2 an ordinary user.\<close>

definition user_ex :: "string \<Rightarrow> int list \<Rightarrow> user" where
  "user_ex name gs = \<lparr>u_username = name, u_password = [], u_email = None, u_email_valid = False,
     u_nickname = None, u_first_name = None, u_last_name = None, u_is_locked = False, u_notice = 0,
     u_language_id = None, u_last_active = None, u_last_login = None, u_groups = gs\<rparr>"

definition db_ex :: db where
  "db_ex = db_empty\<lparr>
     users := \<lparr>rows = [(1, user_ex ''root'' [1]), (2, user_ex ''alice'' [])], seq = 2\<rparr>,
     groups := \<lparr>rows = [(1, \<lparr>g_name = ''admin'', g_description = None, g_islocked = True,
                            g_permissions = [1]\<rparr>)], seq = 1\<rparr>,
     permissions := \<lparr>rows = [(1, \<lparr>p_name = ''admin'', p_codename = ''admin''\<rparr>)], seq = 1\<rparr>\<rparr>"

definition ctx_ex :: "int \<Rightarrow> (string \<times> string) list \<Rightarrow> ctx" where
  "ctx_ex u args = \<lparr>c_user = Some u, c_args = args, c_post = True, c_now = 100, c_domain = None\<rparr>"

lemma db_ex_ok: "db_ok db_ex"
  by (simp add: db_ok_def db_ex_def db_empty_def t_ok_def)


section \<open>The standard library routines\<close>

record codec =
  b64enc :: "string \<Rightarrow> string"
  b64dec :: "string \<Rightarrow> string"
  md5hex :: "string \<Rightarrow> string"
  sha512hex :: "string \<Rightarrow> string"
  pdumps :: "int \<Rightarrow> string"
  ploads :: "string \<Rightarrow> int option"

text \<open>
  \<open>decodestring\<close> inverts \<open>encodestring\<close>; an MD5 digest in hexadecimal has 32 characters;
  hexadecimal digests contain no dollar sign; \<open>loads\<close> inverts \<open>dumps\<close> on the session dictionary
  (represented by its \<open>user_id\<close>).
\<close>

definition codec_ok :: "codec \<Rightarrow> bool" where
  "codec_ok k \<longleftrightarrow> (\<forall>s. b64dec k (b64enc k s) = s) \<and> (\<forall>s. length (md5hex k s) = 32) \<and>
     (\<forall>s. CHR ''$'' \<notin> set (md5hex k s)) \<and> (\<forall>s. CHR ''$'' \<notin> set (sha512hex k s)) \<and>
     (\<forall>n. ploads k (pdumps k n) = Some n)"

section \<open>Login sessions\<close>

text \<open>\<open>AccountRequestHandler.save_session\<close> (\<^verbatim>\<open>app/account/views.py\<close>) with the random session
  key as input; a session lives 30 days.\<close>

definition save_session :: "codec \<Rightarrow> string \<Rightarrow> string \<Rightarrow> int \<Rightarrow> int \<Rightarrow> db session \<Rightarrow> db session" where
  "save_session k sk session_key now user_id s =
     (let pickled = pdumps k user_id;
          pickled_md5 = md5hex k (pickled @ sk);
          session_data = b64enc k (pickled @ pickled_md5)
      in commit (modify (websessions_update (t_add
           \<lparr>ws_session_key = session_key, ws_session_data = session_data,
            ws_expire_date = now + 30 * 24 * 3600\<rparr>)) s))"

definition delete_session :: "string \<Rightarrow> db session \<Rightarrow> db session pyres" where
  "delete_session session_key s =
     (case t_first (\<lambda>_ v. ws_session_key v = session_key) (websessions (work s)) of
        None \<Rightarrow> Inl TypeError
      | Some (k, _) \<Rightarrow> Inr (commit (modify (websessions_update (t_del k)) s)))"

text \<open>
  \<open>get_current_user\<close>: with several rows of the key the local variable \<open>session\<close> is unbound.
  The time of the last activity is set in the working state only.
\<close>

definition get_current_user ::
  "codec \<Rightarrow> string \<Rightarrow> string \<Rightarrow> int \<Rightarrow> db session \<Rightarrow> (int option \<times> db session) pyres" where
  "get_current_user k sk cookie now s =
     (case t_select (\<lambda>_ v. ws_session_key v = cookie) (websessions (work s)) of
        [] \<Rightarrow> Inr (None, s)
      | _ # _ # _ \<Rightarrow> Inl (NameError ''session'')
      | [(_, session)] \<Rightarrow>
          if ws_expire_date session < now then Inr (None, s)
          else
            let encoded = b64dec k (ws_session_data session);
                n = length encoded - 32;
                pickled = take n encoded;
                tamper_check = drop n encoded
            in if md5hex k (pickled @ sk) \<noteq> tamper_check then Inr (None, s)
               else
                 let uid = (case ploads k pickled of None \<Rightarrow> 0 | Some u \<Rightarrow> u)
                 in case t_get (users (work s)) uid of
                      None \<Rightarrow> Inr (None, s)
                    | Some u \<Rightarrow>
                        if u_is_locked u then Inr (None, s)
                        else Inr (Some uid, modify (users_update
                               (t_upd uid (u_last_active_update (\<lambda>_. Some now)))) s))"

section \<open>Passwords (app/auth/utils.py)\<close>

definition encrypt_password :: "codec \<Rightarrow> string \<Rightarrow> string \<Rightarrow> string" where
  "encrypt_password k salt raw = sha512hex k (salt @ raw)"

text \<open>\<open>rnd\<close> is \<open>str(random.random())\<close>.\<close>

definition enc_login_passwd :: "codec \<Rightarrow> string \<Rightarrow> string \<Rightarrow> string" where
  "enc_login_passwd k rnd plaintext =
     (let salt = take 12 (md5hex k rnd); hsh = encrypt_password k salt plaintext
      in salt @ ''$'' @ hsh)"

definition check_login_passwd :: "codec \<Rightarrow> string \<Rightarrow> string \<Rightarrow> bool" where
  "check_login_passwd k raw enc =
     (case split_on CHR ''$'' enc of
        [salt, hsh] \<Rightarrow> hsh = encrypt_password k salt raw
      | _ \<Rightarrow> False)"

section \<open>Helper lemmas\<close>

lemma salt_no_dollar: "codec_ok k \<Longrightarrow> CHR ''$'' \<notin> set (take 12 (md5hex k rnd))"
  unfolding codec_ok_def using in_set_takeD by metis

lemma split_enc_login:
  assumes "codec_ok k"
  shows "split_on CHR ''$'' (enc_login_passwd k rnd p)
    = [take 12 (md5hex k rnd), encrypt_password k (take 12 (md5hex k rnd)) p]"
proof -
  have "CHR ''$'' \<notin> set (encrypt_password k (take 12 (md5hex k rnd)) p)"
    using assms by (simp add: codec_ok_def encrypt_password_def)
  then show ?thesis
    using salt_no_dollar [OF assms, of rnd]
    by (simp add: enc_login_passwd_def Let_def split_on_append_sep split_on_no_sep)
qed

lemma t_select_add:
  "t_select P (t_add v t) = t_select P t @ (if P (seq t + 1) v then [(seq t + 1, v)] else [])"
  by (simp add: t_select_def)

section \<open>Properties\<close>

text \<open>
  A password that was encrypted for the login is accepted with its plain text and with no other
  text whose salted digest differs; an encrypted password without exactly one dollar sign is never
  accepted.
\<close>

theorem check_login_passwd_correct:
  assumes "codec_ok k"
  shows "check_login_passwd k p (enc_login_passwd k rnd p)
    \<and> (check_login_passwd k q (enc_login_passwd k rnd p)
      \<longleftrightarrow> sha512hex k (take 12 (md5hex k rnd) @ q) = sha512hex k (take 12 (md5hex k rnd) @ p))
    \<and> (length (split_on CHR ''$'' enc) \<noteq> 2 \<longrightarrow> \<not> check_login_passwd k q enc)"
  using split_enc_login [OF assms, of rnd p]
  by (auto simp: check_login_passwd_def encrypt_password_def split: list.splits)

text \<open>A codec for the witnesses: identity encodings and constant digests.\<close>

definition codec_ex :: codec where
  "codec_ex = \<lparr>b64enc = id, b64dec = id, md5hex = (\<lambda>s. replicate 32 CHR ''a''),
     sha512hex = (\<lambda>s. filter (\<lambda>c. c \<noteq> CHR ''$'') s),
     pdumps = (\<lambda>n. replicate (nat \<bar>n\<bar>) CHR ''x'' @ (if n < 0 then ''-'' else '''')),
     ploads = (\<lambda>s. Some (if CHR ''-'' \<in> set s then 1 - int (length s) else int (length s)))\<rparr>"

lemma codec_ex_ok: "codec_ok codec_ex"
  by (auto simp: codec_ok_def codec_ex_def)

theorem check_login_passwd_correct_witness:
  "check_login_passwd codec_ex ''secret'' (enc_login_passwd codec_ex ''0.5'' ''secret'')
   \<and> \<not> check_login_passwd codec_ex ''other'' (enc_login_passwd codec_ex ''0.5'' ''secret'')
   \<and> \<not> check_login_passwd codec_ex ''x'' ''a$b$c''"
  using check_login_passwd_correct [OF codec_ex_ok, of "''secret''" "''0.5''" "''other''" "[]"]
    check_login_passwd_correct [OF codec_ex_ok, of "''secret''" "''0.5''" "''x''" "''a$b$c''"]
  by (simp add: codec_ex_def)

text \<open>
  Session round trip. After \<open>save_session\<close> with a key that no other session has, a request
  that presents the key is that of the user for the next 30 days, unless the account was locked or
  deleted; afterwards, or when the stored digest does not match the stored data and the secret, it is
  anonymous.
\<close>

theorem session_roundtrip:
  assumes "codec_ok k"
    and "\<forall>(_, v) \<in> set (rows (websessions (work s))). ws_session_key v \<noteq> key"
    and "t_get (users (work s)) uid = Some u"
  shows "map_sum id fst (get_current_user k sk key now' (save_session k sk key now uid s)) =
    Inr (if now' \<le> now + 30 * 24 * 3600 \<and> \<not> u_is_locked u then Some uid else None)
    \<and> (\<forall>dat exp. md5hex k (take (length (b64dec k dat) - 32) (b64dec k dat) @ sk)
           \<noteq> drop (length (b64dec k dat) - 32) (b64dec k dat) \<longrightarrow>
         map_sum id fst (get_current_user k sk key now' (modify (websessions_update (t_add
           \<lparr>ws_session_key = key, ws_session_data = dat, ws_expire_date = exp\<rparr>)) s)) = Inr None)"
proof -
  have "t_select (\<lambda>_ v. ws_session_key v = key) (websessions (work s)) = []"
    using assms(2) by (auto simp: t_select_def filter_empty_conv)
  then show ?thesis
    using assms(1,3)
    by (simp add: get_current_user_def save_session_def Let_def t_select_add codec_ok_def)
qed

theorem session_roundtrip_witness:
  "map_sum id fst (get_current_user codec_ex ''sk'' ''key'' 200
     (save_session codec_ex ''sk'' ''key'' 100 1 (open_session (db_empty\<lparr>users := t_add
        \<lparr>u_username = ''bob'', u_password = [], u_email = None, u_email_valid = False,
         u_nickname = None, u_first_name = None, u_last_name = None, u_is_locked = False,
         u_notice = 0, u_language_id = None, u_last_active = None, u_last_login = None,
         u_groups = []\<rparr> t_empty\<rparr>)))) = Inr (Some 1)"
  using session_roundtrip [OF codec_ex_ok, of "open_session (db_empty\<lparr>users := t_add
        \<lparr>u_username = ''bob'', u_password = [], u_email = None, u_email_valid = False,
         u_nickname = None, u_first_name = None, u_last_name = None, u_is_locked = False,
         u_notice = 0, u_language_id = None, u_last_active = None, u_last_login = None,
         u_groups = []\<rparr> t_empty\<rparr>)" "''key''" 1 _ "''sk''" 200 100]
  by (simp add: db_empty_def t_get_def)

end
