(* ===== verification/Job.thy ===== *)
theory Job
  imports Web
begin

text \<open>
  Jobs (\<^verbatim>\<open>lyweb/app/job/models.py\<close>, the constants of \<^verbatim>\<open>lyweb/settings.py\<close>): the numeric job
  and action codes, the tests on a job's status and the classification its icon shows. The job
  status moves from initialised through the running range to a finished, timed-out or cancelled
  one; the control server writes it, the handlers only read it and create jobs.
\<close>

section \<open>Codes (settings.py)\<close>

definition JOB_S_INITIATED :: int where "JOB_S_INITIATED = 100"
definition JOB_S_FAILED :: int where "JOB_S_FAILED = 311"
definition INSTANCE_DELETED_STATUS :: int where "INSTANCE_DELETED_STATUS = 100"
definition TARGET_NODE :: int where "TARGET_NODE = 3"
definition TARGET_INSTANCE :: int where "TARGET_INSTANCE = 4"
definition TARGET_APPLIANCE :: int where "TARGET_APPLIANCE = 5"
definition TARGET_IP :: int where "TARGET_IP = 6"
definition ENABLE_NODE :: int where "ENABLE_NODE = 102"
definition DISABLE_NODE :: int where "DISABLE_NODE = 103"
definition UPDATE_NODE :: int where "UPDATE_NODE = 104"
definition RUN_INSTANCE :: int where "RUN_INSTANCE = 201"
definition STOP_INSTANCE :: int where "STOP_INSTANCE = 202"
definition REBOOT_INSTANCE :: int where "REBOOT_INSTANCE = 205"
definition DESTROY_INSTANCE :: int where "DESTROY_INSTANCE = 206"
definition QUERY_INSTANCE :: int where "QUERY_INSTANCE = 207"

lemmas code_defs =
  JOB_S_INITIATED_def JOB_S_FAILED_def INSTANCE_DELETED_STATUS_def TARGET_NODE_def
  TARGET_INSTANCE_def TARGET_APPLIANCE_def TARGET_IP_def ENABLE_NODE_def DISABLE_NODE_def
  UPDATE_NODE_def RUN_INSTANCE_def STOP_INSTANCE_def REBOOT_INSTANCE_def DESTROY_INSTANCE_def
  QUERY_INSTANCE_def

section \<open>The model class\<close>

definition JOB_STATUS_STR :: "(int \<times> string) list" where
  "JOB_STATUS_STR = [
     (0, ''unknown''), (100, ''action initialized''),
     (200, ''running''), (201, ''searching for node server''),
     (202, ''sending request to node server''),
     (210, ''waiting for resource available on node server''),
     (211, ''downloading appliance image''), (212, ''checking appliance image''),
     (213, ''creating instance disk file''), (214, ''mounting instance disk file''),
     (215, ''configuring instance''), (216, ''unmounting instance disk file''),
     (221, ''starting instance virtual machine''), (250, ''stopping instance virtual machine''),
     (259, ''virtual machine stopped''), (299, ''Last Running Status''),
     (300, ''finished''), (301, ''finished successfully''), (302, ''instance running already''),
     (303, ''instance not running''), (304, ''instance not exist''), (311, ''failed''),
     (321, ''node server not available''), (322, ''node server busy''),
     (323, ''original node server is not enable''), (331, ''appliance download error''),
     (332, ''appliance error''), (399, ''Last Finish Status''),
     (400, ''waiting''), (411, ''starting OS manager''), (412, ''syncing with OS manager''),
     (421, ''checking instance status''), (499, ''Last Waiting Status''),
     (500, ''pending''), (600, ''timeout''),
     (700, ''cancel''), (701, ''Internal Error''), (702, ''work started already''),
     (703, ''node/instance busy''), (711, ''request cancelled''), (799, ''Last Cancel Status'')]"

definition JOB_ACTION_STR :: "(int \<times> string) list" where
  "JOB_ACTION_STR = [
     (102, ''enable node''), (103, ''disable node''), (104, ''update node configure''),
     (201, ''run''), (202, ''stop''), (205, ''reboot''), (206, ''destroy''), (207, ''query'')]"

definition JOB_TARGET_NAME :: "(int \<times> string) list" where
  "JOB_TARGET_NAME = [(3, ''NODE''), (4, ''INSTANCE'')]"

text \<open>\<open>Job.__init__\<close>; the status column has the default \<open>JOB_S_INITIATED\<close>.\<close>

definition new_job :: "int \<Rightarrow> int \<Rightarrow> int \<Rightarrow> int \<Rightarrow> int \<Rightarrow> job" where
  "new_job now uid target_type target_id action =
     \<lparr>j_user_id = uid, j_status = JOB_S_INITIATED, j_target_type = target_type,
      j_target_id = target_id, j_action = action, j_created = now\<rparr>"

definition str_get :: "int \<Rightarrow> string \<Rightarrow> (int \<times> string) list \<Rightarrow> string" where
  "str_get k dflt tbl = (case map_of tbl k of None \<Rightarrow> dflt | Some s \<Rightarrow> s)"

definition job_target_name :: "job \<Rightarrow> string" where
  "job_target_name j = str_get (j_target_type j) ''Unknown'' JOB_TARGET_NAME"

definition job_action_string :: "job \<Rightarrow> string" where
  "job_action_string j = str_get (j_action j) ''Unknown'' JOB_ACTION_STR"

definition job_status_string :: "job \<Rightarrow> string" where
  "job_status_string j = str_get (j_status j) ''Unknown'' JOB_STATUS_STR"

definition completed :: "job \<Rightarrow> bool" where
  "completed j = ((300 \<le> j_status j \<and> j_status j < 400) \<or> j_status j \<ge> 600)"

definition canstop :: "job \<Rightarrow> bool" where
  "canstop j = (j_status j \<ge> 300)"

definition waiting :: "job \<Rightarrow> bool" where
  "waiting j = (400 \<le> j_status j \<and> j_status j < 500)"

text \<open>The colour and class of \<open>status_icon\<close>.\<close>

definition job_status_icon :: "job \<Rightarrow> string \<times> string" where
  "job_status_icon j =
     (let s = j_status j in
      if s = 0 then (''#FFCC33'', ''icon-exclamation-sign'')
      else if (100 \<le> s \<and> s < 300) \<or> (400 \<le> s \<and> s \<le> 499) then (''#99CCFF'', ''icon-spinner icon-spin'')
      else if 300 \<le> s \<and> s < 302 then (''#66CC00'', ''icon-ok-sign'')
      else if (302 \<le> s \<and> s < 311) \<or> (500 \<le> s \<and> s < 799) then (''red'', ''icon-warning-sign'')
      else if s = 311 \<or> s = 701 then (''red'', ''icon-remove-sign'')
      else (''red'', ''icon-exclamation-sign''))"

text \<open>\<open>target_url\<close>: the link of the target where it still exists, \<open>None\<close> for the bare number.\<close>

definition job_target_url :: "db \<Rightarrow> job \<Rightarrow> (string \<times> int) option" where
  "job_target_url d j =
     (if j_target_type j = 3 \<and> t_get (nodes d) (j_target_id j) \<noteq> None
      then Some (''/admin/node?action=view'', j_target_id j)
      else if j_target_type j = 4 \<and> t_get (instances d) (j_target_id j) \<noteq> None
      then Some (''/admin/instance/view'', j_target_id j)
      else None)"

section \<open>Properties\<close>

text \<open>
  The status tests agree: a completed job can be stopped over, a waiting one can be stopped and
  is not completed, no job is both spinning in the icon and completed, and every status between 300
  and 799 that the table of status texts knows is completed, waiting or pending (500).
\<close>

theorem job_status_classes:
  "(completed j \<longrightarrow> canstop j \<and> \<not> waiting j) \<and>
   (waiting j \<longrightarrow> canstop j \<and> \<not> completed j) \<and>
   (snd (job_status_icon j) = ''icon-spinner icon-spin'' \<longrightarrow> \<not> completed j) \<and>
   (snd (job_status_icon j) = ''icon-ok-sign'' \<longleftrightarrow> j_status j = 300 \<or> j_status j = 301) \<and>
   (j_status j \<in> fst ` set JOB_STATUS_STR \<longrightarrow> canstop j \<longrightarrow>
      completed j \<or> waiting j \<or> j_status j = 500)"
proof -
  have "snd (job_status_icon j) = ''icon-ok-sign'' \<longleftrightarrow> j_status j = 300 \<or> j_status j = 301"
    by (auto simp: job_status_icon_def Let_def)
  moreover have "snd (job_status_icon j) = ''icon-spinner icon-spin'' \<longrightarrow> \<not> completed j"
    by (auto simp: job_status_icon_def completed_def Let_def)
  moreover have "j_status j \<in> fst ` set JOB_STATUS_STR \<longrightarrow> canstop j \<longrightarrow>
      completed j \<or> waiting j \<or> j_status j = 500"
    unfolding JOB_STATUS_STR_def completed_def canstop_def waiting_def by auto
  ultimately show ?thesis by (simp add: completed_def canstop_def waiting_def)
qed

theorem job_status_classes_witness:
  "completed (new_job 0 1 4 7 RUN_INSTANCE\<lparr>j_status := 301\<rparr>)
   \<and> \<not> waiting (new_job 0 1 4 7 RUN_INSTANCE\<lparr>j_status := 301\<rparr>)
   \<and> snd (job_status_icon (new_job 0 1 4 7 RUN_INSTANCE\<lparr>j_status := 301\<rparr>)) = ''icon-ok-sign''"
  using job_status_classes [of "new_job 0 1 4 7 RUN_INSTANCE\<lparr>j_status := 301\<rparr>"]
  by (simp add: completed_def new_job_def)

end
