(* ===== verification/Quota.thy ===== *)
theory Quota
  imports Job
begin

text \<open>
  Resource accounting: the site configuration (\<^verbatim>\<open>lyweb/app/site/models.py\<close>, \<^verbatim>\<open>utils.py\<close>),
  \<open>Resource\<close> (\<^verbatim>\<open>lyweb/app/resource/models.py\<close>), \<open>UserProfile\<close>
  (\<^verbatim>\<open>lyweb/app/account/models.py\<close>) and the account initialisation of
  \<^verbatim>\<open>lyweb/tool/luoyuncloud_default.py\<close>.
\<close>

section \<open>Site configuration\<close>

definition SiteConfig_get :: "db \<Rightarrow> string \<Rightarrow> string option \<Rightarrow> string option" where
  "SiteConfig_get d key dflt =
     (case map_of (site_configs d) key of None \<Rightarrow> dflt | Some v \<Rightarrow> Some v)"

definition SiteConfig_set :: "string \<Rightarrow> string \<Rightarrow> db session \<Rightarrow> db session" where
  "SiteConfig_set key value s = commit (modify (site_configs_update (AList.update key value)) s)"

text \<open>A configured value that is assigned to an integer column: the database refuses text that is
  no number.\<close>

definition site_int :: "db \<Rightarrow> string \<Rightarrow> int \<Rightarrow> int pyres" where
  "site_int d key dflt =
     (case map_of (site_configs d) key of
        None \<Rightarrow> Inr dflt
      | Some v \<Rightarrow> (case py_int v of None \<Rightarrow> Inl ValueError | Some n \<Rightarrow> Inr n))"

definition get_site_config_int :: "db \<Rightarrow> string \<Rightarrow> int \<Rightarrow> int" where
  "get_site_config_int d key dflt =
     (case map_of (site_configs d) key of
        None \<Rightarrow> dflt
      | Some v \<Rightarrow> (case py_int v of None \<Rightarrow> 0 | Some n \<Rightarrow> n))"

section \<open>Resources\<close>

definition T_CPU :: int where "T_CPU = 1"
definition T_MEMORY :: int where "T_MEMORY = 2"
definition T_STORAGE :: int where "T_STORAGE = 3"
definition T_INSTANCE :: int where "T_INSTANCE = 4"

lemmas rtype_defs = T_CPU_def T_MEMORY_def T_STORAGE_def T_INSTANCE_def

text \<open>
  \<open>Resource.__init__\<close>: without an expiry date \<open>_set_default_expired_date\<close> runs, which names
  \<open>settings\<close>, a module that \<^verbatim>\<open>resource/models.py\<close> does not import.
\<close>

definition new_resource :: "int \<Rightarrow> int \<Rightarrow> int \<Rightarrow> int \<Rightarrow> int option \<Rightarrow> int option \<Rightarrow> resource pyres" where
  "new_resource now uid rtype sz effect_date expired_date =
     (case expired_date of
        None \<Rightarrow> Inl (NameError ''settings'')
      | Some x \<Rightarrow> Inr \<lparr>r_user_id = uid, r_type = rtype, r_size = sz,
          r_effect_date = (case effect_date of None \<Rightarrow> now | Some e \<Rightarrow> e), r_expired_date = x\<rparr>)"

definition contextual_class :: "int \<Rightarrow> resource \<Rightarrow> string" where
  "contextual_class now r =
     (if now < r_effect_date r then ''warning''
      else if r_effect_date r < now \<and> now < r_expired_date r then ''''
      else if r_expired_date r < now then ''error''
      else '''')"

definition type_str :: "resource \<Rightarrow> string" where
  "type_str r = str_get (r_type r)
     ''Unknown'' [(T_CPU, ''CPU''), (T_MEMORY, ''Memory''), (T_STORAGE, ''Storage''), (T_INSTANCE, ''Instance'')]"

text \<open>The test \<open>R.effect_date < now < R.expired_date\<close>.\<close>

definition in_effect :: "int \<Rightarrow> resource \<Rightarrow> bool" where
  "in_effect now r = (r_effect_date r < now \<and> now < r_expired_date r)"

section \<open>User profiles\<close>

text \<open>\<open>UserProfile.__init__\<close>: ten limits, each from the site configuration or its default.\<close>

fun site_ints :: "db \<Rightarrow> (string \<times> int) list \<Rightarrow> int list pyres" where
  "site_ints d [] = Inr []"
| "site_ints d ((k, dflt) # ks) =
     (case site_int d k dflt of
        Inl e \<Rightarrow> Inl e
      | Inr n \<Rightarrow> (case site_ints d ks of Inl e \<Rightarrow> Inl e | Inr ns \<Rightarrow> Inr (n # ns)))"

definition profile_keys :: "(string \<times> int) list" where
  "profile_keys = [(''user.default.static_cpu'', 1), (''user.default.static_memory'', 256),
     (''user.default.static_storage'', 2), (''user.default.static_instance'', 3),
     (''user.default.static_bandwidth'', 1), (''user.default.static_rx'', 2000),
     (''user.default.static_tx'', 2000), (''user.default.static_port'', 6),
     (''user.default.static_vlan'', 1), (''user.default.static_domain'', 6)]"

definition new_profile :: "db \<Rightarrow> int \<Rightarrow> profile pyres" where
  "new_profile d uid =
     (case site_ints d profile_keys of
        Inl e \<Rightarrow> Inl e
      | Inr v \<Rightarrow> Inr \<lparr>pf_user_id = uid, pf_cpu = v ! 0, pf_memory = v ! 1, pf_storage = v ! 2,
          pf_instance = v ! 3, pf_bandwidth = v ! 4, pf_rx = v ! 5, pf_tx = v ! 6, pf_port = v ! 7,
          pf_vlan = v ! 8, pf_domain = v ! 9, pf_config = None\<rparr>)"

definition is_running :: "instance_row \<Rightarrow> bool" where
  "is_running i = (i_status i \<in> {3, 4, 5})"

record totals =
  tt_cpu :: int
  tt_memory :: int
  tt_instance :: int
  tt_storage :: int

definition add_resource :: "int \<Rightarrow> resource \<Rightarrow> totals \<Rightarrow> totals" where
  "add_resource now R t =
     (if in_effect now R then
        (if r_type R = T_CPU then t\<lparr>tt_cpu := tt_cpu t + r_size R\<rparr>
         else if r_type R = T_MEMORY then t\<lparr>tt_memory := tt_memory t + r_size R\<rparr>
         else if r_type R = T_STORAGE then t\<lparr>tt_storage := tt_storage t + r_size R\<rparr>
         else if r_type R = T_INSTANCE then t\<lparr>tt_instance := tt_instance t + r_size R\<rparr>
         else t)
      else t)"

definition get_resource_total :: "db \<Rightarrow> int \<Rightarrow> profile \<Rightarrow> totals" where
  "get_resource_total d now p =
     foldl (\<lambda>t (_, R). add_resource now R t)
       \<lparr>tt_cpu = pf_cpu p, tt_memory = pf_memory p, tt_instance = pf_instance p, tt_storage = pf_storage p\<rparr>
       (resources_of d (pf_user_id p))"

definition add_instance :: "db \<Rightarrow> int \<Rightarrow> instance_row \<Rightarrow> totals \<Rightarrow> totals" where
  "add_instance d iid I t =
     (let t1 = (if is_running I then t\<lparr>tt_cpu := tt_cpu t + i_cpus I, tt_memory := tt_memory t + i_memory I\<rparr>
                else t);
          t2 = t1\<lparr>tt_instance := tt_instance t1 + 1\<rparr>
      in foldl (\<lambda>t (_, S). t\<lparr>tt_storage := tt_storage t + st_size S\<rparr>) t2 (storages_of d iid))"

definition get_resource_used :: "db \<Rightarrow> profile \<Rightarrow> totals" where
  "get_resource_used d p =
     foldl (\<lambda>t (iid, I). add_instance d iid I t)
       \<lparr>tt_cpu = 0, tt_memory = 0, tt_instance = 0, tt_storage = 0\<rparr> (instances_of d (pf_user_id p))"

text \<open>The four properties \<open>*_remain\<close>: their own loops over the same relations.\<close>

definition remain_total :: "db \<Rightarrow> int \<Rightarrow> profile \<Rightarrow> int \<Rightarrow> int \<Rightarrow> int" where
  "remain_total d now p ty base =
     foldl (\<lambda>n (_, R). if r_type R = ty \<and> in_effect now R then n + r_size R else n)
       base (resources_of d (pf_user_id p))"

definition remain :: "int \<Rightarrow> int \<Rightarrow> int" where
  "remain tot used = (if tot > used then tot - used else 0)"

definition cpu_remain :: "db \<Rightarrow> int \<Rightarrow> profile \<Rightarrow> int" where
  "cpu_remain d now p =
     remain (remain_total d now p T_CPU (pf_cpu p))
       (foldl (\<lambda>n (_, I). if is_running I then n + i_cpus I else n) 0 (instances_of d (pf_user_id p)))"

definition memory_remain :: "db \<Rightarrow> int \<Rightarrow> profile \<Rightarrow> int" where
  "memory_remain d now p =
     remain (remain_total d now p T_MEMORY (pf_memory p))
       (foldl (\<lambda>n (_, I). if is_running I then n + i_memory I else n) 0 (instances_of d (pf_user_id p)))"

definition storage_remain :: "db \<Rightarrow> int \<Rightarrow> profile \<Rightarrow> int" where
  "storage_remain d now p =
     remain (remain_total d now p T_STORAGE (pf_storage p))
       (foldl (\<lambda>n (iid, _). foldl (\<lambda>m (_, S). m + st_size S) n (storages_of d iid)) 0
          (instances_of d (pf_user_id p)))"

definition instance_remain :: "db \<Rightarrow> int \<Rightarrow> profile \<Rightarrow> int" where
  "instance_remain d now p =
     remain (remain_total d now p T_INSTANCE (pf_instance p))
       (int (length (instances_of d (pf_user_id p))))"

text \<open>\<open>set_root_password\<close> and \<open>get_root_password\<close>, with the shadow hash as argument.\<close>

definition set_root_password :: "string \<Rightarrow> profile \<Rightarrow> profile" where
  "set_root_password root_passwd p =
     (let config = (case pf_config p of None \<Rightarrow> [] | Some c \<Rightarrow> c) in
      p\<lparr>pf_config := Some (d_set ''secret'' (JObj [(''root_shadow_passwd'', JStr root_passwd)]) config)\<rparr>)"

definition get_root_password :: "profile \<Rightarrow> json" where
  "get_root_password p =
     (case d_get ''secret'' (JObj []) (case pf_config p of None \<Rightarrow> [] | Some c \<Rightarrow> c) of
        JObj secret \<Rightarrow> d_get ''root_shadow_passwd'' JNull secret
      | _ \<Rightarrow> JNull)"

section \<open>New accounts\<close>

text \<open>
  \<open>init_account\<close> (\<^verbatim>\<open>tool/luoyuncloud_default.py\<close>): the configured dynamic resources for a
  year, a profile when there is none, language and group. The first component is the exception, if
  one is raised.
\<close>

definition default_resources :: "db \<Rightarrow> (int \<times> int) list" where
  "default_resources d =
     [(T_CPU, get_site_config_int d ''user.default.dynamic_cpu'' 0),
      (T_MEMORY, get_site_config_int d ''user.default.dynamic_memory'' 0),
      (T_STORAGE, get_site_config_int d ''user.default.dynamic_storage'' 0),
      (T_INSTANCE, get_site_config_int d ''user.default.dynamic_instance'' 0)]"

definition add_default_resources :: "int \<Rightarrow> int \<Rightarrow> db \<Rightarrow> db" where
  "add_default_resources now uid d =
     foldl (\<lambda>d' (t, sz). if truthy_int (Some sz)
              then resources_update (t_add \<lparr>r_user_id = uid, r_type = t, r_size = sz, r_effect_date = now,
                     r_expired_date = now + 365 * 3600 * 24\<rparr>) d'
              else d')
       d (default_resources d)"

definition init_profile :: "int \<Rightarrow> db session \<Rightarrow> pyexn option \<times> db session" where
  "init_profile uid s =
     (case profile_of (work s) uid of
        Some _ \<Rightarrow> (None, s)
      | None \<Rightarrow> (case new_profile (work s) uid of
                   Inl e \<Rightarrow> (Some e, s)
                 | Inr p \<Rightarrow> (None, commit (modify (profiles_update (t_add p)) s))))"

definition init_groups :: "int \<Rightarrow> db session \<Rightarrow> pyexn option \<times> db session" where
  "init_groups uid s =
     (case site_int (work s) ''user.default.language'' 61 of
        Inl e \<Rightarrow> (Some e, s)
      | Inr lang \<Rightarrow>
          (case site_int (work s) ''user.default.group'' 2 of
             Inl e \<Rightarrow> (Some e, s)
           | Inr gid \<Rightarrow>
               (None, commit (modify (users_update (t_upd uid (\<lambda>u. u\<lparr>u_language_id := Some lang,
                  u_groups := (if t_get (groups (work s)) gid = None then u_groups u else [gid])\<rparr>))) s))))"

definition init_account :: "int \<Rightarrow> int \<Rightarrow> db session \<Rightarrow> pyexn option \<times> db session" where
  "init_account now uid s =
     (case init_profile uid (modify (add_default_resources now uid) s) of
        (Some e, s1) \<Rightarrow> (Some e, s1)
      | (None, s1) \<Rightarrow> init_groups uid s1)"

section \<open>The loops as sums\<close>

definition active_sum :: "db \<Rightarrow> int \<Rightarrow> int \<Rightarrow> int \<Rightarrow> int" where
  "active_sum d now uid ty =
     (\<Sum>(_, R) \<leftarrow> resources_of d uid. if r_type R = ty \<and> in_effect now R then r_size R else 0)"

definition running_sum :: "(instance_row \<Rightarrow> int) \<Rightarrow> (int \<times> instance_row) list \<Rightarrow> int" where
  "running_sum f is = (\<Sum>(_, I) \<leftarrow> is. if is_running I then f I else 0)"

definition storage_sum :: "db \<Rightarrow> int \<Rightarrow> int" where
  "storage_sum d iid = (\<Sum>(_, S) \<leftarrow> storages_of d iid. st_size S)"

lemma foldl_add_cond:
  "foldl (\<lambda>n (a, b). if P a b then n + f a b else n) (k :: int) xs
     = k + (\<Sum>(a, b) \<leftarrow> xs. if P a b then f a b else 0)"
  by (induction xs arbitrary: k) auto

lemma foldl_add: "foldl (\<lambda>n (a, b). n + f a b) (k :: int) xs = k + (\<Sum>(a, b) \<leftarrow> xs. f a b)"
  by (induction xs arbitrary: k) auto

lemma remain_total_sum: "remain_total d now p ty base = base + active_sum d now (pf_user_id p) ty"
  by (simp add: remain_total_def active_sum_def foldl_add_cond)

lemma remain_nonneg [simp]: "0 \<le> remain t u"
  by (simp add: remain_def)

lemma remain_max: "remain t u = max 0 (t - u)"
  by (simp add: remain_def)

lemma total_fields:
  "foldl (\<lambda>t (_, R). add_resource now R t) t xs =
     \<lparr>tt_cpu = tt_cpu t + (\<Sum>(_, R) \<leftarrow> xs. if r_type R = T_CPU \<and> in_effect now R then r_size R else 0),
      tt_memory = tt_memory t + (\<Sum>(_, R) \<leftarrow> xs. if r_type R = T_MEMORY \<and> in_effect now R then r_size R else 0),
      tt_instance = tt_instance t + (\<Sum>(_, R) \<leftarrow> xs. if r_type R = T_INSTANCE \<and> in_effect now R then r_size R else 0),
      tt_storage = tt_storage t + (\<Sum>(_, R) \<leftarrow> xs. if r_type R = T_STORAGE \<and> in_effect now R then r_size R else 0)\<rparr>"
  by (induction xs arbitrary: t) (auto simp: add_resource_def rtype_defs)

lemma foldl_storage:
  "foldl (\<lambda>t (_, S). t\<lparr>tt_storage := tt_storage t + st_size S\<rparr>) t xs
     = t\<lparr>tt_storage := tt_storage t + (\<Sum>(_, S) \<leftarrow> xs. st_size S)\<rparr>"
  by (induction xs arbitrary: t) auto

lemma used_fields:
  "foldl (\<lambda>t (iid, I). add_instance d iid I t) t xs =
     \<lparr>tt_cpu = tt_cpu t + running_sum i_cpus xs, tt_memory = tt_memory t + running_sum i_memory xs,
      tt_instance = tt_instance t + int (length xs),
      tt_storage = tt_storage t + (\<Sum>(iid, _) \<leftarrow> xs. storage_sum d iid)\<rparr>"
  by (induction xs arbitrary: t)
    (auto simp: add_instance_def Let_def foldl_storage running_sum_def storage_sum_def)

lemma cpu_remain_sum:
  "cpu_remain d now p = max 0 (pf_cpu p + active_sum d now (pf_user_id p) T_CPU
     - running_sum i_cpus (instances_of d (pf_user_id p)))"
  by (simp add: cpu_remain_def remain_max remain_total_sum foldl_add_cond running_sum_def)

lemma memory_remain_sum:
  "memory_remain d now p = max 0 (pf_memory p + active_sum d now (pf_user_id p) T_MEMORY
     - running_sum i_memory (instances_of d (pf_user_id p)))"
  by (simp add: memory_remain_def remain_max remain_total_sum foldl_add_cond running_sum_def)

lemma storage_remain_sum:
  "storage_remain d now p = max 0 (pf_storage p + active_sum d now (pf_user_id p) T_STORAGE
     - (\<Sum>(iid, _) \<leftarrow> instances_of d (pf_user_id p). storage_sum d iid))"
  by (simp add: storage_remain_def remain_max remain_total_sum foldl_add storage_sum_def)

section \<open>Properties\<close>

text \<open>
  The four \<open>*_remain\<close> properties and the two summaries \<open>get_resource_total\<close> and
  \<open>get_resource_used\<close>, written as separate loops, agree: each remainder is the total minus the
  used amount, cut off at zero.
\<close>

theorem remain_is_total_minus_used:
  "cpu_remain d now p = max 0 (tt_cpu (get_resource_total d now p) - tt_cpu (get_resource_used d p)) \<and>
   memory_remain d now p = max 0 (tt_memory (get_resource_total d now p) - tt_memory (get_resource_used d p)) \<and>
   storage_remain d now p = max 0 (tt_storage (get_resource_total d now p) - tt_storage (get_resource_used d p)) \<and>
   instance_remain d now p = max 0 (tt_instance (get_resource_total d now p) - tt_instance (get_resource_used d p))"
  by (simp add: cpu_remain_sum memory_remain_sum storage_remain_sum instance_remain_def remain_max
      remain_total_sum get_resource_total_def get_resource_used_def total_fields used_fields
      active_sum_def)

text \<open>
  The root password set in the profile is read back, whatever the profile's configuration held
  before, and the other keys of the configuration are kept.
\<close>

theorem root_password_roundtrip:
  "get_root_password (set_root_password h p) = JStr h \<and>
   (k \<noteq> ''secret'' \<longrightarrow> d_get k v (the (pf_config (set_root_password h p)))
      = d_get k v (case pf_config p of None \<Rightarrow> [] | Some c \<Rightarrow> c))"
  by (simp add: get_root_password_def set_root_password_def Let_def d_get_def map_of_d_set)

theorem root_password_roundtrip_witness:
  "d_get ''theme'' JNull (the (pf_config (set_root_password ''h''
     \<lparr>pf_user_id = 1, pf_cpu = 1, pf_memory = 256, pf_storage = 2, pf_instance = 3, pf_bandwidth = 1,
      pf_rx = 1, pf_tx = 1, pf_port = 6, pf_vlan = 1, pf_domain = 6,
      pf_config = Some [(''theme'', JStr ''dark'')]\<rparr>))) = JStr ''dark''"
  using root_password_roundtrip [of "''h''" "\<lparr>pf_user_id = 1, pf_cpu = 1, pf_memory = 256,
      pf_storage = 2, pf_instance = 3, pf_bandwidth = 1, pf_rx = 1, pf_tx = 1, pf_port = 6,
      pf_vlan = 1, pf_domain = 6, pf_config = Some [(''theme'', JStr ''dark'')]\<rparr>" "''theme''" JNull]
  by (simp add: d_get_def)

end
