(* ===== verification/Clc_Stream.thy ===== *)
theory Clc_Stream
  imports Lyutil
begin

text \<open>
  The message stream between the web application and its mail service
  (\<^verbatim>\<open>lyweb/lib/lyc/handler.py\<close>, class \<open>MSGStream\<close>). A message is a header of eight bytes, the
  \<open>struct\<close> format \<open>bbhi\<close>, and a JSON body. The encoding \<open>json.dumps\<close>/\<open>json.loads\<close> is a pair of
  functions of the model. The receiving side of a socket is a list of events as in \<open>Lyutil\<close>;
  the sockets here are blocking, the end of the list is the end of the stream.
\<close>

section \<open>Headers\<close>

text \<open>\<open>MSGStream.headlen\<close> and \<open>bodymax\<close>\<close>

definition msg_headlen :: int where
  "msg_headlen = 1 + 1 + 2 + 4"

definition bodymax :: int where
  "bodymax = 10 * 1024 * 1024"

text \<open>The format \<open>b\<close> is a signed byte, \<open>h\<close> a signed word of 16 bits.\<close>

definition of_le8s :: "nat \<Rightarrow> int" where
  "of_le8s b = (if b < 128 then int b else int b - 256)"

definition of_le16s :: "bytes \<Rightarrow> int" where
  "of_le16s bs = (let n = int (bs ! 0) + 256 * int (bs ! 1) in if n < 32768 then n else n - 65536)"

text \<open>\<open>struct.pack('bbhi', 01, 02, 03, bodylen)\<close>\<close>

definition pack_bbhi :: "int \<Rightarrow> bytes pyres" where
  "pack_bbhi n =
     (if - (2 ^ 31) \<le> n \<and> n < 2 ^ 31 then Inr ([1, 2] @ [3, 0] @ le32s n) else Inl StructError)"

text \<open>\<open>struct.unpack('bbhi', data)\<close> on eight bytes.\<close>

definition unpack_bbhi :: "bytes \<Rightarrow> int \<times> int \<times> int \<times> int" where
  "unpack_bbhi bs =
     (of_le8s (bs ! 0), of_le8s (bs ! 1), of_le16s (take 2 (drop 2 bs)), of_le32s (drop 4 bs))"

section \<open>Reading\<close>

text \<open>
  \<open>_read_from_stream\<close>: at most 2048 bytes at a time until \<open>left\<close> is zero; the end of the stream
  and every exception give \<open>None\<close>. The measure counts the bytes and the events that are left.
\<close>

fun ev_size :: "sev \<Rightarrow> nat" where
  "ev_size (Chunk bs) = Suc (length bs)"
| "ev_size _ = 1"

function read_from_stream :: "int \<Rightarrow> bytes \<Rightarrow> sev list \<Rightarrow> bytes option \<times> sev list" where
  "read_from_stream left acc [] = (None, [])"
| "read_from_stream left acc (Tmo # es) = (None, es)"
| "read_from_stream left acc (SockErr # es) = (None, es)"
| "read_from_stream left acc (Chunk bs # es) =
     (let buffer_len = nat (if left > 2048 then 2048 else left);
          d = take buffer_len bs;
          es' = (if drop buffer_len bs = [] then es else Chunk (drop buffer_len bs) # es);
          left' = left - int (length d)
      in if d = [] then (None, Chunk bs # es)
         else if left' = 0 then (Some (acc @ d), es')
         else if left' < 0 then (None, es')
         else read_from_stream left' (acc @ d) es')"
  by pat_completeness auto
termination
  by (relation "measure (\<lambda>(left, acc, es). sum_list (map ev_size es))") auto

declare read_from_stream.simps(4) [simp del]

text \<open>A received message: \<open>MSGFormat\<close> with its type, its length and its body; the body is \<open>None\<close>
  where \<open>json.loads\<close> raises.\<close>

record 'b msg =
  msg_type :: int
  msg_length :: int
  msg_body :: "'b option"

text \<open>
  \<open>read_msg\<close>: a message longer than \<open>bodymax\<close> raises because the error message names an
  undefined variable, and a header without a body because \<open>body\<close> was never assigned.
\<close>

definition read_msg ::
  "(bytes \<Rightarrow> 'b option) \<Rightarrow> sev list \<Rightarrow> 'b msg option pyres \<times> sev list" where
  "read_msg loads es =
     (case read_from_stream msg_headlen [] es of
        (None, es1) \<Rightarrow> (Inr None, es1)
      | (Some data, es1) \<Rightarrow>
          (let (start, x, type, len) = unpack_bbhi data in
           if start \<noteq> 1 then (Inr None, es1)
           else if len > bodymax then (Inl (NameError ''msglen''), es1)
           else if len > 0 then
             (case read_from_stream len [] es1 of
                (None, es2) \<Rightarrow> (Inr None, es2)
              | (Some body, es2) \<Rightarrow>
                  (Inr (Some \<lparr>msg_type = type, msg_length = len, msg_body = loads body\<rparr>), es2))
           else (Inl (UnboundLocalError ''body''), es1)))"

section \<open>Sending\<close>

text \<open>
  \<open>send_msg\<close> with a key: \<open>sent\<close> is what \<open>sock.send\<close> returns, the number of bytes it took, or
  \<open>None\<close> where it raises. A short count is logged and reported as a success. The result is the
  return value and the bytes on the wire; without a key nothing is sent.
\<close>

definition send_msg ::
  "('b \<Rightarrow> bytes) \<Rightarrow> bool \<Rightarrow> 'b \<Rightarrow> nat option \<Rightarrow> (bool \<times> bytes) pyres" where
  "send_msg dumps key b sent =
     (if \<not> key then Inr (False, [])
      else let body = dumps b in
        case pack_bbhi (int (length body)) of
          Inl e \<Rightarrow> Inl e
        | Inr head \<Rightarrow>
            (case sent of
               None \<Rightarrow> Inr (False, [])
             | Some n \<Rightarrow> Inr (True, take n (head @ body))))"

section \<open>The round trip\<close>

lemma read_from_stream_data:
  assumes "data_only es" and "0 < left" and "nat left \<le> length (stream es)"
  shows "\<exists>es'. read_from_stream left acc es = (Some (acc @ take (nat left) (stream es)), es')
    \<and> data_only es' \<and> stream es' = drop (nat left) (stream es)"
  using assms
proof (induction left acc es rule: read_from_stream.induct)
  case (4 left acc bs es)
  define k where "k = nat (if left > 2048 then 2048 else left)"
  define es' where "es' = (if drop k bs = [] then es else Chunk (drop k bs) # es)"
  have k: "0 < k" "int k \<le> left" using "4.prems"(2) by (auto simp: k_def)
  have d: "take k bs \<noteq> []" "data_only es'" using "4.prems"(1) k(1) by (auto simp: es'_def)
  have s: "stream es' = drop k bs @ stream es" by (simp add: es'_def)
  let ?l = "left - int (length (take k bs))"
  have step: "read_from_stream left acc (Chunk bs # es) =
      (if ?l = 0 then (Some (acc @ take k bs), es') else read_from_stream ?l (acc @ take k bs) es')"
    using d(1) k by (subst read_from_stream.simps(4))
      (simp add: Let_def k_def [symmetric] es'_def)
  show ?case
  proof (cases "?l = 0")
    case True
    then have "nat left = length (take k bs)" by simp
    moreover from this k have "k \<le> length bs" by (simp add: min_def split: if_splits)
    ultimately show ?thesis using True step d(2) s by (simp add: min_def)
  next
    case False
    then have l: "0 < ?l" using k by simp
    have n: "nat ?l = nat left - length (take k bs)" by simp
    have st: "chunk_bytes (Chunk bs) @ stream es = take k bs @ stream es'" by (simp add: s)
    have le: "length (take k bs) \<le> nat left" using k by simp
    have "nat ?l \<le> length (stream es')"
      using "4.prems"(3) le unfolding n stream_simps st by simp
    then obtain es2 where "read_from_stream ?l (acc @ take k bs) es' =
        (Some ((acc @ take k bs) @ take (nat ?l) (stream es')), es2)"
      "data_only es2" "stream es2 = drop (nat ?l) (stream es')"
      using "4.IH" [OF k_def refl es'_def refl d(1) False] d(2) l by fastforce
    moreover have "take (nat left) (take k bs @ stream es') = take k bs @ take (nat ?l) (stream es')"
      "drop (nat left) (take k bs @ stream es') = drop (nat ?l) (stream es')"
      using le unfolding n take_append drop_append by (simp_all del: take_take length_take drop_take)
    ultimately show ?thesis using False step unfolding stream_simps st by simp
  qed
qed auto

lemma unpack_pack_bbhi:
  assumes "pack_bbhi n = Inr h"
  shows "length h = 8 \<and> unpack_bbhi h = (1, 2, 3, n)"
proof -
  have "length (le32s n) = 4" by (simp add: le32s_def)
  with assms show ?thesis
    using of_le32s_le32s [of n]
    by (auto simp: pack_bbhi_def unpack_bbhi_def of_le8s_def of_le16s_def split: if_splits)
qed

text \<open>A header and what follows it, in any fragmentation.\<close>

lemma read_msg_header:
  assumes "data_only es" and "stream es = h @ rest" and "pack_bbhi n = Inr h"
  shows "\<exists>es'. data_only es' \<and> stream es' = rest \<and> read_msg loads es =
    (if n > bodymax then (Inl (NameError ''msglen''), es')
     else if n > 0 then
       (case read_from_stream n [] es' of
          (None, es2) \<Rightarrow> (Inr None, es2)
        | (Some body, es2) \<Rightarrow>
            (Inr (Some \<lparr>msg_type = 3, msg_length = n, msg_body = loads body\<rparr>), es2))
     else (Inl (UnboundLocalError ''body''), es'))"
proof -
  have h: "length h = 8" "unpack_bbhi h = (1, 2, 3, n)" using unpack_pack_bbhi [OF assms(3)] by auto
  then obtain es' where "read_from_stream msg_headlen [] es = (Some h, es')" "data_only es'"
    "stream es' = rest"
    using read_from_stream_data [OF assms(1), of msg_headlen "[]"] assms(2)
    by (auto simp: msg_headlen_def)
  with h(2) show ?thesis by (auto simp: read_msg_def)
qed

lemma read_msg_body:
  assumes "data_only es" and "stream es = h @ body @ rest" and "pack_bbhi (int (length body)) = Inr h"
    and "body \<noteq> []" and "int (length body) \<le> bodymax"
  shows "\<exists>es'. read_msg loads es =
      (Inr (Some \<lparr>msg_type = 3, msg_length = int (length body), msg_body = loads body\<rparr>), es')
    \<and> data_only es' \<and> stream es' = rest"
proof -
  obtain es1 where es1: "data_only es1" "stream es1 = body @ rest" and "read_msg loads es =
      (case read_from_stream (int (length body)) [] es1 of
          (None, es2) \<Rightarrow> (Inr None, es2)
        | (Some b, es2) \<Rightarrow> (Inr (Some \<lparr>msg_type = 3, msg_length = int (length body),
              msg_body = loads b\<rparr>), es2))"
    using read_msg_header [OF assms(1-3), of loads] assms(4,5) by auto
  with read_from_stream_data [OF es1(1), of "int (length body)" "[]"] assms(4) show ?thesis by auto
qed

lemma read_msg_complete:
  assumes "dumps b \<noteq> [] \<and> loads (dumps b) = Some b"
    and "send_msg dumps True b (Some n) = Inr (True, bs)" and "8 + length (dumps b) \<le> n"
    and "int (length (dumps b)) \<le> bodymax" and "data_only es" and "stream es = bs @ rest"
  shows "\<exists>m es'. read_msg loads es = (Inr (Some m), es') \<and> msg_body m = Some b
    \<and> data_only es' \<and> stream es' = rest"
proof -
  obtain h where h: "pack_bbhi (int (length (dumps b))) = Inr h" "bs = take n (h @ dumps b)"
    using assms(2) by (auto simp: send_msg_def Let_def split: sum.splits)
  then have "stream es = h @ dumps b @ rest"
    using unpack_pack_bbhi [OF h(1)] assms(3,6) by simp
  from read_msg_body [OF assms(5) this h(1), of loads] assms(1,4) show ?thesis by auto
qed

section \<open>Properties\<close>

text \<open>
  A message that was sent completely is received: whatever the fragmentation of the stream and
  whatever follows, \<open>read_msg\<close> returns the body that was given to \<open>send_msg\<close> and leaves exactly what
  follows, for bodies of up to 10 MiB. Hypothesis: \<open>loads\<close> inverts \<open>dumps\<close> on the body, and the text is not empty.
\<close>

theorem read_msg_send_msg:
  assumes "dumps b \<noteq> [] \<and> loads (dumps b) = Some b"
    and "send_msg dumps True b (Some n) = Inr (True, bs)" and "8 + length (dumps b) \<le> n"
    and "int (length (dumps b)) \<le> bodymax" and "data_only es" and "stream es = bs @ rest"
  shows "\<exists>m es'. read_msg loads es = (Inr (Some m), es') \<and> msg_body m = Some b
    \<and> data_only es' \<and> stream es' = rest"
  using assms by (rule read_msg_complete)

text \<open>
  The messages \<open>read_msg\<close> cannot refuse: a header that announces more than 10 MiB and one that
  announces nothing, or a negative length, raise instead of closing the connection.
\<close>

theorem read_msg_bad_length:
  assumes "data_only es" and "pack_bbhi n = Inr h" and "stream es = h @ rest"
  shows "(n > bodymax \<longrightarrow> fst (read_msg loads es) = Inl (NameError ''msglen''))
    \<and> (n \<le> 0 \<longrightarrow> fst (read_msg loads es) = Inl (UnboundLocalError ''body''))"
  using read_msg_header [OF assms(1,3,2), of loads] by (auto simp: bodymax_def)

text \<open>A send that takes only a part of the message reports success.\<close>

lemma send_msg_short:
  "length (dumps b) < 2 ^ 31 \<Longrightarrow> \<exists>bs. send_msg dumps True b (Some 0) = Inr (True, bs) \<and> bs = []"
  by (simp add: send_msg_def pack_bbhi_def)

section \<open>Witnesses\<close>

text \<open>An encoding of the natural numbers, in unary.\<close>

definition dumps_ex :: "nat \<Rightarrow> bytes" where
  "dumps_ex n = replicate (Suc n) 48"

definition loads_ex :: "bytes \<Rightarrow> nat option" where
  "loads_ex bs = Some (length bs - 1)"

theorem read_msg_send_msg_witness:
  "\<exists>m es'. read_msg loads_ex [Chunk [1, 2, 3], Chunk [0, 3, 0, 0, 0, 48], Chunk [48, 48, 7]] = (Inr (Some m), es')
    \<and> msg_body m = Some 2 \<and> stream es' = [7]"
proof -
  have s: "send_msg dumps_ex True 2 (Some 11) = Inr (True, [1, 2, 3, 0, 3, 0, 0, 0, 48, 48, 48])"
    by (simp add: send_msg_def pack_bbhi_def le32s_def le32_def dumps_ex_def numeral_2_eq_2)
  have c: "dumps_ex 2 \<noteq> [] \<and> loads_ex (dumps_ex 2) = Some 2"
    by (simp add: dumps_ex_def loads_ex_def)
  from read_msg_send_msg [where dumps = dumps_ex and loads = loads_ex and b = 2, OF c s, of "[Chunk [1, 2, 3], Chunk [0, 3, 0, 0, 0, 48], Chunk [48, 48, 7]]" "[7]"]
  show ?thesis by (auto simp: dumps_ex_def bodymax_def)
qed

theorem read_msg_bad_length_witness:
  "fst (read_msg loads_ex [Chunk [1, 2, 3, 0, 0, 0, 0, 0]]) = Inl (UnboundLocalError ''body'')
    \<and> fst (read_msg loads_ex [Chunk [1, 2, 3, 0], Chunk [0, 0, 0, 127]]) = Inl (NameError ''msglen'')"
proof -
  have p: "pack_bbhi 0 = Inr [1, 2, 3, 0, 0, 0, 0, 0]"
    "pack_bbhi 2130706432 = Inr [1, 2, 3, 0, 0, 0, 0, 127]"
    by (simp_all add: pack_bbhi_def le32s_def le32_def)
  show ?thesis
    using read_msg_bad_length [OF _ p(1), of "[Chunk [1, 2, 3, 0, 0, 0, 0, 0]]" "[]" loads_ex]
      read_msg_bad_length [OF _ p(2), of "[Chunk [1, 2, 3, 0], Chunk [0, 0, 0, 127]]" "[]" loads_ex]
    by (simp add: bodymax_def)
qed

end
