(* ===== verification/Mailer.thy ===== *)
theory Mailer
  imports Quota Clc_Stream
begin

text \<open>
  The mail service beside the web application: the handler of new connections
  (\<^verbatim>\<open>lyweb/tool/clc/handler/base.py\<close>, \<^verbatim>\<open>lib/lyc/handler.py\<close>), the functions that turn a request
  into mails, and the directory from which a thread sends them (\<^verbatim>\<open>lib/yweb/mail.py\<close>, class
  \<open>FileSysMail\<close>). The directory is the list of its files in the order of \<open>os.listdir\<close>; writing
  to it is assumed to work. The rendering of the mail template is a parameter. The thread that the
  service starts for a list of users is run to its end at once.
\<close>

section \<open>Mails and the directory\<close>

record email =
  e_subject :: "string option"
  e_text :: string
  e_to :: string
  e_from :: string
  e_mime_type :: string

type_synonym mail_dir = "(string \<times> email) list"

text \<open>\<open>FileSysMail.send\<close>: the file is created or overwritten.\<close>

definition fm_send :: "email \<Rightarrow> string \<Rightarrow> mail_dir \<Rightarrow> mail_dir" where
  "fm_send eml store_name dir = AList.update store_name eml dir"

text \<open>
  One round of \<open>FileSysMail.run\<close>. What the outside does in it: whether connecting and the login
  (where one is configured) work, whether a file can be read as a mail, whether the server takes a
  mail, whether a file can be deleted, and whether \<open>quit\<close> works on a connection.
\<close>

record smtp_env =
  se_connect :: bool
  se_login :: bool
  se_load :: "string \<Rightarrow> bool"
  se_send :: "string \<Rightarrow> bool"
  se_unlink :: "string \<Rightarrow> bool"
  se_quit :: bool

text \<open>\<open>delete_email\<close> logs a failure and goes on.\<close>

definition delete_email :: "smtp_env \<Rightarrow> string \<Rightarrow> mail_dir \<Rightarrow> mail_dir" where
  "delete_email env filename dir =
     (if se_unlink env filename then filter (\<lambda>(n, _). n \<noteq> filename) dir else dir)"

text \<open>The inner loop over the names, the last one first. A file that cannot be read raises, which
  ends the loop; a mail that cannot be sent is deleted like one that was.\<close>

fun send_loop :: "smtp_env \<Rightarrow> string list \<Rightarrow> mail_dir \<Rightarrow> mail_dir \<times> email list" where
  "send_loop env [] dir = (dir, [])"
| "send_loop env (filename # names) dir =
     (case map_of dir filename of
        None \<Rightarrow> (dir, [])
      | Some eml \<Rightarrow>
          if \<not> se_load env filename then (dir, [])
          else
            let (dir', sent) = send_loop env names (delete_email env filename dir) in
            (dir', if se_send env filename then eml # sent else sent))"

text \<open>The state of the thread after the round: \<open>smtp.quit()\<close> stands in the \<open>finally\<close> clause, where
  its exception is not caught; without a connection it raises.\<close>

datatype thread = Running | Dead pyexn

definition mail_round :: "smtp_env \<Rightarrow> mail_dir \<Rightarrow> thread \<times> mail_dir \<times> email list" where
  "mail_round env dir =
     (if dir = [] then (Running, dir, [])
      else
        let (dir', sent) = (if se_connect env \<and> se_login env
                            then send_loop env (rev (map fst dir)) dir else (dir, []))
        in (if se_connect env \<and> se_quit env then Running else Dead SMTPServerDisconnected, dir', sent))"

section \<open>From requests to mails\<close>

text \<open>The JSON body of a request: the key and what the functions ask the dictionary \<open>msg\<close> for.\<close>

record clc_body =
  cb_key :: string
  cb_to :: "string option"
  cb_to_user_id :: "int option"
  cb_subject :: "string option"
  cb_body :: "string option"
  cb_id_list :: "int list"
  cb_uid :: "int option"
  cb_password :: "string option"

text \<open>
  \<open>render_template\<close> with subject, body and user name: it raises where the template is not found, and
  gives \<open>None\<close> where the template raises.
\<close>

type_synonym renderer = "string option \<Rightarrow> string option \<Rightarrow> string \<Rightarrow> string option pyres"

abbreviation total_key :: string where
  "total_key \<equiv> ''site.send_mail.total''"

definition ensure_total :: "db session \<Rightarrow> db session" where
  "ensure_total s =
     (if truthy_str (SiteConfig_get (work s) total_key None) then s else SiteConfig_set total_key ''0'' s)"

definition mail_name :: "int \<Rightarrow> string" where
  "mail_name n = show_int n @ ''-mail''"

text \<open>\<open>mail_total.value = int(mail_total.value) + 1\<close> and \<open>fm.send(e, '%s-mail' % mail_total.value)\<close>\<close>

definition store_mail :: "email \<Rightarrow> db session \<Rightarrow> mail_dir \<Rightarrow> unit pyres \<times> db session \<times> mail_dir" where
  "store_mail eml s dir =
     (case map_of (site_configs (work s)) total_key of
        None \<Rightarrow> (Inl (AttributeError ''value''), s, dir)
      | Some v \<Rightarrow>
          (case py_int v of
             None \<Rightarrow> (Inl ValueError, s, dir)
           | Some n \<Rightarrow>
               (Inr (), modify (site_configs_update (AList.update total_key (show_int (n + 1)))) s,
                fm_send eml (mail_name (n + 1)) dir)))"

definition mail_from :: "db \<Rightarrow> string" where
  "mail_from d = the (SiteConfig_get d ''notice.smtp.fromaddr'' (Some ''admin@localhost''))"

definition display_name :: "user \<Rightarrow> string" where
  "display_name U = (if truthy_str (u_nickname U) then the (u_nickname U) else u_username U)"

definition html_mail :: "string option \<Rightarrow> string \<Rightarrow> string \<Rightarrow> string \<Rightarrow> email" where
  "html_mail subject html to adr_from =
     \<lparr>e_subject = subject, e_text = html, e_to = to, e_from = adr_from, e_mime_type = ''html''\<rparr>"

text \<open>
  The address and the name \<open>mailto_address\<close> writes to: \<open>Inr None\<close> is the early return for a user
  without an address. A \<open>to_user_id\<close> of no user leaves \<open>to\<close> as it is, and without \<open>to\<close> the
  variable \<open>username\<close> was never assigned.
\<close>

definition mail_target :: "db \<Rightarrow> clc_body \<Rightarrow> (string \<times> string) option pyres" where
  "mail_target d b =
     (let by_address =
            (if truthy_str (cb_to b) then Inr (Some (the (cb_to b), hd (split_on CHR ''@'' (the (cb_to b)))))
             else Inl (UnboundLocalError ''username''))
      in if truthy_int (cb_to_user_id b) then
           (case t_get (users d) (the (cb_to_user_id b)) of
              None \<Rightarrow> by_address
            | Some U \<Rightarrow>
                if truthy_str (u_email U) then Inr (Some (the (u_email U), display_name U)) else Inr None)
         else by_address)"

text \<open>\<open>mailto_address\<close>: its session is neither committed nor kept, so of the counter only the
  initial value stays.\<close>

definition mailto_address ::
  "renderer \<Rightarrow> clc_body \<Rightarrow> db \<Rightarrow> mail_dir \<Rightarrow> unit pyres \<times> db \<times> mail_dir" where
  "mailto_address rndr b d dir =
     (if \<not> (truthy_str (cb_to b) \<or> truthy_int (cb_to_user_id b)) then (Inr (), d, dir)
      else
        let s = ensure_total (open_session d) in
        case mail_target (work s) b of
          Inl e \<Rightarrow> (Inl e, on_finish s, dir)
        | Inr None \<Rightarrow> (Inr (), on_finish s, dir)
        | Inr (Some (to, username)) \<Rightarrow>
            (case rndr (cb_subject b) (cb_body b) username of
               Inl e \<Rightarrow> (Inl e, on_finish s, dir)
             | Inr html \<Rightarrow>
                 if truthy_str html then
                   (let (r, s', dir') =
                          store_mail (html_mail (cb_subject b) (the html) to (mail_from (work s))) s dir
                    in (r, on_finish s', dir'))
                 else (Inr (), on_finish s, dir)))"

text \<open>The row of \<open>SiteJob\<close> that \<open>mailto_user_list\<close> keeps.\<close>

record site_job =
  sj_user_id :: "int option"
  sj_status :: int
  sj_text :: string

definition job_text :: "int \<Rightarrow> user \<Rightarrow> string" where
  "job_text uid U = ''send mail to '' @ show_int uid @ '': '' @ u_username U @ '' (''
     @ (case u_email U of None \<Rightarrow> ''None'' | Some m \<Rightarrow> m) @ '')''"

text \<open>The loop of \<open>mailto_user_list\<close>, which commits in each round before it makes the mail.\<close>

fun userlist_loop ::
  "renderer \<Rightarrow> clc_body \<Rightarrow> string \<Rightarrow> (int \<times> user) list \<Rightarrow> db session \<Rightarrow> site_job \<Rightarrow> mail_dir \<Rightarrow>
   unit pyres \<times> db session \<times> site_job \<times> mail_dir" where
  "userlist_loop rndr b adr_from [] s job dir = (Inr (), s, job, dir)"
| "userlist_loop rndr b adr_from ((uid, U) # us) s job dir =
     (let job' = job\<lparr>sj_text := job_text uid U\<rparr>; s' = commit s in
      if \<not> (truthy_str (u_email U) \<and> u_email_valid U) then userlist_loop rndr b adr_from us s' job' dir
      else
        case rndr (cb_subject b) (cb_body b) (display_name U) of
          Inl e \<Rightarrow> (Inl e, s', job', dir)
        | Inr html \<Rightarrow>
            if truthy_str html then
              (case store_mail (html_mail (cb_subject b) (the html) (the (u_email U)) adr_from) s' dir of
                 (Inl e, s2, dir2) \<Rightarrow> (Inl e, s2, job', dir2)
               | (Inr _, s2, dir2) \<Rightarrow> userlist_loop rndr b adr_from us s2 job' dir2)
            else userlist_loop rndr b adr_from us s' job' dir)"

text \<open>\<open>USER_LIST\<close>: the users of \<open>ID_LIST\<close> that exist, or all users.\<close>

definition user_list :: "db \<Rightarrow> int list \<Rightarrow> (int \<times> user) list" where
  "user_list d ids =
     (if ids \<noteq> [] then concat (map (\<lambda>i. case t_get (users d) i of None \<Rightarrow> [] | Some U \<Rightarrow> [(i, U)]) ids)
      else rows (users d))"

text \<open>\<open>mailto_user_list\<close>; a user who does not exist violates the foreign key of the job.\<close>

definition mailto_user_list ::
  "renderer \<Rightarrow> clc_body \<Rightarrow> db \<Rightarrow> mail_dir \<Rightarrow> unit pyres \<times> db \<times> site_job option \<times> mail_dir" where
  "mailto_user_list rndr b d dir =
     (if (case cb_uid b of None \<Rightarrow> False | Some i \<Rightarrow> t_get (users d) i = None)
      then (Inl IntegrityError, d, None, dir)
      else
        let job = \<lparr>sj_user_id = cb_uid b, sj_status = 2, sj_text = ''started''\<rparr>;
            us = user_list d (cb_id_list b);
            s = ensure_total (open_session d)
        in case userlist_loop rndr b (mail_from d) us s job dir of
             (Inl e, s', job', dir') \<Rightarrow> (Inl e, on_finish s', Some job', dir')
           | (Inr _, s', job', dir') \<Rightarrow>
               (Inr (), on_finish (commit s'), Some (job'\<lparr>sj_text := ''ended'', sj_status := 3\<rparr>), dir'))"

section \<open>The connections of the service\<close>

text \<open>Who handles a connection: \<open>NewClientHandler\<close>, after a registration \<open>NodeStreamHandler\<close>,
  nobody once it is closed.\<close>

datatype conn = NewClient | NodeClient | ClosedConn

record service =
  sv_db :: db
  sv_dir :: mail_dir
  sv_jobs :: "site_job list"
  sv_nodes :: "int list"

text \<open>What the random number generator and the template give in one call.\<close>

record service_env =
  sv_codec :: codec
  sv_rnd :: string
  sv_node_id :: int
  sv_render :: renderer

text \<open>\<open>_register_node\<close>: the password is compared with a constant; the answer that is sent back is
  the last component. Without a password the concatenation with the salt raises.\<close>

definition register_node ::
  "service_env \<Rightarrow> clc_body \<Rightarrow> service \<Rightarrow> unit pyres \<times> conn \<times> service \<times> bool list" where
  "register_node env b sv =
     (case cb_password b of
        None \<Rightarrow> (Inl TypeError, NewClient, sv, [])
      | Some password \<Rightarrow>
          if check_login_passwd (sv_codec env) password
               (enc_login_passwd (sv_codec env) (sv_rnd env) ''fffaaa'')
          then (Inr (), NodeClient, sv\<lparr>sv_nodes := sv_nodes sv @ [sv_node_id env]\<rparr>, [True])
          else (Inr (), ClosedConn, sv, [False]))"

text \<open>\<open>NewClientHandler.data_received\<close>; a body that is no JSON is \<open>None\<close>. The exceptions of the
  thread for a list of users stay in the thread.\<close>

definition new_client_received ::
  "service_env \<Rightarrow> clc_body option \<Rightarrow> service \<Rightarrow> unit pyres \<times> conn \<times> service \<times> bool list" where
  "new_client_received env data sv =
     (case data of
        None \<Rightarrow> (Inl TypeError, NewClient, sv, [])
      | Some b \<Rightarrow>
          if cb_key b = ''/node/register'' then register_node env b sv
          else if cb_key b = ''mailto.userlist'' then
            (let (r, d', job, dir') = mailto_user_list (sv_render env) b (sv_db sv) (sv_dir sv) in
             (Inr (), NewClient, sv\<lparr>sv_db := d', sv_dir := dir',
                sv_jobs := (case job of None \<Rightarrow> sv_jobs sv | Some j \<Rightarrow> sv_jobs sv @ [j])\<rparr>, []))
          else if cb_key b = ''mailto.address'' then
            (let (r, d', dir') = mailto_address (sv_render env) b (sv_db sv) (sv_dir sv) in
             (r, NewClient, sv\<lparr>sv_db := d', sv_dir := dir'\<rparr>, []))
          else if cb_key b = ''test.api'' then (Inr (), NewClient, sv, [])
          else (Inr (), ClosedConn, sv, []))"

text \<open>\<open>NodeStreamHandler.data_received\<close> asks the dictionary for an attribute \<open>body\<close>.\<close>

definition node_client_received :: "clc_body option \<Rightarrow> service \<Rightarrow> unit pyres \<times> conn \<times> service \<times> bool list" where
  "node_client_received data sv = (Inl (AttributeError ''body''), NodeClient, sv, [])"

text \<open>\<open>TCPStreamHandler._handle_read\<close> and \<open>__call__\<close> with the kind of event; \<open>IOLoop.start\<close> logs
  every exception and goes on, so the state after it is the one here.\<close>

datatype io_event = ReadEvent | WriteEvent | OtherEvent

definition handle_read ::
  "(bytes \<Rightarrow> clc_body option) \<Rightarrow> service_env \<Rightarrow> conn \<Rightarrow> sev list \<Rightarrow> service \<Rightarrow>
   unit pyres \<times> conn \<times> sev list \<times> service \<times> bool list" where
  "handle_read loads env c es sv =
     (case read_msg loads es of
        (Inl e, es') \<Rightarrow> (Inl e, c, es', sv, [])
      | (Inr None, es') \<Rightarrow> (Inr (), ClosedConn, es', sv, [])
      | (Inr (Some m), es') \<Rightarrow>
          (let (r, c', sv', out) = (if c = NodeClient then node_client_received (msg_body m) sv
                                    else new_client_received env (msg_body m) sv)
           in (r, c', es', sv', out)))"

definition handle_event ::
  "(bytes \<Rightarrow> clc_body option) \<Rightarrow> service_env \<Rightarrow> io_event \<Rightarrow> conn \<Rightarrow> sev list \<Rightarrow> service \<Rightarrow>
   unit pyres \<times> conn \<times> sev list \<times> service \<times> bool list" where
  "handle_event loads env ev c es sv =
     (if c = ClosedConn then (Inr (), c, es, sv, [])
      else case ev of
        ReadEvent \<Rightarrow> handle_read loads env c es sv
      | WriteEvent \<Rightarrow> (Inr (), c, es, sv, [])
      | OtherEvent \<Rightarrow> (Inr (), ClosedConn, es, sv, []))"

section \<open>A round of the thread\<close>

lemma send_loop_all:
  assumes "distinct names" and "set names \<subseteq> fst ` set dir" and "\<forall>n \<in> set names. se_load env n"
  shows "send_loop env names dir =
    (filter (\<lambda>(n, _). \<not> (n \<in> set names \<and> se_unlink env n)) dir,
     map (the \<circ> map_of dir) (filter (se_send env) names))"
  using assms
proof (induction names arbitrary: dir)
  case (Cons n names)
  let ?dir = "delete_email env n dir"
  obtain eml where eml: "map_of dir n = Some eml"
    using Cons.prems(2) by (cases "map_of dir n") (auto simp: map_of_eq_None_iff)
  have m: "map_of ?dir k = map_of dir k" if "k \<noteq> n" for k
    using that by (induction dir) (auto simp: delete_email_def)
  have "set names \<subseteq> fst ` set ?dir"
    using Cons.prems(1,2) by (fastforce simp: delete_email_def)
  with Cons have ih: "send_loop env names ?dir =
      (filter (\<lambda>(n, _). \<not> (n \<in> set names \<and> se_unlink env n)) ?dir,
       map (the \<circ> map_of ?dir) (filter (se_send env) names))" by simp
  have "map (the \<circ> map_of ?dir) (filter (se_send env) names) =
      map (the \<circ> map_of dir) (filter (se_send env) names)"
  proof (rule map_cong)
    fix x assume "x \<in> set (filter (se_send env) names)"
    with Cons.prems(1) have "x \<noteq> n" by auto
    from m [OF this] show "(the \<circ> map_of ?dir) x = (the \<circ> map_of dir) x" by simp
  qed simp
  moreover have "filter (\<lambda>(n, _). \<not> (n \<in> set names \<and> se_unlink env n)) ?dir =
      filter (\<lambda>(k, _). \<not> (k \<in> set (n # names) \<and> se_unlink env k)) dir"
    by (auto simp: delete_email_def intro!: filter_cong)
  ultimately show ?case using eml ih Cons.prems(3) by (simp add: case_prod_unfold)
qed simp

lemma map_of_names:
  "distinct (map fst xs) \<Longrightarrow>
   map (the \<circ> map_of xs) (filter P (map fst xs)) = map snd (filter (\<lambda>(n, _). P n) xs)"
proof (induction xs)
  case (Cons a xs)
  obtain k v where a: "a = (k, v)" by (cases a)
  have e: "map (the \<circ> map_of (a # xs)) (filter P (map fst xs)) = map (the \<circ> map_of xs) (filter P (map fst xs))"
    using Cons.prems by (intro map_cong) (auto simp: image_iff)
  have "map (the \<circ> map_of (a # xs)) (filter P (map fst (a # xs))) =
      (if P k then [v] else []) @ map (the \<circ> map_of (a # xs)) (filter P (map fst xs))"
    by (simp add: a)
  also have "\<dots> = (if P k then [v] else []) @ map snd (filter (\<lambda>(n, _). P n) xs)"
    using Cons.prems by (subst e, subst Cons.IH) simp_all
  also have "\<dots> = map snd (filter (\<lambda>(n, _). P n) (a # xs))" by (simp add: a)
  finally show ?case .
qed simp

lemma mail_round_all:
  assumes "distinct (map fst dir)" and "dir \<noteq> []" and "se_connect env" "se_login env"
    and "\<forall>n \<in> fst ` set dir. se_load env n"
  shows "mail_round env dir =
    (if se_quit env then Running else Dead SMTPServerDisconnected,
     filter (\<lambda>(n, _). \<not> se_unlink env n) dir,
     rev (map snd (filter (\<lambda>(n, _). se_send env n) dir)))"
proof -
  have "filter (\<lambda>(n, _). \<not> (n \<in> set (rev (map fst dir)) \<and> se_unlink env n)) dir =
      filter (\<lambda>(n, _). \<not> se_unlink env n) dir"
    by (rule filter_cong) (auto simp: image_iff split: prod.splits)
  moreover have "map (the \<circ> map_of dir) (filter (se_send env) (rev (map fst dir))) =
      rev (map snd (filter (\<lambda>(n, _). se_send env n) dir))"
    using map_of_names [OF assms(1), of "se_send env"] by (simp add: rev_filter [symmetric] rev_map [symmetric])
  ultimately show ?thesis
    using assms send_loop_all [of "rev (map fst dir)" dir env] by (simp add: mail_round_def)
qed

section \<open>The counter\<close>

text \<open>The number of the last mail; a counter that is missing or empty is set to zero before it is
  used.\<close>

definition mail_total :: "db \<Rightarrow> int option" where
  "mail_total d =
     (let v = SiteConfig_get d total_key None in if truthy_str v then py_int (the v) else Some 0)"

text \<open>Two databases that differ at most in the counter.\<close>

definition only_total :: "db \<Rightarrow> db \<Rightarrow> bool" where
  "only_total d d' \<longleftrightarrow> d'\<lparr>site_configs := site_configs d\<rparr> = d
     \<and> (\<forall>k. k \<noteq> total_key \<longrightarrow> map_of (site_configs d') k = map_of (site_configs d) k)"

text \<open>The files are numbered up to \<open>n\<close>.\<close>

definition dir_ok :: "int \<Rightarrow> mail_dir \<Rightarrow> bool" where
  "dir_ok n dir \<longleftrightarrow> distinct (map fst dir) \<and> (\<forall>f \<in> fst ` set dir. \<exists>m \<le> n. f = mail_name m)"

fun numbered :: "int \<Rightarrow> email list \<Rightarrow> mail_dir" where
  "numbered n [] = []"
| "numbered n (e # es) = (mail_name (n + 1), e) # numbered (n + 1) es"

lemma update_fresh: "k \<notin> fst ` set al \<Longrightarrow> AList.update k v al = al @ [(k, v)]"
  by (induction al) auto

lemma mail_name_inj: "mail_name m = mail_name n \<Longrightarrow> m = n"
  using show_int_inj by (auto simp: mail_name_def)

lemma dir_ok_send:
  assumes "dir_ok n dir"
  shows "fm_send e (mail_name (n + 1)) dir = dir @ [(mail_name (n + 1), e)]
    \<and> dir_ok (n + 1) (dir @ [(mail_name (n + 1), e)])"
proof -
  have "mail_name (n + 1) \<notin> fst ` set dir"
    using assms mail_name_inj by (fastforce simp: dir_ok_def)
  with assms show ?thesis by (force simp: fm_send_def dir_ok_def update_fresh)
qed

lemma only_total_refl [simp]: "only_total d d"
  by (simp add: only_total_def)

lemma only_total_trans: "only_total d d' \<Longrightarrow> only_total d' d'' \<Longrightarrow> only_total d d''"
  by (cases d; cases d'; cases d'') (auto simp: only_total_def)

lemma only_total_set: "only_total d (site_configs_update (AList.update total_key v) d)"
  by (simp add: only_total_def update_conv')

lemma only_total_users: "only_total d d' \<Longrightarrow> users d' = users d"
  by (cases d; cases d') (auto simp: only_total_def)

lemma show_int_not_Nil [simp]: "show_int n \<noteq> []"
  by (simp add: show_int_def)

lemma map_of_total: "map_of (AList.update total_key v al) total_key = Some v"
  by (simp add: update_conv')

lemma mail_total_set:
  "mail_total (site_configs_update (AList.update total_key (show_int n)) d) = Some n"
  by (simp add: mail_total_def SiteConfig_get_def map_of_total py_int_show_int)

lemma py_int_zero: "py_int ''0'' = Some 0"
  by code_simp

text \<open>After \<open>ensure_total\<close> the counter can be read.\<close>

lemma ensure_total_spec:
  assumes "mail_total (work s) = Some n"
  shows "\<exists>v. map_of (site_configs (work (ensure_total s))) total_key = Some v \<and> v \<noteq> [] \<and> py_int v = Some n
    \<and> only_total (work s) (work (ensure_total s))
    \<and> (store s = work s \<longrightarrow> store (ensure_total s) = work (ensure_total s))"
proof (cases "truthy_str (SiteConfig_get (work s) total_key None)")
  case True
  with assms show ?thesis
    by (auto simp: ensure_total_def mail_total_def SiteConfig_get_def Let_def split: option.splits)
next
  case False
  with assms show ?thesis
    by (simp add: ensure_total_def mail_total_def SiteConfig_set_def map_of_total only_total_set py_int_zero)
qed

lemma store_mail_spec:
  assumes "map_of (site_configs (work s)) total_key = Some v" and "py_int v = Some n"
  shows "store_mail e s dir =
    (Inr (), modify (site_configs_update (AList.update total_key (show_int (n + 1)))) s,
     fm_send e (mail_name (n + 1)) dir)"
  using assms by (simp add: store_mail_def)

section \<open>One mail for each user\<close>

text \<open>The users who get a mail, and the mail.\<close>

definition mailable :: "(int \<times> user) list \<Rightarrow> (int \<times> user) list" where
  "mailable us = filter (\<lambda>(_, U). truthy_str (u_email U) \<and> u_email_valid U) us"

definition user_mail :: "renderer \<Rightarrow> clc_body \<Rightarrow> string \<Rightarrow> int \<times> user \<Rightarrow> email" where
  "user_mail rndr b adr_from p =
     html_mail (cb_subject b) (the (projr (rndr (cb_subject b) (cb_body b) (display_name (snd p)))))
       (the (u_email (snd p))) adr_from"

definition renders :: "renderer \<Rightarrow> clc_body \<Rightarrow> bool" where
  "renders rndr b \<longleftrightarrow> (\<forall>name. \<exists>html. rndr (cb_subject b) (cb_body b) name = Inr (Some html) \<and> html \<noteq> [])"

lemma numbered_Cons_append:
  "(dir @ [(mail_name (n + 1), e)]) @ numbered (n + 1) es = dir @ numbered n (e # es)"
  by simp

lemma userlist_loop_spec:
  assumes "map_of (site_configs (work s)) total_key = Some v" "py_int v = Some n" "v \<noteq> []"
    and "dir_ok n dir" and "renders rndr b"
  shows "\<exists>s' job' v'. userlist_loop rndr b adr us s job dir =
      (Inr (), s', job', dir @ numbered n (map (user_mail rndr b adr) (mailable us)))
    \<and> sj_user_id job' = sj_user_id job \<and> map_of (site_configs (work s')) total_key = Some v' \<and> v' \<noteq> []
    \<and> py_int v' = Some (n + int (length (mailable us))) \<and> only_total (work s) (work s')
    \<and> dir_ok (n + int (length (mailable us)))
        (dir @ numbered n (map (user_mail rndr b adr) (mailable us)))"
  using assms(1-4)
proof (induction us arbitrary: s v n job dir)
  case Nil
  then show ?case by (auto simp: mailable_def)
next
  case (Cons p us)
  obtain uid U where p: "p = (uid, U)" by (cases p)
  let ?job = "job\<lparr>sj_text := job_text uid U\<rparr>"
  show ?case
  proof (cases "truthy_str (u_email U) \<and> u_email_valid U")
    case False
    then have "userlist_loop rndr b adr (p # us) s job dir = userlist_loop rndr b adr us (commit s) ?job dir"
      "mailable (p # us) = mailable us" by (simp_all add: p Let_def mailable_def)
    with Cons.IH [of "commit s" v n dir ?job] Cons.prems show ?thesis by simp
  next
    case True
    let ?e = "user_mail rndr b adr p"
    let ?s = "modify (site_configs_update (AList.update total_key (show_int (n + 1)))) (commit s)"
    let ?dir = "dir @ [(mail_name (n + 1), ?e)]"
    obtain html where html: "rndr (cb_subject b) (cb_body b) (display_name U) = Inr (Some html)" "html \<noteq> []"
      using assms(5) unfolding renders_def by blast
    have "store_mail ?e (commit s) dir = (Inr (), ?s, ?dir)"
      using store_mail_spec [of "commit s" v n ?e dir] Cons.prems dir_ok_send [of n dir ?e] by simp
    with True html have step: "userlist_loop rndr b adr (p # us) s job dir = userlist_loop rndr b adr us ?s ?job ?dir"
      by (simp add: p Let_def user_mail_def)
    have m: "mailable (p # us) = p # mailable us" using True by (simp add: p mailable_def)
    have "only_total (work s) (work ?s)" by (simp add: only_total_set)
    moreover have "map_of (site_configs (work ?s)) total_key = Some (show_int (n + 1))"
      by (simp add: map_of_total)
    ultimately show ?thesis
      using Cons.IH [of ?s "show_int (n + 1)" "n + 1" ?dir ?job] dir_ok_send [of n dir ?e] Cons.prems(4)
        only_total_trans [of "work s" "work ?s"]
      unfolding step m by (auto simp: py_int_show_int ac_simps)
  qed
qed

lemma mailto_user_list_spec:
  assumes "\<forall>i. cb_uid b = Some i \<longrightarrow> t_get (users d) i \<noteq> None" and "mail_total d = Some n"
    and "dir_ok n dir" and "renders rndr b"
    and "us = mailable (user_list d (cb_id_list b))"
  shows "\<exists>d' job. mailto_user_list rndr b d dir =
      (Inr (), d', Some job, dir @ numbered n (map (user_mail rndr b (mail_from d)) us))
    \<and> sj_user_id job = cb_uid b \<and> sj_status job = 3 \<and> only_total d d'
    \<and> mail_total d' = Some (n + int (length us))
    \<and> dir_ok (n + int (length us)) (dir @ numbered n (map (user_mail rndr b (mail_from d)) us))"
proof -
  let ?job = "\<lparr>sj_user_id = cb_uid b, sj_status = 2, sj_text = ''started''\<rparr>"
  let ?s = "ensure_total (open_session d)"
  obtain v where v: "map_of (site_configs (work ?s)) total_key = Some v" "v \<noteq> []" "py_int v = Some n"
    "only_total d (work ?s)"
    using ensure_total_spec [of "open_session d" n] assms(2) by auto
  obtain s' job' v' where l: "userlist_loop rndr b (mail_from d) (user_list d (cb_id_list b)) ?s ?job dir =
      (Inr (), s', job', dir @ numbered n (map (user_mail rndr b (mail_from d)) us))"
    "sj_user_id job' = cb_uid b" "map_of (site_configs (work s')) total_key = Some v'" "v' \<noteq> []"
    "py_int v' = Some (n + int (length us))" "only_total (work ?s) (work s')"
    "dir_ok (n + int (length us)) (dir @ numbered n (map (user_mail rndr b (mail_from d)) us))"
    using userlist_loop_spec [OF v(1,3,2) assms(3,4), of "mail_from d" "user_list d (cb_id_list b)" ?job]
      assms(5) by auto
  have "mail_total (work s') = Some (n + int (length us))"
    using l(3-5) by (simp add: mail_total_def SiteConfig_get_def)
  moreover have "only_total d (work s')" using v(4) l(6) only_total_trans by blast
  ultimately show ?thesis
    using l(1,2,7) assms(1) by (simp add: mailto_user_list_def Let_def split: option.split)
qed

section \<open>One mail to an address\<close>

lemma mailto_address_spec:
  assumes "mail_total d = Some n" and "mail_target d b = Inr (Some (to, name))"
    and "rndr (cb_subject b) (cb_body b) name = Inr (Some html)" "html \<noteq> []"
  shows "\<exists>d'. mailto_address rndr b d dir =
      (Inr (), d', fm_send (html_mail (cb_subject b) html to (mail_from d)) (mail_name (n + 1)) dir)
    \<and> only_total d d' \<and> mail_total d' = Some n"
proof -
  let ?s = "ensure_total (open_session d)"
  obtain v where v: "map_of (site_configs (work ?s)) total_key = Some v" "v \<noteq> []" "py_int v = Some n"
    "only_total d (work ?s)" "store ?s = work ?s"
    using ensure_total_spec [of "open_session d" n] assms(1) by auto
  have "mail_target (work ?s) b = mail_target d b"
    by (simp only: mail_target_def only_total_users [OF v(4)])
  moreover have "mail_from (work ?s) = mail_from d"
    using v(4) by (simp add: mail_from_def SiteConfig_get_def only_total_def)
  moreover have "truthy_str (cb_to b) \<or> truthy_int (cb_to_user_id b)"
    using assms(2) by (auto simp: mail_target_def Let_def split: if_splits)
  moreover have "mail_total (work ?s) = Some n"
    using v(1-3) by (simp add: mail_total_def SiteConfig_get_def)
  ultimately show ?thesis
    using v assms(2-4) store_mail_spec [OF v(1,3)]
    by (auto simp: mailto_address_def Let_def)
qed

section \<open>Properties\<close>

text \<open>
  A request to write to users, all or those of a list, makes exactly one mail for every one of
  them who has a valid address, in new files after those that wait, loses none of those, ends its job
  and counts the mails; nothing else in the database changes. The hypotheses: the writer exists, the
  counter is a number up to which the files are numbered, and the template can be rendered.
\<close>

theorem userlist_mails:
  assumes "\<forall>i. cb_uid b = Some i \<longrightarrow> t_get (users d) i \<noteq> None" and "mail_total d = Some n"
    and "dir_ok n dir" and "renders rndr b"
  shows "\<exists>d' job dir'. mailto_user_list rndr b d dir = (Inr (), d', Some job, dir')
    \<and> dir' = dir @ numbered n (map (user_mail rndr b (mail_from d)) (mailable (user_list d (cb_id_list b))))
    \<and> dir_ok (n + int (length (mailable (user_list d (cb_id_list b))))) dir'
    \<and> mail_total d' = Some (n + int (length (mailable (user_list d (cb_id_list b)))))
    \<and> only_total d d' \<and> sj_status job = 3"
  using mailto_user_list_spec [OF assms refl] by fastforce

text \<open>
  C33. Two requests for a mail to an address, one after the other, both without an error, leave the
  directory as if the first had never been made: the number of the first is not committed, and the
  second mail gets the same file.
\<close>

theorem mailto_address_overwrites:
  assumes "mail_total d = Some n"
    and "mail_target d b1 = Inr (Some (to1, name1))" "mail_target d b2 = Inr (Some (to2, name2))"
    and "rndr (cb_subject b1) (cb_body b1) name1 = Inr (Some html1)" "html1 \<noteq> []"
    and "rndr (cb_subject b2) (cb_body b2) name2 = Inr (Some html2)" "html2 \<noteq> []"
  shows "\<exists>d1 dir1 d2 dir2. mailto_address rndr b1 d dir = (Inr (), d1, dir1)
    \<and> map_of dir1 (mail_name (n + 1)) = Some (html_mail (cb_subject b1) html1 to1 (mail_from d))
    \<and> mailto_address rndr b2 d1 dir1 = (Inr (), d2, dir2)
    \<and> dir2 = fm_send (html_mail (cb_subject b2) html2 to2 (mail_from d)) (mail_name (n + 1)) dir"
proof -
  obtain d1 where d1: "mailto_address rndr b1 d dir = (Inr (), d1,
      fm_send (html_mail (cb_subject b1) html1 to1 (mail_from d)) (mail_name (n + 1)) dir)"
    "only_total d d1" "mail_total d1 = Some n"
    using mailto_address_spec [of d n b1 to1 name1 rndr html1 dir] assms(1,2,4,5) by blast
  have t: "mail_target d1 b2 = Inr (Some (to2, name2))"
    using assms(3) by (simp only: mail_target_def only_total_users [OF d1(2)])
  have "mail_from d1 = mail_from d"
    using d1(2) by (simp add: mail_from_def SiteConfig_get_def only_total_def)
  let ?dir1 = "fm_send (html_mail (cb_subject b1) html1 to1 (mail_from d)) (mail_name (n + 1)) dir"
  obtain d2 where "mailto_address rndr b2 d1 ?dir1 = (Inr (), d2,
      fm_send (html_mail (cb_subject b2) html2 to2 (mail_from d1)) (mail_name (n + 1)) ?dir1)"
    using mailto_address_spec [of d1 n b2 to2 name2 rndr html2 ?dir1] d1(3) t assms(6,7) by blast
  with d1(1) \<open>mail_from d1 = mail_from d\<close> show ?thesis by (auto simp: fm_send_def update_conv')
qed

text \<open>
  A round of the thread in which the connection works and the files can be read: every mail of
  the directory is tried once, the last file first; those the server takes are sent, and all whose
  file can be deleted are gone, also those the server refused.
\<close>

theorem mail_round_correct:
  assumes "distinct (map fst dir)" and "dir \<noteq> []" and "se_connect env" "se_login env"
    and "\<forall>n \<in> fst ` set dir. se_load env n"
  shows "mail_round env dir =
    (if se_quit env then Running else Dead SMTPServerDisconnected,
     filter (\<lambda>(n, _). \<not> se_unlink env n) dir,
     rev (map snd (filter (\<lambda>(n, _). se_send env n) dir)))"
  using assms by (rule mail_round_all)

text \<open>
  When the mail server cannot be reached, no mail is lost, but the thread ends, so that no mail
  is sent any more, also when the server is back.
\<close>

theorem mail_thread_dies:
  assumes "dir \<noteq> []" and "\<not> se_connect env"
  shows "mail_round env dir = (Dead SMTPServerDisconnected, dir, [])"
  using assms by (simp add: mail_round_def)

text \<open>
  C32. From the web application to the mail server: a request for a mail that was written to the
  stream completely is received whatever the fragmentation, becomes one file, and the next round
  sends exactly this mail. Hypotheses: no mail waits, the encoding is inverted by the decoding, the
  address is known, the template can be rendered and the mail server works.
\<close>

theorem mail_pipeline:
  assumes "dumps b \<noteq> [] \<and> loads (dumps b) = Some b"
    and "send_msg dumps True b (Some k) = Inr (True, bs)" "8 + length (dumps b) \<le> k"
    and "int (length (dumps b)) \<le> bodymax" and "data_only es" and "stream es = bs @ rest"
    and "cb_key b = ''mailto.address''" and "sv_dir sv = []" and "mail_total (sv_db sv) = Some n"
    and "mail_target (sv_db sv) b = Inr (Some (to, name))"
    and "sv_render env (cb_subject b) (cb_body b) name = Inr (Some html)" "html \<noteq> []"
    and "se_connect smtp" "se_login smtp" "se_quit smtp" "\<forall>f. se_load smtp f \<and> se_send smtp f \<and> se_unlink smtp f"
  shows "\<exists>es' sv'. handle_event loads env ReadEvent NewClient es sv = (Inr (), NewClient, es', sv', [])
    \<and> stream es' = rest
    \<and> mail_round smtp (sv_dir sv') =
        (Running, [], [html_mail (cb_subject b) html to (mail_from (sv_db sv))])"
proof -
  let ?e = "html_mail (cb_subject b) html to (mail_from (sv_db sv))"
  obtain m es' where m: "read_msg loads es = (Inr (Some m), es')" "msg_body m = Some b" "stream es' = rest"
    using read_msg_complete [where dumps = dumps and loads = loads and b = b, OF assms(1-6)] by blast
  obtain d' where "mailto_address (sv_render env) b (sv_db sv) [] = (Inr (), d', [(mail_name (n + 1), ?e)])"
    using mailto_address_spec [of "sv_db sv" n b to name "sv_render env" html "[]"] assms(9-12) by (auto simp: fm_send_def)
  with m assms(7,8) have "handle_event loads env ReadEvent NewClient es sv =
      (Inr (), NewClient, es', sv\<lparr>sv_db := d', sv_dir := [(mail_name (n + 1), ?e)]\<rparr>, [])"
    by (simp add: handle_event_def handle_read_def new_client_received_def)
  moreover have "mail_round smtp [(mail_name (n + 1), ?e)] = (Running, [], [?e])"
    using mail_round_all [of "[(mail_name (n + 1), ?e)]" smtp] assms(13-16) by simp
  ultimately show ?thesis using m(3) by auto
qed

section \<open>Witnesses\<close>

definition mail_user_ex :: user where
  "mail_user_ex = (user_ex ''alice'' [])\<lparr>u_email := Some ''alice@example.org'', u_email_valid := True\<rparr>"

definition mail_db_ex :: db where
  "mail_db_ex = db_ex\<lparr>users := \<lparr>rows = [(1, user_ex ''root'' [1]), (2, mail_user_ex)], seq = 2\<rparr>,
     site_configs := [(total_key, ''4'')]\<rparr>"

definition render_ex :: renderer where
  "render_ex subject body name = Inr (Some (name @ '':'' @ (case body of None \<Rightarrow> [] | Some t \<Rightarrow> t)))"

definition body_ex :: "string \<Rightarrow> clc_body" where
  "body_ex t = \<lparr>cb_key = ''mailto.address'', cb_to = Some ''bob@example.org'', cb_to_user_id = None,
     cb_subject = Some ''news'', cb_body = Some t, cb_id_list = [], cb_uid = Some 1, cb_password = None\<rparr>"

definition dir_ex :: mail_dir where
  "dir_ex = [(''4-mail'', html_mail None ''x'' ''carol@example.org'' ''admin@localhost'')]"

definition smtp_ex :: smtp_env where
  "smtp_ex = \<lparr>se_connect = True, se_login = True, se_load = (\<lambda>_. True), se_send = (\<lambda>_. True),
     se_unlink = (\<lambda>_. True), se_quit = True\<rparr>"

lemma mail_total_ex: "mail_total mail_db_ex = Some 4"
  by code_simp

lemma mail_target_ex: "mail_target mail_db_ex (body_ex t) = Inr (Some (''bob@example.org'', ''bob''))"
  by (simp add: mail_target_def body_ex_def mail_db_ex_def)

lemma dir_ex_ok: "dir_ok 4 dir_ex"
proof -
  have "mail_name 4 = ''4-mail''" by code_simp
  then show ?thesis unfolding dir_ok_def dir_ex_def by (simp add: exI [of _ "4 :: int"])
qed

lemma render_ex_spec:
  "render_ex (cb_subject (body_ex t)) (cb_body (body_ex t)) ''bob'' = Inr (Some (''bob:'' @ t))"
  "renders render_ex (body_ex t)"
  by (simp_all add: render_ex_def body_ex_def renders_def)

theorem userlist_mails_witness:
  "\<exists>d' job dir'. mailto_user_list render_ex (body_ex ''hello'') mail_db_ex dir_ex = (Inr (), d', Some job, dir')
    \<and> length dir' = 2 \<and> map (e_to \<circ> snd) dir' = [''carol@example.org'', ''alice@example.org'']
    \<and> mail_total d' = Some 5 \<and> sj_status job = 3"
proof -
  have u: "mailable (user_list mail_db_ex (cb_id_list (body_ex ''hello''))) = [(2, mail_user_ex)]"
    by code_simp
  have "\<forall>i. cb_uid (body_ex ''hello'') = Some i \<longrightarrow> t_get (users mail_db_ex) i \<noteq> None"
    by (simp add: body_ex_def mail_db_ex_def t_get_def)
  from userlist_mails [OF this mail_total_ex dir_ex_ok render_ex_spec(2)] show ?thesis
    unfolding u by (auto simp: dir_ex_def user_mail_def html_mail_def mail_user_ex_def)
qed

theorem mailto_address_overwrites_witness:
  "\<exists>d1 dir1 d2 dir2. mailto_address render_ex (body_ex ''one'') mail_db_ex [] = (Inr (), d1, dir1)
    \<and> mailto_address render_ex (body_ex ''two'') d1 dir1 = (Inr (), d2, dir2)
    \<and> map (e_text \<circ> snd) dir2 = [''bob:two'']"
  using mailto_address_overwrites [OF mail_total_ex mail_target_ex mail_target_ex,
      of render_ex "''one''" "''bob:one''" "''two''" "''bob:two''" "[]"] render_ex_spec(1)
  by (force simp: fm_send_def html_mail_def)

theorem mail_round_correct_witness:
  "mail_round (smtp_ex\<lparr>se_send := (\<lambda>n. n = ''1-mail'')\<rparr>)
     [(''1-mail'', html_mail None ''x'' ''a'' ''b''), (''2-mail'', html_mail None ''y'' ''c'' ''b'')]
   = (Running, [], [html_mail None ''x'' ''a'' ''b''])"
  using mail_round_correct [of
      "[(''1-mail'', html_mail None ''x'' ''a'' ''b''), (''2-mail'', html_mail None ''y'' ''c'' ''b'')]"
      "smtp_ex\<lparr>se_send := (\<lambda>n. n = ''1-mail'')\<rparr>"]
  by (simp add: smtp_ex_def)

theorem mail_thread_dies_witness:
  "mail_round (smtp_ex\<lparr>se_connect := False\<rparr>) dir_ex = (Dead SMTPServerDisconnected, dir_ex, [])"
  using mail_thread_dies [of dir_ex "smtp_ex\<lparr>se_connect := False\<rparr>"] by (simp add: dir_ex_def smtp_ex_def)

text \<open>An encoding of the requests of the form \<open>body_ex\<close> by their text.\<close>

definition dumps_body_ex :: "clc_body \<Rightarrow> bytes" where
  "dumps_body_ex b = map of_char (the (cb_body b))"

definition loads_body_ex :: "bytes \<Rightarrow> clc_body option" where
  "loads_body_ex bs = Some (body_ex (map char_of bs))"

definition service_ex :: service where
  "service_ex = \<lparr>sv_db = mail_db_ex, sv_dir = [], sv_jobs = [], sv_nodes = []\<rparr>"

definition service_env_ex :: service_env where
  "service_env_ex = \<lparr>sv_codec = codec_ex, sv_rnd = [], sv_node_id = 7, sv_render = render_ex\<rparr>"

theorem mail_pipeline_witness:
  "\<exists>es' sv'. handle_event loads_body_ex service_env_ex ReadEvent NewClient
      [Chunk [1, 2, 3, 0, 2], Chunk [0, 0, 0, 104], Chunk [105]] service_ex = (Inr (), NewClient, es', sv', [])
    \<and> mail_round smtp_ex (sv_dir sv') =
        (Running, [], [html_mail (Some ''news'') ''bob:hi'' ''bob@example.org'' ''admin@localhost''])"
proof -
  have s: "send_msg dumps_body_ex True (body_ex ''hi'') (Some 10) = Inr (True, [1, 2, 3, 0, 2, 0, 0, 0, 104, 105])"
    by (simp add: send_msg_def dumps_body_ex_def body_ex_def pack_bbhi_def le32s_def le32_def)
  have c: "dumps_body_ex (body_ex ''hi'') \<noteq> [] \<and>
      loads_body_ex (dumps_body_ex (body_ex ''hi'')) = Some (body_ex ''hi'')"
    by code_simp
  have f: "mail_from mail_db_ex = ''admin@localhost''" by code_simp
  show ?thesis
    using mail_pipeline [where dumps = dumps_body_ex and loads = loads_body_ex and b = "body_ex ''hi''",
        OF c s, of "[Chunk [1, 2, 3, 0, 2], Chunk [0, 0, 0, 104], Chunk [105]]" "[]"
        service_ex 4 "''bob@example.org''" "''bob''" service_env_ex "''bob:hi''" smtp_ex]
      mail_total_ex mail_target_ex [of "''hi''"] render_ex_spec(1) [of "''hi''"] f
    by (auto simp: dumps_body_ex_def body_ex_def bodymax_def service_ex_def service_env_ex_def smtp_ex_def)
qed

end
