(* ===== verification/Osconfig.thy ===== *)
theory Osconfig
  imports Prelude
begin

text \<open>
  The configuration of an instance when it starts (\<^verbatim>\<open>osmanager/bin/pyosc/osconfig.py\<close>): the password
  of root, the public key, the name servers and the network interfaces, from the JSON text that the
  web application writes into the configuration file. Files are a map from paths to contents; whether
  the system calls work, and what the commands answer, are inputs. \<open>json.loads\<close> is a parameter.
\<close>

section \<open>Files\<close>

type_synonym files = "string \<Rightarrow> string option"

text \<open>\<open>f.readlines()\<close>: the lines with their ends.\<close>

fun lines_of :: "string \<Rightarrow> string list" where
  "lines_of [] = []"
| "lines_of (c # cs) =
     (if c = CHR 0x0A then [c] # lines_of cs
      else case lines_of cs of [] \<Rightarrow> [[c]] | l # ls \<Rightarrow> (c # l) # ls)"

text \<open>\<open>sep.join(ws)\<close>\<close>

fun join_with :: "char \<Rightarrow> string list \<Rightarrow> string" where
  "join_with c [] = []"
| "join_with c [w] = w"
| "join_with c (w # v # ws) = w @ c # join_with c (v # ws)"

text \<open>What becomes of writing the temporary file: done, not opened, or opened (which empties it) and cut off
  after some characters; and whether renaming it works. A failure raises \<open>IOError\<close> or \<open>OSError\<close>.\<close>

datatype writing = Written | OpenFails | WriteFails nat

record fs_env =
  fe_write :: writing
  fe_rename :: bool

definition datadir :: string where
  "datadir = ''/root/.luoyun''"

text \<open>Write \<open>src\<close> and rename it to \<open>target\<close>.\<close>

definition write_file :: "fs_env \<Rightarrow> string \<Rightarrow> string \<Rightarrow> files \<Rightarrow> unit pyres \<times> files" where
  "write_file env src content fs =
     (case fe_write env of
        Written \<Rightarrow> (Inr (), fs(src \<mapsto> content))
      | OpenFails \<Rightarrow> (Inl IOError, fs)
      | WriteFails n \<Rightarrow> (Inl IOError, fs(src \<mapsto> take n content)))"

definition rename_file :: "fs_env \<Rightarrow> string \<Rightarrow> string \<Rightarrow> files \<Rightarrow> files pyres" where
  "rename_file env src target fs =
     (if fe_rename env \<and> fs src \<noteq> None then Inr (fs(target := fs src, src := None)) else Inl OSError)"

section \<open>passwdconfig\<close>

text \<open>
  The loop over the lines: \<open>Inr None\<close> is the early return for a password that is set already,
  \<open>Inr (Some w)\<close> the lines to be written. A line \<open>root\<close> without a second field raises.
\<close>

fun shadow_lines :: "string \<Rightarrow> string list \<Rightarrow> string list option pyres" where
  "shadow_lines passwd_hash [] = Inr (Some [])"
| "shadow_lines passwd_hash (l # ls) =
     (let e = split_on CHR '':'' l in
      if e ! 0 = ''root'' then
        if length e < 2 then Inl IndexError
        else if e ! 1 = passwd_hash then Inr None
        else (case shadow_lines passwd_hash ls of
                Inr (Some w) \<Rightarrow> Inr (Some (join_with CHR '':'' (e[1 := passwd_hash]) # w))
              | r \<Rightarrow> r)
      else if l ! 0 \<noteq> CHR 0x00 then
        (case shadow_lines passwd_hash ls of Inr (Some w) \<Rightarrow> Inr (Some (l # w)) | r \<Rightarrow> r)
      else shadow_lines passwd_hash ls)"

definition shadow_src :: string where "shadow_src = datadir @ ''/shadow''"
definition shadow_target :: string where "shadow_target = ''/etc/shadow''"

text \<open>Every exception is caught; what was written before it stays.\<close>

definition passwdconfig :: "fs_env \<Rightarrow> string option \<Rightarrow> files \<Rightarrow> files" where
  "passwdconfig env passwd_hash fs =
     (if \<not> truthy_str passwd_hash then fs
      else case fs shadow_target of
        None \<Rightarrow> fs
      | Some content \<Rightarrow>
          (case shadow_lines (the passwd_hash) (lines_of content) of
             Inl _ \<Rightarrow> fs
           | Inr None \<Rightarrow> fs
           | Inr (Some w) \<Rightarrow>
               (case write_file env shadow_src (concat w) fs of
                  (Inl _, fs1) \<Rightarrow> fs1
                | (Inr _, fs1) \<Rightarrow>
                    (case rename_file env shadow_src shadow_target fs1 of Inl _ \<Rightarrow> fs1 | Inr fs2 \<Rightarrow> fs2))))"

section \<open>sshkeyconfig and nameserverconfig\<close>

text \<open>Both write the new content to a temporary file and rename it unless the target has the same
  content already. Only \<open>IOError\<close> is caught: a failing \<open>rename\<close> ends the program.\<close>

definition replace_file :: "fs_env \<Rightarrow> string \<Rightarrow> string \<Rightarrow> string \<Rightarrow> files \<Rightarrow> unit pyres \<times> files" where
  "replace_file env src target content fs =
     (case write_file env src content fs of
        (Inl _, fs1) \<Rightarrow> (Inr (), fs1)
      | (Inr _, fs1) \<Rightarrow>
          if fs1 target = Some content then (Inr (), fs1)
          else case rename_file env src target fs1 of
            Inl e \<Rightarrow> (Inl e, fs1)
          | Inr fs2 \<Rightarrow> (Inr (), fs2))"

text \<open>The directory \<open>/root/.ssh\<close> is made when it does not exist: \<open>mkdir\<close> says whether it is there
  then; a failure raises \<open>OSError\<close>.\<close>

definition sshkeyconfig :: "fs_env \<Rightarrow> bool \<Rightarrow> string option \<Rightarrow> files \<Rightarrow> unit pyres \<times> files" where
  "sshkeyconfig env mkdir public_key fs =
     (if \<not> truthy_str public_key then (Inr (), fs)
      else if \<not> mkdir then (Inl OSError, fs)
      else replace_file env (datadir @ ''/authorized_keys'') ''/root/.ssh/authorized_keys'' (the public_key) fs)"

definition nameserver_text :: "string \<Rightarrow> string" where
  "nameserver_text nameserver =
     concat (map (\<lambda>l. ''nameserver '' @ l @ [CHR 0x0A]) (split_ws nameserver))"

definition nameserverconfig :: "fs_env \<Rightarrow> string option \<Rightarrow> files \<Rightarrow> unit pyres \<times> files" where
  "nameserverconfig env nameserver fs =
     (if \<not> truthy_str nameserver then (Inr (), fs)
      else replace_file env (datadir @ ''/resolv.conf'') ''/etc/resolv.conf'' (nameserver_text (the nameserver)) fs)"

section \<open>netconfig\<close>

text \<open>The commands, and what they answer: the lines of \<open>ifconfig\<close> and whether each command ends
  without an error.\<close>

datatype command =
    Ifconfig string
  | Ifdown string
  | Ifup string
  | Configure string string string
  | RouteAdd "string option"

record net_env =
  ne_ifconfig :: "string list"
  ne_ifconfig_ok :: bool
  ne_down_ok :: bool
  ne_up_ok :: bool
  ne_route_ok :: bool

record netinf_conf =
  ni_mac :: "string option"
  ni_ip :: "string option"
  ni_netmask :: "string option"
  ni_gateway :: "string option"

definition is_up :: "string list \<Rightarrow> bool" where
  "is_up ls = list_ex (\<lambda>l. case split_ws l of [] \<Rightarrow> False | w # _ \<Rightarrow> w = ''UP'') ls"

text \<open>The commands \<open>netconfig\<close> issues, in order. The message about a failing route names an undefined
  variable; the exception is caught and changes nothing.\<close>

definition netconfig :: "net_env \<Rightarrow> string \<Rightarrow> netinf_conf \<Rightarrow> command list" where
  "netconfig env netinf c =
     (if \<not> truthy_str (ni_ip c) then []
      else if netinf \<noteq> ''eth0'' \<and> netinf \<noteq> ''eth1'' then []
      else if ni_netmask c = None \<or> netinf = ''eth1'' \<and> ni_gateway c = None then []
      else
        let up = ne_ifconfig_ok env \<and> is_up (ne_ifconfig env);
            cmds = Ifconfig netinf # (if up then [Ifdown netinf] else [])
        in if up \<and> \<not> ne_down_ok env then cmds
           else
             let cmds' = cmds @ [Configure netinf (the (ni_ip c)) (the (ni_netmask c))] in
             if \<not> ne_up_ok env then cmds'
             else if netinf = ''eth0'' then cmds' @ [RouteAdd (ni_gateway c)]
             else cmds')"

section \<open>main\<close>

record os_json =
  oj_network :: "netinf_conf list"
  oj_public_key :: "string option"
  oj_passwd_hash :: "string option"
  oj_nameservers :: "string option"

text \<open>The text after \<open>JSON=\<close> in the first such line; \<open>jsonstr.strip()\<close> has no effect.\<close>

definition json_text :: "string list \<Rightarrow> string" where
  "json_text ls = (case find (\<lambda>l. take 5 l = ''JSON='') ls of None \<Rightarrow> [] | Some l \<Rightarrow> drop 5 l)"

definition net_commands :: "net_env \<Rightarrow> net_env \<Rightarrow> netinf_conf list \<Rightarrow> command list" where
  "net_commands env0 env1 network =
     (case network of
        [] \<Rightarrow> [Ifup ''eth0'']
      | [n0] \<Rightarrow> netconfig env0 ''eth0'' n0
      | n0 # n1 # _ \<Rightarrow> netconfig env0 ''eth0'' n0 @ netconfig env1 ''eth1'' n1)"

text \<open>
  \<open>main\<close>: the configuration file as its content, \<open>None\<close> where it does not exist or cannot be read or
  the data directory cannot be made; \<open>loads\<close> gives \<open>None\<close> where \<open>json.loads\<close> raises \<open>ValueError\<close>.
  The result is how the program ends, the commands that were issued, and the files.
\<close>

definition osconfig_main ::
  "(string \<Rightarrow> os_json option) \<Rightarrow> fs_env \<Rightarrow> bool \<Rightarrow> net_env \<Rightarrow> net_env \<Rightarrow> string option \<Rightarrow> files \<Rightarrow>
   unit pyres \<times> command list \<times> files" where
  "osconfig_main loads env mkdir env0 env1 conf fs =
     (case conf of
        None \<Rightarrow> (Inl (SystemExit 1), [], fs)
      | Some content \<Rightarrow>
          (let jsonstr = json_text (lines_of content) in
           if jsonstr = [] then (Inl (SystemExit 1), [], fs)
           else case loads jsonstr of
             None \<Rightarrow> (Inl ValueError, [], fs)
           | Some j \<Rightarrow>
               (let cmds = net_commands env0 env1 (oj_network j) in
                case sshkeyconfig env mkdir (oj_public_key j) fs of
                  (Inl e, fs1) \<Rightarrow> (Inl e, cmds, fs1)
                | (Inr _, fs1) \<Rightarrow>
                    (let (r, fs2) = nameserverconfig env (oj_nameservers j)
                                      (passwdconfig env (oj_passwd_hash j) fs1)
                     in (r, cmds, fs2)))))"

section \<open>Lines and fields\<close>

lemma concat_lines_of [simp]: "concat (lines_of s) = s"
  by (induction s) (auto split: list.splits)

text \<open>A list of lines: each has its end, if it has one, at its end, and only the last may have none.\<close>

fun lines_ok :: "string list \<Rightarrow> bool" where
  "lines_ok [] = True"
| "lines_ok (l # ls) \<longleftrightarrow> l \<noteq> [] \<and> CHR 0x0A \<notin> set (butlast l) \<and> (ls \<noteq> [] \<longrightarrow> last l = CHR 0x0A) \<and> lines_ok ls"

lemma lines_of_ok: "lines_ok (lines_of s)"
  by (induction s) (auto split: list.splits)

lemma lines_of_last: "CHR 0x0A \<notin> set l \<Longrightarrow> l \<noteq> [] \<Longrightarrow> lines_of l = [l]"
proof (induction l)
  case (Cons c l)
  then show ?case by (cases l) auto
qed simp

lemma lines_of_line:
  "CHR 0x0A \<notin> set l \<Longrightarrow> lines_of (l @ CHR 0x0A # s) = (l @ [CHR 0x0A]) # lines_of s"
  by (induction l) auto

lemma lines_of_concat: "lines_ok ls \<Longrightarrow> lines_of (concat ls) = ls"
proof (induction ls)
  case (Cons l ls)
  obtain l' c where l: "l = l' @ [c]" using Cons.prems by (cases l rule: rev_cases) auto
  with Cons show ?case
    by (cases "c = CHR 0x0A") (auto simp: lines_of_line lines_of_last)
qed simp

lemma join_split: "join_with c (split_on c l) = l"
proof (induction l)
  case (Cons x l)
  obtain w ws where "split_on c l = w # ws" by (cases "split_on c l") auto
  with Cons show ?case by (cases ws) auto
qed simp

lemma split_on_fields: "w \<in> set (split_on c l) \<Longrightarrow> c \<notin> set w"
  by (induction l arbitrary: w) (auto split: list.splits if_splits)

lemma split_join:
  "ws \<noteq> [] \<Longrightarrow> \<forall>w \<in> set ws. c \<notin> set w \<Longrightarrow> split_on c (join_with c ws) = ws"
  by (induction c ws rule: join_with.induct) (auto simp: split_on_no_sep split_on_append_sep)

section \<open>The password of root\<close>

definition root_line :: "string \<Rightarrow> bool" where
  "root_line l \<longleftrightarrow> split_on CHR '':'' l ! 0 = ''root''"

text \<open>The line of root with the password in its second field.\<close>

definition set_root :: "string \<Rightarrow> string \<Rightarrow> string" where
  "set_root h l = (if root_line l then join_with CHR '':'' ((split_on CHR '':'' l)[1 := h]) else l)"

text \<open>A shadow file: no line begins with a zero character, at most one is that of root, and it has at
  least three fields.\<close>

definition shadow_ok :: "string list \<Rightarrow> bool" where
  "shadow_ok ls \<longleftrightarrow> (\<forall>l \<in> set ls. l ! 0 \<noteq> CHR 0x00 \<and> (root_line l \<longrightarrow> length (split_on CHR '':'' l) \<ge> 3))
     \<and> length (filter root_line ls) \<le> 1"

lemma shadow_lines_no_root:
  "\<forall>l \<in> set ls. l ! 0 \<noteq> CHR 0x00 \<and> \<not> root_line l \<Longrightarrow> shadow_lines h ls = Inr (Some ls)"
  by (induction ls) (auto simp: root_line_def)

lemma set_root_no_root: "\<forall>l \<in> set ls. \<not> root_line l \<Longrightarrow> map (set_root h) ls = ls"
  by (simp add: set_root_def map_idI)

lemma shadow_lines_spec:
  "shadow_ok ls \<Longrightarrow>
   shadow_lines h ls = Inr None \<and> map (set_root h) ls = ls \<or>
   shadow_lines h ls = Inr (Some (map (set_root h) ls))"
proof (induction ls)
  case (Cons l ls)
  show ?case
  proof (cases "root_line l")
    case True
    then have "\<forall>l \<in> set ls. l ! 0 \<noteq> CHR 0x00 \<and> \<not> root_line l"
      using Cons.prems by (auto simp: shadow_ok_def filter_empty_conv)
    then have ls: "shadow_lines h ls = Inr (Some ls)" "map (set_root h) ls = ls"
      using shadow_lines_no_root set_root_no_root by blast+
    have "length (split_on CHR '':'' l) \<ge> 3" using Cons.prems True by (simp add: shadow_ok_def)
    moreover have "set_root h l = l" if "split_on CHR '':'' l ! 1 = h"
      using True that list_update_id [of "split_on CHR '':'' l" 1] by (simp add: set_root_def join_split)
    moreover have "shadow_lines h (l # ls) =
        (if length (split_on CHR '':'' l) < 2 then Inl IndexError
         else if split_on CHR '':'' l ! 1 = h then Inr None
         else Inr (Some (set_root h l # ls)))"
      using True by (simp add: root_line_def set_root_def ls(1) Let_def)
    ultimately show ?thesis using ls(2) by auto
  next
    case False
    then have "shadow_ok ls" "l ! 0 \<noteq> CHR 0x00" using Cons.prems by (auto simp: shadow_ok_def)
    with Cons.IH False show ?thesis by (auto simp: root_line_def set_root_def)
  qed
qed simp

lemma root_fields:
  assumes "root_line l" and "length (split_on CHR '':'' l) \<ge> 3"
  shows "\<exists>old rest. l = ''root:'' @ old @ '':'' @ rest \<and> CHR '':'' \<notin> set old
    \<and> set_root h l = ''root:'' @ h @ '':'' @ rest"
proof -
  obtain a e1 e2 es where e: "split_on CHR '':'' l = a # e1 # e2 # es"
    using assms(2) by (metis Suc_le_length_iff numeral_3_eq_3)
  then have "a = ''root''" "CHR '':'' \<notin> set e1"
    using assms(1) split_on_fields [of e1 "CHR '':''" l] by (simp_all add: root_line_def)
  moreover have "l = join_with CHR '':'' (a # e1 # e2 # es)" using join_split [of "CHR '':''" l] e by simp
  ultimately show ?thesis using assms(1) e
    by (intro exI [of _ e1] exI [of _ "join_with CHR '':'' (e2 # es)"]) (simp add: set_root_def)
qed

lemma set_root_line:
  assumes "root_line l" "length (split_on CHR '':'' l) \<ge> 3" and "CHR 0x0A \<notin> set h" "CHR '':'' \<notin> set h"
    and "CHR 0x0A \<notin> set (butlast l)"
  shows "CHR 0x0A \<notin> set (butlast (set_root h l))" "set_root h l \<noteq> []"
    and "last l = CHR 0x0A \<longrightarrow> last (set_root h l) = CHR 0x0A"
    and "root_line (set_root h l)" "split_on CHR '':'' (set_root h l) ! 1 = h"
proof -
  obtain old rest where o: "l = ''root:'' @ old @ '':'' @ rest" "set_root h l = ''root:'' @ h @ '':'' @ rest"
    using root_fields [OF assms(1,2), of h] by blast
  have "split_on CHR '':'' (set_root h l) = ''root'' # h # split_on CHR '':'' rest"
    using assms(4) split_on_append_sep [of "CHR '':''" h rest] unfolding o(2) by simp
  then show "root_line (set_root h l)" "split_on CHR '':'' (set_root h l) ! 1 = h"
    by (simp_all add: root_line_def)
  show "CHR 0x0A \<notin> set (butlast (set_root h l))" "set_root h l \<noteq> []"
    "last l = CHR 0x0A \<longrightarrow> last (set_root h l) = CHR 0x0A"
    using assms(3,5) unfolding o(2) by (auto simp: o(1) butlast_append split: if_splits)
qed

lemma set_root_lines:
  assumes "lines_ok ls" "shadow_ok ls" and "CHR 0x0A \<notin> set h" "CHR '':'' \<notin> set h"
  shows "lines_ok (map (set_root h) ls)"
  using assms(1,2)
proof (induction ls)
  case (Cons l ls)
  have ih: "lines_ok (map (set_root h) ls)" using Cons by (auto simp: shadow_ok_def split: if_splits)
  show ?case
  proof (cases "root_line l")
    case True
    with Cons.prems set_root_line [OF True _ assms(3,4)] ih show ?thesis by (auto simp: shadow_ok_def)
  next
    case False
    then have "set_root h l = l" by (simp add: set_root_def)
    with Cons.prems ih show ?thesis by simp
  qed
qed simp

lemma shadow_lines_again:
  assumes "shadow_ok ls" "lines_ok ls" and "CHR 0x0A \<notin> set h" "CHR '':'' \<notin> set h"
  shows "shadow_lines h (map (set_root h) ls) \<in> {Inr None, Inr (Some (map (set_root h) ls))}"
  using assms(1,2)
proof (induction ls)
  case (Cons l ls)
  show ?case
  proof (cases "root_line l")
    case True
    have "root_line (set_root h l)" "split_on CHR '':'' (set_root h l) ! 1 = h"
      using set_root_line [OF True _ assms(3,4)] Cons.prems True by (auto simp: shadow_ok_def)
    moreover have "length (split_on CHR '':'' (set_root h l)) \<ge> 2"
      using Cons.prems True split_on_append_sep [of "CHR '':''" h] assms(4)
        root_fields [OF True, of h] by (fastforce simp: shadow_ok_def)
    ultimately show ?thesis by (simp add: root_line_def)
  next
    case False
    then have "shadow_ok ls" "lines_ok ls" "l ! 0 \<noteq> CHR 0x00" "set_root h l = l"
      using Cons.prems by (auto simp: shadow_ok_def set_root_def)
    with Cons.IH False show ?thesis by (auto simp: root_line_def)
  qed
qed simp

section \<open>Properties\<close>

text \<open>
  C35. Setting the password of root changes in \<open>/etc/shadow\<close> exactly the second field of the line of
  root and in no other file anything but the temporary one; doing it again changes nothing. The
  password is a hash without colon and line end, as the web application makes it.
\<close>

theorem passwdconfig_correct:
  assumes "h \<noteq> []" "CHR '':'' \<notin> set h" "CHR 0x0A \<notin> set h" and "fe_write env = Written" "fe_rename env"
    and "fs shadow_target = Some content" "shadow_ok (lines_of content)"
  shows "\<exists>content'. passwdconfig env (Some h) fs shadow_target = Some content'
    \<and> lines_of content' = map (set_root h) (lines_of content)
    \<and> (\<forall>p. p \<noteq> shadow_target \<longrightarrow> p \<noteq> shadow_src \<longrightarrow> passwdconfig env (Some h) fs p = fs p)
    \<and> passwdconfig env (Some h) (passwdconfig env (Some h) fs) = passwdconfig env (Some h) fs"
proof -
  let ?w = "map (set_root h) (lines_of content)"
  have w: "lines_of (concat ?w) = ?w"
    using set_root_lines [OF lines_of_ok assms(7,3,2)] by (rule lines_of_concat)
  have ne: "shadow_src \<noteq> shadow_target" by (simp add: shadow_src_def shadow_target_def datadir_def)
  consider "shadow_lines h (lines_of content) = Inr None" "?w = lines_of content"
    | "shadow_lines h (lines_of content) = Inr (Some ?w)"
    using shadow_lines_spec [OF assms(7)] by blast
  then show ?thesis
  proof cases
    case 1
    then have "passwdconfig env (Some h) fs = fs" using assms(1,6) by (simp add: passwdconfig_def)
    with 1 assms(6) show ?thesis by simp
  next
    case 2
    let ?fs = "fs(shadow_target \<mapsto> concat ?w, shadow_src := None)"
    have fs: "passwdconfig env (Some h) fs = ?fs"
      using assms(1,4-6) 2 ne by (auto simp: passwdconfig_def write_file_def rename_file_def)
    have "shadow_lines h ?w \<in> {Inr None, Inr (Some ?w)}"
      using shadow_lines_again [OF assms(7) lines_of_ok assms(3,2)] .
    then have "passwdconfig env (Some h) ?fs = ?fs"
      using assms(1,4,5) w ne
      by (auto simp: passwdconfig_def write_file_def rename_file_def fun_upd_twist)
    with fs w ne show ?thesis by simp
  qed
qed

definition shadow_ex :: string where
  "shadow_ex = ''root:!:1::'' @ [CHR 0x0A] @ ''bin:*:2::'' @ [CHR 0x0A]"

theorem passwdconfig_correct_witness:
  "\<exists>content'. passwdconfig \<lparr>fe_write = Written, fe_rename = True\<rparr> (Some ''$6$x'') [shadow_target \<mapsto> shadow_ex]
      shadow_target = Some content'
    \<and> lines_of content' = [''root:$6$x:1::'' @ [CHR 0x0A], ''bin:*:2::'' @ [CHR 0x0A]]"
proof -
  have "shadow_ok (lines_of shadow_ex)" by code_simp
  moreover have "map (set_root ''$6$x'') (lines_of shadow_ex) =
      [''root:$6$x:1::'' @ [CHR 0x0A], ''bin:*:2::'' @ [CHR 0x0A]]" by code_simp
  ultimately show ?thesis
    using passwdconfig_correct [of "''$6$x''" "\<lparr>fe_write = Written, fe_rename = True\<rparr>"
        "[shadow_target \<mapsto> shadow_ex]" shadow_ex] by auto
qed

text \<open>The default route is only set through the first interface, and an interface is only configured
  with an address and a network mask.\<close>

lemma netconfig_commands:
  assumes "c \<in> set (netconfig env netinf n)"
  shows "(\<exists>g. c = RouteAdd g) \<longrightarrow> netinf = ''eth0''"
    and "c = Configure i ip nm \<longrightarrow> i = netinf \<and> ni_ip n = Some ip \<and> ip \<noteq> [] \<and> ni_netmask n = Some nm"
  using assms by (cases "ni_ip n"; force simp: netconfig_def Let_def split: if_splits)+

end
