(* ===== verification/Double.thy ===== *)
theory Double
  imports Complex_Main "HOL-Library.Log_Nat"
begin

text \<open>
  The arithmetic of Python's \<open>float\<close>: an operation gives the exact result rounded to 53 significant bits,
  to the nearest, and to the even one of two that are equally near (\<open>fl\<close>). A value is the rational
  number it stands for. The exponent has no bounds here: the overflow above \<open>2 ^ 1024\<close> and the loss of
  bits below \<open>2 ^ - 1022\<close> are left out, the times of the event loop are far from both.
\<close>

section \<open>Rounding\<close>

definition half_even :: "rat \<Rightarrow> int" where
  "half_even x =
     (let f = \<lfloor>x\<rfloor>; r = x - of_int f
      in if r < 1 / 2 \<or> r = 1 / 2 \<and> even f then f else f + 1)"

text \<open>The exponent of the leading bit.\<close>

definition magnitude :: "rat \<Rightarrow> int" where
  "magnitude x =
     (let (p, q) = quotient_of \<bar>x\<bar>; k = bitlen p - bitlen q
      in if 2 powi k \<le> \<bar>x\<bar> then k else k - 1)"

definition fl :: "rat \<Rightarrow> rat" where
  "fl x =
     (if x = 0 then 0
      else let u = 2 powi (magnitude x - 52) in of_int (half_even (x / u)) * u)"

section \<open>How near the rounded number is\<close>

lemma half_even_near: "\<bar>of_int (half_even x) - x\<bar> \<le> 1 / 2"
proof -
  have "of_int \<lfloor>x\<rfloor> \<le> x" "x < of_int \<lfloor>x\<rfloor> + 1" by linarith+
  then show ?thesis unfolding half_even_def Let_def abs_le_iff by (simp split: if_splits; linarith)
qed

lemma half_even_int [simp]: "half_even (of_int n) = n"
  by (simp add: half_even_def)

lemma bitlen_powi:
  assumes "0 < n"
  shows "2 powi (bitlen n - 1) \<le> (of_int n :: rat)" and "(of_int n :: rat) < 2 powi bitlen n"
proof -
  have b: "1 \<le> bitlen n" using assms by (simp add: compute_bitlen [of n] bitlen_nonneg)
  have "(2 :: int) ^ nat (bitlen n - 1) \<le> n" "n < 2 ^ nat (bitlen n)" using bitlen_bounds [OF assms] by auto
  then have "(of_int (2 ^ nat (bitlen n - 1)) :: rat) \<le> of_int n" "(of_int n :: rat) < of_int (2 ^ nat (bitlen n))"
    by (simp_all only: of_int_le_iff of_int_less_iff)
  with b show "2 powi (bitlen n - 1) \<le> (of_int n :: rat)" "(of_int n :: rat) < 2 powi bitlen n"
    by (simp_all add: power_int_nonneg_exp)
qed

lemma magnitude_bounds:
  assumes "x \<noteq> 0"
  shows "2 powi magnitude x \<le> \<bar>x\<bar>" and "\<bar>x\<bar> < 2 powi (magnitude x + 1)"
proof -
  obtain p q where pq: "quotient_of \<bar>x\<bar> = (p, q)" by (cases "quotient_of \<bar>x\<bar>")
  have q: "0 < q" and x: "\<bar>x\<bar> = of_int p / of_int q"
    using quotient_of_denom_pos [OF pq] quotient_of_div [OF pq] by auto
  have "0 < (of_int p / of_int q :: rat)" using assms by (simp add: x [symmetric])
  with q have p: "0 < p" by (simp add: zero_less_divide_iff)
  let ?k = "bitlen p - bitlen q"
  have "\<bar>x\<bar> < 2 powi bitlen p / 2 powi (bitlen q - 1)"
    unfolding x by (rule frac_less) (use bitlen_powi [OF p] bitlen_powi [OF q] p q in auto)
  also have "\<dots> = 2 powi (?k + 1)" by (simp add: power_int_add power_int_diff)
  finally have up: "\<bar>x\<bar> < 2 powi (?k + 1)" .
  have "2 powi (bitlen p - 1) / 2 powi bitlen q \<le> \<bar>x\<bar>"
    unfolding x by (rule frac_le) (use bitlen_powi [OF p] bitlen_powi [OF q] p q in auto)
  then have low: "2 powi (?k - 1) \<le> \<bar>x\<bar>" by (simp add: power_int_diff mult.commute)
  show "2 powi magnitude x \<le> \<bar>x\<bar>" "\<bar>x\<bar> < 2 powi (magnitude x + 1)"
    using up low by (auto simp: magnitude_def pq Let_def)
qed

lemma fl_error: "\<bar>fl x - x\<bar> \<le> \<bar>x\<bar> / 2 ^ 53"
proof (cases "x = 0")
  case False
  define u :: rat where "u = 2 powi (magnitude x - 52)"
  have u: "0 < u" by (simp add: u_def)
  have "fl x - x = (of_int (half_even (x / u)) - x / u) * u"
    using u False by (simp add: fl_def Let_def u_def [symmetric] left_diff_distrib)
  then have "\<bar>fl x - x\<bar> = \<bar>of_int (half_even (x / u)) - x / u\<bar> * u"
    using u by (simp add: abs_mult)
  also have "\<dots> \<le> (1 / 2) * u" using half_even_near [of "x / u"] u by (intro mult_right_mono) auto
  also have "\<dots> = 2 powi magnitude x / 2 ^ 53" by (simp add: u_def power_int_diff)
  also have "\<dots> \<le> \<bar>x\<bar> / 2 ^ 53" using magnitude_bounds(1) [OF False] by (simp add: divide_right_mono)
  finally show ?thesis .
qed (simp add: fl_def)

lemma fl_bounds:
  assumes "0 \<le> x"
  shows "x * (1 - 1 / 2 ^ 53) \<le> fl x" and "fl x \<le> x * (1 + 1 / 2 ^ 53)"
proof -
  have "fl x - x \<le> x / 2 ^ 53" "x - fl x \<le> x / 2 ^ 53"
    using fl_error [of x] assms by (simp_all only: abs_le_iff abs_of_nonneg minus_diff_eq)
  then show "x * (1 - 1 / 2 ^ 53) \<le> fl x" "fl x \<le> x * (1 + 1 / 2 ^ 53)"
    by (simp_all add: right_diff_distrib distrib_left)
qed

lemma fl_pos: "0 < x \<Longrightarrow> 0 < fl x"
  using fl_bounds(1) [of x] by simp

lemma fl_nonneg: "0 \<le> x \<Longrightarrow> 0 \<le> fl x"
  using fl_bounds(1) [of x] by simp

text \<open>A number of 53 bits is its own double: an integer below \<open>2 ^ 53\<close>, for one.\<close>

lemma fl_exact:
  assumes "\<bar>m\<bar> < 2 ^ 53"
  shows "fl (of_int m * 2 powi e) = of_int m * 2 powi e"
proof (cases "m = 0")
  case False
  define x :: rat where "x = of_int m * 2 powi e"
  have x: "x \<noteq> 0" using False by (simp add: x_def)
  have "2 powi magnitude x \<le> \<bar>x\<bar>" by (rule magnitude_bounds(1) [OF x])
  also have "\<bar>x\<bar> = of_int \<bar>m\<bar> * 2 powi e" by (simp add: x_def abs_mult)
  also have "\<dots> < of_int (2 ^ 53) * 2 powi e" using assms by (intro mult_strict_right_mono) (simp_all only: of_int_less_iff, simp)
  also have "\<dots> = 2 powi (53 + e)" by (simp add: power_int_add)
  finally have "\<not> 53 + e \<le> magnitude x" using power_int_increasing [of "53 + e" "magnitude x" "2 :: rat"] by auto
  then have "magnitude x \<le> 52 + e" by simp
  then have "(2 :: rat) powi e / 2 powi (magnitude x - 52) = of_int (2 ^ nat (e - (magnitude x - 52)))"
    by (simp add: power_int_nonneg_exp flip: power_int_diff)
  moreover have "x / 2 powi (magnitude x - 52) = of_int m * (2 powi e / 2 powi (magnitude x - 52))"
    by (subst (1) x_def) simp
  ultimately have h: "x / 2 powi (magnitude x - 52) = of_int (m * 2 ^ nat (e - (magnitude x - 52)))"
    by (simp only: of_int_mult)
  have "fl x = x / 2 powi (magnitude x - 52) * 2 powi (magnitude x - 52)"
    unfolding fl_def Let_def h half_even_int using x by simp
  then have "fl x = x" by simp
  then show ?thesis by (simp add: x_def)
qed (simp add: fl_def)

end
