(* ===== verification/Ioloop.thy ===== *)
theory Ioloop
  imports Prelude Double "HOL-Library.Multiset" "HOL-Library.Product_Lexorder"
begin

text \<open>
  The event loop of the mail service (\<^verbatim>\<open>lyweb/lib/lyc/ioloop.py\<close>): handlers of file descriptors,
  timeouts and periodic callbacks. Times are doubles, in seconds, with the rounding \<open>fl\<close> of every operation
  on them; an integer is taken as the double of the same value. The clock \<open>cl\<close> gives the
  readings of \<open>time.time()\<close> one after the other; nothing is said of their order. Timeouts are ordered
  by their deadline and their address \<open>addr\<close>; the queue is the list in that order, of which \<open>heapq\<close>
  shows the first element. What a callback (\<open>prog\<close>) or a handler (\<open>hprog\<close>) does to the loop is a list of
  operations, or \<open>None\<close> if it does not return, as one that waits in \<open>recv\<close> or in a handshake for a
  silent peer. A computation that does not end is \<open>None\<close>.
\<close>

unbundle bit_operations_syntax

section \<open>State\<close>

text \<open>A callback is a function of the application or \<open>PeriodicCallback._run\<close> of a periodic callback.\<close>

datatype callback = Call nat | Run nat

text \<open>\<open>_Timeout\<close>; \<open>None\<close> is a cancelled one.\<close>

record timeout =
  tm_id :: nat
  tm_deadline :: rat
  tm_callback :: "callback option"

record periodic =
  pc_callback :: nat
  pc_time :: rat
  pc_running :: bool
  pc_timeout :: "nat option"
  pc_next :: rat

text \<open>
  The loop with the epoll object (\<open>lp_impl\<close>, the events of the registered descriptors). The last four
  fields are the numbers of timeouts made and of readings of the clock, and the history: the timeouts
  whose callbacks ran, the latest first, and the cancelled ones.
\<close>

record loop =
  lp_impl :: "int \<rightharpoonup> int"
  lp_handlers :: "int \<rightharpoonup> nat"
  lp_timeouts :: "timeout list"
  lp_periodic :: "nat \<Rightarrow> periodic"
  lp_seq :: nat
  lp_reads :: nat
  lp_ran :: "nat list"
  lp_cancelled :: "nat list"

definition EV_READ :: int where "EV_READ = 1"
definition EV_WRITE :: int where "EV_WRITE = 4"
definition EV_ERROR :: int where "EV_ERROR = 8 OR 16"

section \<open>Handlers\<close>

definition remove_handler :: "int \<Rightarrow> loop \<Rightarrow> loop" where
  "remove_handler fd L = L\<lparr>lp_handlers := (lp_handlers L)(fd := None), lp_impl := (lp_impl L)(fd := None)\<rparr>"

text \<open>\<open>register\<close> refuses a descriptor that it has already.\<close>

definition add_handler :: "int \<Rightarrow> nat \<Rightarrow> int \<Rightarrow> loop \<Rightarrow> unit pyres \<times> loop" where
  "add_handler fd h evt L =
     (let L1 = (if lp_handlers L fd \<noteq> None then remove_handler fd L else L);
          L2 = L1\<lparr>lp_handlers := (lp_handlers L1)(fd \<mapsto> h)\<rparr>
      in if lp_impl L2 fd \<noteq> None then (Inl IOError, L2)
         else (Inr (), L2\<lparr>lp_impl := (lp_impl L2)(fd \<mapsto> evt OR EV_ERROR)\<rparr>))"

definition update_handler :: "int \<Rightarrow> int \<Rightarrow> loop \<Rightarrow> unit pyres \<times> loop" where
  "update_handler fd evt L =
     (if lp_impl L fd = None then (Inl IOError, L) else (Inr (), L\<lparr>lp_impl := (lp_impl L)(fd \<mapsto> evt)\<rparr>))"

section \<open>Timeouts\<close>

text \<open>A deadline is a number, a \<open>timedelta\<close> (days, seconds, microseconds) or something else.\<close>

datatype deadline = At rat | After int int int | Unsupported

definition timedelta_to_seconds :: "int \<Rightarrow> int \<Rightarrow> int \<Rightarrow> rat" where
  "timedelta_to_seconds days seconds microseconds =
     fl (fl (of_int (microseconds + (seconds + days * 24 * 3600) * 10 ^ 6)) / of_int (10 ^ 6))"

definition read_clock :: "(nat \<Rightarrow> rat) \<Rightarrow> loop \<Rightarrow> rat \<times> loop" where
  "read_clock cl L = (cl (lp_reads L), L\<lparr>lp_reads := lp_reads L + 1\<rparr>)"

definition heap_key :: "(nat \<Rightarrow> int) \<Rightarrow> timeout \<Rightarrow> rat \<times> int" where
  "heap_key addr t = (tm_deadline t, addr (tm_id t))"

definition push_timeout :: "(nat \<Rightarrow> int) \<Rightarrow> rat \<Rightarrow> callback \<Rightarrow> loop \<Rightarrow> loop" where
  "push_timeout addr d cb L =
     L\<lparr>lp_timeouts := insort_key (heap_key addr)
          \<lparr>tm_id = lp_seq L, tm_deadline = d, tm_callback = Some cb\<rparr> (lp_timeouts L),
       lp_seq := lp_seq L + 1\<rparr>"

text \<open>The handle that \<open>add_timeout\<close> returns is the number of the timeout.\<close>

definition add_timeout ::
  "(nat \<Rightarrow> int) \<Rightarrow> (nat \<Rightarrow> rat) \<Rightarrow> deadline \<Rightarrow> callback \<Rightarrow> loop \<Rightarrow> nat pyres \<times> loop" where
  "add_timeout addr cl dl cb L =
     (case dl of
        At d \<Rightarrow> (Inr (lp_seq L), push_timeout addr d cb L)
      | After days seconds microseconds \<Rightarrow>
          (let (now, L1) = read_clock cl L
           in (Inr (lp_seq L1), push_timeout addr (fl (now + timedelta_to_seconds days seconds microseconds)) cb L1))
      | Unsupported \<Rightarrow> (Inl TypeError, L))"

definition cancel :: "nat \<Rightarrow> timeout \<Rightarrow> timeout" where
  "cancel i t = (if tm_id t = i then t\<lparr>tm_callback := None\<rparr> else t)"

definition remove_timeout :: "nat \<Rightarrow> loop \<Rightarrow> loop" where
  "remove_timeout i L =
     L\<lparr>lp_timeouts := map (cancel i) (lp_timeouts L),
       lp_cancelled := (if i < lp_seq L then i # lp_cancelled L else lp_cancelled L)\<rparr>"

section \<open>Periodic callbacks\<close>

text \<open>The loop of \<open>_schedule_next\<close>; \<open>step\<close> is \<open>callback_time / 1000.0\<close>, \<open>next_time\<close> the \<open>+=\<close> of its body.\<close>

definition pc_step :: "periodic \<Rightarrow> rat" where
  "pc_step p = fl (fl (pc_time p) / 1000)"

definition next_time :: "rat \<Rightarrow> rat \<Rightarrow> rat" where
  "next_time step next_timeout = fl (next_timeout + step)"

partial_function (option) advance :: "rat \<Rightarrow> rat \<Rightarrow> rat \<Rightarrow> rat option" where
  "advance step current_time next_timeout =
     (if next_timeout \<le> current_time then advance step current_time (next_time step next_timeout) else Some next_timeout)"

declare advance.simps [code]

definition upd_periodic :: "nat \<Rightarrow> (periodic \<Rightarrow> periodic) \<Rightarrow> loop \<Rightarrow> loop" where
  "upd_periodic k g L = L\<lparr>lp_periodic := (lp_periodic L)(k := g (lp_periodic L k))\<rparr>"

definition schedule_next :: "(nat \<Rightarrow> int) \<Rightarrow> (nat \<Rightarrow> rat) \<Rightarrow> nat \<Rightarrow> loop \<Rightarrow> loop option" where
  "schedule_next addr cl k L =
     (let p = lp_periodic L k in
      if pc_running p then
        (let (current_time, L1) = read_clock cl L in
         case advance (pc_step p) current_time (pc_next p) of
           None \<Rightarrow> None
         | Some n \<Rightarrow>
             Some (push_timeout addr n (Run k)
               (upd_periodic k (\<lambda>p. p\<lparr>pc_next := n, pc_timeout := Some (lp_seq L1)\<rparr>) L1)))
      else Some L)"

definition pc_start :: "(nat \<Rightarrow> int) \<Rightarrow> (nat \<Rightarrow> rat) \<Rightarrow> nat \<Rightarrow> loop \<Rightarrow> loop option" where
  "pc_start addr cl k L =
     (let (now, L1) = read_clock cl L
      in schedule_next addr cl k (upd_periodic k (\<lambda>p. p\<lparr>pc_running := True, pc_next := now\<rparr>) L1))"

definition pc_stop :: "nat \<Rightarrow> loop \<Rightarrow> loop" where
  "pc_stop k L =
     (let L1 = upd_periodic k (\<lambda>p. p\<lparr>pc_running := False\<rparr>) L in
      case pc_timeout (lp_periodic L1 k) of
        None \<Rightarrow> L1
      | Some i \<Rightarrow> upd_periodic k (\<lambda>p. p\<lparr>pc_timeout := None\<rparr>) (remove_timeout i L1))"

section \<open>Callbacks\<close>

text \<open>What code that runs in the loop can do to it; an exception ends it.\<close>

datatype lop =
    AddTimeout deadline callback
  | RemoveTimeout nat
  | PcStart nat
  | PcStop nat
  | AddHandler int nat int
  | UpdateHandler int int
  | RemoveHandler int

fun do_op :: "(nat \<Rightarrow> int) \<Rightarrow> (nat \<Rightarrow> rat) \<Rightarrow> lop \<Rightarrow> loop \<Rightarrow> (unit pyres \<times> loop) option" where
  "do_op addr cl (AddTimeout dl cb) L =
     (case add_timeout addr cl dl cb L of (Inl e, L') \<Rightarrow> Some (Inl e, L') | (Inr _, L') \<Rightarrow> Some (Inr (), L'))"
| "do_op addr cl (RemoveTimeout i) L = Some (Inr (), remove_timeout i L)"
| "do_op addr cl (PcStart k) L = map_option (Pair (Inr ())) (pc_start addr cl k L)"
| "do_op addr cl (PcStop k) L = Some (Inr (), pc_stop k L)"
| "do_op addr cl (AddHandler fd h evt) L = Some (add_handler fd h evt L)"
| "do_op addr cl (UpdateHandler fd evt) L = Some (update_handler fd evt L)"
| "do_op addr cl (RemoveHandler fd) L = Some (Inr (), remove_handler fd L)"

fun do_ops :: "(nat \<Rightarrow> int) \<Rightarrow> (nat \<Rightarrow> rat) \<Rightarrow> lop list \<Rightarrow> loop \<Rightarrow> loop option" where
  "do_ops addr cl [] L = Some L"
| "do_ops addr cl (op # ops) L =
     (case do_op addr cl op L of
        None \<Rightarrow> None
      | Some (Inl e, L') \<Rightarrow> Some L'
      | Some (Inr _, L') \<Rightarrow> do_ops addr cl ops L')"

text \<open>A call of code of the application.\<close>

definition run_prog :: "(nat \<Rightarrow> int) \<Rightarrow> (nat \<Rightarrow> rat) \<Rightarrow> lop list option \<Rightarrow> loop \<Rightarrow> loop option" where
  "run_prog addr cl r L = (case r of None \<Rightarrow> None | Some ops \<Rightarrow> do_ops addr cl ops L)"

text \<open>\<open>_run_callback\<close> and \<open>PeriodicCallback._run\<close>; the exceptions are logged in both.\<close>

definition run_callback ::
  "(nat \<Rightarrow> loop \<Rightarrow> lop list option) \<Rightarrow> (nat \<Rightarrow> int) \<Rightarrow> (nat \<Rightarrow> rat) \<Rightarrow> callback \<Rightarrow> loop \<Rightarrow> loop option" where
  "run_callback prog addr cl cb L =
     (case cb of
        Call n \<Rightarrow> run_prog addr cl (prog n L) L
      | Run k \<Rightarrow>
          if \<not> pc_running (lp_periodic L k) then Some L
          else case run_prog addr cl (prog (pc_callback (lp_periodic L k)) L) L of
            None \<Rightarrow> None
          | Some L' \<Rightarrow> schedule_next addr cl k L')"

section \<open>The loop\<close>

text \<open>The inner loop of \<open>start\<close>: the timeouts that are due, and how long \<open>poll\<close> waits.\<close>

partial_function (option) run_timers ::
  "(nat \<Rightarrow> loop \<Rightarrow> lop list option) \<Rightarrow> (nat \<Rightarrow> int) \<Rightarrow> (nat \<Rightarrow> rat) \<Rightarrow> rat \<Rightarrow> loop \<Rightarrow> (rat \<times> loop) option" where
  "run_timers prog addr cl now L =
     (case lp_timeouts L of
        [] \<Rightarrow> Some (3600, L)
      | t # ts \<Rightarrow>
          (case tm_callback t of
             None \<Rightarrow> run_timers prog addr cl now (L\<lparr>lp_timeouts := ts\<rparr>)
           | Some cb \<Rightarrow>
               if tm_deadline t \<le> now then
                 (case run_callback prog addr cl cb (L\<lparr>lp_timeouts := ts, lp_ran := tm_id t # lp_ran L\<rparr>) of
                    None \<Rightarrow> None
                  | Some L' \<Rightarrow> run_timers prog addr cl now L')
               else Some (min (fl (tm_deadline t - now)) 3600, L)))"

declare run_timers.simps [code]

text \<open>
  The events of \<open>poll\<close>, each given to the handler of its descriptor; what the handler raises, and a
  descriptor that has lost its handler, are logged. \<open>hprog\<close> is what a handler does.
\<close>

fun dispatch ::
  "(nat \<Rightarrow> int \<Rightarrow> int \<Rightarrow> loop \<Rightarrow> lop list option) \<Rightarrow> (nat \<Rightarrow> int) \<Rightarrow> (nat \<Rightarrow> rat) \<Rightarrow> (int \<times> int) list \<Rightarrow> loop \<Rightarrow> loop option" where
  "dispatch hprog addr cl [] L = Some L"
| "dispatch hprog addr cl ((fd, evt) # evs) L =
     (case lp_handlers L fd of
        None \<Rightarrow> dispatch hprog addr cl evs L
      | Some h \<Rightarrow>
          (case run_prog addr cl (hprog h fd evt L) L of
             None \<Rightarrow> None
           | Some L' \<Rightarrow> dispatch hprog addr cl evs L'))"

text \<open>
  One turn of \<open>while True\<close>; \<open>poll timeout\<close> gives the events, or raises (\<open>EINTR\<close> when a signal comes),
  which nothing in \<open>start\<close> catches.
\<close>

definition loop_turn ::
  "(nat \<Rightarrow> loop \<Rightarrow> lop list option) \<Rightarrow> (nat \<Rightarrow> int \<Rightarrow> int \<Rightarrow> loop \<Rightarrow> lop list option) \<Rightarrow> (nat \<Rightarrow> int) \<Rightarrow> (nat \<Rightarrow> rat) \<Rightarrow>
   (rat \<Rightarrow> (int \<times> int) list pyres) \<Rightarrow> loop \<Rightarrow> (unit pyres \<times> loop) option" where
  "loop_turn prog hprog addr cl poll L =
     (case (if lp_timeouts L \<noteq> [] then
              (let (now, L1) = read_clock cl L in run_timers prog addr cl now L1)
            else Some (3600, L)) of
        None \<Rightarrow> None
      | Some (poll_timeout, L1) \<Rightarrow>
          (case poll poll_timeout of
             Inl e \<Rightarrow> Some (Inl e, L1)
           | Inr events \<Rightarrow> map_option (Pair (Inr ())) (dispatch hprog addr cl events L1)))"

text \<open>\<open>start\<close> for a number of turns; it only ends by what \<open>poll\<close> raises.\<close>

fun start_turns ::
  "(nat \<Rightarrow> loop \<Rightarrow> lop list option) \<Rightarrow> (nat \<Rightarrow> int \<Rightarrow> int \<Rightarrow> loop \<Rightarrow> lop list option) \<Rightarrow> (nat \<Rightarrow> int) \<Rightarrow> (nat \<Rightarrow> rat) \<Rightarrow>
   (rat \<Rightarrow> (int \<times> int) list pyres) list \<Rightarrow> loop \<Rightarrow> (unit pyres \<times> loop) option" where
  "start_turns prog hprog addr cl [] L = Some (Inr (), L)"
| "start_turns prog hprog addr cl (p # ps) L =
     (case loop_turn prog hprog addr cl p L of
        None \<Rightarrow> None
      | Some (Inl e, L') \<Rightarrow> Some (Inl e, L')
      | Some (Inr _, L') \<Rightarrow> start_turns prog hprog addr cl ps L')"

section \<open>New connections\<close>

text \<open>
  \<open>Application.handle_stream\<close> (\<^verbatim>\<open>lyweb/tool/clc/clcapp.py\<close>): what became of the TLS handshake, if there is
  one. The second \<open>except\<close> clause names the module \<open>socket\<close>, which is not imported.
\<close>

datatype handshake = NoSsl | HsOk | HsEof | HsSslError | HsSockError

definition handle_stream :: "handshake \<Rightarrow> int \<Rightarrow> nat \<Rightarrow> loop \<Rightarrow> unit pyres \<times> loop" where
  "handle_stream hs fd h L =
     (case hs of
        HsEof \<Rightarrow> (Inr (), L)
      | HsSslError \<Rightarrow> (Inl IOError, L)
      | HsSockError \<Rightarrow> (Inl (NameError ''socket''), L)
      | _ \<Rightarrow> add_handler fd h EV_READ L)"

text \<open>
  \<open>accept_handler\<close> (\<^verbatim>\<open>lyweb/lib/lyc/netutil.py\<close>): accepts until nothing waits. \<open>Accepted fd h hs\<close> is a
  connection on the descriptor \<open>fd\<close>, \<open>h\<close> the handler object made for it.
\<close>

datatype accepted = Accepted int nat handshake | WouldBlock | AcceptError

fun accept_handler :: "accepted list \<Rightarrow> loop \<Rightarrow> unit pyres \<times> loop" where
  "accept_handler [] L = (Inr (), L)"
| "accept_handler (WouldBlock # as) L = (Inr (), L)"
| "accept_handler (AcceptError # as) L = (Inl IOError, L)"
| "accept_handler (Accepted fd h hs # as) L =
     (case handle_stream hs fd h L of
        (Inl e, L') \<Rightarrow> (Inl e, L')
      | (Inr _, L') \<Rightarrow> accept_handler as L')"

section \<open>The next time of a periodic callback\<close>

lemma advance_Some_iter:
  "advance step now next = Some y \<Longrightarrow>
   \<exists>n. y = (next_time step ^^ n) next \<and> now < y \<and> (\<forall>m < n. (next_time step ^^ m) next \<le> now)"
proof (erule advance.raw_induct [rotated])
  fix advance' step now "next" y
  assume IH: "\<And>step now next y. advance' step now next = Some y \<Longrightarrow>
      \<exists>n. y = (next_time step ^^ n) next \<and> now < y \<and> (\<forall>m < n. (next_time step ^^ m) next \<le> now)"
    and body: "(if next \<le> now then advance' step now (next_time step next) else Some next) = Some y"
  show "\<exists>n. y = (next_time step ^^ n) next \<and> now < y \<and> (\<forall>m < n. (next_time step ^^ m) next \<le> now)"
  proof (cases "next \<le> now")
    case True
    then obtain n where n: "y = (next_time step ^^ n) (next_time step next)" "now < y"
      "\<forall>m < n. (next_time step ^^ m) (next_time step next) \<le> now"
      using IH [of step now "next_time step next" y] body by auto
    have "(next_time step ^^ m) next \<le> now" if "m < Suc n" for m
      using that True n(3) by (cases m) (auto simp: funpow_swap1)
    with n(1,2) show ?thesis by (intro exI [of _ "Suc n"]) (simp add: funpow_swap1)
  next
    case False
    with body show ?thesis by (intro exI [of _ 0]) simp
  qed
qed



text \<open>
  Up to the year 2242 (\<open>2 ^ 33\<close> seconds) the doubles are at most \<open>2 ^ - 20\<close> seconds apart, so a step of
  about a millisecond is not rounded away.
\<close>

lemma fl_step: "0 \<le> x \<Longrightarrow> x < 2 ^ 33 \<Longrightarrow> 1 / 1001 \<le> s \<Longrightarrow> x + 1 / 2000 \<le> fl (x + s)"
proof -
  assume a: "0 \<le> x" "x < 2 ^ 33" "1 / 1001 \<le> s"
  then have "0 \<le> x + s" by linarith
  from fl_bounds(1) [OF this] a show ?thesis by simp
qed

lemma fl_milli: "1 \<le> x \<Longrightarrow> 1 / 1001 \<le> fl (fl x / 1000)"
  using fl_bounds(1) [of x] fl_bounds(1) [of "fl x / 1000"] fl_nonneg [of x] by simp

lemma pc_step_ge: "1 \<le> pc_time p \<Longrightarrow> 1 / 1001 \<le> pc_step p"
  unfolding pc_step_def by (rule fl_milli)

lemma advance_ends:
  "0 \<le> next \<Longrightarrow> now < 2 ^ 33 \<Longrightarrow> 1 / 1001 \<le> step \<Longrightarrow> now < next + of_nat N / 2000 \<Longrightarrow>
   \<exists>y. advance step now next = Some y"
proof (induction N arbitrary: "next")
  case (Suc N)
  show ?case
  proof (cases "next \<le> now")
    case True
    then have n: "next + 1 / 2000 \<le> next_time step next"
      using fl_step [of "next" step] Suc.prems by (simp add: next_time_def)
    have "\<exists>y. advance step now (next_time step next) = Some y"
      by (rule Suc.IH) (use n Suc.prems in \<open>auto simp: add_divide_distrib\<close>)
    with True show ?thesis by (simp add: advance.simps [of step now "next"])
  qed (simp add: advance.simps [of step now "next"])
qed (simp add: advance.simps)

lemma advance_returns:
  assumes "0 \<le> next" and "now < 2 ^ 33" and "1 / 1001 \<le> step"
  shows "\<exists>y. advance step now next = Some y \<and> now < y"
proof -
  obtain N :: nat where "(now - next) * 2000 < of_nat N" using reals_Archimedean2 by blast
  then have "now < next + of_nat N / 2000" by (simp add: field_simps)
  with advance_ends [OF assms] advance_Some_iter show ?thesis by blast
qed


section \<open>The state stays well formed\<close>

text \<open>
  The queue is sorted, every timeout that was ever made is in it, has run or was cancelled, none is in
  it and has run, or has run twice, the callbacks of the cancelled ones and of no others are gone, and every
  registered descriptor has a handler.
\<close>

definition queue_ok :: "(nat \<Rightarrow> int) \<Rightarrow> loop \<Rightarrow> bool" where
  "queue_ok addr L \<longleftrightarrow> sorted (map (heap_key addr) (lp_timeouts L)) \<and> distinct (map tm_id (lp_timeouts L) @ lp_ran L) \<and>
     (\<forall>i \<in> set (map tm_id (lp_timeouts L) @ lp_ran L @ lp_cancelled L). i < lp_seq L) \<and>
     (\<forall>i < lp_seq L. i \<in> set (map tm_id (lp_timeouts L) @ lp_ran L @ lp_cancelled L)) \<and>
     (\<forall>t \<in> set (lp_timeouts L). tm_callback t = None \<longleftrightarrow> tm_id t \<in> set (lp_cancelled L))"

definition loop_ok :: "(nat \<Rightarrow> int) \<Rightarrow> loop \<Rightarrow> bool" where
  "loop_ok addr L \<longleftrightarrow> queue_ok addr L \<and> dom (lp_impl L) \<subseteq> dom (lp_handlers L)"

text \<open>Periods of a millisecond at least, and times after the epoch.\<close>

definition periods :: "loop \<Rightarrow> bool" where
  "periods L \<longleftrightarrow> (\<forall>k. 1 \<le> pc_time (lp_periodic L k) \<and> 0 \<le> pc_next (lp_periodic L k))"

text \<open>What operations of callbacks leave as it is; \<open>due\<close> are the timeouts up to a time.\<close>

definition due :: "rat \<Rightarrow> loop \<Rightarrow> nat list" where
  "due now L = map tm_id (filter (\<lambda>t. tm_deadline t \<le> now) (lp_timeouts L))"

definition grows :: "rat \<Rightarrow> loop \<Rightarrow> loop \<Rightarrow> bool" where
  "grows now L L' \<longleftrightarrow> lp_ran L' = lp_ran L \<and> set (lp_cancelled L) \<subseteq> set (lp_cancelled L') \<and> due now L' = due now L \<and>
     lp_reads L \<le> lp_reads L' \<and> (periods L \<longrightarrow> periods L')"

lemma grows_refl [simp]: "grows now L L"
  by (simp add: grows_def)

lemma grows_trans: "grows now L L1 \<Longrightarrow> grows now L1 L2 \<Longrightarrow> grows now L L2"
  by (auto simp: grows_def)

lemma distinct_insort_id:
  "distinct (map tm_id (insort_key f t ts) @ xs) \<longleftrightarrow> distinct (tm_id t # map tm_id ts @ xs)"
proof -
  have "mset (map tm_id (insort_key f t ts) @ xs) = mset (tm_id t # map tm_id ts @ xs)"
    by simp
  then show ?thesis by (rule mset_eq_imp_distinct_iff)
qed

lemma push_ok: "loop_ok addr L \<Longrightarrow> loop_ok addr (push_timeout addr d cb L)"
  unfolding loop_ok_def queue_ok_def push_timeout_def
  by (auto simp: distinct_insort_id sorted_insort_key set_insort_key less_Suc_eq simp del: distinct_append)

lemma push_grows: "now < d \<Longrightarrow> grows now L (push_timeout addr d cb L)"
  by (simp add: grows_def due_def push_timeout_def filter_insort_triv periods_def)

lemma clock_ok: "read_clock cl L = (t, L') \<Longrightarrow> loop_ok addr L \<Longrightarrow> loop_ok addr L' \<and> grows now L L' \<and> lp_seq L' = lp_seq L"
  by (clarsimp simp: read_clock_def loop_ok_def queue_ok_def grows_def due_def periods_def)

lemma cancel_simps [simp]:
  "tm_id (cancel i t) = tm_id t" "tm_deadline (cancel i t) = tm_deadline t" "heap_key addr (cancel i t) = heap_key addr t"
  "tm_callback (cancel i t) = (if tm_id t = i then None else tm_callback t)"
  by (simp_all add: cancel_def heap_key_def)

lemma map_cancel: "map tm_id (map (cancel i) ts) = map tm_id ts" "map (heap_key addr) (map (cancel i) ts) = map (heap_key addr) ts"
  "map tm_id (filter (\<lambda>t. tm_deadline t \<le> now) (map (cancel i) ts)) = map tm_id (filter (\<lambda>t. tm_deadline t \<le> now) ts)"
  by (induction ts) simp_all

lemma remove_timeout_ok:
  assumes "loop_ok addr L" shows "loop_ok addr (remove_timeout i L) \<and> grows now L (remove_timeout i L)"
proof -
  have "queue_ok addr (remove_timeout i L)"
    using assms unfolding loop_ok_def queue_ok_def remove_timeout_def
    by (auto simp: map_cancel simp del: map_map map_eq_conv)
  with assms show ?thesis
    by (auto simp: loop_ok_def grows_def due_def remove_timeout_def map_cancel periods_def simp del: map_map map_eq_conv)
qed

lemma periodic_ok:
  "(\<And>p. pc_time (g p) = pc_time p \<and> (0 \<le> pc_next p \<longrightarrow> 0 \<le> pc_next (g p))) \<Longrightarrow> loop_ok addr L \<Longrightarrow>
   loop_ok addr (upd_periodic k g L) \<and> grows now L (upd_periodic k g L)"
  by (auto simp: upd_periodic_def loop_ok_def queue_ok_def grows_def due_def periods_def)

lemma handlers_ok:
  assumes "loop_ok addr L"
  shows "loop_ok addr (remove_handler fd L) \<and> grows now L (remove_handler fd L)"
    and "loop_ok addr (snd (add_handler fd h evt L)) \<and> grows now L (snd (add_handler fd h evt L))"
    and "loop_ok addr (snd (update_handler fd evt L)) \<and> grows now L (snd (update_handler fd evt L))"
  using assms
  by (auto simp: loop_ok_def queue_ok_def grows_def due_def periods_def remove_handler_def add_handler_def update_handler_def Let_def
      split: if_splits)

lemma upd_periodic_ok: "loop_ok addr L \<Longrightarrow> loop_ok addr (upd_periodic k g L)"
  by (simp add: upd_periodic_def loop_ok_def queue_ok_def)

lemma schedule_next_cases:
  assumes "schedule_next addr cl k L = Some L'"
  obtains "L' = L" | n L1 g where "read_clock cl L = (cl (lp_reads L), L1)"
    "g = (\<lambda>p. p\<lparr>pc_next := n, pc_timeout := Some (lp_seq L1)\<rparr>)"
    "cl (lp_reads L) < n" "L' = push_timeout addr n (Run k) (upd_periodic k g L1)"
proof (cases "pc_running (lp_periodic L k)")
  case True
  obtain t L1 where c: "read_clock cl L = (t, L1)" by (cases "read_clock cl L")
  then have t: "t = cl (lp_reads L)" by (simp add: read_clock_def)
  obtain n where n: "advance (pc_step (lp_periodic L k)) t (pc_next (lp_periodic L k)) = Some n"
    "L' = push_timeout addr n (Run k) (upd_periodic k (\<lambda>p. p\<lparr>pc_next := n, pc_timeout := Some (lp_seq L1)\<rparr>) L1)"
    using assms True c by (auto simp: schedule_next_def Let_def split: option.splits)
  have "t < n" using advance_Some_iter [OF n(1)] by auto
  with n(2) c t show thesis by (intro that(2)) auto
next
  case False
  with assms show thesis by (intro that(1)) (simp add: schedule_next_def Let_def)
qed

lemma schedule_next_ok: "schedule_next addr cl k L = Some L' \<Longrightarrow> loop_ok addr L \<Longrightarrow> loop_ok addr L'"
  by (erule schedule_next_cases) (auto intro!: push_ok simp: upd_periodic_ok dest!: clock_ok [where addr = addr])

lemma schedule_next_ends:
  assumes "periods L" and "cl (lp_reads L) < 2 ^ 33"
  shows "\<exists>L'. schedule_next addr cl k L = Some L'"
proof -
  have "1 / 1001 \<le> pc_step (lp_periodic L k)" "0 \<le> pc_next (lp_periodic L k)"
    using assms(1) pc_step_ge by (simp_all add: periods_def)
  then obtain y where "advance (pc_step (lp_periodic L k)) (cl (lp_reads L)) (pc_next (lp_periodic L k)) = Some y"
    using advance_returns [OF _ assms(2)] by blast
  then show ?thesis by (simp add: schedule_next_def read_clock_def Let_def)
qed

text \<open>
  The readings of the clock to come are not before \<open>now\<close> and before the year 2242; the periods are of
  a millisecond at least. Operations are patient when they set no timeout up to \<open>now\<close>, nor one after
  less than a millisecond.
\<close>

definition clock_from :: "(nat \<Rightarrow> rat) \<Rightarrow> rat \<Rightarrow> nat \<Rightarrow> bool" where
  "clock_from cl now n \<longleftrightarrow> 0 \<le> now \<and> (\<forall>m \<ge> n. now \<le> cl m \<and> cl m < 2 ^ 33)"

definition timer_ready :: "(nat \<Rightarrow> int) \<Rightarrow> (nat \<Rightarrow> rat) \<Rightarrow> rat \<Rightarrow> loop \<Rightarrow> bool" where
  "timer_ready addr cl now L \<longleftrightarrow> loop_ok addr L \<and> clock_from cl now (lp_reads L) \<and> periods L"

fun patient :: "rat \<Rightarrow> lop \<Rightarrow> bool" where
  "patient now (AddTimeout (At d) cb) \<longleftrightarrow> now < d"
| "patient now (AddTimeout (After days seconds microseconds) cb) \<longleftrightarrow>
     1000 \<le> microseconds + (seconds + days * 24 * 3600) * 10 ^ 6"
| "patient now _ \<longleftrightarrow> True"

text \<open>Every callback returns, and sets no timeout for a time that has passed.\<close>

definition polite :: "(nat \<Rightarrow> rat) \<Rightarrow> (nat \<Rightarrow> loop \<Rightarrow> lop list option) \<Rightarrow> bool" where
  "polite cl prog \<longleftrightarrow> (\<forall>n M. \<exists>ops. prog n M = Some ops \<and> (\<forall>op \<in> set ops. patient (cl (lp_reads M)) op))"

lemma patient_mono: "patient t op \<Longrightarrow> now \<le> t \<Longrightarrow> patient now op"
  by (cases "(t, op)" rule: patient.cases) auto

lemma polite_patient:
  assumes "polite cl prog" and "timer_ready addr cl now M"
  obtains ops where "prog n M = Some ops" "\<forall>op \<in> set ops. patient now op"
proof -
  obtain ops where "prog n M = Some ops" "\<forall>op \<in> set ops. patient (cl (lp_reads M)) op"
    using assms(1) unfolding polite_def by blast
  moreover have "now \<le> cl (lp_reads M)" using assms(2) by (simp add: timer_ready_def clock_from_def)
  ultimately show thesis using that patient_mono by blast
qed

lemma ready_grows: "timer_ready addr cl now L \<Longrightarrow> loop_ok addr L' \<Longrightarrow> grows now L L' \<Longrightarrow> timer_ready addr cl now L'"
  unfolding timer_ready_def grows_def clock_from_def by (meson order_trans)

lemma schedule_next_returns:
  assumes "timer_ready addr cl now L"
  shows "\<exists>L'. schedule_next addr cl k L = Some L' \<and> loop_ok addr L' \<and> grows now L L'"
proof -
  have a: "periods L" "cl (lp_reads L) < 2 ^ 33" "now \<le> cl (lp_reads L)" "0 \<le> now" "loop_ok addr L"
    using assms by (auto simp: timer_ready_def clock_from_def)
  obtain L' where L': "schedule_next addr cl k L = Some L'" using schedule_next_ends [where cl = cl, OF a(1,2)] by blast
  then have "grows now L L'"
  proof (rule schedule_next_cases)
    fix n L1 and g :: "periodic \<Rightarrow> periodic"
    assume n: "read_clock cl L = (cl (lp_reads L), L1)" "g = (\<lambda>p. p\<lparr>pc_next := n, pc_timeout := Some (lp_seq L1)\<rparr>)"
      "cl (lp_reads L) < n" "L' = push_timeout addr n (Run k) (upd_periodic k g L1)"
    have "loop_ok addr L1 \<and> grows now L L1" using clock_ok [OF n(1)] a by auto
    moreover have "now < n" "0 \<le> n" using n(3) a by simp_all
    ultimately show "grows now L L'"
      using periodic_ok [of g addr L1 k now] n(2,4) push_grows [of now n "upd_periodic k g L1"] grows_trans by fastforce
  qed simp
  with L' schedule_next_ok [OF L'] a show ?thesis by auto
qed

lemma pc_stop_ok: "loop_ok addr L \<Longrightarrow> loop_ok addr (pc_stop k L) \<and> grows now L (pc_stop k L)"
proof -
  assume L: "loop_ok addr L"
  let ?L = "upd_periodic k (\<lambda>p. p\<lparr>pc_running := False\<rparr>) L"
  have 1: "loop_ok addr ?L \<and> grows now L ?L" by (rule periodic_ok) (use L in auto)
  show ?thesis
  proof (cases "pc_timeout (lp_periodic ?L k)")
    case None
    with 1 show ?thesis by (simp add: pc_stop_def Let_def)
  next
    case (Some i)
    have 2: "loop_ok addr (remove_timeout i ?L) \<and> grows now ?L (remove_timeout i ?L)"
      using 1 remove_timeout_ok [of addr ?L i now] by simp
    have "loop_ok addr (upd_periodic k (\<lambda>p. p\<lparr>pc_timeout := None\<rparr>) (remove_timeout i ?L)) \<and>
      grows now (remove_timeout i ?L) (upd_periodic k (\<lambda>p. p\<lparr>pc_timeout := None\<rparr>) (remove_timeout i ?L))"
      by (rule periodic_ok) (use 2 in auto)
    with 1 2 Some show ?thesis by (auto simp: pc_stop_def Let_def intro: grows_trans)
  qed
qed

lemma pc_start_returns:
  assumes "timer_ready addr cl now L"
  shows "\<exists>L'. pc_start addr cl k L = Some L' \<and> loop_ok addr L' \<and> grows now L L'"
proof -
  obtain t L1 where c: "read_clock cl L = (t, L1)" by (cases "read_clock cl L")
  have 1: "loop_ok addr L1 \<and> grows now L L1" using clock_ok [OF c] assms by (auto simp: timer_ready_def)
  let ?L = "upd_periodic k (\<lambda>p. p\<lparr>pc_running := True, pc_next := t\<rparr>) L1"
  have "0 \<le> t" using c assms by (auto simp: read_clock_def timer_ready_def clock_from_def intro: order_trans)
  then have 2: "loop_ok addr ?L \<and> grows now L1 ?L" by (intro periodic_ok) (use 1 in auto)
  have "timer_ready addr cl now ?L" using 1 2 assms by (meson grows_trans ready_grows)
  from schedule_next_returns [OF this, of k] 1 2 c show ?thesis
    by (auto simp: pc_start_def intro: grows_trans)
qed

lemma pc_start_ok: "pc_start addr cl k L = Some L' \<Longrightarrow> loop_ok addr L \<Longrightarrow> loop_ok addr L'"
proof -
  assume s: "pc_start addr cl k L = Some L'" and L: "loop_ok addr L"
  obtain t L1 where c: "read_clock cl L = (t, L1)" by (cases "read_clock cl L")
  have "loop_ok addr (upd_periodic k (\<lambda>p. p\<lparr>pc_running := True, pc_next := t\<rparr>) L1)"
    using clock_ok [OF c L] by (simp add: upd_periodic_ok)
  with s c show ?thesis by (auto simp: pc_start_def intro: schedule_next_ok)
qed

lemma add_timeout_ok:
  "loop_ok addr L \<Longrightarrow> loop_ok addr (snd (add_timeout addr cl dl cb L))"
  by (auto simp: add_timeout_def push_ok split: deadline.split prod.split dest: clock_ok [where addr = addr])

lemma timedelta_ge:
  assumes "1000 \<le> microseconds + (seconds + days * 24 * 3600) * 10 ^ 6"
  shows "1 / 1001 \<le> timedelta_to_seconds days seconds microseconds"
proof -
  define n where "n = microseconds + (seconds + days * 24 * 3600) * 10 ^ 6"
  have n: "1000 \<le> (of_int n :: rat)" using assms by (simp add: n_def)
  have "9999 / 10 \<le> fl (of_int n)" using fl_bounds(1) [of "of_int n"] n by simp
  then have "1 / 1001 \<le> fl (fl (of_int n) / of_int (10 ^ 6))"
    using fl_bounds(1) [of "fl (of_int n) / of_int (10 ^ 6)"] by simp
  then show ?thesis unfolding timedelta_to_seconds_def n_def .
qed

lemma add_timeout_grows:
  assumes "timer_ready addr cl now L" and "patient now (AddTimeout dl cb)"
  shows "grows now L (snd (add_timeout addr cl dl cb L))"
proof (cases dl)
  case (After days seconds microseconds)
  obtain t L1 where c: "read_clock cl L = (t, L1)" by (cases "read_clock cl L")
  have "grows now L L1" using clock_ok [OF c] assms by (auto simp: timer_ready_def)
  moreover have "now < fl (t + timedelta_to_seconds days seconds microseconds)"
  proof -
    have t: "now \<le> t" "0 \<le> t" "t < 2 ^ 33"
      using c assms(1) by (auto simp: read_clock_def timer_ready_def clock_from_def intro: order_trans)
    have "1 / 1001 \<le> timedelta_to_seconds days seconds microseconds"
      by (rule timedelta_ge) (use assms(2) After in simp)
    from fl_step [OF t(2,3) this] t(1) show ?thesis by linarith
  qed
  ultimately show ?thesis using After c by (auto simp: add_timeout_def intro: grows_trans push_grows)
qed (use assms in \<open>auto simp: add_timeout_def push_grows\<close>)

lemma do_op_ok:
  assumes "do_op addr cl op L = Some (r, L')" and "loop_ok addr L" shows "loop_ok addr L'"
proof (cases op)
  case (AddTimeout dl cb)
  then show ?thesis using assms(1) add_timeout_ok [OF assms(2), of cl dl cb]
    by (auto split: prod.splits sum.splits)
next
  case (PcStart k)
  then show ?thesis using assms pc_start_ok [of addr cl k L] by auto
next
  case (AddHandler fd h evt)
  then show ?thesis using assms handlers_ok(2) [OF assms(2), of fd h evt] by auto
next
  case (UpdateHandler fd evt)
  then show ?thesis using assms handlers_ok(3) [OF assms(2), of fd evt] by auto
qed (use assms in \<open>auto simp: remove_timeout_ok pc_stop_ok handlers_ok(1)\<close>)

lemma do_op_returns:
  assumes "timer_ready addr cl now L" and "patient now op"
  shows "\<exists>r L'. do_op addr cl op L = Some (r, L') \<and> loop_ok addr L' \<and> grows now L L'"
proof -
  have L: "loop_ok addr L" using assms(1) by (simp add: timer_ready_def)
  show ?thesis
  proof (cases op)
    case (AddTimeout dl cb)
    then show ?thesis
      using add_timeout_grows [OF assms(1), of dl cb] assms(2) add_timeout_ok [OF L, of cl dl cb]
      by (auto split: prod.split sum.split)
  next
    case (AddHandler fd h evt)
    then show ?thesis using handlers_ok(2) [OF L, of fd h evt now] by (cases "add_handler fd h evt L") auto
  next
    case (UpdateHandler fd evt)
    then show ?thesis using handlers_ok(3) [OF L, of fd evt now] by (cases "update_handler fd evt L") auto
  qed (use L pc_start_returns [OF assms(1)] in \<open>auto simp: remove_timeout_ok pc_stop_ok handlers_ok\<close>)
qed

lemma do_ops_ok: "do_ops addr cl ops L = Some L' \<Longrightarrow> loop_ok addr L \<Longrightarrow> loop_ok addr L'"
  by (induction ops arbitrary: L) (auto split: option.splits sum.splits dest: do_op_ok)

lemma do_ops_returns:
  "timer_ready addr cl now L \<Longrightarrow> \<forall>op \<in> set ops. patient now op \<Longrightarrow>
   \<exists>L'. do_ops addr cl ops L = Some L' \<and> loop_ok addr L' \<and> grows now L L'"
proof (induction ops arbitrary: L)
  case (Cons op ops)
  obtain r L1 where 1: "do_op addr cl op L = Some (r, L1)" "loop_ok addr L1" "grows now L L1"
    using do_op_returns [OF Cons.prems(1), of op] Cons.prems(2) by auto
  have "\<exists>L'. do_ops addr cl ops L1 = Some L' \<and> loop_ok addr L' \<and> grows now L1 L'"
    using Cons.IH [OF ready_grows [OF Cons.prems(1) 1(2,3)]] Cons.prems(2) by simp
  with 1 show ?case by (cases r) (auto intro: grows_trans)
qed (auto simp: timer_ready_def)

lemma run_prog_ok: "run_prog addr cl r L = Some L' \<Longrightarrow> loop_ok addr L \<Longrightarrow> loop_ok addr L'"
  by (auto simp: run_prog_def split: option.splits intro: do_ops_ok)

lemma run_callback_ok: "run_callback prog addr cl cb L = Some L' \<Longrightarrow> loop_ok addr L \<Longrightarrow> loop_ok addr L'"
  by (auto simp: run_callback_def split: callback.splits if_splits option.splits intro: run_prog_ok schedule_next_ok)

lemma run_prog_returns:
  assumes "timer_ready addr cl now L" and "polite cl prog"
  shows "\<exists>L'. run_prog addr cl (prog n L) L = Some L' \<and> loop_ok addr L' \<and> grows now L L'"
proof -
  obtain ops where ops: "prog n L = Some ops" "\<forall>op \<in> set ops. patient now op"
    using polite_patient [OF assms(2,1)] .
  show ?thesis using do_ops_returns [OF assms(1) ops(2)] by (simp add: run_prog_def ops(1))
qed

lemma run_callback_returns:
  assumes "timer_ready addr cl now L" and "polite cl prog"
  shows "\<exists>L'. run_callback prog addr cl cb L = Some L' \<and> loop_ok addr L' \<and> grows now L L'"
proof (cases cb)
  case (Call n)
  then show ?thesis using run_prog_returns [OF assms] by (simp add: run_callback_def)
next
  case (Run k)
  obtain L1 where 1: "run_prog addr cl (prog (pc_callback (lp_periodic L k)) L) L = Some L1" "loop_ok addr L1" "grows now L L1"
    using run_prog_returns [OF assms] by blast
  obtain L2 where "schedule_next addr cl k L1 = Some L2" "loop_ok addr L2" "grows now L1 L2"
    using schedule_next_returns [OF ready_grows [OF assms(1) 1(2,3)]] by blast
  with 1 Run assms(1) show ?thesis by (auto simp: run_callback_def timer_ready_def intro: grows_trans)
qed

section \<open>The timeouts that are due\<close>

lemma pop_ok:
  assumes "loop_ok addr L" "lp_timeouts L = t # ts"
  shows "tm_callback t = None \<Longrightarrow> loop_ok addr (L\<lparr>lp_timeouts := ts\<rparr>)" "loop_ok addr (L\<lparr>lp_timeouts := ts, lp_ran := tm_id t # lp_ran L\<rparr>)"
    "due now L = (if tm_deadline t \<le> now then [tm_id t] else []) @ due now (L\<lparr>lp_timeouts := ts\<rparr>)"
  using assms by (auto simp: loop_ok_def queue_ok_def due_def)

text \<open>
  After the loop: what was due ran or was cancelled; nothing is due any more, and \<open>poll\<close> waits until the
  first of the deadlines, an hour at most.
\<close>

definition waits :: "rat \<Rightarrow> rat \<Rightarrow> timeout list \<Rightarrow> bool" where
  "waits now pt ts \<longleftrightarrow>
     (case ts of
        [] \<Rightarrow> pt = 3600
      | t # _ \<Rightarrow> tm_callback t \<noteq> None \<and> now < tm_deadline t \<and> (\<forall>u \<in> set ts. tm_deadline t \<le> tm_deadline u) \<and>
          pt = min (fl (tm_deadline t - now)) 3600)"

lemma waits_pos: "waits now pt ts \<Longrightarrow> 0 < pt \<and> pt \<le> 3600"
  by (auto simp: waits_def fl_pos split: list.splits)

definition settled :: "(nat \<Rightarrow> int) \<Rightarrow> rat \<Rightarrow> loop \<Rightarrow> rat \<Rightarrow> loop \<Rightarrow> bool" where
  "settled addr now L pt L' \<longleftrightarrow> loop_ok addr L' \<and> waits now pt (lp_timeouts L') \<and> lp_reads L \<le> lp_reads L' \<and>
     set (lp_ran L) \<subseteq> set (lp_ran L') \<and> set (lp_cancelled L) \<subseteq> set (lp_cancelled L') \<and>
     set (due now L) \<subseteq> set (lp_ran L') \<union> set (lp_cancelled L') \<and> (periods L \<longrightarrow> periods L')"

lemma settled_pop: "settled addr now (L\<lparr>lp_timeouts := ts\<rparr>) pt L' \<Longrightarrow>
    set (due now L) \<subseteq> insert i (set (due now (L\<lparr>lp_timeouts := ts\<rparr>))) \<Longrightarrow> i \<in> set (lp_cancelled L) \<Longrightarrow> settled addr now L pt L'"
  by (auto simp: settled_def periods_def)

lemma settled_run: "settled addr now L1 pt L' \<Longrightarrow> grows now (L\<lparr>lp_timeouts := ts, lp_ran := i # lp_ran L\<rparr>) L1 \<Longrightarrow>
    due now L = i # due now L1 \<Longrightarrow> settled addr now L pt L'"
  by (auto simp: settled_def grows_def periods_def)

lemma settled_wait:
  assumes L: "loop_ok addr L" and ts: "lp_timeouts L = t # ts" and "tm_callback t \<noteq> None" and "\<not> tm_deadline t \<le> now"
  shows "settled addr now L (min (fl (tm_deadline t - now)) 3600) L"
proof -
  have "tm_deadline t \<le> tm_deadline u" if "u \<in> set ts" for u
    using L ts that by (auto simp: loop_ok_def queue_ok_def heap_key_def less_eq_prod_def)
  then have u: "\<forall>u \<in> set (t # ts). tm_deadline t \<le> tm_deadline u" by auto
  then have "due now L = []" using assms(4) ts by (force simp: due_def filter_empty_conv)
  then show ?thesis using assms u by (auto simp: settled_def waits_def)
qed

lemma run_timers_returns:
  assumes "polite cl prog" and "timer_ready addr cl now L"
  shows "\<exists>pt L'. run_timers prog addr cl now L = Some (pt, L') \<and> settled addr now L pt L'"
  using assms(2)
proof (induction L rule: wf_induct_rule [OF wf_measures, of "[\<lambda>L. length (due now L), \<lambda>L. length (lp_timeouts L)]"])
  case (1 L)
  have L: "loop_ok addr L" using 1(2) by (simp add: timer_ready_def)
  note step = run_timers.simps [of prog addr cl now L]
  show ?case
  proof (cases "lp_timeouts L")
    case Nil
    with L show ?thesis by (auto simp: step settled_def waits_def due_def)
  next
    case (Cons t ts)
    note pop = pop_ok [OF L Cons]
    show ?thesis
    proof (cases "tm_callback t")
      case None
      let ?L = "L\<lparr>lp_timeouts := ts\<rparr>"
      have "\<exists>pt L'. run_timers prog addr cl now ?L = Some (pt, L') \<and> settled addr now ?L pt L'"
        by (rule 1(1)) (use pop 1(2) Cons None in \<open>auto simp: timer_ready_def periods_def\<close>)
      then obtain pt L' where r: "run_timers prog addr cl now ?L = Some (pt, L')" "settled addr now ?L pt L'" by blast
      have "tm_id t \<in> set (lp_cancelled L)" using L Cons None by (simp add: loop_ok_def queue_ok_def)
      with settled_pop [OF r(2), of "tm_id t"] pop(3) have "settled addr now L pt L'" by auto
      with r(1) None Cons show ?thesis by (auto simp: step)
    next
      case (Some cb)
      let ?L = "L\<lparr>lp_timeouts := ts, lp_ran := tm_id t # lp_ran L\<rparr>"
      show ?thesis
      proof (cases "tm_deadline t \<le> now")
        case True
        have r: "timer_ready addr cl now ?L" using pop(2) 1(2) by (simp add: timer_ready_def periods_def)
        obtain L1 where L1: "run_callback prog addr cl cb ?L = Some L1" "loop_ok addr L1" "grows now ?L L1"
          using run_callback_returns [OF r assms(1), of cb] by blast
        have d: "due now L = tm_id t # due now L1" using L1(3) pop(3) True by (simp add: grows_def due_def)
        have "\<exists>pt L'. run_timers prog addr cl now L1 = Some (pt, L') \<and> settled addr now L1 pt L'"
          by (rule 1(1)) (use d ready_grows [OF r L1(2,3)] in auto)
        with settled_run [OF _ L1(3) d] L1(1) Some True Cons show ?thesis by (auto simp: step)
      next
        case False
        with settled_wait [OF L Cons _ False] Some Cons show ?thesis by (simp add: step)
      qed
    qed
  qed
qed

section \<open>Turns of the loop\<close>

text \<open>However it comes to an end, a turn leaves a well-formed state.\<close>

lemma run_timers_ok: "run_timers prog addr cl now L = Some y \<Longrightarrow> loop_ok addr L \<longrightarrow> loop_ok addr (snd y)"
proof (erule run_timers.raw_induct [rotated], intro impI)
  fix run_timers' and prog :: "nat \<Rightarrow> loop \<Rightarrow> lop list option" and addr cl now L and y :: "rat \<times> loop"
  assume IH: "\<And>prog addr cl now L y. run_timers' prog addr cl now L = Some y \<Longrightarrow> loop_ok addr L \<longrightarrow> loop_ok addr (snd y)"
    and L: "loop_ok addr L"
    and body: "(case lp_timeouts L of [] \<Rightarrow> Some (3600, L)
      | t # ts \<Rightarrow> (case tm_callback t of None \<Rightarrow> run_timers' prog addr cl now (L\<lparr>lp_timeouts := ts\<rparr>)
         | Some cb \<Rightarrow> if tm_deadline t \<le> now then
             (case run_callback prog addr cl cb (L\<lparr>lp_timeouts := ts, lp_ran := tm_id t # lp_ran L\<rparr>) of
                None \<Rightarrow> None | Some L' \<Rightarrow> run_timers' prog addr cl now L')
             else Some (min (fl (tm_deadline t - now)) 3600, L))) = Some y"
  show "loop_ok addr (snd y)"
  proof (cases "lp_timeouts L")
    case (Cons t ts)
    show ?thesis
    proof (cases "tm_callback t")
      case None
      then have "run_timers' prog addr cl now (L\<lparr>lp_timeouts := ts\<rparr>) = Some y" using body Cons by simp
      with IH pop_ok(1) [OF L Cons None] show ?thesis by blast
    next
      case (Some cb)
      show ?thesis
      proof (cases "tm_deadline t \<le> now")
        case True
        then obtain L1 where "run_callback prog addr cl cb (L\<lparr>lp_timeouts := ts, lp_ran := tm_id t # lp_ran L\<rparr>) = Some L1"
          "run_timers' prog addr cl now L1 = Some y"
          using body Cons Some by (auto split: option.splits)
        with IH run_callback_ok pop_ok(2) [OF L Cons] show ?thesis by blast
      qed (use body Cons Some L in auto)
    qed
  qed (use body L in auto)
qed

lemma dispatch_ok: "dispatch hprog addr cl evs L = Some L' \<Longrightarrow> loop_ok addr L \<Longrightarrow> loop_ok addr L'"
proof (induction evs arbitrary: L)
  case (Cons e evs)
  then show ?case by (cases e) (auto split: option.splits intro: run_prog_ok)
qed simp

lemma loop_turn_ok: "loop_turn prog hprog addr cl poll L = Some (r, L') \<Longrightarrow> loop_ok addr L \<Longrightarrow> loop_ok addr L'"
proof -
  assume t: "loop_turn prog hprog addr cl poll L = Some (r, L')" and L: "loop_ok addr L"
  have c: "loop_ok addr (snd (read_clock cl L))" using clock_ok [OF prod.collapse [symmetric] L] by blast
  obtain pt L1 where 1: "(if lp_timeouts L \<noteq> [] then (let (now, L1) = read_clock cl L in run_timers prog addr cl now L1)
      else Some (3600, L)) = Some (pt, L1)"
    using t by (auto simp: loop_turn_def split: option.splits)
  then have "loop_ok addr L1"
    using run_timers_ok [of prog addr cl "fst (read_clock cl L)" "snd (read_clock cl L)" "(pt, L1)"] c L
    by (auto simp: case_prod_beta split: if_splits)
  moreover have "(case poll pt of Inl e \<Rightarrow> Some (Inl e, L1)
      | Inr events \<Rightarrow> map_option (Pair (Inr ())) (dispatch hprog addr cl events L1)) = Some (r, L')"
    using t unfolding loop_turn_def 1 by simp
  ultimately show ?thesis by (auto split: sum.splits intro: dispatch_ok)
qed

lemma start_turns_ok: "start_turns prog hprog addr cl polls L = Some (r, L') \<Longrightarrow> loop_ok addr L \<Longrightarrow> loop_ok addr L'"
  by (induction polls arbitrary: L) (auto split: option.splits sum.splits dest: loop_turn_ok)

text \<open>
  A clock that always shows the time after the epoch and before the year 2242. With it every operation ends,
  and so does a turn, if the code of the application returns.
\<close>

definition clock_sane :: "(nat \<Rightarrow> rat) \<Rightarrow> bool" where
  "clock_sane cl \<longleftrightarrow> (\<forall>n. 0 \<le> cl n \<and> cl n < 2 ^ 33)"

lemma schedule_next_total:
  assumes "periods L" and "clock_sane cl"
  shows "\<exists>L'. schedule_next addr cl k L = Some L' \<and> periods L'"
proof -
  obtain L' where L': "schedule_next addr cl k L = Some L'"
    using schedule_next_ends [where cl = cl, OF assms(1)] assms(2) unfolding clock_sane_def by blast
  then have "periods L'"
  proof (rule schedule_next_cases)
    fix n L1 and g :: "periodic \<Rightarrow> periodic"
    assume "read_clock cl L = (cl (lp_reads L), L1)" "g = (\<lambda>p. p\<lparr>pc_next := n, pc_timeout := Some (lp_seq L1)\<rparr>)"
      "cl (lp_reads L) < n" "L' = push_timeout addr n (Run k) (upd_periodic k g L1)"
    moreover have "0 \<le> cl (lp_reads L)" using assms(2) by (simp add: clock_sane_def)
    ultimately show "periods L'"
      using assms(1) by (auto simp: periods_def push_timeout_def upd_periodic_def read_clock_def)
  qed (use assms in simp)
  with L' show ?thesis by blast
qed

lemma do_op_total:
  assumes "periods L" and "clock_sane cl"
  shows "\<exists>r L'. do_op addr cl op L = Some (r, L') \<and> periods L'"
proof (cases op)
  case (PcStart k)
  have "periods (upd_periodic k (\<lambda>p. p\<lparr>pc_running := True, pc_next := cl (lp_reads L)\<rparr>) (L\<lparr>lp_reads := lp_reads L + 1\<rparr>))"
    using assms by (auto simp: periods_def upd_periodic_def clock_sane_def)
  from schedule_next_total [OF this assms(2), of addr k] PcStart show ?thesis
    by (auto simp: pc_start_def read_clock_def)
next
  case (AddTimeout dl cb)
  with assms(1) show ?thesis
    by (cases dl) (auto simp: add_timeout_def read_clock_def periods_def push_timeout_def)
qed (use assms(1) in \<open>auto simp: periods_def remove_timeout_def pc_stop_def upd_periodic_def add_handler_def update_handler_def
      remove_handler_def Let_def split: option.split\<close>)

lemma do_ops_total: "periods L \<Longrightarrow> clock_sane cl \<Longrightarrow> \<exists>L'. do_ops addr cl ops L = Some L' \<and> periods L'"
proof (induction ops arbitrary: L)
  case (Cons op ops)
  obtain r L1 where 1: "do_op addr cl op L = Some (r, L1)" "periods L1"
    using do_op_total [OF Cons.prems] by blast
  with Cons.IH [OF 1(2) Cons.prems(2)] show ?case by (cases r) auto
qed simp

text \<open>Every handler returns.\<close>

definition returning :: "(nat \<Rightarrow> int \<Rightarrow> int \<Rightarrow> loop \<Rightarrow> lop list option) \<Rightarrow> bool" where
  "returning hprog \<longleftrightarrow> (\<forall>h fd evt M. hprog h fd evt M \<noteq> None)"

lemma dispatch_total: "periods L \<Longrightarrow> clock_sane cl \<Longrightarrow> returning hprog \<Longrightarrow>
  \<exists>L'. dispatch hprog addr cl evs L = Some L' \<and> periods L'"
proof (induction evs arbitrary: L)
  case (Cons e evs)
  obtain fd evt where e: "e = (fd, evt)" by (cases e)
  show ?case
  proof (cases "lp_handlers L fd")
    case (Some h)
    obtain ops where ops: "hprog h fd evt L = Some ops" using Cons.prems(3) unfolding returning_def by blast
    obtain L1 where 1: "do_ops addr cl ops L = Some L1" "periods L1"
      using do_ops_total [OF Cons.prems(1,2)] by blast
    with Cons.IH [OF 1(2) Cons.prems(2,3)] Some e ops show ?thesis by (simp add: run_prog_def)
  qed (use Cons e in auto)
qed simp

lemma loop_turn_returns:
  assumes "polite cl prog" "returning hprog" "mono cl" "clock_sane cl" "periods L" "loop_ok addr L"
  shows "\<exists>r L'. loop_turn prog hprog addr cl poll L = Some (r, L') \<and> periods L' \<and> (\<forall>e. r = Inl e \<longrightarrow> (\<exists>t. poll t = Inl e))"
proof -
  have turn: "\<exists>r L'. (case poll pt of Inl e \<Rightarrow> Some (Inl e, L1)
      | Inr events \<Rightarrow> map_option (Pair (Inr ())) (dispatch hprog addr cl events L1)) = Some (r, L') \<and> periods L' \<and>
      (\<forall>e. r = Inl e \<longrightarrow> (\<exists>t. poll t = Inl e))" if "periods L1" for pt L1
    using dispatch_total [OF that assms(4,2), of addr "projr (poll pt)"] that by (cases "poll pt") auto
  show ?thesis
  proof (cases "lp_timeouts L = []")
    case True
    with turn [OF assms(5)] show ?thesis by (simp add: loop_turn_def)
  next
    case False
    let ?L = "L\<lparr>lp_reads := lp_reads L + 1\<rparr>" and ?now = "cl (lp_reads L)"
    have c: "read_clock cl L = (?now, ?L)" by (simp add: read_clock_def)
    have p: "periods ?L" using assms(5) by (simp add: periods_def)
    have "clock_from cl ?now (lp_reads ?L)" using assms(3,4) by (auto simp: clock_from_def clock_sane_def mono_def)
    then have "timer_ready addr cl ?now ?L" using clock_ok [OF c assms(6)] p by (simp add: timer_ready_def)
    then obtain pt L1 where 1: "run_timers prog addr cl ?now ?L = Some (pt, L1)" "settled addr ?now ?L pt L1"
      using run_timers_returns [OF assms(1)] by blast
    then have "periods L1" using p by (simp add: settled_def)
    from turn [OF this, of pt] 1 False c show ?thesis by (simp add: loop_turn_def)
  qed
qed

lemma start_turns_returns:
  "polite cl prog \<Longrightarrow> returning hprog \<Longrightarrow> mono cl \<Longrightarrow> clock_sane cl \<Longrightarrow> periods L \<Longrightarrow> loop_ok addr L \<Longrightarrow>
   \<exists>r L'. start_turns prog hprog addr cl polls L = Some (r, L') \<and> (\<forall>e. r = Inl e \<longrightarrow> (\<exists>p \<in> set polls. \<exists>t. p t = Inl e))"
proof (induction polls arbitrary: L)
  case (Cons p ps)
  obtain r L1 where 1: "loop_turn prog hprog addr cl p L = Some (r, L1)" "periods L1" "\<forall>e. r = Inl e \<longrightarrow> (\<exists>t. p t = Inl e)"
    using loop_turn_returns [OF Cons.prems] by blast
  have ok: "loop_ok addr L1" by (rule loop_turn_ok [OF 1(1) Cons.prems(6)])
  show ?case
  proof (cases r)
    case (Inr u)
    with Cons.IH [OF Cons.prems(1-4) 1(2) ok] 1(1) show ?thesis by fastforce
  qed (use 1 in auto)
qed simp

section \<open>Properties of the loop\<close>

text \<open>A descriptor that gets a handler is registered, also where an old handler was left behind.\<close>

lemma add_handler_installs:
  assumes "loop_ok addr L"
  shows "fst (add_handler fd h evt L) = Inr () \<and> lp_handlers (snd (add_handler fd h evt L)) = (lp_handlers L)(fd \<mapsto> h)
    \<and> lp_impl (snd (add_handler fd h evt L)) = (lp_impl L)(fd \<mapsto> evt OR EV_ERROR)"
  using assms by (auto simp: add_handler_def remove_handler_def loop_ok_def Let_def)

lemma accept_registers_all:
  "loop_ok addr L \<Longrightarrow> \<forall>a \<in> set as. \<exists>fd h. a = Accepted fd h NoSsl \<or> a = Accepted fd h HsOk \<Longrightarrow>
   fst (accept_handler as L) = Inr () \<and> loop_ok addr (snd (accept_handler as L)) \<and>
   (\<forall>fd h hs. Accepted fd h hs \<in> set as \<longrightarrow> fd \<in> dom (lp_impl (snd (accept_handler as L)))) \<and>
   dom (lp_impl L) \<subseteq> dom (lp_impl (snd (accept_handler as L)))"
proof (induction as arbitrary: L)
  case (Cons a as)
  then obtain fd h where a: "a = Accepted fd h NoSsl \<or> a = Accepted fd h HsOk" by auto
  let ?L = "snd (add_handler fd h EV_READ L)"
  have i: "fst (add_handler fd h EV_READ L) = Inr ()" "lp_impl ?L = (lp_impl L)(fd \<mapsto> EV_READ OR EV_ERROR)"
    using add_handler_installs [OF Cons.prems(1), of fd h EV_READ] by simp_all
  have "loop_ok addr ?L" using handlers_ok(2) [OF Cons.prems(1)] by blast
  then have IH: "fst (accept_handler as ?L) = Inr () \<and> loop_ok addr (snd (accept_handler as ?L)) \<and>
      (\<forall>fd h hs. Accepted fd h hs \<in> set as \<longrightarrow> fd \<in> dom (lp_impl (snd (accept_handler as ?L)))) \<and>
      dom (lp_impl ?L) \<subseteq> dom (lp_impl (snd (accept_handler as ?L)))"
    using Cons.IH Cons.prems(2) by simp
  have "accept_handler (a # as) L = accept_handler as ?L"
    using a i(1) by (cases "add_handler fd h EV_READ L") (auto simp: handle_stream_def)
  moreover have "dom (lp_impl ?L) = insert fd (dom (lp_impl L))" using i(2) by simp
  ultimately show ?case using IH a
    by (simp del: accept_handler.simps domIff) blast
qed simp


text \<open>A periodic callback of 500 milliseconds that does nothing, and a timeout for the time 2.\<close>

definition loop_ex :: loop where
  "loop_ex = \<lparr>lp_impl = (\<lambda>_. None), lp_handlers = (\<lambda>_. None),
     lp_timeouts = [\<lparr>tm_id = 0, tm_deadline = 2, tm_callback = Some (Call 7)\<rparr>],
     lp_periodic = (\<lambda>_. \<lparr>pc_callback = 0, pc_time = 500, pc_running = True, pc_timeout = None, pc_next = 1\<rparr>),
     lp_seq = 1, lp_reads = 0, lp_ran = [], lp_cancelled = []\<rparr>"

definition clock_ex :: "nat \<Rightarrow> rat" where
  "clock_ex n = min (3 + of_nat n) 1000"

lemma loop_ex_ok: "loop_ok addr loop_ex" "periods loop_ex" "mono clock_ex" "clock_sane clock_ex" "polite clock_ex (\<lambda>n M. Some [])"
  by (simp_all add: loop_ok_def queue_ok_def loop_ex_def periods_def clock_ex_def polite_def clock_sane_def mono_def min_def)



text \<open>
  A period of a hundred thousandth of a millisecond is rounded away at the times of this century:
  \<open>_schedule_next\<close> never ends.
\<close>

lemma tiny_period_absorbed: "next_time (fl (fl (1 / 100000) / 1000)) 1700000000 = 1700000000"
  by code_simp

text \<open>
  C18. The inner loop of \<open>start\<close> ends if every callback returns and sets no timeout for a time that has passed or for less than a
  millisecond from now, the periods are of a millisecond or more, and the readings of the clock from here on are not before \<open>now\<close>
  and before the year 2242. Then the callback of every timeout that was due has been called, once, unless it was
  cancelled; nothing is due any more; and \<open>poll\<close> will wait for the difference, as a double, of the first deadline and \<open>now\<close>, a positive time of an hour at
  most, or for an hour if there is no timeout.
\<close>

theorem due_timeouts_run:
  assumes "polite cl prog" and "periods L" and "loop_ok addr L"
    and "0 \<le> now" and "\<forall>m \<ge> lp_reads L. now \<le> cl m \<and> cl m < 2 ^ 33"
  shows "\<exists>poll_timeout L'. run_timers prog addr cl now L = Some (poll_timeout, L') \<and> 0 < poll_timeout \<and> poll_timeout \<le> 3600 \<and>
    (case lp_timeouts L' of
       [] \<Rightarrow> poll_timeout = 3600
     | t # ts \<Rightarrow> tm_callback t \<noteq> None \<and> now < tm_deadline t \<and> (\<forall>u \<in> set ts. tm_deadline t \<le> tm_deadline u) \<and>
         poll_timeout = min (fl (tm_deadline t - now)) 3600) \<and>
    (\<forall>t \<in> set (lp_timeouts L). tm_deadline t \<le> now \<longrightarrow> tm_id t \<in> set (lp_ran L') \<union> set (lp_cancelled L')) \<and>
    distinct (lp_ran L')"
proof -
  have "timer_ready addr cl now L" using assms by (simp add: timer_ready_def clock_from_def)
  then obtain pt L' where r: "run_timers prog addr cl now L = Some (pt, L')" "settled addr now L pt L'"
    using run_timers_returns [OF assms(1)] by blast
  then have w: "waits now pt (lp_timeouts L')" by (simp add: settled_def)
  from r waits_pos [OF w] w show ?thesis
    by (intro exI [of _ pt] exI [of _ L'])
      (auto simp: settled_def due_def loop_ok_def queue_ok_def waits_def split: list.splits)
qed

theorem due_timeouts_run_witness:
  "\<exists>poll_timeout L'. run_timers (\<lambda>n M. Some []) int clock_ex 3 loop_ex = Some (poll_timeout, L') \<and>
     0 \<in> set (lp_ran L') \<union> set (lp_cancelled L')"
proof -
  have "\<forall>m \<ge> lp_reads loop_ex. 3 \<le> clock_ex m \<and> clock_ex m < 2 ^ 33" by (simp add: clock_ex_def min_def)
  from due_timeouts_run [OF loop_ex_ok(5,2) loop_ex_ok(1) [of int] _ this]
  obtain pt L' where "run_timers (\<lambda>n M. Some []) int clock_ex 3 loop_ex = Some (pt, L')"
    "\<forall>t \<in> set (lp_timeouts loop_ex). tm_deadline t \<le> 3 \<longrightarrow> tm_id t \<in> set (lp_ran L') \<union> set (lp_cancelled L')"
    by auto
  then show ?thesis by (auto simp: loop_ex_def)
qed

text \<open>
  C19. A turn of the loop that ends, ends in a well-formed state, whatever the callbacks and handlers do, whatever the clock shows and
  whatever \<open>poll\<close> reports or raises: the queue is sorted, every timeout that was ever made is in the queue, has run or was cancelled, none has run twice, only the
  callbacks of cancelled timeouts are gone, and every descriptor registered with epoll has its handler. And every turn does end if the
  callbacks and handlers return, no callback sets a timeout for a time that has passed or for less than a millisecond from now,
  the periods are of a millisecond or more, and the clock is not set back and shows a time before the year 2242; then
  the loop is only left by an exception of \<open>poll\<close>.
\<close>

theorem loop_well_formed:
  assumes "loop_ok addr L"
  shows "(\<forall>r L'. start_turns prog hprog addr cl polls L = Some (r, L') \<longrightarrow> loop_ok addr L') \<and>
    (polite cl prog \<and> returning hprog \<and> mono cl \<and> clock_sane cl \<and> periods L \<longrightarrow>
     (\<exists>r L'. start_turns prog hprog addr cl polls L = Some (r, L') \<and>
        (\<forall>e. r = Inl e \<longrightarrow> (\<exists>poll \<in> set polls. \<exists>t. poll t = Inl e))))"
  using start_turns_ok [OF _ assms] start_turns_returns [OF _ _ _ _ _ assms] by blast

theorem loop_well_formed_witness:
  "\<exists>r L'. start_turns (\<lambda>n M. Some []) (\<lambda>h fd evt M. Some [AddHandler fd h EV_WRITE]) int clock_ex
      [\<lambda>_. Inr [(5, 1)], \<lambda>_. Inl IOError] (snd (add_handler 5 9 EV_READ loop_ex)) = Some (r, L') \<and> loop_ok int L'"
proof -
  have "loop_ok int (snd (add_handler 5 9 EV_READ loop_ex))" using handlers_ok(2) [OF loop_ex_ok(1)] by blast
  moreover have "periods (snd (add_handler 5 9 EV_READ loop_ex))"
    by (simp add: periods_def add_handler_def remove_handler_def loop_ex_def Let_def)
  moreover have "returning (\<lambda>h fd evt M. Some [AddHandler fd h EV_WRITE])" by (simp add: returning_def)
  ultimately show ?thesis
    using loop_well_formed [of int "snd (add_handler 5 9 EV_READ loop_ex)" "\<lambda>n M. Some []"
        "\<lambda>h fd evt M. Some [AddHandler fd h EV_WRITE]" clock_ex "[\<lambda>_. Inr [(5, 1)], \<lambda>_. Inl IOError]"] loop_ex_ok(3,4,5)
    by blast
qed

text \<open>
  The condition on the clock is needed: when it is set back below the time of a periodic callback while the callback runs,
  \<open>_schedule_next\<close> queues the same time again, which is still due for the \<open>now\<close> of the inner loop, and the loop
  calls the callback over and over.
\<close>

definition stuck_timer :: "(nat \<Rightarrow> loop \<Rightarrow> lop list option) \<Rightarrow> (nat \<Rightarrow> rat) \<Rightarrow> rat \<Rightarrow> nat \<Rightarrow> loop \<Rightarrow> bool" where
  "stuck_timer prog cl now k L \<longleftrightarrow>
     (\<forall>n M. prog n M = Some []) \<and> pc_running (lp_periodic L k) \<and> (\<forall>n. cl n < pc_next (lp_periodic L k)) \<and>
     pc_next (lp_periodic L k) \<le> now \<and>
     (\<exists>i. lp_timeouts L = [\<lparr>tm_id = i, tm_deadline = pc_next (lp_periodic L k), tm_callback = Some (Run k)\<rparr>])"

lemma stuck_again:
  assumes "stuck_timer prog cl now k L" and "lp_timeouts L = [t]"
  shows "\<exists>L'. run_callback prog addr cl (Run k) (L\<lparr>lp_timeouts := [], lp_ran := tm_id t # lp_ran L\<rparr>) = Some L' \<and> stuck_timer prog cl now k L'"
proof -
  have "\<not> pc_next (lp_periodic L k) \<le> cl (lp_reads L)" using assms(1) by (simp add: stuck_timer_def not_le)
  with assms show ?thesis
    by (auto simp: stuck_timer_def run_callback_def run_prog_def schedule_next_def read_clock_def advance.simps
        push_timeout_def upd_periodic_def Let_def)
qed

lemma run_timers_not_stuck: "run_timers prog addr cl now L = Some y \<Longrightarrow> \<not> stuck_timer prog cl now k L"
proof (erule run_timers.raw_induct [rotated], rule notI)
  fix run_timers' and prog :: "nat \<Rightarrow> loop \<Rightarrow> lop list option" and addr cl now L and y :: "rat \<times> loop"
  assume IH: "\<And>prog addr cl now L y. run_timers' prog addr cl now L = Some y \<Longrightarrow> \<not> stuck_timer prog cl now k L"
    and L: "stuck_timer prog cl now k L"
    and body: "(case lp_timeouts L of [] \<Rightarrow> Some (3600, L)
      | t # ts \<Rightarrow> (case tm_callback t of None \<Rightarrow> run_timers' prog addr cl now (L\<lparr>lp_timeouts := ts\<rparr>)
         | Some cb \<Rightarrow> if tm_deadline t \<le> now then
             (case run_callback prog addr cl cb (L\<lparr>lp_timeouts := ts, lp_ran := tm_id t # lp_ran L\<rparr>) of
                None \<Rightarrow> None | Some L' \<Rightarrow> run_timers' prog addr cl now L')
             else Some (min (fl (tm_deadline t - now)) 3600, L))) = Some y"
  obtain t where t: "lp_timeouts L = [t]" "tm_callback t = Some (Run k)" "tm_deadline t \<le> now"
    using L by (auto simp: stuck_timer_def)
  obtain L' where "run_callback prog addr cl (Run k) (L\<lparr>lp_timeouts := [], lp_ran := tm_id t # lp_ran L\<rparr>) = Some L'"
    "stuck_timer prog cl now k L'" using stuck_again [OF L t(1)] by blast
  with body t IH show False by auto
qed

lemma clock_back_spins: "stuck_timer prog cl now k L \<Longrightarrow> run_timers prog addr cl now L = None"
  using run_timers_not_stuck [of prog addr cl now L] by (cases "run_timers prog addr cl now L") auto

text \<open>A periodic callback that stops and starts its own timer is then scheduled twice.\<close>

lemma restart_doubles:
  "map_option (\<lambda>L. map tm_callback (lp_timeouts L))
     (run_callback (\<lambda>n M. Some [PcStop 0, PcStart 0]) int clock_ex (Run 0) (loop_ex\<lparr>lp_timeouts := []\<rparr>))
   = Some [Some (Run 0), Some (Run 0)]"
  by code_simp

end
