(* ===== verification/Network.thy ===== *)
theory Network
  imports Quota
begin

text \<open>
  Networks and gateways (\<^verbatim>\<open>lyweb/app/network\<close>): the IP pool of a network, the port pool of a
  gateway, and the administrator's handlers that fill and empty them
  (\<^verbatim>\<open>admin_views.py\<close>, \<^verbatim>\<open>forms.py\<close>). The package IPy is the record \<open>ipy\<close>: the integer of an address
  text, the addresses of a network in order, and the text of an address.
\<close>

section \<open>Free addresses and ports\<close>

text \<open>\<open>NetworkPool.ips\<close> and \<open>Gateway.ports\<close>, ordered by key.\<close>

definition network_ips :: "db \<Rightarrow> int \<Rightarrow> (int \<times> ippool) list" where
  "network_ips d nid = t_select (\<lambda>_ v. ip_network_id v = nid) (ippools d)"

definition gateway_ports :: "db \<Rightarrow> int \<Rightarrow> (int \<times> port_mapping) list" where
  "gateway_ports d gid = t_select (\<lambda>_ v. pm_gateway_id v = gid) (port_mappings d)"

definition get_free_ip :: "db \<Rightarrow> int \<Rightarrow> (int \<times> ippool) option" where
  "get_free_ip d nid = find (\<lambda>(_, IP). \<not> truthy_int (ip_instance_id IP)) (network_ips d nid)"

definition get_free_port :: "db \<Rightarrow> int \<Rightarrow> (int \<times> port_mapping) option" where
  "get_free_port d gid =
     find (\<lambda>(_, P). \<not> (truthy_int (pm_ip_port P) \<or> truthy_int (pm_ip_id P))) (gateway_ports d gid)"

section \<open>Forms\<close>

record ipy =
  parseAddress :: "string \<Rightarrow> int option"
  net_addresses :: "string \<Rightarrow> string \<Rightarrow> int list option"
  strNormal :: "int \<Rightarrow> string"

text \<open>What the code relies on: a network's addresses come in ascending order.\<close>

definition ipy_ok :: "ipy \<Rightarrow> bool" where
  "ipy_ok y \<longleftrightarrow> (\<forall>a m ns. net_addresses y a m = Some ns \<longrightarrow> sorted_wrt (<) ns)"

definition ipcheck :: "ipy \<Rightarrow> string \<Rightarrow> bool" where
  "ipcheck y data = (parseAddress y data \<noteq> None)"

definition multi_ipcheck :: "ipy \<Rightarrow> string \<Rightarrow> bool" where
  "multi_ipcheck y data = (filter (\<lambda>x. parseAddress y x = None) (split_ws data) = [])"

definition length_between :: "nat \<Rightarrow> nat \<Rightarrow> string \<Rightarrow> bool" where
  "length_between lo hi s = (lo \<le> length s \<and> length s \<le> hi)"

text \<open>\<open>NumberRange(min, max)\<close> refuses a value that did not parse.\<close>

definition number_range :: "int \<Rightarrow> int \<Rightarrow> int option \<Rightarrow> bool" where
  "number_range lo hi x = (case x of None \<Rightarrow> False | Some n \<Rightarrow> lo \<le> n \<and> n \<le> hi)"

record network_form =
  nf_name :: string
  nf_description :: string
  nf_start :: string
  nf_end :: string
  nf_netmask :: string
  nf_gateway :: string
  nf_nameservers :: string
  nf_exclude_ips :: string

definition NetworkPoolForm_validate :: "ipy \<Rightarrow> network_form \<Rightarrow> bool" where
  "NetworkPoolForm_validate y f =
     (length_between 2 128 (nf_name f) \<and> ipcheck y (nf_start f) \<and> ipcheck y (nf_end f) \<and>
      ipcheck y (nf_netmask f) \<and> ipcheck y (nf_gateway f) \<and> multi_ipcheck y (nf_nameservers f) \<and>
      length (nf_nameservers f) \<le> 1024 \<and> multi_ipcheck y (nf_exclude_ips f))"

record gateway_form =
  gf_name :: string
  gf_description :: string
  gf_ip :: string
  gf_netmask :: string
  gf_start :: "int option"
  gf_end :: "int option"
  gf_exclude_ports :: string

definition validate_ip :: "db \<Rightarrow> int option \<Rightarrow> string \<Rightarrow> bool" where
  "validate_ip d gw data = (gw \<noteq> None \<or> t_first (\<lambda>_ g. gw_ip g = data) (gateways d) = None)"

definition validate_exclude_ports :: "string \<Rightarrow> bool" where
  "validate_exclude_ports data = (filter (\<lambda>x. py_int (strip x) = None) (split_ws data) = [])"

definition GatewayForm_validate :: "ipy \<Rightarrow> db \<Rightarrow> int option \<Rightarrow> gateway_form \<Rightarrow> bool" where
  "GatewayForm_validate y d gw f =
     (length_between 2 64 (gf_name f) \<and> ipcheck y (gf_ip f) \<and> validate_ip d gw (gf_ip f) \<and>
      ipcheck y (gf_netmask f) \<and> number_range 9999 65535 (gf_start f) \<and>
      number_range 9999 65535 (gf_end f) \<and> validate_exclude_ports (gf_exclude_ports f))"

section \<open>Gateways\<close>

fun parse_ints :: "string list \<Rightarrow> int list pyres" where
  "parse_ints [] = Inr []"
| "parse_ints (x # xs) =
     (case py_int (strip x) of
        None \<Rightarrow> Inl ValueError
      | Some n \<Rightarrow> (case parse_ints xs of Inl e \<Rightarrow> Inl e | Inr ns \<Rightarrow> Inr (n # ns)))"

definition port_exists :: "int \<Rightarrow> port_mapping table \<Rightarrow> bool" where
  "port_exists p t = (t_first (\<lambda>_ P. pm_gateway_port P = p) t \<noteq> None)"

text \<open>The loop \<open>while cur < end\<close>.\<close>

function add_ports :: "int \<Rightarrow> int \<Rightarrow> int list \<Rightarrow> int \<Rightarrow> port_mapping table \<Rightarrow> port_mapping table" where
  "add_ports cur stop exclude_ports gid t =
     (if cur < stop then
        if cur \<in> set exclude_ports then add_ports (cur + 1) stop exclude_ports gid t
        else add_ports (cur + 1) stop exclude_ports gid
          (if port_exists cur t then t
           else t_add \<lparr>pm_gateway_port = cur, pm_gateway_id = gid, pm_ip_port = None, pm_ip_id = None\<rparr> t)
      else t)"
  by pat_completeness auto
termination by (relation "measure (\<lambda>(cur, stop, _). nat (stop - cur))") auto

declare add_ports.simps [simp del]

definition add_to_portmapping :: "int \<Rightarrow> gateway \<Rightarrow> db session \<Rightarrow> db session pyres" where
  "add_to_portmapping gid G s =
     (case parse_ints (split_ws (gw_exclude_ports G)) of
        Inl e \<Rightarrow> Inl e
      | Inr exclude_ports \<Rightarrow>
          Inr (commit (modify (port_mappings_update (add_ports (gw_start G) (gw_end G) exclude_ports gid)) s)))"

text \<open>\<open>GatewayConfig.prepare\<close>: the gateway the argument names, if there is one.\<close>

definition GatewayConfig_prepare :: "ctx \<Rightarrow> db \<Rightarrow> (int \<times> gateway) option pyres" where
  "GatewayConfig_prepare c d =
     (case get_argument c ''gateway'' of
        None \<Rightarrow> Inr None
      | Some ID \<Rightarrow> if ID = [] then Inr None else get_by_arg (gateways d) ID)"

definition GatewayConfig_get :: "gateway_form \<Rightarrow> ctx \<Rightarrow> db session \<Rightarrow> gateway_form \<times> resp \<times> db session" where
  "GatewayConfig_get f c s =
     (case require_permission ''admin'' c (work s) of
        Some r \<Rightarrow> (f, r, s)
      | None \<Rightarrow>
          (case GatewayConfig_prepare c (work s) of
             Inl e \<Rightarrow> (f, Raise e, s)
           | Inr None \<Rightarrow> (f, Render ''admin/network/gateway_config.html'', s)
           | Inr (Some (_, G)) \<Rightarrow>
               (\<lparr>gf_name = gw_name G, gf_description = (case gw_description G of None \<Rightarrow> [] | Some x \<Rightarrow> x),
                 gf_ip = gw_ip G, gf_netmask = gw_netmask G, gf_start = Some (gw_start G),
                 gf_end = Some (gw_end G), gf_exclude_ports = gw_exclude_ports G\<rparr>,
                Render ''admin/network/gateway_config.html'', s)))"

definition form_gateway :: "gateway_form \<Rightarrow> gateway" where
  "form_gateway f = \<lparr>gw_name = gf_name f, gw_description = Some (gf_description f), gw_ip = gf_ip f,
     gw_netmask = gf_netmask f, gw_start = the (gf_start f), gw_end = the (gf_end f),
     gw_exclude_ports = gf_exclude_ports f\<rparr>"

text \<open>The unique column \<open>Gateway.ip\<close>: another gateway with the address makes the commit fail.\<close>

definition gateway_ip_taken :: "db \<Rightarrow> int \<Rightarrow> string \<Rightarrow> bool" where
  "gateway_ip_taken d gid addr = (t_first (\<lambda>k g. k \<noteq> gid \<and> gw_ip g = addr) (gateways d) \<noteq> None)"

definition GatewayConfig_save :: "(int \<times> gateway) option \<Rightarrow> gateway \<Rightarrow> db session \<Rightarrow> (int \<times> db session) pyres" where
  "GatewayConfig_save gw G s =
     (case gw of
        Some (gid, _) \<Rightarrow>
          if gateway_ip_taken (work s) gid (gw_ip G) then Inl IntegrityError
          else Inr (gid, commit (modify (gateways_update (t_upd gid (\<lambda>_. G))) s))
      | None \<Rightarrow>
          let gid = t_newid (gateways (work s)) in
          if gateway_ip_taken (work s) gid (gw_ip G) then Inl IntegrityError
          else Inr (gid, commit (modify (gateways_update (t_add G)) s)))"

definition GatewayConfig_post :: "ipy \<Rightarrow> gateway_form \<Rightarrow> ctx \<Rightarrow> db session \<Rightarrow> resp \<times> db session" where
  "GatewayConfig_post y f = with_permission ''admin'' (\<lambda>c s.
     on_value (GatewayConfig_prepare c (work s)) s (\<lambda>gw.
       if GatewayForm_validate y (work s) (map_option fst gw) f then
         on_value (GatewayConfig_save gw (form_gateway f) s) s (\<lambda>(gid, s1).
           on_value (add_to_portmapping gid (form_gateway f) s1) s1 (\<lambda>s2.
             (Redirect ''admin:network:gateway'' None, s2)))
       else (Render ''admin/network/gateway_config.html'', s)))"

section \<open>Networks\<close>

definition ip_exists :: "string \<Rightarrow> ippool table \<Rightarrow> bool" where
  "ip_exists a t = (t_first (\<lambda>_ r. ip_ip r = a) t \<noteq> None)"

text \<open>The loop over the addresses of the network, left at the first one after \<open>end\<close>.\<close>

fun add_addresses ::
  "ipy \<Rightarrow> int \<Rightarrow> int \<Rightarrow> string \<Rightarrow> int \<Rightarrow> int \<Rightarrow> int list \<Rightarrow> ippool table \<Rightarrow> ippool table" where
  "add_addresses y start stop exclude_ips nid now [] t = t"
| "add_addresses y start stop exclude_ips nid now (x # xs) t =
     (if x > stop then t
      else if start \<le> x \<and> \<not> occurs_in (strNormal y x) exclude_ips \<and> \<not> ip_exists (strNormal y x) t
      then add_addresses y start stop exclude_ips nid now xs
             (t_add \<lparr>ip_ip = strNormal y x, ip_network_id = nid, ip_instance_id = None, ip_updated = now\<rparr> t)
      else add_addresses y start stop exclude_ips nid now xs t)"

definition add_to_ippool :: "ipy \<Rightarrow> int \<Rightarrow> int \<Rightarrow> networkpool \<Rightarrow> db session \<Rightarrow> db session pyres" where
  "add_to_ippool y now nid N s =
     (case (parseAddress y (n_start N), parseAddress y (n_end N)) of
        (Some start, Some stop) \<Rightarrow>
          (case net_addresses y (n_start N) (n_netmask N) of
             None \<Rightarrow> Inl ValueError
           | Some xs \<Rightarrow>
               Inr (commit (modify (ippools_update
                 (add_addresses y start stop (n_exclude_ips N) nid now xs)) s)))
      | _ \<Rightarrow> Inl ValueError)"

definition NetworkConfig_prepare :: "ctx \<Rightarrow> db \<Rightarrow> (int \<times> networkpool) option pyres" where
  "NetworkConfig_prepare c d =
     (case get_argument c ''network'' of
        None \<Rightarrow> Inr None
      | Some ID \<Rightarrow> if ID = [] then Inr None else get_by_arg (networkpools d) ID)"

definition NetworkConfig_get :: "network_form \<Rightarrow> ctx \<Rightarrow> db session \<Rightarrow> network_form \<times> resp \<times> db session" where
  "NetworkConfig_get f c s =
     (case require_permission ''admin'' c (work s) of
        Some r \<Rightarrow> (f, r, s)
      | None \<Rightarrow>
          (case NetworkConfig_prepare c (work s) of
             Inl e \<Rightarrow> (f, Raise e, s)
           | Inr None \<Rightarrow> (f, Render ''admin/network/network_config.html'', s)
           | Inr (Some (_, N)) \<Rightarrow>
               (\<lparr>nf_name = n_name N, nf_description = (case n_description N of None \<Rightarrow> [] | Some x \<Rightarrow> x),
                 nf_start = n_start N, nf_end = n_end N, nf_netmask = n_netmask N, nf_gateway = n_gateway N,
                 nf_nameservers = n_nameservers N, nf_exclude_ips = n_exclude_ips N\<rparr>,
                Render ''admin/network/network_config.html'', s)))"

definition form_network :: "network_form \<Rightarrow> networkpool" where
  "form_network f = \<lparr>n_name = nf_name f, n_description = Some (nf_description f), n_start = nf_start f,
     n_end = nf_end f, n_netmask = nf_netmask f, n_gateway = nf_gateway f,
     n_nameservers = nf_nameservers f, n_exclude_ips = nf_exclude_ips f\<rparr>"

definition NetworkConfig_post :: "ipy \<Rightarrow> network_form \<Rightarrow> ctx \<Rightarrow> db session \<Rightarrow> resp \<times> db session" where
  "NetworkConfig_post y f = with_permission ''admin'' (\<lambda>c s.
     on_value (NetworkConfig_prepare c (work s)) s (\<lambda>nw.
       if NetworkPoolForm_validate y f then
         let N = form_network f;
             nid = (case nw of Some (k, _) \<Rightarrow> k | None \<Rightarrow> t_newid (networkpools (work s)));
             s1 = commit (modify (networkpools_update
                    (case nw of Some _ \<Rightarrow> t_upd nid (\<lambda>_. N) | None \<Rightarrow> t_add N)) s)
         in on_value (add_to_ippool y (c_now c) nid N s1) s1 (\<lambda>s2. (Redirect ''admin:network'' None, s2))
       else (Render ''admin/network/network_config.html'', s)))"

text \<open>
  \<open>db.delete(IP)\<close>: the mapper empties \<open>ip_id\<close> of the port mappings that refer to the address
  (the backref \<open>ports\<close> has no cascade).
\<close>

definition delete_ips :: "(int \<Rightarrow> ippool \<Rightarrow> bool) \<Rightarrow> db \<Rightarrow> db" where
  "delete_ips P d =
     (let ks = map fst (t_select P (ippools d)) in
      d\<lparr>ippools := t_del_where P (ippools d),
        port_mappings := t_upd_where (\<lambda>_ m. case pm_ip_id m of None \<Rightarrow> False | Some k \<Rightarrow> k \<in> set ks)
                           (\<lambda>m. m\<lparr>pm_ip_id := None\<rparr>) (port_mappings d)\<rparr>)"

definition NetworkDelete_get :: "ctx \<Rightarrow> db session \<Rightarrow> resp \<times> db session" where
  "NetworkDelete_get = with_permission ''admin'' (\<lambda>c s.
     case get_argument c ''id'' of
       None \<Rightarrow> (Write ''Give me network pool id please.'' [], s)
     | Some ID \<Rightarrow>
         if ID = [] then (Write ''Give me network pool id please.'' [], s)
         else on_value (get_by_arg (networkpools (work s)) ID) s (\<lambda>r.
           case r of
             None \<Rightarrow> (Write ''Can not find network pool %s'' [the (py_int ID)], s)
           | Some (nid, N) \<Rightarrow>
               if list_ex (\<lambda>(_, IP). truthy_int (ip_instance_id IP)) (network_ips (work s) nid)
               then (Render ''admin/network/network_delete_failed.html'', s)
               else
                 (let s1 = commit (modify (delete_ips (\<lambda>_ v. ip_network_id v = nid)) s);
                      s2 = commit (modify (networkpools_update (t_del nid)) s1)
                  in (Redirect ''admin:network'' None, s2))))"

section \<open>What the pools hold\<close>

definition port_numbers :: "port_mapping table \<Rightarrow> int list" where
  "port_numbers t = map (pm_gateway_port \<circ> snd) (rows t)"

definition ip_texts :: "ippool table \<Rightarrow> string list" where
  "ip_texts t = map (ip_ip \<circ> snd) (rows t)"

lemma port_numbers_simps [table_simps]:
  "port_numbers (t_add v t) = port_numbers t @ [pm_gateway_port v]"
  "(\<And>k v. P k v \<Longrightarrow> pm_gateway_port (f v) = pm_gateway_port v) \<Longrightarrow>
     port_numbers (t_upd_where P f t) = port_numbers t"
  by (auto simp: port_numbers_def)

lemma ip_texts_simps [table_simps]:
  "ip_texts (t_add v t) = ip_texts t @ [ip_ip v]"
  "(\<And>k v. P k v \<Longrightarrow> ip_ip (f v) = ip_ip v) \<Longrightarrow> ip_texts (t_upd_where P f t) = ip_texts t"
  by (auto simp: ip_texts_def)

lemma distinct_map_filter_rows: "distinct (map f xs) \<Longrightarrow> distinct (map f (filter P xs))"
  by (induction xs) auto

lemma ip_texts_del: "distinct (ip_texts t) \<Longrightarrow> distinct (ip_texts (t_del_where P t))"
  by (simp add: ip_texts_def distinct_map_filter_rows)

lemma port_exists_iff: "port_exists p t \<longleftrightarrow> p \<in> set (port_numbers t)"
proof -
  have "t_first (\<lambda>_ P. pm_gateway_port P = p) t = None \<longleftrightarrow> p \<notin> set (port_numbers t)"
    unfolding t_first_None by (force simp: port_numbers_def)
  then show ?thesis by (simp add: port_exists_def)
qed

lemma ip_exists_iff: "ip_exists a t \<longleftrightarrow> a \<in> set (ip_texts t)"
proof -
  have "t_first (\<lambda>_ r. ip_ip r = a) t = None \<longleftrightarrow> a \<notin> set (ip_texts t)"
    unfolding t_first_None by (force simp: ip_texts_def)
  then show ?thesis by (simp add: ip_exists_def)
qed

lemma add_ports_numbers:
  "set (port_numbers (add_ports cur stop ex gid t)) = set (port_numbers t) \<union> ({cur..<stop} - set ex)"
proof (induction cur stop ex gid t rule: add_ports.induct)
  case (1 cur stop ex gid t)
  show ?case
  proof (cases "cur < stop")
    case True
    then have r: "{cur..<stop} = insert cur {cur + 1..<stop}" by auto
    show ?thesis
      using 1 True by (subst add_ports.simps) (auto simp: r port_exists_iff table_simps)
  qed (subst add_ports.simps, simp)
qed

lemma add_ports_distinct:
  "distinct (port_numbers t) \<Longrightarrow> distinct (port_numbers (add_ports cur stop ex gid t))"
proof (induction cur stop ex gid t rule: add_ports.induct)
  case (1 cur stop ex gid t)
  then show ?case by (subst add_ports.simps) (auto simp: port_exists_iff table_simps)
qed

text \<open>The rows a loop appends, and that appending composes.\<close>

definition appends :: "('a \<Rightarrow> bool) \<Rightarrow> 'a table \<Rightarrow> 'a table \<Rightarrow> bool" where
  "appends Q t t' \<longleftrightarrow> (\<exists>new. rows t' = rows t @ new \<and> list_all (\<lambda>r. Q (snd r)) new)"

lemma appends_refl [simp]: "appends Q t t"
  by (simp add: appends_def)

lemma appends_add: "appends Q (t_add v t) t' \<Longrightarrow> Q v \<Longrightarrow> appends Q t t'"
  by (auto simp: appends_def)

lemma add_ports_rows:
  "appends (\<lambda>P. pm_gateway_id P = gid \<and> pm_ip_id P = None \<and> pm_ip_port P = None) t
     (add_ports cur stop ex gid t)"
proof (induction cur stop ex gid t rule: add_ports.induct)
  case (1 cur stop ex gid t)
  show ?case
    by (subst add_ports.simps) (use 1 in \<open>auto split: if_splits intro: appends_add\<close>)
qed

lemma add_ports_ok: "t_ok t \<Longrightarrow> t_ok (add_ports cur stop ex gid t)"
proof (induction cur stop ex gid t rule: add_ports.induct)
  case (1 cur stop ex gid t)
  then show ?case by (subst add_ports.simps) (auto simp: t_ok_add)
qed

lemma add_addresses_texts:
  "sorted_wrt (<) xs \<Longrightarrow>
     set (ip_texts (add_addresses y start stop ex nid now xs t)) =
       set (ip_texts t) \<union> strNormal y ` {x \<in> set xs. start \<le> x \<and> x \<le> stop \<and> \<not> occurs_in (strNormal y x) ex}"
proof (induction xs arbitrary: t)
  case (Cons x xs)
  show ?case
  proof (cases "stop < x")
    case True
    then have "{z \<in> set (x # xs). start \<le> z \<and> z \<le> stop \<and> \<not> occurs_in (strNormal y z) ex} = {}"
      using Cons.prems by force
    with True show ?thesis by (simp del: Collect_empty_eq)
  next
    case False
    with Cons show ?thesis by (auto simp: ip_exists_iff table_simps)
  qed
qed simp

lemma add_addresses_distinct:
  "distinct (ip_texts t) \<Longrightarrow> distinct (ip_texts (add_addresses y start stop ex nid now xs t))"
  by (induction xs arbitrary: t) (auto simp: ip_exists_iff table_simps)

lemma add_addresses_ok: "t_ok t \<Longrightarrow> t_ok (add_addresses y start stop ex nid now xs t)"
  by (induction xs arbitrary: t) (auto simp: t_ok_add)

lemma add_addresses_rows:
  "appends (\<lambda>r. ip_network_id r = nid \<and> ip_instance_id r = None) t
     (add_addresses y start stop ex nid now xs t)"
proof (induction xs arbitrary: t)
  case (Cons x xs)
  then show ?case by (auto intro: appends_add [OF Cons.IH])
qed simp

text \<open>Every bound port mapping refers to an address of the pool.\<close>

definition port_refs_ok :: "db \<Rightarrow> bool" where
  "port_refs_ok d \<longleftrightarrow>
     (\<forall>j m k. (j, m) \<in> set (rows (port_mappings d)) \<longrightarrow> pm_ip_id m = Some k \<longrightarrow> k \<in> fst ` set (rows (ippools d)))"

lemma delete_ips_refs: "port_refs_ok d \<Longrightarrow> port_refs_ok (delete_ips P d)"
  by (fastforce simp: port_refs_ok_def delete_ips_def Let_def t_select_def image_iff split: if_splits option.splits)

section \<open>Properties\<close>

lemma parse_ints_validated:
  "filter (\<lambda>x. py_int (strip x) = None) xs = [] \<Longrightarrow>
     parse_ints xs = Inr (map (\<lambda>x. the (py_int (strip x))) xs)"
  by (induction xs) (auto split: if_splits)

lemma with_permission_result:
  "with_permission p h c s = (r, s') \<Longrightarrow>
     h c s = (r, s') \<or> s' = s \<and> (r = Login \<or> r = NoPermission p \<or> r = Raise (HTTPError 403))"
  by (auto simp: with_permission_def require_permission_def split: option.splits if_splits)

lemma GatewayConfig_save_tables:
  "GatewayConfig_save gw G s = Inr (gid, s') \<Longrightarrow>
     port_mappings (work s') = port_mappings (work s) \<and> ippools (work s') = ippools (work s)"
  by (auto simp: GatewayConfig_save_def Let_def split: option.splits if_splits)

definition gateway_excluded :: "gateway_form \<Rightarrow> int set" where
  "gateway_excluded f = set (map (\<lambda>x. the (py_int (strip x))) (split_ws (gf_exclude_ports f)))"

text \<open>
  Saving a gateway stores exactly the wanted port pool: after a successful \<open>GatewayConfig.post\<close>
  the committed ports are the old ones and those from the start port up to, not including, the end
  port that are not excluded; numbers stay distinct; old rows are kept and the new ones are free.
\<close>

theorem gateway_pool_filled:
  assumes "GatewayConfig_post y f c s = (Redirect ''admin:network:gateway'' None, s')"
  shows "set (port_numbers (port_mappings (on_finish s'))) =
      set (port_numbers (port_mappings (work s))) \<union> ({the (gf_start f)..<the (gf_end f)} - gateway_excluded f) \<and>
    (distinct (port_numbers (port_mappings (work s))) \<longrightarrow> distinct (port_numbers (port_mappings (on_finish s')))) \<and>
    (\<exists>gid. appends (\<lambda>P. pm_gateway_id P = gid \<and> pm_ip_id P = None \<and> pm_ip_port P = None)
       (port_mappings (work s)) (port_mappings (on_finish s')))"
proof -
  let ?ex = "map (\<lambda>x. the (py_int (strip x))) (split_ws (gf_exclude_ports f))"
  obtain gw gid s1 where v: "GatewayForm_validate y (work s) (map_option fst gw) f"
      and s1: "GatewayConfig_save gw (form_gateway f) s = Inr (gid, s1)"
      and s': "add_to_portmapping gid (form_gateway f) s1 = Inr s'"
    using assms
    by (auto simp: GatewayConfig_post_def on_value_def dest!: with_permission_result
        split: sum.splits if_splits)
  have "parse_ints (split_ws (gf_exclude_ports f)) = Inr ?ex"
    using v by (intro parse_ints_validated) (simp add: GatewayForm_validate_def validate_exclude_ports_def)
  then have p: "port_mappings (on_finish s') =
      add_ports (the (gf_start f)) (the (gf_end f)) ?ex gid (port_mappings (work s))"
    using s' GatewayConfig_save_tables [OF s1] by (auto simp: add_to_portmapping_def form_gateway_def)
  show ?thesis
    unfolding p using add_ports_rows
    by (intro conjI exI [of _ gid]) (auto simp: add_ports_numbers gateway_excluded_def add_ports_distinct)
qed

definition ipy_ex :: ipy where
  "ipy_ex = \<lparr>parseAddress = py_int,
     net_addresses = (\<lambda>a m. case (py_int a, py_int m) of (Some n, Some k) \<Rightarrow> Some [n..n + k] | _ \<Rightarrow> None),
     strNormal = show_int\<rparr>"

definition gateway_form_ex :: gateway_form where
  "gateway_form_ex = \<lparr>gf_name = ''gw0'', gf_description = [], gf_ip = ''1'', gf_netmask = ''8'',
     gf_start = Some 10000, gf_end = Some 10004, gf_exclude_ports = ''10001''\<rparr>"

theorem gateway_pool_filled_witness:
  "set (port_numbers (port_mappings (on_finish (snd
     (GatewayConfig_post ipy_ex gateway_form_ex (ctx_ex 1 []) (open_session db_ex)))))) = {10000, 10002, 10003}"
proof -
  have r: "fst (GatewayConfig_post ipy_ex gateway_form_ex (ctx_ex 1 []) (open_session db_ex))
      = Redirect ''admin:network:gateway'' None"
    by code_simp
  have e: "port_numbers (port_mappings (work (open_session db_ex))) = []"
    "gateway_excluded gateway_form_ex = {10001}"
    "the (gf_start gateway_form_ex) = 10000" "the (gf_end gateway_form_ex) = 10004"
    by code_simp+
  have "set [] \<union> ({10000..<10004} - {10001}) = {10000, 10002, 10003 :: int}" by auto
  then show ?thesis
    using conjunct1 [OF gateway_pool_filled [OF pair_of_fst [OF r]]] unfolding e by (rule trans [rotated])
qed

text \<open>The texts of the addresses a saved network asks for.\<close>

definition wanted_addresses :: "ipy \<Rightarrow> network_form \<Rightarrow> string set" where
  "wanted_addresses y f =
     strNormal y ` {x \<in> set (the (net_addresses y (nf_start f) (nf_netmask f))).
        the (parseAddress y (nf_start f)) \<le> x \<and> x \<le> the (parseAddress y (nf_end f)) \<and>
        \<not> occurs_in (strNormal y x) (nf_exclude_ips f)}"

lemma add_to_ippool_result:
  assumes "add_to_ippool y now nid (form_network f) s = Inr s'"
  shows "\<exists>start stop xs. parseAddress y (nf_start f) = Some start \<and> parseAddress y (nf_end f) = Some stop \<and>
     net_addresses y (nf_start f) (nf_netmask f) = Some xs \<and>
     ippools (on_finish s') = add_addresses y start stop (nf_exclude_ips f) nid now xs (ippools (work s))"
  using assms by (auto simp: add_to_ippool_def form_network_def split: option.splits)

text \<open>
  Saving a network adds exactly the wanted addresses to the pool: those of the subnet between
  the start and the end address, both included, whose text does not occur in the exclude list;
  addresses stay unique, rows that were there are kept, and the new addresses are free.
\<close>

theorem network_pool_filled:
  assumes "ipy_ok y" and "NetworkConfig_post y f c s = (Redirect ''admin:network'' None, s')"
  shows "set (ip_texts (ippools (on_finish s'))) = set (ip_texts (ippools (work s))) \<union> wanted_addresses y f \<and>
    (distinct (ip_texts (ippools (work s))) \<longrightarrow> distinct (ip_texts (ippools (on_finish s')))) \<and>
    (\<exists>nid. appends (\<lambda>r. ip_network_id r = nid \<and> ip_instance_id r = None)
       (ippools (work s)) (ippools (on_finish s')))"
proof -
  obtain nid s1 where s': "add_to_ippool y (c_now c) nid (form_network f) s1 = Inr s'"
      and s1: "ippools (work s1) = ippools (work s)"
    using assms(2)
    by (auto simp: NetworkConfig_post_def on_value_def Let_def dest!: with_permission_result
        split: sum.splits if_splits)
  obtain start stop xs where p: "parseAddress y (nf_start f) = Some start" "parseAddress y (nf_end f) = Some stop"
      "net_addresses y (nf_start f) (nf_netmask f) = Some xs"
      and i: "ippools (on_finish s') = add_addresses y start stop (nf_exclude_ips f) nid (c_now c) xs (ippools (work s))"
    using add_to_ippool_result [OF s'] s1 by auto
  have "sorted_wrt (<) xs" using assms(1) p(3) by (auto simp: ipy_ok_def)
  then show ?thesis
    unfolding i using add_addresses_rows
    by (intro conjI exI [of _ nid]) (auto simp: add_addresses_texts wanted_addresses_def p add_addresses_distinct)
qed

definition network_form_ex :: network_form where
  "network_form_ex = \<lparr>nf_name = ''lan'', nf_description = [], nf_start = ''100'', nf_end = ''103'',
     nf_netmask = ''8'', nf_gateway = ''1'', nf_nameservers = ''1'', nf_exclude_ips = ''101''\<rparr>"

lemma ipy_ex_ok: "ipy_ok ipy_ex"
  by (auto simp: ipy_ok_def ipy_ex_def split: option.splits)

theorem network_pool_filled_witness:
  "set (ip_texts (ippools (on_finish (snd
     (NetworkConfig_post ipy_ex network_form_ex (ctx_ex 1 []) (open_session db_ex)))))) = {''100'', ''102'', ''103''}"
proof -
  have r: "fst (NetworkConfig_post ipy_ex network_form_ex (ctx_ex 1 []) (open_session db_ex))
      = Redirect ''admin:network'' None"
    by code_simp
  have e: "ip_texts (ippools (work (open_session db_ex))) = []"
    "wanted_addresses ipy_ex network_form_ex = {''100'', ''102'', ''103''}"
    by code_simp+
  show ?thesis
    using conjunct1 [OF network_pool_filled [OF ipy_ex_ok pair_of_fst [OF r]]] unfolding e
    by (rule trans) simp
qed

text \<open>
  C31. Deleting a network is safe: while an instance uses one of its addresses nothing changes; a
  deletion that succeeds removes the network with all its addresses and nothing else from the
  pools, and no port mapping keeps a reference to an address that is gone.
\<close>

theorem network_delete_safe:
  assumes "db_ok (work s)" "port_refs_ok (work s)" "NetworkDelete_get c s = (r, s')"
    and "get_argument c ''id'' = Some ID" "py_int ID = Some nid"
  shows "if r = Redirect ''admin:network'' None
    then t_get (networkpools (on_finish s')) nid = None \<and> network_ips (on_finish s') nid = [] \<and>
      (\<forall>v \<in> set (network_ips (work s) nid). \<not> truthy_int (ip_instance_id (snd v))) \<and>
      (\<forall>n. n \<noteq> nid \<longrightarrow> network_ips (on_finish s') n = network_ips (work s) n) \<and>
      port_refs_ok (on_finish s')
    else s' = s"
proof -
  have del: "network_ips (networkpools_update t d) n = network_ips d n"
      "port_refs_ok (networkpools_update t d) = port_refs_ok d" for d t n
    by (simp_all add: network_ips_def port_refs_ok_def)
  have ips: "network_ips (delete_ips (\<lambda>_ v. ip_network_id v = nid) d) n
      = (if n = nid then [] else network_ips d n)" for d n
    by (auto simp: network_ips_def delete_ips_def Let_def t_select_def filter_empty_conv
        intro!: filter_cong)
  have ok: "t_ok (networkpools (delete_ips P (work s)))" for P
    using assms(1) by (simp add: delete_ips_def Let_def db_ok_def)
  show ?thesis
    using assms(2-) delete_ips_refs [OF assms(2)]
    by (auto simp: NetworkDelete_get_def get_by_arg_def Let_def del ips t_get_del [OF ok] list_ex_iff
        split: option.splits if_splits dest!: with_permission_result)
qed

definition network_db_ex :: db where
  "network_db_ex = db_ex\<lparr>
     networkpools := \<lparr>rows = [(1, form_network network_form_ex)], seq = 1\<rparr>,
     ippools := \<lparr>rows = [(1, \<lparr>ip_ip = ''100'', ip_network_id = 1, ip_instance_id = None, ip_updated = 1\<rparr>),
                        (2, \<lparr>ip_ip = ''102'', ip_network_id = 1, ip_instance_id = None, ip_updated = 1\<rparr>)],
                 seq = 2\<rparr>\<rparr>"

theorem network_delete_safe_witness:
  "network_ips (on_finish (snd (NetworkDelete_get (ctx_ex 1 [(''id'', ''1'')]) (open_session network_db_ex)))) 1 = []"
proof -
  let ?c = "ctx_ex 1 [(''id'', ''1'')]" and ?s = "open_session network_db_ex"
  have "db_ok (work ?s)"
    using db_ex_ok by (simp add: network_db_ex_def db_ok_def t_ok_def)
  moreover have "port_refs_ok (work ?s)"
    by (simp add: port_refs_ok_def network_db_ex_def db_ex_def db_empty_def)
  moreover have r: "fst (NetworkDelete_get ?c ?s) = Redirect ''admin:network'' None" by code_simp
  moreover have "get_argument ?c ''id'' = Some ''1''" "py_int ''1'' = Some 1" by code_simp+
  ultimately show ?thesis
    using network_delete_safe [of ?s ?c "Redirect ''admin:network'' None" _ "''1''" 1, OF _ _ pair_of_fst [OF r]]
    by simp
qed

end
