(* ===== verification/Node.thy ===== *)
theory Node
  imports Network
begin

text \<open>
  The handlers of the nodes (\<^verbatim>\<open>lyweb/app/node/views.py\<close>, \<^verbatim>\<open>forms.py\<close>): enabling, disabling and
  configuring a node. Each makes a job and tells the control server of it; whether that works is an
  input (\<open>notify\<close>, a function of the job's key).
\<close>

section \<open>Jobs for nodes\<close>

definition node_job :: "int \<Rightarrow> int \<Rightarrow> int \<Rightarrow> int \<Rightarrow> db session \<Rightarrow> db session" where
  "node_job now u nid action_id s =
     commit (modify (jobs_update (t_add (new_job now u TARGET_NODE nid action_id))) s)"

text \<open>The key of the job that a handler makes.\<close>

definition next_job :: "db session \<Rightarrow> int" where
  "next_job s = t_newid (jobs (work s))"

section \<open>Action\<close>

text \<open>The exception of a control server that cannot be reached is not caught.\<close>

definition Action_get :: "(int \<Rightarrow> bool) \<Rightarrow> int \<Rightarrow> ctx \<Rightarrow> db session \<Rightarrow> resp \<times> db session" where
  "Action_get notify nid = with_login (\<lambda>u c s.
     let action = (case get_argument_int c ''action'' (Some 0) of None \<Rightarrow> 0 | Some n \<Rightarrow> n) in
     case t_get (nodes (work s)) nid of
       None \<Rightarrow> (Write ''No such node!'' [], s)
     | Some node \<Rightarrow>
         if action = 0 then (Write ''No action specified'' [], s)
         else if action = 1 \<and> nd_isenable node then (Write ''Already enable !'' [], s)
         else if action = 2 \<and> \<not> nd_isenable node then (Write ''Already disable !'' [], s)
         else if action \<noteq> 1 \<and> action \<noteq> 2 then (Write ''Unknow action!'' [], s)
         else
           let s1 = node_job (c_now c) u nid (if action = 1 then ENABLE_NODE else DISABLE_NODE) s in
           (if notify (next_job s) then Write ''Action success !'' [] else Raise IOError, s1))"

section \<open>isenableToggle\<close>

definition isenableToggle_get :: "(int \<Rightarrow> bool) \<Rightarrow> int \<Rightarrow> ctx \<Rightarrow> db session \<Rightarrow> resp \<times> db session" where
  "isenableToggle_get notify nid = with_permission ''admin'' (with_login (\<lambda>u c s.
     case t_get (nodes (work s)) nid of
       None \<Rightarrow> (Write ''Can not find node %s.'' [nid], s)
     | Some N \<Rightarrow>
         let s1 = node_job (c_now c) u nid (if nd_isenable N then DISABLE_NODE else ENABLE_NODE) s in
         if notify (next_job s)
         then (Write '''' [],
               commit (modify (nodes_update (t_upd nid (\<lambda>N. N\<lparr>nd_isenable := \<not> nd_isenable N\<rparr>))) s1))
         else (Write ''Run job failed: %s'' [], s1)))"

section \<open>NodeEdit\<close>

record node_form =
  nf_vmemory :: "int option"
  nf_vcpus :: "int option"

definition NodeEditForm_validate :: "node_form \<Rightarrow> bool" where
  "NodeEditForm_validate f \<longleftrightarrow> number_range 1 1024 (nf_vmemory f) \<and> number_range 1 1024 (nf_vcpus f)"

text \<open>The values with which \<open>NodeEdit.get\<close> fills the form; the memory is kept in KB and shown in GB.\<close>

definition NodeEdit_fill :: "node \<Rightarrow> node_form" where
  "NodeEdit_fill N =
     \<lparr>nf_vmemory = Some ((if truthy_int (nd_vmemory N) then the (nd_vmemory N) else nd_memory N) div (1024 * 1024)),
      nf_vcpus = Some (if truthy_int (nd_vcpus N) then the (nd_vcpus N) else nd_cpus N)\<rparr>"

definition NodeEdit_get :: "int \<Rightarrow> ctx \<Rightarrow> db session \<Rightarrow> resp \<times> db session" where
  "NodeEdit_get nid = with_permission ''admin'' (\<lambda>c s.
     case t_get (nodes (work s)) nid of
       None \<Rightarrow> (Write ''Can not find node %s.'' [nid], s)
     | Some N \<Rightarrow> (Render ''node/edit.html'', s))"

definition NodeEdit_post :: "(int \<Rightarrow> bool) \<Rightarrow> int \<Rightarrow> node_form \<Rightarrow> ctx \<Rightarrow> db session \<Rightarrow> resp \<times> db session" where
  "NodeEdit_post notify nid f = with_permission ''admin'' (with_login (\<lambda>u c s.
     case t_get (nodes (work s)) nid of
       None \<Rightarrow> (Write ''Can not find node %s.'' [nid], s)
     | Some N \<Rightarrow>
         if NodeEditForm_validate f then
           (let s1 = modify (nodes_update (t_upd nid (\<lambda>N. N\<lparr>
                       nd_vmemory := Some (the (nf_vmemory f) * 1024 * 1024), nd_vcpus := nf_vcpus f\<rparr>))) s;
                s2 = node_job (c_now c) u nid UPDATE_NODE s1
            in if notify (next_job s1) then (Redirect ''admin:node'' None, s2)
               else (RenderErr ''node/edit.html'' ''Run job failed: %s'', s2))
         else (Render ''node/edit.html'', s)))"

section \<open>Lemmas\<close>

lemma node_job_simps [simp]:
  "work (node_job now u nid a s) = (work s)\<lparr>jobs := t_add (new_job now u TARGET_NODE nid a) (jobs (work s))\<rparr>"
  "store (node_job now u nid a s) = work (node_job now u nid a s)"
  by (simp_all add: node_job_def)

text \<open>Without the permission nothing happens on the two pages of the administration.\<close>

lemma node_pages_need_admin:
  assumes "require_permission ''admin'' c (work s) = Some r"
  shows "isenableToggle_get notify nid c s = (r, s)" "NodeEdit_post notify nid f c s = (r, s)"
    "NodeEdit_get nid c s = (r, s)"
  using assms by (simp_all add: isenableToggle_get_def NodeEdit_post_def NodeEdit_get_def with_permission_def)

text \<open>Any user who is logged in makes the job that enables a node.\<close>

lemma action_needs_no_permission:
  assumes "c_user c = Some u" and "get_argument_int c ''action'' (Some 0) = Some 1"
    and "t_get (nodes (work s)) nid = Some N" "\<not> nd_isenable N"
  shows "jobs (on_finish (snd (Action_get notify nid c s))) =
    t_add (new_job (c_now c) u TARGET_NODE nid ENABLE_NODE) (jobs (work s))"
  using assms by (simp add: Action_get_def with_login_def Let_def)

text \<open>The switch follows the job: with the control server informed the node is switched and the job
  is the one for the new state; otherwise the node stays as it is.\<close>

lemma toggle_spec:
  assumes "require_permission ''admin'' c (work s) = None" and "c_user c = Some u"
    and "t_get (nodes (work s)) nid = Some N" "t_ok (jobs (work s))"
  shows "let d = on_finish (snd (isenableToggle_get notify nid c s)); d0 = work s; jid = next_job s in
     t_get (jobs d) jid = Some (new_job (c_now c) u TARGET_NODE nid
       (if nd_isenable N then DISABLE_NODE else ENABLE_NODE))
     \<and> t_get (nodes d) nid = Some (if notify jid then N\<lparr>nd_isenable := \<not> nd_isenable N\<rparr> else N)
     \<and> (\<forall>k. k \<noteq> nid \<longrightarrow> t_get (nodes d) k = t_get (nodes d0) k)"
  using assms
  by (simp add: isenableToggle_get_def with_permission_def with_login_def Let_def next_job_def t_get_add)

section \<open>Properties\<close>

text \<open>
  Configuring a node, which only an administrator can do: with a valid form the page then shows
  the values that were entered, the memory fits into the integer column, the other nodes are
  unchanged, and a job for the node is made; with an invalid form nothing changes.
\<close>

theorem node_edit_roundtrip:
  assumes "c_user c = Some u" and "require_permission ''admin'' c (work s) = None"
    and "t_get (nodes (work s)) nid = Some N" and "t_ok (jobs (work s))"
  shows "(NodeEditForm_validate f \<longrightarrow>
      (let d = on_finish (snd (NodeEdit_post notify nid f c s)) in
       \<exists>N'. t_get (nodes d) nid = Some N' \<and> NodeEdit_fill N' = f \<and> nd_isenable N' = nd_isenable N
         \<and> 0 < the (nd_vmemory N') \<and> the (nd_vmemory N') < 2 ^ 31
         \<and> (\<forall>k. k \<noteq> nid \<longrightarrow> t_get (nodes d) k = t_get (nodes (work s)) k)
         \<and> t_get (jobs d) (next_job s) = Some (new_job (c_now c) u TARGET_NODE nid UPDATE_NODE)))
    \<and> (\<not> NodeEditForm_validate f \<longrightarrow> snd (NodeEdit_post notify nid f c s) = s)"
proof (cases "NodeEditForm_validate f")
  case True
  then obtain m k where f: "nf_vmemory f = Some m" "nf_vcpus f = Some k" "1 \<le> m" "m \<le> 1024" "1 \<le> k"
    by (auto simp: NodeEditForm_validate_def number_range_def split: option.splits)
  have "NodeEdit_fill (N\<lparr>nd_vmemory := Some (m * 1024 * 1024), nd_vcpus := Some k\<rparr>) = f"
    using f by (cases f) (simp add: NodeEdit_fill_def)
  with True f assms show ?thesis
    by (simp add: NodeEdit_post_def with_permission_def with_login_def Let_def next_job_def t_get_add)
next
  case False
  with assms show ?thesis by (simp add: NodeEdit_post_def with_permission_def with_login_def)
qed

definition node_ex :: node where
  "node_ex = \<lparr>nd_hostname = ''n1'', nd_ip = ''10.0.0.9'', nd_isenable = True, nd_memory = 8388608,
     nd_cpus = 8, nd_vmemory = None, nd_vcpus = None\<rparr>"

definition node_db_ex :: db where
  "node_db_ex = db_ex\<lparr>nodes := \<lparr>rows = [(1, node_ex)], seq = 1\<rparr>\<rparr>"

theorem node_edit_roundtrip_witness:
  "\<exists>N'. t_get (nodes (on_finish (snd (NodeEdit_post (\<lambda>_. True) 1 \<lparr>nf_vmemory = Some 16, nf_vcpus = Some 12\<rparr>
      (ctx_ex 1 []) (open_session node_db_ex))))) 1 = Some N'
    \<and> NodeEdit_fill N' = \<lparr>nf_vmemory = Some 16, nf_vcpus = Some 12\<rparr>"
proof -
  have "require_permission ''admin'' (ctx_ex 1 []) node_db_ex = None" by code_simp
  moreover have "NodeEditForm_validate \<lparr>nf_vmemory = Some 16, nf_vcpus = Some 12\<rparr>" by code_simp
  moreover have "t_ok (jobs node_db_ex)" by (simp add: node_db_ex_def db_ex_def db_empty_def)
  ultimately show ?thesis
    using node_edit_roundtrip [of "ctx_ex 1 []" 1 "open_session node_db_ex" 1 node_ex
        "\<lparr>nf_vmemory = Some 16, nf_vcpus = Some 12\<rparr>" "\<lambda>_. True"]
    by (auto simp: ctx_ex_def node_db_ex_def t_get_def Let_def)
qed

end
