(* ===== verification/Instance_Model.thy ===== *)
theory Instance_Model
  imports Network
begin

text \<open>
  The model class \<open>Instance\<close> (\<^verbatim>\<open>lyweb/app/instance/models.py\<close>), \<open>StoragePool\<close> and \<open>Storage\<close>
  (\<^verbatim>\<open>lyweb/app/storage/models.py\<close>), \<open>UserDomain\<close> (\<^verbatim>\<open>lyweb/app/domain/models.py\<close>) and
  \<open>add_trace\<close> (\<^verbatim>\<open>lyweb/app/system/utils.py\<close>). The cached dictionary of the JSON configuration never
  disagrees with the column (theory \<open>Config_Store\<close>), so the configuration is read from the column.
\<close>

section \<open>Status\<close>

definition INSTANCE_STATUS_STR :: "(int \<times> string) list" where
  "INSTANCE_STATUS_STR = [
     (0, ''unknown''), (1, ''new instance that hasn't run once''), (2, ''instance is stopped''),
     (3, ''instance is started by hypervisor''), (4, ''osm in instance connected''),
     (5, ''application is running''), (9, ''instance is suspend''),
     (INSTANCE_DELETED_STATUS, ''instance is deleted''), (245, ''instance needs queryed''),
     (255, ''the instance disk does not exist'')]"

definition INSTANCE_STATUS_CLASS :: "(int \<times> string \<times> string) list" where
  "INSTANCE_STATUS_CLASS = [
     (0, ''#FFCC33'', ''icon-exclamation-sign''), (1, ''#999999'', ''icon-cloud''),
     (2, ''red'', ''icon-circle''), (3, ''blue'', ''icon-circle''), (4, ''#6699FF'', ''icon-ok-sign''),
     (5, ''#66CC00'', ''icon-ok-sign''), (9, ''red'', ''icon-pause''),
     (INSTANCE_DELETED_STATUS, [], ''icon-remove''), (245, ''#FF9900'', ''icon-question-sign''),
     (255, ''#FF0000'', ''icon-remove-sign'')]"

definition status_string :: "instance_row \<Rightarrow> string" where
  "status_string I = str_get (i_status I) ''Unknown Status'' INSTANCE_STATUS_STR"

definition status_icon :: "instance_row \<Rightarrow> string" where
  "status_icon I =
     (let (color, cls) = (case map_of INSTANCE_STATUS_CLASS (i_status I) of
                            None \<Rightarrow> (''red'', ''icon-exclamation-sign'') | Some x \<Rightarrow> x)
      in ''<i style=\"color: '' @ color @ '';\" class=\"'' @ cls @ ''\"></i>'')"

definition is_starting :: "instance_row \<Rightarrow> bool" where
  "is_starting I = (2 < i_status I \<and> i_status I \<le> 5)"

definition need_query :: "instance_row \<Rightarrow> bool" where
  "need_query I = (i_status I \<in> {245, 255})"

definition action :: "instance_row \<Rightarrow> string" where
  "action I = (if is_running I then ''stop'' else if need_query I then ''query'' else ''run'')"

definition action_human :: "instance_row \<Rightarrow> string" where
  "action_human I =
     (if \<not> is_running I then ''Run Instance''
      else if need_query I then ''Query Instance'' else ''Stop Instance'')"

section \<open>Configuration\<close>

definition config_dict :: "instance_row \<Rightarrow> dict" where
  "config_dict I = (case i_config I of None \<Rightarrow> [] | Some c \<Rightarrow> c)"

definition inst_get :: "string \<Rightarrow> json \<Rightarrow> instance_row \<Rightarrow> json" where
  "inst_get name dflt I = d_get name dflt (config_dict I)"

definition inst_set :: "int \<Rightarrow> string \<Rightarrow> json \<Rightarrow> instance_row \<Rightarrow> instance_row" where
  "inst_set now item value I = I\<lparr>i_config := Some (d_set item value (config_dict I)), i_updated := now\<rparr>"

definition inst_delete :: "int \<Rightarrow> string \<Rightarrow> instance_row \<Rightarrow> instance_row" where
  "inst_delete now item I =
     (if map_of (config_dict I) item \<noteq> None
      then I\<lparr>i_config := Some (d_del item (config_dict I)), i_updated := now\<rparr> else I)"

definition secret_dict :: "instance_row \<Rightarrow> dict" where
  "secret_dict I = (case i_secret_config I of None \<Rightarrow> [] | Some c \<Rightarrow> c)"

definition secret_get :: "string \<Rightarrow> json \<Rightarrow> instance_row \<Rightarrow> json" where
  "secret_get name dflt I = d_get name dflt (secret_dict I)"

definition secret_set :: "int \<Rightarrow> string \<Rightarrow> json \<Rightarrow> instance_row \<Rightarrow> instance_row" where
  "secret_set now item value I =
     I\<lparr>i_secret_config := Some (d_set item value (secret_dict I)), i_updated := now\<rparr>"

text \<open>\<open>Instance.__init__\<close> with \<open>init_config\<close>; the cookie, a digest of a random number, is an input.\<close>

definition new_instance :: "int \<Rightarrow> string \<Rightarrow> string \<Rightarrow> int \<Rightarrow> int \<Rightarrow> instance_row" where
  "new_instance now cookie name uid aid =
     \<lparr>i_name = name, i_key = None, i_summary = None, i_description = None, i_cpus = 0, i_memory = 0, i_vdi_port = 0,
      i_user_id = uid, i_appliance_id = aid, i_node_id = None, i_ip = None, i_status = 1,
      i_config = Some [(''cookie'', JStr cookie),
        (''webssh'', JObj [(''status'', JStr ''enable''), (''port'', JInt 8001)])],
      i_secret_config = None, i_isprivate = True, i_ischanged = False, i_created = now, i_updated = now\<rparr>"

text \<open>\<open>set_root_password\<close>, with the shadow hash as argument.\<close>

definition inst_set_root_password :: "int \<Rightarrow> string \<Rightarrow> instance_row \<Rightarrow> instance_row" where
  "inst_set_root_password now root_passwd I = inst_set now ''passwd_hash'' (JStr root_passwd) I"

definition use_global_passwd :: "instance_row \<Rightarrow> json" where
  "use_global_passwd I = inst_get ''use_global_passwd'' (JBool True) I"

definition json_truthy :: "json \<Rightarrow> bool" where
  "json_truthy j =
     (case j of JNull \<Rightarrow> False | JBool b \<Rightarrow> b | JInt n \<Rightarrow> n \<noteq> 0 | JStr s \<Rightarrow> s \<noteq> []
        | JList xs \<Rightarrow> xs \<noteq> [] | JObj o' \<Rightarrow> o' \<noteq> [])"

definition set_libvirt_conf :: "codec \<Rightarrow> int \<Rightarrow> string \<Rightarrow> instance_row \<Rightarrow> instance_row" where
  "set_libvirt_conf k now conf I =
     secret_set now ''libvirt_conf'' (JStr (filter (\<lambda>c. c \<noteq> CHR 0x0A) (b64enc k conf))) I"

definition libvirt_conf :: "codec \<Rightarrow> instance_row \<Rightarrow> string pyres" where
  "libvirt_conf k I =
     (let c = secret_get ''libvirt_conf'' JNull I in
      if \<not> json_truthy c then Inr []
      else case c of JStr t \<Rightarrow> Inr (b64dec k t) | _ \<Rightarrow> Inl TypeError)"

section \<open>Addresses\<close>

definition py_str :: "string option \<Rightarrow> string" where
  "py_str x = (case x of None \<Rightarrow> ''None'' | Some s \<Rightarrow> s)"

definition default_domain :: "domain_conf option \<Rightarrow> int \<Rightarrow> string" where
  "default_domain dc iid =
     (case dc of
        None \<Rightarrow> []
      | Some d \<Rightarrow> py_str (dc_prefix d) @ show_int iid @ py_str (dc_suffix d) @ ''.'' @ py_str (dc_topdomain d))"

definition inst_domain :: "domain_conf option \<Rightarrow> db \<Rightarrow> int \<Rightarrow> string" where
  "inst_domain dc d iid =
     (case domains_of d iid of (_, D) # _ \<Rightarrow> ud_domain D | [] \<Rightarrow> default_domain dc iid)"

definition has_work_ip :: "instance_row \<Rightarrow> bool" where
  "has_work_ip I = (is_running I \<and> truthy_str (i_ip I) \<and> i_ip I \<noteq> Some ''0.0.0.0'')"

definition access_ip :: "db \<Rightarrow> int \<Rightarrow> instance_row \<Rightarrow> string option" where
  "access_ip d iid I =
     (if has_work_ip I then i_ip I
      else case ips_of d iid of (_, IP) # _ \<Rightarrow> Some (ip_ip IP) | [] \<Rightarrow> None)"

definition work_ip :: "instance_row \<Rightarrow> string" where
  "work_ip I = (if has_work_ip I then the (i_ip I) else [])"

text \<open>\<open>home_url(user, useip)\<close>: the cookie, a string in every configuration the program writes, is
  shown to the owner only.\<close>

definition home_url :: "domain_conf option \<Rightarrow> db \<Rightarrow> int \<Rightarrow> instance_row \<Rightarrow> int option \<Rightarrow> bool \<Rightarrow> string" where
  "home_url dc d iid I user useip =
     (let host = (if useip then py_str (i_ip I)
                  else if inst_domain dc d iid \<noteq> [] then inst_domain dc d iid else py_str (i_ip I));
          base = ''http://'' @ host @ '':8080/index.html''
      in if user = Some (i_user_id I) \<and> i_config I \<noteq> None then
           (case d_get ''cookie'' JNull (config_dict I) of
              JStr cookie \<Rightarrow> if cookie \<noteq> [] then base @ ''?cookie='' @ cookie else base
            | _ \<Rightarrow> base)
         else base)"

text \<open>The column \<open>key\<close> holds \<open>key:vdi_port:rx_bytes:rx_pkts:tx_bytes:tx_pkts\<close>.\<close>

definition key_field :: "nat \<Rightarrow> instance_row \<Rightarrow> string option" where
  "key_field n I =
     (if \<not> truthy_str (i_key I) then None
      else let fs = split_on (CHR '':'') (the (i_key I)) in if n < length fs then Some (fs ! n) else None)"

definition vdi_port_old :: "instance_row \<Rightarrow> string" where
  "vdi_port_old I = (case key_field 1 I of None \<Rightarrow> ''None'' | Some p \<Rightarrow> p)"

definition rx_bytes :: "instance_row \<Rightarrow> int" where
  "rx_bytes I = (case key_field 2 I of None \<Rightarrow> 0 | Some x \<Rightarrow> (case py_int x of None \<Rightarrow> 0 | Some n \<Rightarrow> n))"

definition tx_bytes :: "instance_row \<Rightarrow> int" where
  "tx_bytes I = (case key_field 4 I of None \<Rightarrow> 0 | Some x \<Rightarrow> (case py_int x of None \<Rightarrow> 0 | Some n \<Rightarrow> n))"

definition vdi_ip :: "db \<Rightarrow> instance_row \<Rightarrow> string" where
  "vdi_ip d I =
     (case Option.bind (i_node_id I) (t_get (nodes d)) of
        None \<Rightarrow> ''None''
      | Some N \<Rightarrow> if is_running I then nd_ip N else ''None'')"

text \<open>\<open>'\%02x'\<close>: hexadecimal with at least two digits.\<close>

definition hex_digit :: "nat \<Rightarrow> char" where
  "hex_digit n = (if n < 10 then char_of (48 + n) else char_of (87 + n))"

fun show_hex :: "nat \<Rightarrow> string" where
  "show_hex n = (if n < 16 then [hex_digit n] else show_hex (n div 16) @ [hex_digit (n mod 16)])"

declare show_hex.simps [simp del]

definition hex2 :: "nat \<Rightarrow> string" where
  "hex2 n = (if n < 16 then ''0'' @ show_hex n else show_hex n)"

definition mac :: "int \<Rightarrow> string" where
  "mac iid = ''92:1B:40:26:'' @ hex2 (nat (iid div 256)) @ '':'' @ hex2 (nat (iid mod 256))"

section \<open>Derived configuration\<close>

text \<open>
  \<open>update_network\<close>: one entry per address; the domain's address and the name servers are those
  of the last one that has them.
\<close>

definition network_entry :: "int \<Rightarrow> ippool \<Rightarrow> networkpool \<Rightarrow> json" where
  "network_entry iid ip N =
     JObj [(''ip'', JStr (ip_ip ip)), (''mac'', JStr (mac iid)), (''type'', JStr ''default''),
           (''netmask'', JStr (n_netmask N)), (''gateway'', JStr (n_gateway N)),
           (''nameservers'', JStr (n_nameservers N))]"

fun network_loop ::
  "db \<Rightarrow> int \<Rightarrow> string \<Rightarrow> (int \<times> ippool) list \<Rightarrow> json list \<times> string \<times> dict \<Rightarrow> (json list \<times> string \<times> dict) pyres" where
  "network_loop d iid name [] acc = Inr acc"
| "network_loop d iid name ((_, ip) # ips) (network, nameservers, domain) =
     (case t_get (networkpools d) (ip_network_id ip) of
        None \<Rightarrow> Inl (AttributeError ''netmask'')
      | Some N \<Rightarrow>
          network_loop d iid name ips
            (network @ [network_entry iid ip N],
             if n_nameservers N \<noteq> [] then n_nameservers N else nameservers,
             d_set ''name'' (JStr name) (d_set ''ip'' (JStr (ip_ip ip)) domain)))"

definition update_network :: "domain_conf option \<Rightarrow> int \<Rightarrow> db \<Rightarrow> int \<Rightarrow> instance_row \<Rightarrow> instance_row pyres" where
  "update_network dc now d iid I =
     (case inst_get ''domain'' (JObj []) I of
        JObj dm \<Rightarrow>
          (case network_loop d iid (inst_domain dc d iid) (ips_of d iid) ([], [], d_set ''ip'' (JStr []) dm) of
             Inl e \<Rightarrow> Inl e
           | Inr (network, nameservers, domain) \<Rightarrow>
               let network' = (if ips_of d iid = []
                     then network @ [JObj [(''mac'', JStr (mac iid)), (''type'', JStr ''default'')]] else network);
                   I1 = inst_set now ''network'' (JList network') I;
                   I2 = inst_set now ''nameservers'' (JStr nameservers) I1;
                   I3 = inst_set now ''domain'' (JObj domain) I2
               in Inr (I3\<lparr>i_ischanged := (if is_running I3 then True else i_ischanged I3), i_updated := now\<rparr>))
      | _ \<Rightarrow> Inl TypeError)"

definition update_storage :: "int \<Rightarrow> db \<Rightarrow> int \<Rightarrow> instance_row \<Rightarrow> instance_row" where
  "update_storage now d iid I =
     (let storage = map (\<lambda>(_, S). JObj [(''type'', JStr ''disk''), (''size'', JInt (st_size S))]) (storages_of d iid)
      in if storage \<noteq> [] then inst_set now ''storage'' (JList storage) I else inst_delete now ''storage'' I)"

definition inst_storage :: "db \<Rightarrow> int \<Rightarrow> int" where
  "inst_storage d iid = foldl (\<lambda>s (_, S). s + st_size S) 0 (storages_of d iid)"

definition cpu_max :: "db \<Rightarrow> int \<Rightarrow> instance_row \<Rightarrow> int pyres" where
  "cpu_max d now I =
     (case profile_of d (i_user_id I) of
        None \<Rightarrow> Inl (AttributeError ''cpu_remain'') | Some p \<Rightarrow> Inr (cpu_remain d now p + i_cpus I))"

definition memory_max :: "db \<Rightarrow> int \<Rightarrow> instance_row \<Rightarrow> int pyres" where
  "memory_max d now I =
     (case profile_of d (i_user_id I) of
        None \<Rightarrow> Inl (AttributeError ''memory_remain'') | Some p \<Rightarrow> Inr (memory_remain d now p + i_memory I))"

section \<open>Storage pools\<close>

definition pool_remain :: "storagepool \<Rightarrow> int" where
  "pool_remain p = sp_total p - sp_used p"

definition pool_storages :: "db \<Rightarrow> int \<Rightarrow> (int \<times> storage_row) list" where
  "pool_storages d pid = t_select (\<lambda>_ v. st_pool_id v = pid) (storages d)"

definition update_used :: "int \<Rightarrow> db \<Rightarrow> db" where
  "update_used pid d =
     (let used = foldl (\<lambda>u (_, S). u + st_size S) 0 (pool_storages d pid)
      in storagepools_update (t_upd pid (\<lambda>p. p\<lparr>sp_used := used\<rparr>)) d)"

definition new_storage :: "int \<Rightarrow> int \<Rightarrow> storagepool \<Rightarrow> int \<Rightarrow> storage_row" where
  "new_storage sz pid pool iid =
     \<lparr>st_size = (if pool_remain pool > sz then sz else pool_remain pool), st_pool_id = pid, st_instance_id = iid\<rparr>"

section \<open>Traces\<close>

definition add_trace :: "int \<Rightarrow> int \<Rightarrow> int \<Rightarrow> string \<Rightarrow> db session \<Rightarrow> db session" where
  "add_trace who ttype tid msg s =
     commit (modify (traces_update (t_add \<lparr>tr_who_id = who, tr_target_type = ttype, tr_target_id = tid, tr_do = msg\<rparr>)) s)"

section \<open>Lemmas\<close>

lemma hex_digit_inj: "m < 16 \<Longrightarrow> n < 16 \<Longrightarrow> hex_digit m = hex_digit n \<Longrightarrow> m = n"
proof -
  assume b: "m < 16" "n < 16" and "hex_digit m = hex_digit n"
  then have "of_char (hex_digit m) = (of_char (hex_digit n) :: nat)" by simp
  then show "m = n" using b by (auto simp: hex_digit_def split: if_splits)
qed

lemma show_hex_not_Nil [simp]: "show_hex n \<noteq> []"
  by (subst show_hex.simps) simp

lemma show_hex_inj: "show_hex m = show_hex n \<Longrightarrow> m = n"
proof (induction m arbitrary: n rule: show_hex.induct)
  case (1 m)
  have len: "length (show_hex x) = 1 \<longleftrightarrow> x < 16" for x
    by (subst show_hex.simps) auto
  show ?case
  proof (cases "m < 16")
    case True
    then have "n < 16" using len [of m] len [of n] 1(2) by simp
    with True 1(2) show ?thesis
      by (subst (asm) (1 2) show_hex.simps) (simp add: hex_digit_inj)
  next
    case False
    then have n: "\<not> n < 16" using len [of m] len [of n] 1(2) by simp
    have e: "show_hex (m div 16) @ [hex_digit (m mod 16)] = show_hex (n div 16) @ [hex_digit (n mod 16)]"
      using 1(2) False n by (metis show_hex.simps)
    then have "m div 16 = n div 16" "m mod 16 = n mod 16"
      using 1(1) [OF False] hex_digit_inj by auto
    then show ?thesis by (metis div_mult_mod_eq)
  qed
qed

lemma show_hex_length: "16 \<le> n \<Longrightarrow> n < 256 \<Longrightarrow> length (show_hex n) = 2"
  by (subst show_hex.simps, simp, subst show_hex.simps) simp

lemma hex2_length: "n < 256 \<Longrightarrow> length (hex2 n) = 2"
  using show_hex_length [of n] by (auto simp: hex2_def show_hex.simps [of n])

lemma hex2_inj: "m < 256 \<Longrightarrow> n < 256 \<Longrightarrow> hex2 m = hex2 n \<Longrightarrow> m = n"
proof -
  assume "m < 256" "n < 256" and e: "hex2 m = hex2 n"
  have z: "show_hex x \<noteq> CHR ''0'' # show_hex y" if "16 \<le> x" "x < 256" "y < 16" for x y
  proof -
    have "hex_digit 0 = CHR ''0''" by code_simp
    then have "hex_digit (x div 16) \<noteq> CHR ''0''"
      using hex_digit_inj [of "x div 16" 0] that by (auto simp: div_less_iff_less_mult div_eq_0_iff)
    moreover have "x div 16 < 16" using that by (simp add: div_less_iff_less_mult)
    ultimately show ?thesis
      using that by (subst show_hex.simps, subst show_hex.simps) auto
  qed
  show "m = n"
    using e \<open>m < 256\<close> \<open>n < 256\<close> z [of m n] z [of n m]
    by (auto simp: hex2_def dest: show_hex_inj sym split: if_splits)
qed

lemma inst_get_set [simp]: "inst_get k v (inst_set now k' v' I) = (if k = k' then v' else inst_get k v I)"
  by (simp add: inst_get_def inst_set_def config_dict_def)

lemma inst_set_fields [simp]:
  "i_status (inst_set now k v I) = i_status I" "i_user_id (inst_set now k v I) = i_user_id I"
  "i_cpus (inst_set now k v I) = i_cpus I" "i_memory (inst_set now k v I) = i_memory I"
  "i_ischanged (inst_set now k v I) = i_ischanged I" "i_name (inst_set now k v I) = i_name I"
  by (simp_all add: inst_set_def)

lemma is_running_status: "i_status I = i_status J \<Longrightarrow> is_running I = is_running J"
  by (simp add: is_running_def)

lemma network_loop_result:
  "network_loop d iid name ips (network, ns, dm) = Inr (network', ns', dm') \<Longrightarrow>
     network' = network @ map (\<lambda>(_, ip). network_entry iid ip (the (t_get (networkpools d) (ip_network_id ip)))) ips \<and>
     (\<forall>(_, ip) \<in> set ips. t_get (networkpools d) (ip_network_id ip) \<noteq> None) \<and>
     d_get ''ip'' v dm' = (if ips = [] then d_get ''ip'' v dm else JStr (ip_ip (snd (last ips))))"
proof (induction ips arbitrary: network ns dm)
  case (Cons x ips)
  obtain k ip where x: "x = (k, ip)" by (cases x)
  obtain N where N: "t_get (networkpools d) (ip_network_id ip) = Some N"
    using Cons.prems x by (cases "t_get (networkpools d) (ip_network_id ip)") auto
  show ?case
    using Cons.prems Cons.IH [of "network @ [network_entry iid ip N]"] by (auto simp: x N)
qed simp

lemma update_network_other_fields:
  assumes "update_network dc now d iid I = Inr I'"
  shows "i_status I' = i_status I \<and> i_user_id I' = i_user_id I \<and> i_cpus I' = i_cpus I \<and>
    i_memory I' = i_memory I \<and> i_name I' = i_name I"
proof -
  obtain dm network ns domain where
    "network_loop d iid (inst_domain dc d iid) (ips_of d iid) ([], [], d_set ''ip'' (JStr []) dm) = Inr (network, ns, domain)"
    "inst_get ''domain'' (JObj []) I = JObj dm"
    using assms unfolding update_network_def by (force split: json.splits sum.splits)
  then show ?thesis
    using assms by (auto simp: update_network_def Let_def)
qed

section \<open>Properties\<close>

text \<open>
  Below 65536 instances every instance has its own, well-formed MAC address: six pairs of
  hexadecimal digits, different for different instances.
\<close>

theorem mac_unique:
  assumes "0 \<le> i" "i < 65536" "0 \<le> j" "j < 65536"
  shows "length (mac i) = 17 \<and> (mac i = mac j \<longrightarrow> i = j)"
proof -
  have b: "nat (i div 256) < 256" "nat (i mod 256) < 256" "nat (j div 256) < 256" "nat (j mod 256) < 256"
    using assms by linarith+
  have "i = j" if "mac i = mac j"
  proof -
    have "length (hex2 (nat (i div 256))) = length (hex2 (nat (j div 256)))"
      using b by (simp add: hex2_length)
    moreover have "hex2 (nat (i div 256)) @ '':'' @ hex2 (nat (i mod 256)) = hex2 (nat (j div 256)) @ '':'' @ hex2 (nat (j mod 256))"
      using that unfolding mac_def by (simp only: same_append_eq)
    ultimately have "hex2 (nat (i div 256)) = hex2 (nat (j div 256))" "'':'' @ hex2 (nat (i mod 256)) = '':'' @ hex2 (nat (j mod 256))"
      using append_eq_append_conv by blast+
    then have "nat (i div 256) = nat (j div 256)" "nat (i mod 256) = nat (j mod 256)"
      using b hex2_inj same_append_eq by blast+
    moreover have "0 \<le> i div 256" "0 \<le> j div 256" "0 \<le> i mod 256" "0 \<le> j mod 256"
      using assms by (simp_all add: pos_imp_zdiv_nonneg_iff)
    ultimately have "i div 256 = j div 256" "i mod 256 = j mod 256"
      using eq_nat_nat_iff by blast+
    then show ?thesis by (metis mult_div_mod_eq)
  qed
  moreover have "length (mac i) = 17" using b by (simp add: mac_def hex2_length)
  ultimately show ?thesis by blast
qed

theorem mac_unique_witness: "length (mac 300) = 17 \<and> mac 300 = ''92:1B:40:26:01:2c'' \<and> mac 300 \<noteq> mac 301"
proof -
  have "mac 300 = ''92:1B:40:26:01:2c''" by code_simp
  then show ?thesis using mac_unique [of 300 301] by auto
qed

text \<open>
  \<open>update_network\<close> makes the configuration agree with the address pool: the entry \<open>network\<close>
  lists exactly the instance's addresses, in pool order, with the data of their networks (or one
  entry without address), the domain's address is the last one, every other key except the name
  servers is kept, and a running instance is marked as changed.
\<close>

theorem update_network_faithful:
  assumes "update_network dc now d iid I = Inr I'"
  shows "inst_get ''network'' v I' = JList
      (if ips_of d iid = [] then [JObj [(''mac'', JStr (mac iid)), (''type'', JStr ''default'')]]
       else map (\<lambda>(_, ip). network_entry iid ip (the (t_get (networkpools d) (ip_network_id ip)))) (ips_of d iid)) \<and>
    (\<exists>dm. inst_get ''domain'' v I' = JObj dm \<and>
       d_get ''ip'' JNull dm = JStr (if ips_of d iid = [] then [] else ip_ip (snd (last (ips_of d iid))))) \<and>
    (\<forall>k. k \<notin> {''network'', ''nameservers'', ''domain''} \<longrightarrow> inst_get k v I' = inst_get k v I) \<and>
    (is_running I \<longrightarrow> i_ischanged I')"
proof -
  obtain dm network ns domain where
    l: "network_loop d iid (inst_domain dc d iid) (ips_of d iid) ([], [], d_set ''ip'' (JStr []) dm) = Inr (network, ns, domain)"
    and g: "inst_get ''domain'' (JObj []) I = JObj dm"
    using assms unfolding update_network_def by (force split: json.splits sum.splits)
  let ?net = "if ips_of d iid = [] then network @ [JObj [(''mac'', JStr (mac iid)), (''type'', JStr ''default'')]] else network"
  let ?I3 = "inst_set now ''domain'' (JObj domain) (inst_set now ''nameservers'' (JStr ns)
      (inst_set now ''network'' (JList ?net) I))"
  have i: "I' = ?I3\<lparr>i_ischanged := (if is_running ?I3 then True else i_ischanged ?I3), i_updated := now\<rparr>"
    using assms l g by (simp add: update_network_def Let_def)
  have gi: "inst_get k v I' = inst_get k v ?I3" for k v
    unfolding i by (simp add: inst_get_def config_dict_def)
  have "is_running ?I3 = is_running I" by (rule is_running_status) simp
  then have "is_running I \<longrightarrow> i_ischanged I'" unfolding i by simp
  then show ?thesis
    using network_loop_result [OF l, of JNull] unfolding gi by auto
qed

definition instance_ex :: instance_row where
  "instance_ex = new_instance 1 ''c00kie'' ''web'' 2 1"

definition instance_db_ex :: db where
  "instance_db_ex = network_db_ex\<lparr>
     instances := \<lparr>rows = [(1, instance_ex)], seq = 1\<rparr>,
     ippools := \<lparr>rows = [(1, \<lparr>ip_ip = ''100'', ip_network_id = 1, ip_instance_id = None, ip_updated = 1\<rparr>),
                        (2, \<lparr>ip_ip = ''102'', ip_network_id = 1, ip_instance_id = Some 1, ip_updated = 1\<rparr>)],
                 seq = 2\<rparr>\<rparr>"

theorem update_network_faithful_witness:
  "\<exists>dm. inst_get ''domain'' JNull (projr (update_network None 5 instance_db_ex 1 instance_ex)) = JObj dm \<and>
     d_get ''ip'' JNull dm = JStr ''102''"
proof -
  have r: "isl (update_network None 5 instance_db_ex 1 instance_ex) = False" by code_simp
  then have "update_network None 5 instance_db_ex 1 instance_ex
      = Inr (projr (update_network None 5 instance_db_ex 1 instance_ex))"
    by (simp add: sum.expand)
  from update_network_faithful [OF this, of JNull]
  have "\<exists>dm. inst_get ''domain'' JNull (projr (update_network None 5 instance_db_ex 1 instance_ex)) = JObj dm \<and>
       d_get ''ip'' JNull dm = JStr (if ips_of instance_db_ex 1 = [] then [] else ip_ip (snd (last (ips_of instance_db_ex 1))))"
    by (rule conjunct1 [OF conjunct2])
  moreover have "(if ips_of instance_db_ex 1 = [] then [] else ip_ip (snd (last (ips_of instance_db_ex 1)))) = ''102''"
    by code_simp
  ultimately show ?thesis by simp
qed

end
