(* ===== verification/Firewall.thy ===== *)
theory Firewall
  imports Prelude
begin

text \<open>
  Port forwarding through iptables (\<^verbatim>\<open>lyweb/tool/firewall.py\<close>). The kernel's PREROUTING chain of the
  nat table is the list of its rules as \<open>iptables -S\<close> prints them, split into words; \<open>-I\<close>
  inserts in front and \<open>-D n\<close> deletes the n-th rule. Whether a command succeeds is an input
  (\<open>fw_env\<close>), as is the form in which iptables prints the address of a rule.
\<close>

section \<open>Rules\<close>

record prule =
  pr_A :: "string option"
  pr_d :: "string option"
  pr_p :: "string option"
  pr_m :: "string option"
  pr_j :: "string option"
  pr_dport :: "int option"
  pr_destination :: "string option"

record fw_env =
  list_ok :: bool
  insert_ok :: bool
  delete_ok :: bool
  print_addr :: "string \<Rightarrow> string"

type_synonym chain = "string list list"

definition prule0 :: prule where
  "prule0 = \<lparr>pr_A = None, pr_d = None, pr_p = None, pr_m = None, pr_j = None, pr_dport = None, pr_destination = None\<rparr>"

text \<open>
  \<open>parser.parse_args\<close> with \<open>error\<close> overridden to do nothing: parsing ends at the first option
  that is unknown or has no valid value, and what was read so far is returned; other words are
  skipped.
\<close>

definition is_option :: "string \<Rightarrow> bool" where
  "is_option w = (1 < length w \<and> hd w = CHR ''-'')"

fun parse_opts :: "string list \<Rightarrow> prule \<Rightarrow> prule" where
  "parse_opts (x # y # ws) r =
     (if x = ''-A'' then parse_opts ws (r\<lparr>pr_A := Some y\<rparr>)
      else if x = ''-d'' then parse_opts ws (r\<lparr>pr_d := Some y\<rparr>)
      else if x = ''-p'' then parse_opts ws (r\<lparr>pr_p := Some y\<rparr>)
      else if x = ''-m'' then parse_opts ws (r\<lparr>pr_m := Some y\<rparr>)
      else if x = ''-j'' then parse_opts ws (r\<lparr>pr_j := Some y\<rparr>)
      else if x = ''--dport'' then
        (case py_int y of None \<Rightarrow> r | Some n \<Rightarrow> parse_opts ws (r\<lparr>pr_dport := Some n\<rparr>))
      else if x = ''--to-destination'' then parse_opts ws (r\<lparr>pr_destination := Some y\<rparr>)
      else if is_option x then r
      else parse_opts (y # ws) r)"
| "parse_opts ws r = r"

definition policy_line :: "string list" where
  "policy_line = [''-P'', ''PREROUTING'', ''ACCEPT'']"

definition get_rules :: "fw_env \<Rightarrow> chain \<Rightarrow> prule list" where
  "get_rules e ch =
     (if list_ok e then filter (\<lambda>args. truthy_str (pr_A args)) (map (\<lambda>L. parse_opts L prule0) (policy_line # ch))
      else [])"

definition destination :: "string \<Rightarrow> int \<Rightarrow> string" where
  "destination ip port = ip @ '':'' @ show_int port"

definition rule_exists :: "prule list \<Rightarrow> string \<Rightarrow> int \<Rightarrow> bool" where
  "rule_exists rules ip port = list_ex (\<lambda>r. pr_destination r = Some (destination ip port)) rules"

section \<open>Operations\<close>

text \<open>Each operation starts with \<open>Prerouting()\<close>, which reads the chain.\<close>

definition dnat_rule :: "fw_env \<Rightarrow> string \<Rightarrow> int \<Rightarrow> string \<Rightarrow> int \<Rightarrow> string list" where
  "dnat_rule e external_ip external_port inner_ip inner_port =
     [''-A'', ''PREROUTING'', ''-d'', print_addr e external_ip, ''-p'', ''tcp'', ''-m'', ''tcp'',
      ''--dport'', show_int external_port, ''-j'', ''DNAT'',
      ''--to-destination'', destination inner_ip inner_port]"

definition Prerouting_add :: "fw_env \<Rightarrow> string \<Rightarrow> int \<Rightarrow> string \<Rightarrow> int \<Rightarrow> chain \<Rightarrow> chain" where
  "Prerouting_add e external_ip external_port inner_ip inner_port ch =
     (if rule_exists (get_rules e ch) inner_ip inner_port then ch
      else if insert_ok e then dnat_rule e external_ip external_port inner_ip inner_port # ch
      else ch)"

definition iptables_delete :: "fw_env \<Rightarrow> nat \<Rightarrow> chain \<Rightarrow> chain" where
  "iptables_delete e n ch = (if delete_ok e then take (n - 1) ch @ drop n ch else ch)"

fun index_of :: "string \<Rightarrow> prule list \<Rightarrow> nat \<Rightarrow> nat option" where
  "index_of dst [] i = None"
| "index_of dst (r # rs) i = (if pr_destination r = Some dst then Some i else index_of dst rs (i + 1))"

definition delete_by_destination :: "fw_env \<Rightarrow> string \<Rightarrow> int \<Rightarrow> chain \<Rightarrow> chain" where
  "delete_by_destination e ip port ch =
     (case index_of (destination ip port) (get_rules e ch) 0 of
        None \<Rightarrow> ch
      | Some index \<Rightarrow> iptables_delete e (index + 1) ch)"

section \<open>Lemmas\<close>

text \<open>A chain as iptables prints it: every line is read as a rule that is appended to a chain.\<close>

definition chain_ok :: "chain \<Rightarrow> bool" where
  "chain_ok ch = list_all (\<lambda>L. truthy_str (pr_A (parse_opts L prule0))) ch"

definition all_ok :: "fw_env \<Rightarrow> bool" where
  "all_ok e = (list_ok e \<and> insert_ok e \<and> delete_ok e)"

lemma get_rules_chain: "chain_ok ch \<Longrightarrow> list_ok e \<Longrightarrow> get_rules e ch = map (\<lambda>L. parse_opts L prule0) ch"
  by (auto simp: get_rules_def policy_line_def is_option_def prule0_def chain_ok_def list_all_iff filter_id_conv)

lemma parse_dnat_rule:
  "parse_opts (dnat_rule e xip xport ip port) prule0 =
     \<lparr>pr_A = Some ''PREROUTING'', pr_d = Some (print_addr e xip), pr_p = Some ''tcp'', pr_m = Some ''tcp'',
      pr_j = Some ''DNAT'', pr_dport = Some xport, pr_destination = Some (destination ip port)\<rparr>"
  by (simp add: dnat_rule_def py_int_show_int prule0_def)

lemma chain_ok_add: "chain_ok ch \<Longrightarrow> chain_ok (Prerouting_add e xip xport ip port ch)"
  by (simp add: Prerouting_add_def chain_ok_def parse_dnat_rule)

lemma chain_ok_delete: "chain_ok ch \<Longrightarrow> chain_ok (delete_by_destination e ip port ch)"
  by (auto simp: delete_by_destination_def iptables_delete_def chain_ok_def list_all_iff
      dest: in_set_takeD in_set_dropD split: option.split)

lemma index_of_map:
  "index_of dst (map f ch) i = Some j \<Longrightarrow>
     i \<le> j \<and> j - i < length ch \<and> pr_destination (f (ch ! (j - i))) = Some dst \<and>
     (\<forall>k < j - i. pr_destination (f (ch ! k)) \<noteq> Some dst)"
proof (induction ch arbitrary: i)
  case (Cons L ch)
  show ?case
  proof (cases "pr_destination (f L) = Some dst")
    case False
    with Cons have "i + 1 \<le> j \<and> j - (i + 1) < length ch \<and> pr_destination (f (ch ! (j - (i + 1)))) = Some dst \<and>
        (\<forall>k < j - (i + 1). pr_destination (f (ch ! k)) \<noteq> Some dst)" by simp
    then show ?thesis using False by (auto simp: nth_Cons' less_diff_conv)
  qed (use Cons in auto)
qed simp

lemma index_of_None: "index_of dst rs i = None \<longleftrightarrow> (\<forall>r \<in> set rs. pr_destination r \<noteq> Some dst)"
  by (induction rs arbitrary: i) auto

section \<open>Properties\<close>

text \<open>
  C30. Port forwarding can be taken back: when the destination has no rule yet and iptables accepts
  the commands, \<open>add\<close> puts a rule that forwards exactly the given external port to the given
  address in front of the chain, a second \<open>add\<close> for the destination changes nothing, and
  \<open>delete_by_destination\<close> restores the chain as it was.
\<close>

theorem forwarding_roundtrip:
  assumes "chain_ok ch" "all_ok e" "\<not> rule_exists (get_rules e ch) ip port"
  shows "get_rules e (Prerouting_add e xip xport ip port ch) =
      \<lparr>pr_A = Some ''PREROUTING'', pr_d = Some (print_addr e xip), pr_p = Some ''tcp'', pr_m = Some ''tcp'',
       pr_j = Some ''DNAT'', pr_dport = Some xport, pr_destination = Some (destination ip port)\<rparr> # get_rules e ch \<and>
    Prerouting_add e xip' xport' ip port (Prerouting_add e xip xport ip port ch) =
      Prerouting_add e xip xport ip port ch \<and>
    delete_by_destination e ip port (Prerouting_add e xip xport ip port ch) = ch"
proof -
  have a: "Prerouting_add e xip xport ip port ch = dnat_rule e xip xport ip port # ch"
    using assms by (simp add: Prerouting_add_def all_ok_def)
  have ok: "chain_ok (dnat_rule e xip xport ip port # ch)" "list_ok e" "delete_ok e"
    using chain_ok_add [OF assms(1), of e xip xport ip port] a assms(2) by (simp_all add: all_ok_def)
  have g: "get_rules e (dnat_rule e xip xport ip port # ch) =
      parse_opts (dnat_rule e xip xport ip port) prule0 # get_rules e ch"
    using get_rules_chain [OF ok(1,2)] get_rules_chain [OF assms(1) ok(2)] by simp
  show ?thesis
    unfolding a by (simp add: g parse_dnat_rule Prerouting_add_def rule_exists_def
        delete_by_destination_def iptables_delete_def ok)
qed

definition env_ex :: fw_env where
  "env_ex = \<lparr>list_ok = True, insert_ok = True, delete_ok = True, print_addr = (\<lambda>a. a @ ''/32'')\<rparr>"

definition chain_ex :: chain where
  "chain_ex = [dnat_rule env_ex ''1.1.1.1'' 15200 ''10.0.0.1'' 22, dnat_rule env_ex ''1.1.1.1'' 15903 ''10.0.0.1'' 5902]"

lemma chain_ex_ok: "chain_ok chain_ex" "all_ok env_ex"
  by (simp_all add: chain_ok_def chain_ex_def parse_dnat_rule all_ok_def env_ex_def)

lemma destination_ex:
  "destination ''10.0.0.1'' 22 = ''10.0.0.1:22''" "destination ''10.0.0.1'' 5902 = ''10.0.0.1:5902''"
  "destination ''10.0.0.2'' 22 = ''10.0.0.2:22''"
  by (simp_all add: destination_def show_int_def show_nat.simps char_of_def bit_numeral_rec bit_0)

lemma chain_ex_rules:
  "rule_exists (get_rules env_ex chain_ex) ip port \<longleftrightarrow> destination ip port \<in> {''10.0.0.1:22'', ''10.0.0.1:5902''}"
proof -
  have "get_rules env_ex chain_ex = map (\<lambda>L. parse_opts L prule0) chain_ex"
    using chain_ex_ok by (simp add: get_rules_chain all_ok_def)
  then show ?thesis
    by (auto simp: rule_exists_def chain_ex_def parse_dnat_rule destination_ex)
qed

theorem forwarding_roundtrip_witness:
  "delete_by_destination env_ex ''10.0.0.2'' 22 (Prerouting_add env_ex ''1.1.1.1'' 15300 ''10.0.0.2'' 22 chain_ex) = chain_ex"
proof -
  have "\<not> rule_exists (get_rules env_ex chain_ex) ''10.0.0.2'' 22"
    by (simp add: chain_ex_rules destination_ex)
  from forwarding_roundtrip [OF chain_ex_ok this, of "''1.1.1.1''" 15300 "[]" 0] show ?thesis
    by (rule conjunct2 [OF conjunct2])
qed

text \<open>
  Deleting removes at most one rule, the first one with the destination, and every other rule
  stays in its place; without such a rule nothing changes.
\<close>

theorem delete_first_match:
  assumes "chain_ok ch" "all_ok e"
  shows "if rule_exists (get_rules e ch) ip port
    then \<exists>j < length ch. pr_destination (get_rules e ch ! j) = Some (destination ip port) \<and>
      (\<forall>k < j. pr_destination (get_rules e ch ! k) \<noteq> Some (destination ip port)) \<and>
      delete_by_destination e ip port ch = take j ch @ drop (j + 1) ch
    else delete_by_destination e ip port ch = ch"
proof (cases "index_of (destination ip port) (get_rules e ch) 0")
  case None
  then have "\<not> rule_exists (get_rules e ch) ip port"
    by (simp add: index_of_None rule_exists_def list_ex_iff)
  with None show ?thesis by (simp add: delete_by_destination_def)
next
  case (Some j)
  have g: "get_rules e ch = map (\<lambda>L. parse_opts L prule0) ch"
    using assms by (simp add: get_rules_chain all_ok_def)
  have j: "j < length ch" "pr_destination (get_rules e ch ! j) = Some (destination ip port)"
      "\<forall>k < j. pr_destination (get_rules e ch ! k) \<noteq> Some (destination ip port)"
    using index_of_map [OF Some [unfolded g]] by (simp_all add: g)
  then have "rule_exists (get_rules e ch) ip port"
    using nth_mem [of j "get_rules e ch"] by (auto simp: rule_exists_def list_ex_iff g simp del: nth_map)
  moreover have "delete_by_destination e ip port ch = take j ch @ drop (j + 1) ch"
    using Some assms(2) by (simp add: delete_by_destination_def iptables_delete_def all_ok_def)
  ultimately show ?thesis using j by auto
qed

theorem delete_first_match_witness:
  "\<exists>j < length chain_ex. delete_by_destination env_ex ''10.0.0.1'' 22 chain_ex = take j chain_ex @ drop (j + 1) chain_ex"
proof -
  have r: "rule_exists (get_rules env_ex chain_ex) ''10.0.0.1'' 22"
    by (simp add: chain_ex_rules destination_ex)
  from delete_first_match [OF chain_ex_ok, of "''10.0.0.1''" 22, unfolded if_P [OF r]]
  show ?thesis by blast
qed

end
