(* ===== verification/Myun.thy ===== *)
theory Myun
  imports Instance_Model Firewall
begin

text \<open>
  The handlers with which a user manages the own instances (\<^verbatim>\<open>lyweb/app/myun/instance/views.py\<close>)
  and their forms (\<^verbatim>\<open>forms.py\<close>). A form is the record of its submitted data: the text of a text or
  select field, \<open>None\<close> for an integer field that did not parse. A validator that fails leaves the
  others running, so a form is valid when no validator objects; a validator that queries the
  database with the text of a select field may raise.
\<close>

section \<open>The instance a request is about\<close>

text \<open>\<open>get_argument_int(key, 0)\<close>\<close>

definition arg_id :: "ctx \<Rightarrow> string \<Rightarrow> int" where
  "arg_id c key = (case get_argument_int c key (Some 0) of None \<Rightarrow> 0 | Some n \<Rightarrow> n)"

definition set_myinstance :: "int \<Rightarrow> ctx \<Rightarrow> db \<Rightarrow> resp + (int \<times> instance_row)" where
  "set_myinstance u c d =
     (let ID = arg_id c ''id'' in
      if ID = 0 then Inl (Write ''Give the instance id please.'' [])
      else case t_get (instances d) ID of
        None \<Rightarrow> Inl (Write ''No such instance: %s'' [ID])
      | Some I \<Rightarrow>
          if i_status I = INSTANCE_DELETED_STATUS then Inl (Write ''Instance %s was deleted'' [ID])
          else if u \<noteq> i_user_id I then Inl (Write ''Not your instance'' [])
          else Inr (ID, I))"

text \<open>A method of a subclass of \<open>InstanceActionHandler\<close>: logged in, and for an own instance.\<close>

definition with_myinstance ::
  "(int \<Rightarrow> int \<Rightarrow> instance_row \<Rightarrow> ctx \<Rightarrow> db session \<Rightarrow> resp \<times> db session) \<Rightarrow> ctx \<Rightarrow> db session \<Rightarrow> resp \<times> db session" where
  "with_myinstance h = with_login (\<lambda>u c s.
     case set_myinstance u c (work s) of Inl r \<Rightarrow> (r, s) | Inr (iid, I) \<Rightarrow> h u iid I c s)"

definition get_instance_lastjob :: "db \<Rightarrow> int \<Rightarrow> (int \<times> job) option" where
  "get_instance_lastjob d iid =
     find (\<lambda>(_, j). j_target_type j = TARGET_INSTANCE \<and> j_target_id j = iid) (rev (rows (jobs d)))"

text \<open>\<open>View.get\<close>: the page shows the last job and the port mappings of the instance's addresses.\<close>

definition View_portmappings :: "db \<Rightarrow> int \<Rightarrow> (int \<times> port_mapping) list" where
  "View_portmappings d iid =
     concat (map (\<lambda>(k, _). t_select (\<lambda>_ P. pm_ip_id P = Some k) (port_mappings d)) (ips_of d iid))"

definition View_get :: "ctx \<Rightarrow> db session \<Rightarrow> (resp \<times> (int \<times> job) option \<times> (int \<times> port_mapping) list) \<times> db session" where
  "View_get c s =
     (case with_myinstance (\<lambda>u iid I c s. (Render ''myun/instance/view.html'', s)) c s of
        (Render t, s') \<Rightarrow>
          ((Render t, get_instance_lastjob (work s) (arg_id c ''id''), View_portmappings (work s) (arg_id c ''id'')), s')
      | (r, s') \<Rightarrow> ((r, None, []), s'))"

definition upd_instance :: "int \<Rightarrow> (instance_row \<Rightarrow> instance_row) \<Rightarrow> db \<Rightarrow> db" where
  "upd_instance iid f d = instances_update (t_upd iid f) d"

definition view_url :: "int \<Rightarrow> resp" where
  "view_url iid = Redirect ''myun:instance:view'' (Some iid)"

section \<open>Passwords, resources, descriptions\<close>

text \<open>The validator \<open>Required()\<close>: not only white space.\<close>

definition required :: "string \<Rightarrow> bool" where
  "required data = (strip data \<noteq> [])"

definition GlobalPasswordEdit_get :: "ctx \<Rightarrow> db session \<Rightarrow> resp \<times> db session" where
  "GlobalPasswordEdit_get = with_login (\<lambda>u c s. (Render ''myun/instance/global_password_edit.html'', s))"

text \<open>\<open>GlobalPasswordEdit.post\<close>; the shadow hash of the new password is an input.\<close>

definition GlobalPasswordEdit_post :: "string \<Rightarrow> string \<Rightarrow> string \<Rightarrow> ctx \<Rightarrow> db session \<Rightarrow> resp \<times> db session" where
  "GlobalPasswordEdit_post hash password confirm = with_login (\<lambda>u c s.
     if required password \<and> password = confirm then
       (case t_first (\<lambda>_ p. pf_user_id p = u) (profiles (work s)) of
          None \<Rightarrow> (Raise (AttributeError ''set_root_password''), s)
        | Some (k, _) \<Rightarrow>
            (Redirect ''myun:instance'' None,
             commit (modify (profiles_update (t_upd k (set_root_password hash))) s)))
     else (Render ''myun/instance/global_password_edit.html'', s))"

record resource_form =
  rf_cpus :: "int option"
  rf_memory :: "int option"

text \<open>A comparison \<open>data > available\<close> is false for \<open>None\<close>.\<close>

definition exceeds :: "int option \<Rightarrow> int \<Rightarrow> bool" where
  "exceeds x limit = (case x of None \<Rightarrow> False | Some n \<Rightarrow> n > limit)"

definition at_least :: "int \<Rightarrow> int option \<Rightarrow> bool" where
  "at_least lo x = (case x of None \<Rightarrow> False | Some n \<Rightarrow> lo \<le> n)"

definition ResourceForm_validate :: "db \<Rightarrow> int \<Rightarrow> int \<Rightarrow> instance_row \<Rightarrow> resource_form \<Rightarrow> bool" where
  "ResourceForm_validate d now u I f =
     (at_least 1 (rf_cpus f) \<and> at_least 64 (rf_memory f) \<and>
      (case profile_of d u of
         None \<Rightarrow> False
       | Some p \<Rightarrow>
           \<not> exceeds (rf_cpus f) (if is_running I then cpu_remain d now p + i_cpus I else cpu_remain d now p) \<and>
           \<not> exceeds (rf_memory f) (if is_running I then memory_remain d now p + i_memory I else memory_remain d now p)))"

text \<open>The pages that only show a form; where the method fills the form first, the data it puts in
  is a function of its own.\<close>

definition show_form :: "string \<Rightarrow> ctx \<Rightarrow> db session \<Rightarrow> resp \<times> db session" where
  "show_form template = with_myinstance (\<lambda>u iid I c s. (Render template, s))"

definition ResourceEdit_fill :: "instance_row \<Rightarrow> resource_form" where
  "ResourceEdit_fill I = \<lparr>rf_cpus = Some (i_cpus I), rf_memory = Some (i_memory I)\<rparr>"

definition ResourceEdit_get :: "ctx \<Rightarrow> db session \<Rightarrow> resp \<times> db session" where
  "ResourceEdit_get = show_form ''myun/instance/resource_edit.html''"

definition ResourceEdit_post :: "resource_form \<Rightarrow> ctx \<Rightarrow> db session \<Rightarrow> resp \<times> db session" where
  "ResourceEdit_post f = with_myinstance (\<lambda>u iid I c s.
     if ResourceForm_validate (work s) (c_now c) u I f then
       (view_url iid, commit (modify (upd_instance iid (\<lambda>I. I\<lparr>i_cpus := the (rf_cpus f), i_memory := the (rf_memory f),
          i_ischanged := (if is_running I then True else i_ischanged I)\<rparr>)) s))
     else (Render ''myun/instance/resource_edit.html'', s))"

record baseinfo_form =
  bf_name :: string
  bf_summary :: string
  bf_description :: string

definition BaseinfoEdit_fill :: "instance_row \<Rightarrow> baseinfo_form" where
  "BaseinfoEdit_fill I = \<lparr>bf_name = i_name I,
     bf_summary = (case i_summary I of None \<Rightarrow> [] | Some x \<Rightarrow> x),
     bf_description = (case i_description I of None \<Rightarrow> [] | Some x \<Rightarrow> x)\<rparr>"

definition BaseinfoEdit_get :: "ctx \<Rightarrow> db session \<Rightarrow> resp \<times> db session" where
  "BaseinfoEdit_get = show_form ''myun/instance/general_edit.html''"

definition BaseinfoEdit_post :: "baseinfo_form \<Rightarrow> ctx \<Rightarrow> db session \<Rightarrow> resp \<times> db session" where
  "BaseinfoEdit_post f = with_myinstance (\<lambda>u iid I c s.
     if length_between 2 120 (bf_name f) then
       (view_url iid, commit (modify (upd_instance iid (\<lambda>I. I\<lparr>i_name := bf_name f, i_summary := Some (bf_summary f),
          i_description := Some (bf_description f), i_updated := c_now c\<rparr>)) s))
     else (Render ''myun/instance/general_edit.html'', s))"

record password_form =
  pwf_usedefault :: bool
  pwf_password :: string
  pwf_confirm :: string

definition InstancePasswordForm_validate :: "password_form \<Rightarrow> bool" where
  "InstancePasswordForm_validate f = (pwf_usedefault f \<or> pwf_password f = pwf_confirm f)"

text \<open>\<open>profile.get('secret', {}).get('root_shadow_passwd', '')\<close>\<close>

definition profile_shadow :: "profile \<Rightarrow> json pyres" where
  "profile_shadow p =
     (case d_get ''secret'' (JObj []) (case pf_config p of None \<Rightarrow> [] | Some c \<Rightarrow> c) of
        JObj secret \<Rightarrow> Inr (d_get ''root_shadow_passwd'' (JStr []) secret)
      | _ \<Rightarrow> Inl (AttributeError ''get''))"

definition InstancePasswordEdit_get :: "ctx \<Rightarrow> db session \<Rightarrow> resp \<times> db session" where
  "InstancePasswordEdit_get = show_form ''myun/instance/password_edit.html''"

definition InstancePasswordEdit_post :: "string \<Rightarrow> password_form \<Rightarrow> ctx \<Rightarrow> db session \<Rightarrow> resp \<times> db session" where
  "InstancePasswordEdit_post hash f = with_myinstance (\<lambda>u iid I c s.
     if InstancePasswordForm_validate f then
       on_value
         (if pwf_usedefault f then
            (case profile_of (work s) (i_user_id I) of
               None \<Rightarrow> Inl (AttributeError ''get'')
             | Some p \<Rightarrow> (case profile_shadow p of Inl e \<Rightarrow> Inl e | Inr passwd \<Rightarrow> Inr (inst_set (c_now c) ''passwd_hash'' passwd)))
          else Inr (inst_set_root_password (c_now c) hash)) s (\<lambda>upd.
         (view_url iid, commit (modify (upd_instance iid
            (\<lambda>I. inst_set (c_now c) ''use_global_passwd'' (JBool (pwf_usedefault f)) (upd I))) s)))
     else (Render ''myun/instance/password_edit.html'', s))"

text \<open>\<open>InstancePublicKeyEdit\<close>: the choices are the keys of the user.\<close>

definition choice_ok :: "string \<Rightarrow> int list \<Rightarrow> bool" where
  "choice_ok data ids = (data \<in> set (map show_int ids))"

definition InstancePublicKeyForm_validate :: "db \<Rightarrow> int \<Rightarrow> string \<Rightarrow> public_key option pyres" where
  "InstancePublicKeyForm_validate d u data =
     (case get_by_arg (public_keys d) data of
        Inl e \<Rightarrow> Inl e
      | Inr None \<Rightarrow> Inr None
      | Inr (Some (_, K)) \<Rightarrow> Inr (if choice_ok data (map fst (keys_of d u)) then Some K else None))"

definition InstancePublicKeyEdit_get :: "ctx \<Rightarrow> db session \<Rightarrow> resp \<times> db session" where
  "InstancePublicKeyEdit_get = show_form ''myun/instance/public_key_edit.html''"

definition InstancePublicKeyEdit_post :: "string \<Rightarrow> ctx \<Rightarrow> db session \<Rightarrow> resp \<times> db session" where
  "InstancePublicKeyEdit_post data = with_myinstance (\<lambda>u iid I c s.
     on_value (InstancePublicKeyForm_validate (work s) u data) s (\<lambda>K.
       case K of
         None \<Rightarrow> (Render ''myun/instance/public_key_edit.html'', s)
       | Some K \<Rightarrow> (view_url iid,
           commit (modify (upd_instance iid (inst_set (c_now c) ''public_key'' (JStr (k_data K)))) s))))"

section \<open>Storage\<close>

record storage_form =
  sf_pool :: string
  sf_size :: "int option"

text \<open>\<open>StorageForm\<close>: \<open>Inr (Some pool)\<close> when the form is valid.\<close>

definition StorageForm_validate :: "db \<Rightarrow> int \<Rightarrow> int \<Rightarrow> storage_form \<Rightarrow> (int \<times> storagepool) option pyres" where
  "StorageForm_validate d now u f =
     (case get_by_arg (storagepools d) (sf_pool f) of
        Inl e \<Rightarrow> Inl e
      | Inr p \<Rightarrow>
          (case profile_of d u of
             None \<Rightarrow> Inl (AttributeError ''storage_remain'')
           | Some pf \<Rightarrow>
               (case p of
                  None \<Rightarrow> Inr None
                | Some (pid, pool) \<Rightarrow>
                    if choice_ok (sf_pool f) (map fst (rows (storagepools d))) \<and> at_least 1 (sf_size f) \<and>
                       \<not> exceeds (sf_size f) (pool_remain pool) \<and> \<not> exceeds (sf_size f) (storage_remain d now pf)
                    then Inr (Some (pid, pool)) else Inr None)))"

definition StorageAdd_prepare ::
  "(int \<Rightarrow> int \<Rightarrow> instance_row \<Rightarrow> ctx \<Rightarrow> db session \<Rightarrow> resp \<times> db session) \<Rightarrow> ctx \<Rightarrow> db session \<Rightarrow> resp \<times> db session" where
  "StorageAdd_prepare h = with_myinstance (\<lambda>u iid I c s.
     if length (storages_of (work s) iid) \<ge> 1 then (Write ''Can not add storages any more.'' [], s)
     else h u iid I c s)"

definition StorageAdd_get :: "ctx \<Rightarrow> db session \<Rightarrow> resp \<times> db session" where
  "StorageAdd_get = StorageAdd_prepare (\<lambda>u iid I c s. (Render ''myun/instance/storage_add.html'', s))"

definition StorageAdd_post :: "storage_form \<Rightarrow> ctx \<Rightarrow> db session \<Rightarrow> resp \<times> db session" where
  "StorageAdd_post f = StorageAdd_prepare (\<lambda>u iid I c s.
     on_value (StorageForm_validate (work s) (c_now c) u f) s (\<lambda>v.
       case v of
         None \<Rightarrow> (Render ''myun/instance/storage_add.html'', s)
       | Some (pid, pool) \<Rightarrow>
           (let s1 = commit (modify (storages_update (t_add (new_storage (the (sf_size f)) pid pool iid))) s);
                s2 = modify (update_used pid) s1
            in (view_url iid, s2))))"

text \<open>
  \<open>StorageActionHandler.initialize\<close> runs before the login is checked: the inner \<open>Inl\<close> is the
  text it writes when there is no storage to work on.
\<close>

definition StorageAction_initialize :: "ctx \<Rightarrow> db \<Rightarrow> (resp + (int \<times> storage_row \<times> instance_row)) pyres" where
  "StorageAction_initialize c d =
     (let ID = arg_id c ''id'' in
      if ID = 0 then Inr (Inl (Write ''Give me the storage id please.'' []))
      else case t_get (storages d) ID of
        None \<Rightarrow> Inr (Inl (Write ''Can not find storage %s'' [ID]))
      | Some S \<Rightarrow>
          (case t_get (instances d) (st_instance_id S) of
             None \<Rightarrow> Inl (AttributeError ''user_id'')
           | Some I \<Rightarrow>
               (case c_user c of
                  None \<Rightarrow> Inl (AttributeError ''id'')
                | Some u \<Rightarrow>
                    if i_user_id I \<noteq> u then Inr (Inl (Write ''Not your instance's storage.'' []))
                    else Inr (Inr (ID, S, I)))))"

definition with_storage ::
  "(int \<Rightarrow> int \<Rightarrow> storage_row \<Rightarrow> ctx \<Rightarrow> db session \<Rightarrow> resp \<times> db session) \<Rightarrow> ctx \<Rightarrow> db session \<Rightarrow> resp \<times> db session" where
  "with_storage h c s = on_value (StorageAction_initialize c (work s)) s (\<lambda>r.
     with_login (\<lambda>u c s. case r of Inl w \<Rightarrow> (w, s) | Inr (sid, S, _) \<Rightarrow> h u sid S c s) c s)"

definition StorageEdit_fill :: "storage_row \<Rightarrow> storage_form" where
  "StorageEdit_fill S = \<lparr>sf_pool = show_int (st_pool_id S), sf_size = Some (st_size S)\<rparr>"

definition StorageEdit_get :: "ctx \<Rightarrow> db session \<Rightarrow> resp \<times> db session" where
  "StorageEdit_get = with_storage (\<lambda>u sid S c s. (Render ''myun/instance/storage_add.html'', s))"

definition StorageEdit_post :: "storage_form \<Rightarrow> ctx \<Rightarrow> db session \<Rightarrow> resp \<times> db session" where
  "StorageEdit_post f = with_storage (\<lambda>u sid S c s.
     on_value (StorageForm_validate (work s) (c_now c) u f) s (\<lambda>v.
       case v of
         None \<Rightarrow> (Render ''myun/instance/storage_add.html'', s)
       | Some (pid, pool) \<Rightarrow>
           if st_size S > the (sf_size f)
           then (RenderErr ''size'' ''Can not support grow down storage now.'', s)
           else
             (let s1 = commit (modify (storages_update (t_upd sid (\<lambda>S. S\<lparr>st_size := the (sf_size f), st_pool_id := pid\<rparr>))) s);
                  s2 = modify (update_used pid) s1
              in (view_url (st_instance_id S), s2))))"

definition StorageDelete_get :: "ctx \<Rightarrow> db session \<Rightarrow> resp \<times> db session" where
  "StorageDelete_get = with_storage (\<lambda>u sid S c s.
     let s1 = commit (modify (storages_update (t_del sid)) s) in
     case t_get (storagepools (work s)) (st_pool_id S) of
       None \<Rightarrow> (Raise (AttributeError ''update_used''), s1)
     | Some _ \<Rightarrow> (view_url (st_instance_id S), modify (update_used (st_pool_id S)) s1))"

section \<open>Network addresses\<close>

text \<open>The statements \<open>I.update_network()\<close> in a session.\<close>

definition session_update_network :: "ctx \<Rightarrow> int \<Rightarrow> db session \<Rightarrow> db session pyres" where
  "session_update_network c iid s =
     (case t_get (instances (work s)) iid of
        None \<Rightarrow> Inl (AttributeError ''update_network'')
      | Some I \<Rightarrow>
          (case update_network (c_domain c) (c_now c) (work s) iid I of
             Inl e \<Rightarrow> Inl e
           | Inr I' \<Rightarrow> Inr (modify (upd_instance iid (\<lambda>_. I')) s)))"

definition set_ip_instance :: "int \<Rightarrow> int option \<Rightarrow> db \<Rightarrow> db" where
  "set_ip_instance k iid d = ippools_update (t_upd k (\<lambda>r. r\<lparr>ip_instance_id := iid\<rparr>)) d"

text \<open>\<open>NetworkForm\<close>: \<open>Inr (Some (free_ip))\<close> when the form is valid.\<close>

definition NetworkForm_validate :: "db \<Rightarrow> string \<Rightarrow> (int \<times> ippool) option pyres" where
  "NetworkForm_validate d data =
     (case get_by_arg (networkpools d) data of
        Inl e \<Rightarrow> Inl e
      | Inr None \<Rightarrow> Inr None
      | Inr (Some (nid, _)) \<Rightarrow>
          (case get_free_ip d nid of
             None \<Rightarrow> Inr None
           | Some IP \<Rightarrow> Inr (if choice_ok data (map fst (rows (networkpools d))) then Some IP else None)))"

definition NetworkAdd_prepare ::
  "(int \<Rightarrow> int \<Rightarrow> instance_row \<Rightarrow> ctx \<Rightarrow> db session \<Rightarrow> resp \<times> db session) \<Rightarrow> ctx \<Rightarrow> db session \<Rightarrow> resp \<times> db session" where
  "NetworkAdd_prepare h = with_myinstance (\<lambda>u iid I c s.
     if length (ips_of (work s) iid) \<ge> 1 then (Write ''Can not add network any more.'' [], s)
     else h u iid I c s)"

definition NetworkAdd_get :: "ctx \<Rightarrow> db session \<Rightarrow> resp \<times> db session" where
  "NetworkAdd_get = NetworkAdd_prepare (\<lambda>u iid I c s. (Render ''myun/instance/network_add.html'', s))"

definition NetworkAdd_post :: "string \<Rightarrow> ctx \<Rightarrow> db session \<Rightarrow> resp \<times> db session" where
  "NetworkAdd_post pool = NetworkAdd_prepare (\<lambda>u iid I c s.
     on_value (NetworkForm_validate (work s) pool) s (\<lambda>v.
       case v of
         None \<Rightarrow> (Render ''myun/instance/network_add.html'', s)
       | Some (k, IP) \<Rightarrow>
           if truthy_int (ip_instance_id IP) then (Render ''myun/instance/network_add.html'', s)
           else
             (let s1 = commit (modify (set_ip_instance k (Some iid)) s) in
              on_value (session_update_network c iid s1) s1 (\<lambda>s2.
                (view_url iid,
                 add_trace u TARGET_IP k
                   (''get ip '' @ ip_ip IP @ '' for instance '' @ show_int iid @ '' manually.'') (commit s2))))))"

definition NetworkAction_initialize :: "ctx \<Rightarrow> db \<Rightarrow> (resp + (int \<times> ippool)) pyres" where
  "NetworkAction_initialize c d =
     (let ID = arg_id c ''id'' in
      if ID = 0 then Inr (Inl (Write ''Give me the network id please.'' []))
      else case t_get (ippools d) ID of
        None \<Rightarrow> Inr (Inl (Write ''Can not find network %s'' [ID]))
      | Some IP \<Rightarrow>
          if truthy_int (ip_instance_id IP) then
            (case t_get (instances d) (the (ip_instance_id IP)) of
               None \<Rightarrow> Inl (AttributeError ''user_id'')
             | Some I \<Rightarrow>
                 (case c_user c of
                    None \<Rightarrow> Inl (AttributeError ''id'')
                  | Some u \<Rightarrow> if i_user_id I \<noteq> u then Inr (Inl (Write ''Not your instance's network.'' []))
                             else Inr (Inr (ID, IP))))
          else Inr (Inr (ID, IP)))"

definition with_ip ::
  "(int \<Rightarrow> int \<Rightarrow> ippool \<Rightarrow> ctx \<Rightarrow> db session \<Rightarrow> resp \<times> db session) \<Rightarrow> ctx \<Rightarrow> db session \<Rightarrow> resp \<times> db session" where
  "with_ip h c s = on_value (NetworkAction_initialize c (work s)) s (\<lambda>r.
     with_login (\<lambda>u c s. case r of Inl w \<Rightarrow> (w, s) | Inr (k, IP) \<Rightarrow> h u k IP c s) c s)"

text \<open>\<open>NetworkDelete.get\<close> of \<^verbatim>\<open>myun/instance/views.py\<close>.\<close>

definition MyNetworkDelete_get :: "ctx \<Rightarrow> db session \<Rightarrow> resp \<times> db session" where
  "MyNetworkDelete_get = with_ip (\<lambda>u k IP c s.
     case ip_instance_id IP of
       None \<Rightarrow> (Write ''No binding instance.'' [], s)
     | Some iid \<Rightarrow>
         if t_get (instances (work s)) iid = None then (Write ''No binding instance.'' [], s)
         else
           (let s1 = commit (modify (set_ip_instance k None) s);
                s2 = add_trace u TARGET_IP k
                       (''free ip '' @ ip_ip IP @ '' from instance '' @ show_int iid @ '' manually.'') s1
            in on_value (session_update_network c iid s2) s2 (\<lambda>s3. (view_url iid, commit s3))))"

section \<open>Domains\<close>

text \<open>
  The expression \<open>^(([A-Za-z0-9])+[\.]?)+$\<close>: letters and digits with single dots between them
  and possibly one at the end; \<open>$\<close> also matches before a final line feed.
\<close>

definition is_alnum :: "char \<Rightarrow> bool" where
  "is_alnum c = (let n = of_char c :: nat in
     (48 \<le> n \<and> n \<le> 57) \<or> (65 \<le> n \<and> n \<le> 90) \<or> (97 \<le> n \<and> n \<le> 122))"

fun labels :: "bool \<Rightarrow> string \<Rightarrow> bool" where
  "labels after_dot [] = True"
| "labels after_dot (x # xs) =
     (if is_alnum x then labels False xs
      else x = CHR ''.'' \<and> \<not> after_dot \<and> labels True xs)"

definition chop_newline :: "string \<Rightarrow> string" where
  "chop_newline s = (if s \<noteq> [] \<and> last s = CHR 0x0A then butlast s else s)"

definition domain_re :: "string \<Rightarrow> bool" where
  "domain_re s = (chop_newline s \<noteq> [] \<and> labels True (chop_newline s))"

text \<open>The statements that write the instance's \<open>domain\<close> entry, shared by the two handlers.\<close>

definition set_domain_entry :: "ctx \<Rightarrow> int \<Rightarrow> string \<Rightarrow> db session \<Rightarrow> db session pyres" where
  "set_domain_entry c iid name s =
     (case t_get (instances (work s)) iid of
        None \<Rightarrow> Inl (AttributeError ''get'')
      | Some I \<Rightarrow>
          (case inst_get ''domain'' (JObj []) I of
             JObj domain \<Rightarrow>
               let domain1 = d_set ''ip'' (case access_ip (work s) iid I of None \<Rightarrow> JNull | Some a \<Rightarrow> JStr a) domain;
                   domain2 = d_set ''domain'' (JStr name) domain1
               in Inr (modify (upd_instance iid (inst_set (c_now c) ''domain'' (JObj domain2))) s)
           | _ \<Rightarrow> Inl TypeError))"

definition used_domains :: "db \<Rightarrow> int \<Rightarrow> int" where
  "used_domains d u = int (length (t_select (\<lambda>_ D. ud_user_id D = u) (user_domains d)))"

definition DomainAdd_prepare ::
  "(int \<Rightarrow> int \<Rightarrow> instance_row \<Rightarrow> ctx \<Rightarrow> db session \<Rightarrow> resp \<times> db session) \<Rightarrow> ctx \<Rightarrow> db session \<Rightarrow> resp \<times> db session" where
  "DomainAdd_prepare h = with_myinstance (\<lambda>u iid I c s.
     case profile_of (work s) (i_user_id I) of
       None \<Rightarrow> (Raise (AttributeError ''domain''), s)
     | Some p \<Rightarrow>
         if \<not> pf_domain p > used_domains (work s) u
         then (Write ''You have not domain binding now. used: %s, total: %s'' [used_domains (work s) u, pf_domain p], s)
         else h u iid I c s)"

definition DomainAdd_get :: "ctx \<Rightarrow> db session \<Rightarrow> resp \<times> db session" where
  "DomainAdd_get = DomainAdd_prepare (\<lambda>u iid I c s. (Render ''myun/instance/domain_edit.html'', s))"

definition DomainAdd_post :: "string \<Rightarrow> ctx \<Rightarrow> db session \<Rightarrow> resp \<times> db session" where
  "DomainAdd_post name = DomainAdd_prepare (\<lambda>u iid I c s.
     if \<not> domain_re name then (Render ''myun/instance/domain_edit.html'', s)
     else if t_first (\<lambda>_ D. ud_domain D = name) (user_domains (work s)) \<noteq> None
     then (RenderErr ''domain'' ''This domain exist.'', s)
     else
       (let s1 = commit (modify (user_domains_update
                   (t_add \<lparr>ud_domain = name, ud_user_id = u, ud_instance_id = iid\<rparr>)) s)
        in on_value (set_domain_entry c iid name s1) s1 (\<lambda>s2. (view_url iid, commit s2))))"

definition DomainAction_initialize :: "ctx \<Rightarrow> db \<Rightarrow> (resp + (int \<times> user_domain)) pyres" where
  "DomainAction_initialize c d =
     (let ID = arg_id c ''id'' in
      if ID = 0 then Inr (Inl (Write ''Give me the domain id please.'' []))
      else case t_get (user_domains d) ID of
        None \<Rightarrow> Inr (Inl (Write ''Can not find domain %s'' [ID]))
      | Some D \<Rightarrow>
          (case t_get (instances d) (ud_instance_id D) of
             None \<Rightarrow> Inl (AttributeError ''user_id'')
           | Some I \<Rightarrow>
               (case c_user c of
                  None \<Rightarrow> Inl (AttributeError ''id'')
                | Some u \<Rightarrow> if i_user_id I \<noteq> u then Inr (Inl (Write ''Not your domain.'' []))
                           else Inr (Inr (ID, D)))))"

definition with_domain ::
  "(int \<Rightarrow> int \<Rightarrow> user_domain \<Rightarrow> ctx \<Rightarrow> db session \<Rightarrow> resp \<times> db session) \<Rightarrow> ctx \<Rightarrow> db session \<Rightarrow> resp \<times> db session" where
  "with_domain h c s = on_value (DomainAction_initialize c (work s)) s (\<lambda>r.
     with_login (\<lambda>u c s. case r of Inl w \<Rightarrow> (w, s) | Inr (k, D) \<Rightarrow> h u k D c s) c s)"

definition DomainDelete_get :: "ctx \<Rightarrow> db session \<Rightarrow> resp \<times> db session" where
  "DomainDelete_get = with_domain (\<lambda>u k D c s.
     (view_url (ud_instance_id D), commit (modify (user_domains_update (t_del k)) s)))"

definition DomainEdit_fill :: "user_domain \<Rightarrow> string" where
  "DomainEdit_fill D = ud_domain D"

definition DomainEdit_get :: "ctx \<Rightarrow> db session \<Rightarrow> resp \<times> db session" where
  "DomainEdit_get = with_domain (\<lambda>u k D c s. (Render ''myun/instance/domain_edit.html'', s))"

definition DomainEdit_post :: "string \<Rightarrow> ctx \<Rightarrow> db session \<Rightarrow> resp \<times> db session" where
  "DomainEdit_post name = with_domain (\<lambda>u k D c s.
     if \<not> domain_re name then (Render ''myun/instance/domain_edit.html'', s)
     else if list_ex (\<lambda>(old, _). old \<noteq> k) (t_select (\<lambda>_ D. ud_domain D = name) (user_domains (work s)))
     then (RenderErr ''domain'' ''This domain exist.'', s)
     else
       (let s1 = commit (modify (user_domains_update (t_upd k (\<lambda>D. D\<lparr>ud_domain := name\<rparr>))) s)
        in on_value (set_domain_entry c (ud_instance_id D) name s1) s1
             (\<lambda>s2. (view_url (ud_instance_id D), commit s2))))"

section \<open>New instances\<close>

record create_form =
  cf_name :: string
  cf_cpus :: "int option"
  cf_memory :: "int option"
  cf_isprivate :: bool
  cf_appliance :: string

text \<open>\<open>InstanceCreate.prepare\<close>: the appliance the argument names, if it names one.\<close>

definition InstanceCreate_prepare :: "int \<Rightarrow> ctx \<Rightarrow> db \<Rightarrow> resp + ((int \<times> appliance) option \<times> profile)" where
  "InstanceCreate_prepare u c d =
     (let ID = (case get_argument_int c ''appliance_id'' None of None \<Rightarrow> 0 | Some n \<Rightarrow> n);
          A = (if ID = 0 then None else map_option (Pair ID) (t_get (appliances d) ID));
          private = (case A of None \<Rightarrow> False | Some (_, a) \<Rightarrow> a_isprivate a \<and> u \<noteq> a_user_id a);
          locked = (case A of None \<Rightarrow> False | Some (_, a) \<Rightarrow> \<not> a_isuseable a)
      in if private then Inl (Write ''Appliance %s is private.'' [ID])
         else if locked then Inl (Write ''Appliance %s is locked.'' [ID])
         else
           (case profile_of d u of
              None \<Rightarrow> Inl (Write ''System Error: have not find user profile.'' [])
            | Some p \<Rightarrow>
                if cpu_remain d (c_now c) p \<ge> 1 \<and> memory_remain d (c_now c) p \<ge> 64 \<and> instance_remain d (c_now c) p \<ge> 1
                then Inr (A, p) else Inl NoResource))"

text \<open>\<open>InstanceCreate.get\<close>: the name offered is that of the appliance.\<close>

definition InstanceCreate_get :: "ctx \<Rightarrow> db session \<Rightarrow> (resp \<times> string option) \<times> db session" where
  "InstanceCreate_get c s =
     (case require_permission ''instance.create'' c (work s) of
        Some r \<Rightarrow> ((r, None), s)
      | None \<Rightarrow>
          (case InstanceCreate_prepare (the (c_user c)) c (work s) of
             Inl r \<Rightarrow> ((r, None), s)
           | Inr (A, _) \<Rightarrow> ((Render ''myun/instance/create.html'', map_option (a_name \<circ> snd) A), s)))"

definition InstanceCreateBaseForm_validate :: "db \<Rightarrow> int \<Rightarrow> int \<Rightarrow> profile \<Rightarrow> create_form \<Rightarrow> bool" where
  "InstanceCreateBaseForm_validate d now u p f =
     (length_between 2 30 (cf_name f) \<and>
      t_first (\<lambda>_ I. i_name I = cf_name f \<and> i_user_id I = u) (instances d) = None \<and>
      at_least 1 (cf_cpus f) \<and> \<not> exceeds (cf_cpus f) (cpu_remain d now p) \<and>
      at_least 64 (cf_memory f) \<and> \<not> exceeds (cf_memory f) (memory_remain d now p))"

definition public_appliances :: "db \<Rightarrow> int list" where
  "public_appliances d = map fst (t_select (\<lambda>_ a. \<not> a_isprivate a \<and> a_isuseable a) (appliances d))"

text \<open>The loop over the network pools, left at the first free address.\<close>

fun first_free_ip :: "db \<Rightarrow> int list \<Rightarrow> (int \<times> ippool) option" where
  "first_free_ip d [] = None"
| "first_free_ip d (n # ns) = (case get_free_ip d n of Some IP \<Rightarrow> Some IP | None \<Rightarrow> first_free_ip d ns)"

definition set_ip :: "int \<Rightarrow> ctx \<Rightarrow> int \<Rightarrow> db session \<Rightarrow> db session \<times> pyexn option" where
  "set_ip u c iid s =
     (case first_free_ip (work s) (map fst (rows (networkpools (work s)))) of
        None \<Rightarrow> (s, None)
      | Some (k, IP) \<Rightarrow>
          let s1 = commit (modify (set_ip_instance k (Some iid)) s) in
          case session_update_network c iid s1 of
            Inl e \<Rightarrow> (s1, Some e)
          | Inr s2 \<Rightarrow>
              (commit (add_trace u TARGET_IP k
                (''get ip '' @ ip_ip IP @ '' for instance '' @ show_int iid) (commit s2)), None))"

definition set_secret :: "int \<Rightarrow> ctx \<Rightarrow> profile \<Rightarrow> int \<Rightarrow> db session \<Rightarrow> db session" where
  "set_secret u c p iid s =
     (let passwd = get_root_password p;
          s1 = (if json_truthy passwd then commit (modify (upd_instance iid (\<lambda>I.
                   inst_set (c_now c) ''use_global_passwd'' (JBool True) (inst_set (c_now c) ''passwd_hash'' passwd I))) s)
                else s)
      in case keys_of (work s1) u of
           [] \<Rightarrow> s1
         | (_, K) # _ \<Rightarrow>
             if k_data K = [] then s1
             else commit (modify (upd_instance iid (inst_set (c_now c) ''public_key'' (JStr (k_data K)))) s1))"

definition create_instance :: "int \<Rightarrow> string \<Rightarrow> ctx \<Rightarrow> profile \<Rightarrow> int \<Rightarrow> create_form \<Rightarrow> db session \<Rightarrow> resp \<times> db session" where
  "create_instance u cookie c p aid f s =
     (let I = (new_instance (c_now c) cookie (cf_name f) u aid)\<lparr>i_cpus := the (cf_cpus f),
                i_memory := the (cf_memory f), i_isprivate := cf_isprivate f\<rparr>;
          iid = t_newid (instances (work s));
          s1 = commit (modify (instances_update (t_add I)) s)
      in case set_ip u c iid s1 of
           (s2, Some e) \<Rightarrow> (Raise e, s2)
         | (s2, None) \<Rightarrow> (view_url iid, set_secret u c p iid s2))"

definition InstanceCreate_post :: "string \<Rightarrow> create_form \<Rightarrow> ctx \<Rightarrow> db session \<Rightarrow> resp \<times> db session" where
  "InstanceCreate_post cookie f = with_permission ''instance.create'' (\<lambda>c s.
     let u = the (c_user c) in
     case InstanceCreate_prepare u c (work s) of
       Inl r \<Rightarrow> (r, s)
     | Inr (A, p) \<Rightarrow>
         if InstanceCreateBaseForm_validate (work s) (c_now c) u p f \<and>
            (A = None \<longrightarrow> choice_ok (cf_appliance f) (public_appliances (work s)))
         then
           (case A of
              Some (aid, _) \<Rightarrow> create_instance u cookie c p aid f s
            | None \<Rightarrow> on_value (get_by_arg (appliances (work s)) (cf_appliance f)) s (\<lambda>a.
                case a of
                  None \<Rightarrow> (Write ''Give me the appliance please.'' [], s)
                | Some (aid, _) \<Rightarrow> create_instance u cookie c p aid f s))
         else (Render ''myun/instance/create.html'', s))"

section \<open>Port mappings\<close>

record port_form =
  pof_ip :: string
  pof_port :: "int option"

definition used_ports :: "db \<Rightarrow> int \<Rightarrow> int" where
  "used_ports d u =
     (\<Sum>(iid, _) \<leftarrow> instances_of d u. \<Sum>(k, _) \<leftarrow> ips_of d iid.
        int (length (t_select (\<lambda>_ P. pm_ip_id P = Some k) (port_mappings d))))"

definition PortMappingForm_validate :: "db \<Rightarrow> int \<Rightarrow> port_form \<Rightarrow> (int \<times> ippool) option pyres" where
  "PortMappingForm_validate d iid f =
     (case get_by_arg (ippools d) (pof_ip f) of
        Inl e \<Rightarrow> Inl e
      | Inr None \<Rightarrow> Inr None
      | Inr (Some (k, IP)) \<Rightarrow>
          Inr (if choice_ok (pof_ip f) (map fst (ips_of d iid)) \<and> ip_instance_id IP = Some iid \<and>
                  number_range 20 65535 (pof_port f) \<and>
                  t_first (\<lambda>_ P. pm_ip_id P = Some k \<and> pm_ip_port P = pof_port f) (port_mappings d) = None
               then Some (k, IP) else None))"

text \<open>
  \<open>PortMappingAdd.prepare\<close>: \<open>Inr\<close> gives the first gateway and the instance. The handlers also
  change the packet filter: their state is the session and the chain.
\<close>

definition PortMappingAdd_prepare :: "ctx \<Rightarrow> db \<Rightarrow> resp + (int \<times> gateway \<times> int \<times> instance_row)" where
  "PortMappingAdd_prepare c d =
     (case c_user c of
        None \<Rightarrow> Inl (if c_post c then Raise (HTTPError 403) else Login)
      | Some u \<Rightarrow>
          (case rows (gateways d) of
             [] \<Rightarrow> Inl (RenderErr ''error'' ''The system have not configure gateway yet.'')
           | (gid, G) # _ \<Rightarrow>
               (case set_myinstance u c d of
                  Inl r \<Rightarrow> Inl r
                | Inr (iid, I) \<Rightarrow>
                    (case profile_of d (i_user_id I) of
                       None \<Rightarrow> Inl (Raise (AttributeError ''port''))
                     | Some p \<Rightarrow>
                         if \<not> pf_port p > used_ports d u
                         then Inl (Write ''You have not port number now. used: %s, total: %s'' [used_ports d u, pf_port p])
                         else Inr (gid, G, iid, I)))))"

definition PortMappingAdd_get :: "ctx \<Rightarrow> db session \<times> chain \<Rightarrow> resp \<times> db session \<times> chain" where
  "PortMappingAdd_get c sc =
     (case PortMappingAdd_prepare c (work (fst sc)) of
        Inl r \<Rightarrow> (r, sc) | Inr _ \<Rightarrow> (Render ''myun/instance/portmapping_add.html'', sc))"

definition PortMappingAdd_post ::
  "fw_env \<Rightarrow> port_form \<Rightarrow> ctx \<Rightarrow> db session \<times> chain \<Rightarrow> resp \<times> db session \<times> chain" where
  "PortMappingAdd_post e f c sc =
     (let (s, ch) = sc in
      case PortMappingAdd_prepare c (work s) of
        Inl r \<Rightarrow> (r, s, ch)
      | Inr (gid, G, iid, I) \<Rightarrow>
          (case PortMappingForm_validate (work s) iid f of
             Inl ex \<Rightarrow> (Raise ex, s, ch)
           | Inr None \<Rightarrow> (Render ''myun/instance/portmapping_add.html'', s, ch)
           | Inr (Some (k, IP)) \<Rightarrow>
               (case get_free_port (work s) gid of
                  None \<Rightarrow> (RenderErr ''port'' ''No free port could be used, contact admin please.'', s, ch)
                | Some (m, FP) \<Rightarrow>
                    (view_url iid,
                     commit (modify (port_mappings_update (t_upd m
                       (\<lambda>P. P\<lparr>pm_ip_id := Some k, pm_ip_port := pof_port f\<rparr>))) s),
                     Prerouting_add e (gw_ip G) (pm_gateway_port FP) (ip_ip IP) (the (pof_port f)) ch))))"

definition PortMappingDelete_get :: "fw_env \<Rightarrow> ctx \<Rightarrow> db session \<times> chain \<Rightarrow> resp \<times> db session \<times> chain" where
  "PortMappingDelete_get e c sc =
     (let (s, ch) = sc in
      case c_user c of
        None \<Rightarrow> (if c_post c then Raise (HTTPError 403) else Login, s, ch)
      | Some u \<Rightarrow>
          (case set_myinstance u c (work s) of
             Inl r \<Rightarrow> (r, s, ch)
           | Inr (iid, I) \<Rightarrow>
               let m = arg_id c ''portmapping'' in
               if m = 0 then (Write ''Give me portmapping id please.'' [], s, ch)
               else case t_get (port_mappings (work s)) m of
                 None \<Rightarrow> (Write ''Can not find portmapping %s'' [m], s, ch)
               | Some P \<Rightarrow>
                   if \<not> (truthy_int (pm_ip_id P) \<and> truthy_int (pm_ip_port P))
                   then (Write ''Portmapping %s not binding.'' [m], s, ch)
                   else
                     (case find (\<lambda>(k, _). pm_ip_id P = Some k) (ips_of (work s) iid) of
                        None \<Rightarrow> (Write ''Portmapping %s is not for your instance.'' [m], s, ch)
                      | Some (_, IP) \<Rightarrow>
                          (view_url iid,
                           commit (modify (port_mappings_update (t_upd m (\<lambda>P. P\<lparr>pm_ip_port := None, pm_ip_id := None\<rparr>))) s),
                           delete_by_destination e (ip_ip IP) (the (pm_ip_port P)) ch))))"

end
