(* ===== verification/Instance_Views.thy ===== *)
theory Instance_Views
  imports Myun
begin

text \<open>
  The handlers that control instances (\<^verbatim>\<open>lyweb/app/instance/views.py\<close>): viewing, starting and
  stopping through jobs, visibility and deletion. What lies outside the process is an input
  (\<open>life_env\<close>): whether the control server can be notified of a job, the rendered libvirt template,
  and the base64 routines. The nginx files that \<open>binding_domain\<close> writes and the debugging copy of
  the template under \<^verbatim>\<open>/tmp\<close> are left out.
\<close>

record life_env =
  le_notify :: "int \<Rightarrow> bool"
  le_conf :: "db \<Rightarrow> int \<Rightarrow> string"
  le_codec :: codec

section \<open>Finding the instance\<close>

text \<open>Both lookups end with the same three tests.\<close>

definition check_instance :: "int \<Rightarrow> db \<Rightarrow> int \<Rightarrow> instance_row option \<Rightarrow> resp + (int \<times> instance_row)" where
  "check_instance u d ID x =
     (case x of
        None \<Rightarrow> Inl (Write ''Can not find instance %s'' [ID])
      | Some I \<Rightarrow>
          if i_status I = INSTANCE_DELETED_STATUS then Inl (Write ''Instance %s was deleted'' [ID])
          else if u \<noteq> i_user_id I \<and> \<not> isadmin d u then Inl (Write ''No permission for instance %s'' [ID])
          else Inr (ID, I))"

definition get_instance_byid :: "int \<Rightarrow> ctx \<Rightarrow> db \<Rightarrow> resp + (int \<times> instance_row)" where
  "get_instance_byid u c d =
     (let ID = arg_id c ''id'' in
      if ID = 0 then Inl (Write ''Give me instance id please'' [])
      else check_instance u d ID (t_get (instances d) ID))"

definition get_instance :: "int \<Rightarrow> db \<Rightarrow> string \<Rightarrow> (resp + (int \<times> instance_row)) pyres" where
  "get_instance u d ID =
     (case py_int ID of
        None \<Rightarrow> Inl ValueError
      | Some k \<Rightarrow> Inr (check_instance u d k (t_get (instances d) k)))"

text \<open>\<open>View.get\<close>; the method \<open>has_permission\<close> is asked for the current user.\<close>

definition InstanceView_get :: "ctx \<Rightarrow> db session \<Rightarrow> resp \<times> db session" where
  "InstanceView_get c s =
     (let ID = arg_id c ''id''; d = work s in
      if ID = 0 then (Write ''Give me instance id please.'' [], s)
      else case t_get (instances d) ID of
        None \<Rightarrow> (RenderErr ''instance/404.html'' ''Can not find instance'', s)
      | Some I \<Rightarrow>
          if i_isprivate I \<and> (case c_user c of None \<Rightarrow> True | Some u \<Rightarrow> u \<noteq> i_user_id I \<and> \<not> isadmin d u)
          then (Write ''Instance %s is private !'' [ID], s)
          else if i_status I = INSTANCE_DELETED_STATUS then (Write ''Instance %s is deleted !'' [ID], s)
          else (Render ''instance/view.html'', s))"

section \<open>Status polling\<close>

record status_json =
  cs_id :: int
  cs_is :: int
  cs_is_str :: string
  cs_js :: int
  cs_js_str :: string
  cs_lastjob :: "int option"
  cs_js_img :: "string \<times> string"
  cs_j_completed :: bool
  cs_vdi_ip :: string
  cs_vdi_port :: int
  cs_ip :: string
  cs_ip_link :: string
  cs_domain :: string
  cs_domain_link :: string
  cs_is_img :: string
  cs_action :: string

definition get_link :: "string \<Rightarrow> string \<Rightarrow> string" where
  "get_link url text = ''<a href=\"'' @ url @ ''\" target=\"_blank\">'' @ text @ ''</a>''"

definition none_text :: "string \<Rightarrow> string" where
  "none_text link = (if link = [] then ''None'' else link)"

definition get_json_data :: "ctx \<Rightarrow> db \<Rightarrow> int \<Rightarrow> instance_row \<Rightarrow> status_json" where
  "get_json_data c d iid I =
     (let ip_link = home_url (c_domain c) d iid I (c_user c) True;
          domain_link = home_url (c_domain c) d iid I (c_user c) False;
          dm = inst_domain (c_domain c) d iid;
          lastjob = get_instance_lastjob d iid
      in \<lparr>cs_id = iid, cs_is = i_status I, cs_is_str = status_string I,
          cs_js = (case lastjob of None \<Rightarrow> 0 | Some (_, j) \<Rightarrow> j_status j),
          cs_js_str = (case lastjob of None \<Rightarrow> ''unknown'' | Some (_, j) \<Rightarrow> job_status_string j),
          cs_lastjob = map_option fst lastjob,
          cs_js_img = (case lastjob of None \<Rightarrow> (''#FFCC33'', ''icon-exclamation-sign'') | Some (_, j) \<Rightarrow> job_status_icon j),
          cs_j_completed = (case lastjob of None \<Rightarrow> False | Some (_, j) \<Rightarrow> completed j),
          cs_vdi_ip = vdi_ip d I, cs_vdi_port = i_vdi_port I, cs_ip = work_ip I,
          cs_ip_link = none_text (if is_running I \<and> work_ip I \<noteq> [] then get_link ip_link (work_ip I) else work_ip I),
          cs_domain = dm,
          cs_domain_link = none_text (if is_running I \<and> dm \<noteq> [] then get_link domain_link dm else dm),
          cs_is_img = status_icon I, cs_action = action I\<rparr>)"

text \<open>\<open>check_status\<close>: abort, answer, or look again after one of two intervals (unfinished job first).\<close>

datatype poll = Abort | Answer status_json | Sleep1 | Sleep2

definition check_status :: "ctx \<Rightarrow> db \<Rightarrow> bool \<Rightarrow> int \<Rightarrow> int \<Rightarrow> int \<Rightarrow> poll" where
  "check_status c d closed ID old_is old_js =
     (if closed then Abort
      else case t_get (instances d) ID of
        None \<Rightarrow> Abort
      | Some I \<Rightarrow>
          let lastjob = get_instance_lastjob d ID in
          if old_is \<noteq> i_status I \<or> (case lastjob of None \<Rightarrow> False | Some (_, j) \<Rightarrow> old_js \<noteq> j_status j)
          then Answer (get_json_data c d ID I)
          else (case lastjob of
                  None \<Rightarrow> Sleep2
                | Some (_, j) \<Rightarrow> if \<not> completed j then Sleep1 else Sleep2))"


section \<open>Jobs\<close>

text \<open>
  \<open>run_job\<close>: the result is the error text, \<open>None\<close> for success. \<open>timeout\<close> is one minute after the
  last job was created.
\<close>

definition job_refused :: "int \<Rightarrow> int \<Rightarrow> job \<Rightarrow> string option" where
  "job_refused now action_id lastjob =
     (let timeout = j_created lastjob + 60 in
      if \<not> completed lastjob \<and> \<not> (action_id = STOP_INSTANCE \<and> canstop lastjob) \<and> timeout > now
      then Some ''Previous task is not finished !''
      else if j_status lastjob = JOB_S_FAILED \<and> timeout > now
      then Some ''Previous task was failed, wait a moment please.''
      else None)"

definition run_job :: "life_env \<Rightarrow> int \<Rightarrow> ctx \<Rightarrow> int \<Rightarrow> int \<Rightarrow> db session \<Rightarrow> string option \<times> db session" where
  "run_job env u c iid action_id s =
     (case (case get_instance_lastjob (work s) iid of
              None \<Rightarrow> None | Some (_, lastjob) \<Rightarrow> job_refused (c_now c) action_id lastjob) of
        Some msg \<Rightarrow> (Some msg, s)
      | None \<Rightarrow>
          let jid = t_newid (jobs (work s));
              s1 = commit (modify (jobs_update (t_add (new_job (c_now c) u TARGET_INSTANCE iid action_id))) s)
          in if le_notify env jid then (None, s1)
             else (Some ''Connect to control server failed: %s'',
                   commit (modify (jobs_update (t_upd jid (\<lambda>j. j\<lparr>j_status := JOB_S_FAILED\<rparr>))) s1)))"

section \<open>Life control\<close>

record life_result =
  lr_id :: int
  lr_code :: int
  lr_data :: string

text \<open>\<open>binding_domain\<close> and \<open>unbinding_domain\<close>: after nginx, \<open>update_network\<close> and a commit.\<close>

definition rebind_domain :: "ctx \<Rightarrow> int \<Rightarrow> db session \<Rightarrow> db session pyres" where
  "rebind_domain c iid s =
     (case session_update_network c iid s of Inl e \<Rightarrow> Inl e | Inr s1 \<Rightarrow> Inr (commit s1))"

definition set_root_passwd :: "int \<Rightarrow> db \<Rightarrow> instance_row \<Rightarrow> instance_row pyres" where
  "set_root_passwd now d I =
     (if json_truthy (inst_get ''use_global_passwd'' (JBool True) I) then
        (case profile_of d (i_user_id I) of
           None \<Rightarrow> Inl (AttributeError ''get'')
         | Some p \<Rightarrow> (case profile_shadow p of Inl e \<Rightarrow> Inl e | Inr passwd \<Rightarrow> Inr (inst_set now ''passwd_hash'' passwd I)))
      else Inr I)"

text \<open>What the user's instances with an unfinished last job will need.\<close>

definition job_waits :: "db \<Rightarrow> int \<Rightarrow> bool" where
  "job_waits d iid = (case get_instance_lastjob d iid of None \<Rightarrow> False | Some (_, j) \<Rightarrow> \<not> completed j)"

definition wait_sum :: "(instance_row \<Rightarrow> int) \<Rightarrow> db \<Rightarrow> int \<Rightarrow> int" where
  "wait_sum f d uid = (\<Sum>(k, xi) \<leftarrow> instances_of d uid. if job_waits d k then f xi else 0)"

definition job_answer :: "int \<Rightarrow> string option \<Rightarrow> life_result" where
  "job_answer iid ret =
     (case ret of
        Some msg \<Rightarrow> \<lparr>lr_id = iid, lr_code = 1, lr_data = msg\<rparr>
      | None \<Rightarrow> \<lparr>lr_id = iid, lr_code = 0, lr_data = ''Task starts successfully.''\<rparr>)"

definition LifeControl_run :: "life_env \<Rightarrow> int \<Rightarrow> ctx \<Rightarrow> int \<Rightarrow> instance_row \<Rightarrow> db session \<Rightarrow> life_result pyres \<times> db session" where
  "LifeControl_run env u c iid I s =
     (let d = work s; now = c_now c in
      case profile_of d (i_user_id I) of
        None \<Rightarrow> (Inl (AttributeError ''get_resource_total''), s)
      | Some p \<Rightarrow>
          let total = get_resource_total d now p; used = get_resource_used d p;
              cpu = tt_cpu total - tt_cpu used - wait_sum i_cpus d (i_user_id I);
              mem = tt_memory total - tt_memory used - wait_sum i_memory d (i_user_id I)
          in if \<not> (cpu \<ge> i_cpus I \<and> mem \<ge> i_memory I)
             then (Inr \<lparr>lr_id = iid, lr_code = 1, lr_data = ''Resource limit: need %(cpus)s CPU, %(memory)s, but you have %(cpu_remain)s CPU, %(memory_remain)s M memory.''\<rparr>, s)
             else if is_running I then (Inr \<lparr>lr_id = iid, lr_code = 1, lr_data = ''Instance is running now.''\<rparr>, s)
             else
               (case set_root_passwd now d I of
                  Inl e \<Rightarrow> (Inl e, s)
                | Inr I1 \<Rightarrow>
                    let I2 = update_storage now d iid I1;
                        I3 = set_libvirt_conf (le_codec env) now (le_conf env (upd_instance iid (\<lambda>_. I2) d) iid) I2;
                        s1 = commit (modify (upd_instance iid (\<lambda>_. I3)) s);
                        (ret, s2) = run_job env u c iid RUN_INSTANCE s1
                    in case rebind_domain c iid s2 of
                         Inl e \<Rightarrow> (Inl e, s2)
                       | Inr s3 \<Rightarrow> (Inr (job_answer iid ret), s3)))"

definition LifeControl_stop :: "life_env \<Rightarrow> int \<Rightarrow> ctx \<Rightarrow> int \<Rightarrow> instance_row \<Rightarrow> db session \<Rightarrow> life_result pyres \<times> db session" where
  "LifeControl_stop env u c iid I s =
     (if \<not> is_running I then (Inr \<lparr>lr_id = iid, lr_code = 1, lr_data = ''Instance is stopped now.''\<rparr>, s)
      else
        let (ret, s1) = run_job env u c iid STOP_INSTANCE s;
            a = job_answer iid ret
        in case rebind_domain c iid s1 of
             Inl e \<Rightarrow> (Inl e, s1)
           | Inr s2 \<Rightarrow> (Inr (a\<lparr>lr_data := lr_data a @ '' None''\<rparr>), s2))"

definition LifeControl_query :: "life_env \<Rightarrow> int \<Rightarrow> ctx \<Rightarrow> int \<Rightarrow> instance_row \<Rightarrow> db session \<Rightarrow> life_result pyres \<times> db session" where
  "LifeControl_query env u c iid I s =
     (if \<not> need_query I then (Inr \<lparr>lr_id = iid, lr_code = 1, lr_data = ''Instance does not need query.''\<rparr>, s)
      else let (ret, s1) = run_job env u c iid QUERY_INSTANCE s in (Inr (job_answer iid ret), s1))"

text \<open>\<open>getattr(self, action)\<close>: the handler has no method \<open>reboot\<close>.\<close>

definition life_callback :: "string \<Rightarrow> life_env \<Rightarrow> int \<Rightarrow> ctx \<Rightarrow> int \<Rightarrow> instance_row \<Rightarrow> db session \<Rightarrow> life_result pyres \<times> db session" where
  "life_callback act =
     (if act = ''run'' then LifeControl_run
      else if act = ''stop'' then LifeControl_stop
      else if act = ''query'' then LifeControl_query
      else (\<lambda>env u c iid I s. (Inl (AttributeError act), s)))"

definition resp_text :: "resp \<Rightarrow> string" where
  "resp_text r = (case r of Write msg _ \<Rightarrow> msg | _ \<Rightarrow> [])"

fun life_loop :: "string \<Rightarrow> life_env \<Rightarrow> int \<Rightarrow> ctx \<Rightarrow> string list \<Rightarrow> db session \<Rightarrow> life_result list pyres \<times> db session" where
  "life_loop act env u c [] s = (Inr [], s)"
| "life_loop act env u c (ID # IDS) s =
     (case get_instance u (work s) ID of
        Inl e \<Rightarrow> (Inl e, s)
      | Inr x \<Rightarrow>
          (case (case x of
                   Inl r \<Rightarrow> (Inr \<lparr>lr_id = - 1, lr_code = 1, lr_data = resp_text r\<rparr>, s)
                 | Inr (iid, I) \<Rightarrow> life_callback act env u c iid I s) of
             (Inl e, s1) \<Rightarrow> (Inl e, s1)
           | (Inr r, s1) \<Rightarrow>
               (case life_loop act env u c IDS s1 of
                  (Inl e, s2) \<Rightarrow> (Inl e, s2)
                | (Inr rs, s2) \<Rightarrow> (Inr (r # rs), s2))))"

definition id_list :: "string \<Rightarrow> string list" where
  "id_list ids = filter (\<lambda>x. x \<noteq> []) (map strip (split_on (CHR '','') ids))"

definition lower_char :: "char \<Rightarrow> char" where
  "lower_char c = (let n = of_char c :: nat in if 65 \<le> n \<and> n \<le> 90 then char_of (n + 32) else c)"

definition LifeControl_post :: "life_env \<Rightarrow> ctx \<Rightarrow> db session \<Rightarrow> (resp \<times> life_result list) \<times> db session" where
  "LifeControl_post env c s =
     (case c_user c of
        None \<Rightarrow> ((Raise (HTTPError 403), []), s)
      | Some u \<Rightarrow>
          let act = strip (map lower_char (case get_argument c ''action'' of None \<Rightarrow> [] | Some a \<Rightarrow> a));
              ids = id_list (case get_argument c ''id'' of None \<Rightarrow> [] | Some a \<Rightarrow> a)
          in if act = [] then ((Write ''Give me the action please.'' [1], []), s)
             else if act \<notin> {''run'', ''stop'', ''query'', ''reboot''}
             then ((Write ''Just support run/stop/reboot/query action'' [1], []), s)
             else if ids = [] then ((Write ''Instance id list is empty.'' [1], []), s)
             else
               (case life_loop act env u c ids s of
                  (Inl e, s1) \<Rightarrow> ((Raise e, []), s1)
                | (Inr rs, s1) \<Rightarrow>
                    ((Write ''code'' [if list_ex (\<lambda>r. lr_code r \<noteq> 0) rs then 1 else 0], rs), s1)))"

section \<open>Visibility\<close>

text \<open>\<open>AttrSet.post\<close>: ids that failed and ids that succeeded; \<open>set_isprivate\<close> names an unbound
  variable when the value is neither true nor false.\<close>

definition set_isprivate :: "string \<Rightarrow> (instance_row \<Rightarrow> instance_row) pyres" where
  "set_isprivate value =
     (if value = ''true'' then Inr (\<lambda>I. I\<lparr>i_isprivate := True\<rparr>)
      else if value = ''false'' then Inr (\<lambda>I. I\<lparr>i_isprivate := False\<rparr>)
      else Inl (NameError ''value''))"

fun attr_loop :: "int \<Rightarrow> string \<Rightarrow> int list \<Rightarrow> db session \<Rightarrow> (int list \<times> int list) pyres \<times> db session" where
  "attr_loop u value [] s = (Inr ([], []), s)"
| "attr_loop u value (ID # IDS) s =
     (case t_get (instances (work s)) ID of
        Some I \<Rightarrow>
          if u = i_user_id I \<or> isadmin (work s) u then
            (case set_isprivate value of
               Inl e \<Rightarrow> (Inl e, s)
             | Inr f \<Rightarrow>
                 (case attr_loop u value IDS (modify (upd_instance ID f) s) of
                    (Inl e, s1) \<Rightarrow> (Inl e, s1)
                  | (Inr (ok, failed), s1) \<Rightarrow> (Inr (ID # ok, failed), s1)))
          else
            (case attr_loop u value IDS s of
               (Inl e, s1) \<Rightarrow> (Inl e, s1) | (Inr (ok, failed), s1) \<Rightarrow> (Inr (ok, ID # failed), s1))
      | None \<Rightarrow>
          (case attr_loop u value IDS s of
             (Inl e, s1) \<Rightarrow> (Inl e, s1) | (Inr (ok, failed), s1) \<Rightarrow> (Inr (ok, ID # failed), s1)))"

definition AttrSet_post :: "ctx \<Rightarrow> db session \<Rightarrow> (resp \<times> int list \<times> int list) \<times> db session" where
  "AttrSet_post c s =
     (case c_user c of
        None \<Rightarrow> ((Raise (HTTPError 403), [], []), s)
      | Some u \<Rightarrow>
          let ids = map (\<lambda>x. the (get_int x (Some 0)))
                      (split_on (CHR '','') (case get_argument c ''id'' of None \<Rightarrow> [] | Some a \<Rightarrow> a));
              value = strip (map lower_char (case get_argument c ''value'' of None \<Rightarrow> [] | Some a \<Rightarrow> a))
          in if \<not> truthy_str (get_argument c ''attr'') then ((Write ''No attr find.'' [1], [], []), s)
             else if value = [] then ((Write ''No value find.'' [1], [], []), s)
             else
               (case attr_loop u value ids s of
                  (Inl e, s1) \<Rightarrow> ((Raise e, [], []), s1)
                | (Inr (ok, failed), s1) \<Rightarrow>
                    ((Write ''return_code'' [if failed = [] then 0 else 1], ok, failed), commit s1)))"

section \<open>Deletion\<close>

text \<open>The loops of \<open>InstanceDelete.post\<close> over addresses, domains and storages.\<close>

definition release_all :: "int \<Rightarrow> int \<Rightarrow> db \<Rightarrow> db" where
  "release_all now iid d =
     (let ks = map fst (ips_of d iid) in
      d\<lparr>port_mappings := t_upd_where (\<lambda>_ y. case pm_ip_id y of None \<Rightarrow> False | Some k \<Rightarrow> k \<in> set ks)
                           (\<lambda>y. y\<lparr>pm_ip_id := None, pm_ip_port := None\<rparr>) (port_mappings d),
        ippools := t_upd_where (\<lambda>_ x. ip_instance_id x = Some iid)
                     (\<lambda>x. x\<lparr>ip_instance_id := None, ip_updated := now\<rparr>) (ippools d),
        user_domains := t_del_where (\<lambda>_ x. ud_instance_id x = iid) (user_domains d),
        storages := t_del_where (\<lambda>_ x. st_instance_id x = iid) (storages d)\<rparr>)"

definition InstanceDelete_post :: "life_env \<Rightarrow> ctx \<Rightarrow> db session \<Rightarrow> resp \<times> db session" where
  "InstanceDelete_post env = with_login (\<lambda>u c s.
     case get_instance_byid u c (work s) of
       Inl r \<Rightarrow> (r, s)
     | Inr (iid, I) \<Rightarrow>
         if is_running I then (Write ''Instance %s is running, can not delete it.'' [iid], s)
         else
           on_value (rebind_domain c iid s) s (\<lambda>s1.
             let s2 = commit (modify (upd_instance iid (\<lambda>I. I\<lparr>i_status := INSTANCE_DELETED_STATUS,
                         i_name := ''_deleted_'' @ show_int iid @ ''_''\<rparr>)) s1);
                 s3 = commit (modify (release_all (c_now c) iid) s2);
                 (ret, s4) = run_job env u c iid DESTROY_INSTANCE s3;
                 s5 = add_trace u TARGET_INSTANCE iid ''delete instance'' s4
             in (Write (case ret of Some msg \<Rightarrow> msg | None \<Rightarrow> ''Task starts successfully.'')
                   [iid, if ret = None then 0 else 1], s5)))"

end
