(* ===== verification/Pagination.thy ===== *)
theory Pagination
  imports Prelude
begin

text \<open>
  The list of page numbers under a table (\<^verbatim>\<open>lyweb/lib/yweb/utils/pagination.py\<close>). The result is
  what the template is rendered with; the URLs of the pages are left out. The numbers come from
  the handlers: the rows \<open>tot\<close>, the rows on a page \<open>sepa\<close>, the current page \<open>cur\<close>.
\<close>

record page_data =
  pg_plist :: "int list"
  pg_cur :: int
  pg_sum :: int
  pg_notexist :: int
  pg_sepa_range :: "int list"

definition page_sum :: "int \<Rightarrow> int \<Rightarrow> int" where
  "page_sum tot sepa = tot div sepa + (if tot mod sepa \<noteq> 0 then 1 else 0)"

text \<open>The first and the last page of the middle part.\<close>

definition page_start :: "int \<Rightarrow> int \<Rightarrow> int" where
  "page_start list_size cur = (cur div (list_size + 1)) * list_size + 1"

definition page_end :: "int \<Rightarrow> int \<Rightarrow> int \<Rightarrow> int" where
  "page_end list_size cur last_p =
     (let e = page_start list_size cur + list_size in if e > last_p then last_p else e)"

definition plist :: "int \<Rightarrow> int \<Rightarrow> int \<Rightarrow> int list" where
  "plist list_size cur last_p =
     (let notexist_p = last_p + 1; e = page_end list_size cur last_p;
          mid = [page_start list_size cur..e] @ (if e < last_p then [notexist_p, last_p] else [])
      in if cur > list_size then 1 # notexist_p # mid else mid)"

text \<open>\<open>pagination\<close>: \<open>Inr None\<close> is the empty string for a table of one page; a page size of zero
  divides by zero.\<close>

definition pagination ::
  "int \<Rightarrow> int \<Rightarrow> int \<Rightarrow> int \<Rightarrow> int list \<Rightarrow> page_data option pyres" where
  "pagination tot sepa cur list_size sepa_range =
     (if tot \<le> sepa then Inr None
      else if sepa = 0 \<or> list_size + 1 = 0 then Inl ZeroDivisionError
      else let last_p = page_sum tot sepa in
        Inr (Some \<lparr>pg_plist = plist list_size cur last_p, pg_cur = cur, pg_sum = last_p,
          pg_notexist = last_p + 1, pg_sepa_range = filter (\<lambda>x. x < tot) sepa_range\<rparr>))"

text \<open>The rows of page \<open>cur\<close>: the slice that the handlers take.\<close>

definition page_rows :: "nat \<Rightarrow> nat \<Rightarrow> 'a list \<Rightarrow> 'a list" where
  "page_rows sepa cur xs = take sepa (drop ((cur - 1) * sepa) xs)"

section \<open>Lemmas\<close>

lemma page_sum_bounds:
  assumes "0 < sepa"
  shows "(page_sum tot sepa - 1) * sepa < tot \<and> tot \<le> page_sum tot sepa * sepa"
proof -
  have t: "tot div sepa * sepa = tot - tot mod sepa" by (simp add: minus_mod_eq_div_mult)
  have m: "0 \<le> tot mod sepa" "tot mod sepa < sepa" using assms by simp_all
  show ?thesis
  proof (cases "tot mod sepa = 0")
    case True
    with t assms show ?thesis by (simp add: page_sum_def left_diff_distrib)
  next
    case False
    then have "page_sum tot sepa = tot div sepa + 1" by (simp add: page_sum_def)
    with t m False show ?thesis by (simp add: distrib_right)
  qed
qed

text \<open>The pages together are the table.\<close>

lemma concat_pages:
  "concat (map (\<lambda>p. page_rows sepa (Suc p) xs) [0..<k]) = take (k * sepa) xs"
proof (induction k)
  case (Suc k)
  then show ?case using take_add [of "k * sepa" sepa xs] by (simp add: page_rows_def add.commute)
qed simp

text \<open>With the standard five entries the current page \<open>cur = 6 * q + r\<close> is in the middle part only
  while \<open>q + r \<le> 6\<close>; the first page that is missing is 17.\<close>

lemma current_page_shown:
  assumes "1 \<le> cur" "cur \<le> last_p"
  shows "cur \<in> {page_start 5 cur..page_end 5 cur last_p} \<longleftrightarrow> cur div 6 + cur mod 6 \<le> 6"
  using assms by (auto simp: page_start_def page_end_def Let_def split: if_splits) presburger+

lemma current_page_missing: "17 \<notin> set (plist 5 17 100)"
  by code_simp

lemma plist_range:
  assumes "1 \<le> cur" "cur \<le> last_p" "0 < list_size" "p \<in> set (plist list_size cur last_p)"
  shows "1 \<le> p \<and> p \<le> last_p + 1"
proof -
  have "0 \<le> cur div (list_size + 1) * list_size" using assms by (simp add: pos_imp_zdiv_nonneg_iff)
  then have "1 \<le> page_start list_size cur" by (simp add: page_start_def)
  with assms show ?thesis
    by (auto simp: plist_def page_end_def Let_def split: if_splits)
qed

section \<open>Properties\<close>

text \<open>
  A table of \<open>tot\<close> rows is cut into the least number of pages of \<open>sepa\<close> rows that holds it, the
  pages one after the other are the table, and every entry of the list of pages is a page or the
  marker for pages that are left out.
\<close>

theorem pagination_correct:
  assumes "0 < sepa" "sepa < tot" "tot = int (length xs)" and "1 \<le> cur" "cur \<le> page_sum tot sepa"
    and "0 < list_size" and "pagination tot sepa cur list_size sr = Inr (Some d)"
  shows "(pg_sum d - 1) * sepa < tot \<and> tot \<le> pg_sum d * sepa
    \<and> concat (map (\<lambda>p. page_rows (nat sepa) (Suc p) xs) [0..<nat (pg_sum d)]) = xs
    \<and> (\<forall>p \<in> set (pg_plist d). 1 \<le> p \<and> p \<le> pg_sum d \<or> p = pg_notexist d)"
proof -
  have d: "pg_sum d = page_sum tot sepa" "pg_notexist d = page_sum tot sepa + 1"
    "pg_plist d = plist list_size cur (page_sum tot sepa)"
    using assms(2,7) by (auto simp: pagination_def Let_def split: if_splits)
  have b: "(pg_sum d - 1) * sepa < tot \<and> tot \<le> pg_sum d * sepa"
    using page_sum_bounds [OF assms(1)] d(1) by simp
  have pg_nonneg: "0 \<le> pg_sum d" using assms(4,5) d(1) by simp
  have "length xs \<le> nat (pg_sum d) * nat sepa"
    using b assms(1,3) by (metis nat_int nat_mono nat_mult_distrib order_less_imp_le pg_nonneg)
  then show ?thesis
    using b concat_pages [of "nat sepa" xs] plist_range [OF assms(4-6)] d by (fastforce simp: d)
qed

definition rows_ex :: "nat list" where
  "rows_ex = [0..<45]"

theorem pagination_correct_witness:
  "\<exists>d. pagination 45 20 2 5 [20, 50] = Inr (Some d) \<and> (pg_sum d - 1) * 20 < 45 \<and> 45 \<le> pg_sum d * 20
    \<and> concat (map (\<lambda>p. page_rows (nat 20) (Suc p) rows_ex) [0..<nat (pg_sum d)]) = rows_ex"
proof -
  obtain d where r: "pagination 45 20 2 5 [20, 50] = Inr (Some d)"
    by (simp add: pagination_def Let_def)
  have s: "(2 :: int) \<le> page_sum 45 20" by code_simp
  have l: "(45 :: int) = int (length rows_ex)" by (simp add: rows_ex_def)
  from pagination_correct [OF _ _ l _ s _ r] r show ?thesis by fastforce
qed

end
