(* ===== verification/Forum.thy ===== *)
theory Forum
  imports Instance_Views Pagination
begin

text \<open>
  The forum (\<^verbatim>\<open>lyweb/app/forum\<close>): catalogues, topics with tags, posts and votes. Its tables are a
  record of their own, changed through sessions as the tables of \<open>Schema\<close> are; users and
  permissions are read from the database \<open>d\<close>, which no handler here changes. Notices by mail and the
  pictures of catalogues are left out. The tags of a topic are the list of their keys; deleting a
  tag takes it off every topic, as the mapper does for the association table.
\<close>

section \<open>Tables (models.py)\<close>

record forum_catalog =
  fc_parent_id :: "int option"
  fc_name :: string
  fc_summary :: string
  fc_description :: string
  fc_is_private :: bool
  fc_is_visible :: bool
  fc_managers :: "int list"
  fc_allowed_users :: "int list"

record forum_topic =
  tp_catalog_id :: int
  tp_name :: string
  tp_summary :: string
  tp_body :: string
  tp_user_id :: int
  tp_is_locked :: bool
  tp_is_closed :: bool
  tp_is_visible :: bool
  tp_like :: int
  tp_unlike :: int
  tp_visit :: int
  tp_status :: int
  tp_tags :: "int list"
  tp_markup_language :: int
  tp_created :: int
  tp_updated :: int

record forum_tag =
  tg_name :: string
  tg_hit :: int

record forum_post =
  ps_topic_id :: int
  ps_parent_id :: "int option"
  ps_body :: string
  ps_user_id :: int
  ps_is_locked :: bool
  ps_is_visible :: bool
  ps_like :: int
  ps_unlike :: int
  ps_created :: int
  ps_updated :: int

text \<open>\<open>ForumTopicVote\<close> and \<open>ForumPostVote\<close> have the same columns.\<close>

record forum_vote =
  fv_target :: int
  fv_user_id :: int
  fv_value :: int

record forum =
  catalogs_f :: "forum_catalog table"
  topics :: "forum_topic table"
  tags :: "forum_tag table"
  posts :: "forum_post table"
  topic_votes :: "forum_vote table"
  post_votes :: "forum_vote table"
  forbidden :: "int list"

definition is_deleted :: "forum_topic \<Rightarrow> bool" where
  "is_deleted T \<longleftrightarrow> tp_status T = 1"

definition set_status :: "string \<Rightarrow> forum_topic \<Rightarrow> forum_topic" where
  "set_status status T = (if status = ''deleted'' then T\<lparr>tp_status := 1\<rparr> else T)"

definition new_topic :: "int \<Rightarrow> int \<Rightarrow> int \<Rightarrow> string \<Rightarrow> string \<Rightarrow> string \<Rightarrow> int \<Rightarrow> forum_topic" where
  "new_topic now uid cid name summary body ml =
     \<lparr>tp_catalog_id = cid, tp_name = name, tp_summary = summary, tp_body = body, tp_user_id = uid,
      tp_is_locked = False, tp_is_closed = False, tp_is_visible = True, tp_like = 0, tp_unlike = 0,
      tp_visit = 0, tp_status = 0, tp_tags = [], tp_markup_language = ml, tp_created = now,
      tp_updated = now\<rparr>"

definition new_post :: "int \<Rightarrow> int \<Rightarrow> int \<Rightarrow> int option \<Rightarrow> string \<Rightarrow> forum_post" where
  "new_post now uid topic parent body =
     \<lparr>ps_topic_id = topic, ps_parent_id = parent, ps_body = body, ps_user_id = uid,
      ps_is_locked = False, ps_is_visible = True, ps_like = 0, ps_unlike = 0, ps_created = now,
      ps_updated = now\<rparr>"

section \<open>Who may add and view topics\<close>

definition can_add_topic :: "db \<Rightarrow> int option \<Rightarrow> forum \<Rightarrow> forum_catalog option \<Rightarrow> bool" where
  "can_add_topic d cur f catalog =
     (case (cur, catalog) of
        (Some u, Some C) \<Rightarrow>
          if u \<in> set (fc_managers C) then True
          else if u \<in> set (forbidden f) then False
          else if fc_is_private C \<and> \<not> isadmin d u \<and> u \<notin> set (fc_allowed_users C) then False
          else True
      | _ \<Rightarrow> False)"

definition can_view_topic :: "db \<Rightarrow> int option \<Rightarrow> forum_catalog option \<Rightarrow> bool" where
  "can_view_topic d cur catalog =
     (case catalog of
        None \<Rightarrow> False
      | Some C \<Rightarrow>
          if fc_is_private C \<or> \<not> fc_is_visible C then
            (case cur of
               None \<Rightarrow> False
             | Some u \<Rightarrow> u \<in> set (fc_managers C) \<or> u \<in> set (fc_allowed_users C) \<or> isadmin d u)
          else True)"

text \<open>A method under \<open>@authenticated\<close>.\<close>

definition f_login ::
  "(int \<Rightarrow> ctx \<Rightarrow> forum session \<Rightarrow> resp \<times> forum session) \<Rightarrow> ctx \<Rightarrow> forum session \<Rightarrow> resp \<times> forum session" where
  "f_login h c s = (case c_user c of
      None \<Rightarrow> (if c_post c then Raise (HTTPError 403) else Login, s) | Some u \<Rightarrow> h u c s)"

text \<open>\<open>get_argument_int('id', None)\<close> followed by \<open>if not ID\<close>: zero is no key.\<close>

definition f_id :: "ctx \<Rightarrow> string \<Rightarrow> int" where
  "f_id c key = (case get_argument_int c key None of None \<Rightarrow> 0 | Some n \<Rightarrow> n)"

section \<open>Tags\<close>

text \<open>\<open>re.split(',|:|\\|', tag)\<close>, stripped, without the empty pieces. The source also splits at the wide
  comma and colon of Chinese text, which are no characters of the model's strings.\<close>

definition tag_names :: "string \<Rightarrow> string list" where
  "tag_names tag =
     filter (\<lambda>x. x \<noteq> []) (map strip
       (concat (map (split_on CHR '':'') (concat (map (split_on CHR '','') (split_on CHR ''|'' tag))))))"

definition lower_str :: "string \<Rightarrow> string" where
  "lower_str s = map lower_char s"

definition find_tag :: "string \<Rightarrow> forum \<Rightarrow> (int \<times> forum_tag) option" where
  "find_tag tagname f = t_first (\<lambda>_ T. lower_str (tg_name T) = lower_str tagname) (tags f)"

text \<open>
  The first loop of \<open>update_tag\<close>: a tag the topic did not have gets a hit, an unknown name a new row;
  the column of the name has 32 characters. The list of the tags found is the last argument.
\<close>

fun tag_loop :: "int list \<Rightarrow> string list \<Rightarrow> forum \<Rightarrow> int list \<Rightarrow> (forum \<times> int list) pyres" where
  "tag_loop old [] f acc = Inr (f, acc)"
| "tag_loop old (tagname # names) f acc =
     (case find_tag tagname f of
        Some (k, T) \<Rightarrow>
          tag_loop old names
            (if k \<notin> set old then f\<lparr>tags := t_upd k (tg_hit_update (\<lambda>h. h + 1)) (tags f)\<rparr> else f) (acc @ [k])
      | None \<Rightarrow>
          if length tagname > 32 then Inl ValueError
          else tag_loop old names (f\<lparr>tags := t_add \<lparr>tg_name = tagname, tg_hit = 1\<rparr> (tags f)\<rparr>)
                 (acc @ [t_newid (tags f)]))"

text \<open>\<open>self.db.delete(tag)\<close>\<close>

definition delete_tag :: "int \<Rightarrow> forum \<Rightarrow> forum" where
  "delete_tag k f =
     f\<lparr>tags := t_del k (tags f),
       topics := t_upd_where (\<lambda>_ _. True) (tp_tags_update (filter (\<lambda>i. i \<noteq> k))) (topics f)\<rparr>"

text \<open>One hit less; the last one deletes the tag. A key in a topic has its row by the foreign key.\<close>

definition drop_hit :: "int \<Rightarrow> forum \<Rightarrow> forum" where
  "drop_hit k f =
     (case t_get (tags f) k of
        None \<Rightarrow> f
      | Some T \<Rightarrow> if tg_hit T = 1 then delete_tag k f
                  else f\<lparr>tags := t_upd k (tg_hit_update (\<lambda>h. h - 1)) (tags f)\<rparr>)"

text \<open>\<open>update_tag\<close> on the topic \<open>tid\<close>: the names without repetition, the new list, the hits of the
  tags that the topic loses.\<close>

definition update_tag :: "string \<Rightarrow> int \<Rightarrow> forum session \<Rightarrow> unit pyres \<times> forum session" where
  "update_tag tag tid s =
     (case t_get (topics (work s)) tid of
        None \<Rightarrow> (Inl (AttributeError ''tags''), s)
      | Some T \<Rightarrow>
          (let old = tp_tags T in
           case tag_loop old (rev (remdups (rev (tag_names tag)))) (work s) [] of
             Inl e \<Rightarrow> (Inl e, s)
           | Inr (f1, new) \<Rightarrow>
               (let f2 = f1\<lparr>topics := t_upd tid (tp_tags_update (\<lambda>_. rev (remdups (rev new)))) (topics f1)\<rparr>;
                    f3 = foldl (\<lambda>f k. if k \<notin> set new then drop_hit k f else f) f2 old
                in (Inr (), commit (modify (\<lambda>_. f3) s)))))"

section \<open>Forms\<close>

record topic_form =
  tf_catalog :: string
  tf_name :: string
  tf_summary :: string
  tf_tag :: string
  tf_body :: string

definition catalog_choices :: "forum \<Rightarrow> string list" where
  "catalog_choices f =
     map (\<lambda>(k, _). show_int k) (t_select (\<lambda>_ C. fc_is_visible C \<and> \<not> fc_is_private C) (catalogs_f f))"

definition TopicForm_validate :: "forum \<Rightarrow> topic_form \<Rightarrow> bool" where
  "TopicForm_validate f form \<longleftrightarrow>
     tf_catalog form \<in> set (catalog_choices f) \<and> length_between 2 128 (tf_name form) \<and>
     length_between 2 1024 (tf_summary form) \<and> length_between 2 (1024 * 100) (tf_body form)"

definition PostForm_validate :: "string \<Rightarrow> bool" where
  "PostForm_validate body = length_between 2 (1024 * 100) body"

section \<open>Topics\<close>

definition get_my_topic_byid :: "db \<Rightarrow> int \<Rightarrow> int \<Rightarrow> forum \<Rightarrow> forum_topic option" where
  "get_my_topic_byid d u ID f =
     (if ID = 0 then None
      else case t_get (topics f) ID of
        None \<Rightarrow> None
      | Some t \<Rightarrow> if tp_user_id t = u \<or> isadmin d u then Some t else None)"

text \<open>\<open>TopicAdd\<close>: \<open>prepare\<close> checks the catalogue named by \<open>cid\<close>, if there is one.\<close>

definition TopicAdd_prepare :: "db \<Rightarrow> int \<Rightarrow> ctx \<Rightarrow> forum \<Rightarrow> resp + (int \<times> forum_catalog) option" where
  "TopicAdd_prepare d u c f =
     (let cid = f_id c ''cid'';
          C = (if cid = 0 then None else map_option (Pair cid) (t_get (catalogs_f f) cid))
      in case C of
           None \<Rightarrow> Inr None
         | Some (_, cat) \<Rightarrow>
             if can_add_topic d (Some u) f (Some cat) then Inr C
             else Inl (Write ''No permission to add topic in \"%s\"'' []))"

definition TopicAdd_post :: "db \<Rightarrow> topic_form \<Rightarrow> ctx \<Rightarrow> forum session \<Rightarrow> resp \<times> forum session" where
  "TopicAdd_post d form = f_login (\<lambda>u c s.
     case TopicAdd_prepare d u c (work s) of
       Inl r \<Rightarrow> (r, s)
     | Inr C \<Rightarrow>
         if TopicForm_validate (work s) form then
           (let cid = (case C of Some (k, _) \<Rightarrow> k | None \<Rightarrow> the (py_int (tf_catalog form)));
                ml = (if get_argument c ''markup_language'' \<in> {None, Some ''WYSIWYM''} then 2 else 1);
                tid = t_newid (topics (work s));
                s1 = commit (modify (topics_update (t_add (new_topic (c_now c) u cid (tf_name form)
                       (tf_summary form) (tf_body form) ml))) s);
                (r, s2) = update_tag (tf_tag form) tid s1
            in case r of Inl e \<Rightarrow> (Raise e, s2) | Inr _ \<Rightarrow> (Redirect ''forum:catalog'' (Some cid), s2))
         else (Render ''forum/topic/edit.html'', s))"

definition TopicEdit_post :: "db \<Rightarrow> topic_form \<Rightarrow> ctx \<Rightarrow> forum session \<Rightarrow> resp \<times> forum session" where
  "TopicEdit_post d form = f_login (\<lambda>u c s.
     let ID = f_id c ''id'' in
     case get_my_topic_byid d u ID (work s) of
       None \<Rightarrow> (Write ''Can not find topic: %s'' [], s)
     | Some T \<Rightarrow>
         if TopicForm_validate (work s) form then
           (let s1 = commit (modify (topics_update (t_upd ID (\<lambda>T. T\<lparr>
                       tp_catalog_id := the (py_int (tf_catalog form)), tp_name := tf_name form,
                       tp_summary := tf_summary form, tp_body := tf_body form\<rparr>))) s);
                (r, s2) = update_tag (tf_tag form) ID s1
            in case r of Inl e \<Rightarrow> (Raise e, s2) | Inr _ \<Rightarrow> (Redirect ''forum:topic:view'' (Some ID), s2))
         else (Render ''forum/topic/edit.html'', s))"

definition TopicDelete_post :: "db \<Rightarrow> ctx \<Rightarrow> forum session \<Rightarrow> resp \<times> forum session" where
  "TopicDelete_post d = f_login (\<lambda>u c s.
     let ID = f_id c ''id'' in
     if ID = 0 then (Write ''Give me topic id please.'' [], s)
     else case t_get (topics (work s)) ID of
       None \<Rightarrow> (Write ''No such topic: %s'' [ID], s)
     | Some T \<Rightarrow>
         if tp_user_id T \<noteq> u \<and> \<not> isadmin d u then (Write ''No permissions !'' [], s)
         else (Write ''Delete topic success.'' [],
               commit (modify (\<lambda>f. topics_update (t_upd ID (set_status ''deleted''))
                 (foldl (\<lambda>f k. drop_hit k f) f (tp_tags T))) s)))"

text \<open>\<open>TopicView\<close> counts the visit.\<close>

definition TopicView_get :: "db \<Rightarrow> ctx \<Rightarrow> forum session \<Rightarrow> resp \<times> forum session" where
  "TopicView_get d c s =
     (let ID = f_id c ''id'' in
      if ID = 0 then (Write ''Give me topic id please.'' [], s)
      else case t_get (topics (work s)) ID of
        None \<Rightarrow> (Write ''No such topic: %s'' [ID], s)
      | Some T \<Rightarrow>
          if is_deleted T then (Write ''Topic %s is deleted'' [ID], s)
          else if \<not> can_view_topic d (c_user c) (t_get (catalogs_f (work s)) (tp_catalog_id T))
          then (Write ''No permission to view topic %s'' [ID], s)
          else if get_argument c ''t'' = Some ''source'' then (Render ''forum/topic/output/source.html'', s)
          else (Render ''forum/topic/view.html'',
                commit (modify (topics_update (t_upd ID (tp_visit_update (\<lambda>v. v + 1)))) s)))"

section \<open>Posts\<close>

text \<open>A post of the same user within the last 30 seconds.\<close>

definition too_fast :: "int \<Rightarrow> int \<Rightarrow> forum \<Rightarrow> bool" where
  "too_fast now u f \<longleftrightarrow> t_first (\<lambda>_ P. ps_user_id P = u \<and> ps_updated P > now - 30) (posts f) \<noteq> None"

definition TopicReply_prepare :: "int \<Rightarrow> ctx \<Rightarrow> forum \<Rightarrow> resp + int \<times> forum_topic" where
  "TopicReply_prepare u c f =
     (let ID = f_id c ''id'' in
      if ID = 0 then Inl (Write ''Give topic id please.'' [])
      else case t_get (topics f) ID of
        None \<Rightarrow> Inl (Write ''No such topic: %s'' [ID])
      | Some T \<Rightarrow>
          if tp_is_locked T then Inl (Write ''Topic %s is locked.'' [ID])
          else if \<not> tp_is_visible T then Inl (Write ''Topic %s is not visible.'' [ID])
          else if too_fast (c_now c) u f then Inl (Write ''Your speech is too fast!'' [])
          else Inr (ID, T))"

definition TopicReply_post :: "string \<Rightarrow> ctx \<Rightarrow> forum session \<Rightarrow> resp \<times> forum session" where
  "TopicReply_post body = f_login (\<lambda>u c s.
     case TopicReply_prepare u c (work s) of
       Inl r \<Rightarrow> (r, s)
     | Inr (ID, T) \<Rightarrow>
         if PostForm_validate body then
           (Redirect ''forum:topic:view'' (Some ID),
            commit (modify (posts_update (t_add (new_post (c_now c) u ID None body))) s))
         else (Render ''forum/topic/reply.html'', s))"

definition PostReply_prepare :: "int \<Rightarrow> ctx \<Rightarrow> forum \<Rightarrow> resp + int \<times> forum_post" where
  "PostReply_prepare u c f =
     (let ID = f_id c ''id'' in
      if ID = 0 then Inl (Write ''Give post id please.'' [])
      else case t_get (posts f) ID of
        None \<Rightarrow> Inl (Write ''No such post: %s'' [ID])
      | Some P \<Rightarrow>
          if ps_is_locked P then Inl (Write ''Post %s is locked.'' [ID])
          else if \<not> ps_is_visible P then Inl (Write ''Post %s is not visible.'' [ID])
          else if too_fast (c_now c) u f then Inl (Write ''Your speech is too fast!'' [])
          else Inr (ID, P))"

definition PostReply_post :: "string \<Rightarrow> ctx \<Rightarrow> forum session \<Rightarrow> resp \<times> forum session" where
  "PostReply_post body = f_login (\<lambda>u c s.
     case PostReply_prepare u c (work s) of
       Inl r \<Rightarrow> (r, s)
     | Inr (ID, P) \<Rightarrow>
         if PostForm_validate body then
           (Redirect ''forum:topic:view'' (Some (ps_topic_id P)),
            commit (modify (posts_update (t_add (new_post (c_now c) u (ps_topic_id P) (Some ID) body))) s))
         else (Render ''forum/post/edit.html'', s))"

definition PostEdit_post :: "db \<Rightarrow> string \<Rightarrow> ctx \<Rightarrow> forum session \<Rightarrow> resp \<times> forum session" where
  "PostEdit_post d body = f_login (\<lambda>u c s.
     let ID = f_id c ''id'' in
     if ID = 0 then (Write ''Give post id please.'' [], s)
     else case t_get (posts (work s)) ID of
       None \<Rightarrow> (Write ''No such post: %s'' [ID], s)
     | Some P \<Rightarrow>
         if ps_user_id P \<noteq> u \<and> \<not> isadmin d u then (Write ''No permission to edit post %s'' [ID], s)
         else if PostForm_validate body then
           (Redirect ''forum:topic:view'' (Some (ps_topic_id P)),
            commit (modify (posts_update (t_upd ID (ps_body_update (\<lambda>_. body)))) s))
         else (Render ''forum/post/edit.html'', s))"

section \<open>Votes\<close>

text \<open>
  The common part of \<open>TopicVote\<close> and \<open>PostVote\<close>: \<open>bump a b\<close> adds to the two counters of a row. \<open>None\<close>
  is the answer ``Voted already''. A vote of zero is stored too, and counts for nothing.
\<close>

definition cast_vote ::
  "(int \<Rightarrow> int \<Rightarrow> 'a \<Rightarrow> 'a) \<Rightarrow> int \<Rightarrow> int \<Rightarrow> int \<Rightarrow> 'a table \<times> forum_vote table \<Rightarrow> ('a table \<times> forum_vote table) option" where
  "cast_vote bump u k vote p =
     (let (t, vs) = p in
      case t_first (\<lambda>_ v. fv_target v = k \<and> fv_user_id v = u) vs of
        Some (vid, V) \<Rightarrow>
          if vote > 0 then
            if fv_value V < 0
            then Some (t_upd k (bump 1 (- 1)) t, t_upd vid (fv_value_update (\<lambda>_. vote)) vs)
            else None
          else if vote < 0 then
            if fv_value V > 0
            then Some (t_upd k (bump (- 1) 1) t, t_upd vid (fv_value_update (\<lambda>_. vote)) vs)
            else None
          else Some (t, vs)
      | None \<Rightarrow>
          Some (t_upd k (bump (if vote > 0 then 1 else 0) (if vote < 0 then 1 else 0)) t,
                t_add \<lparr>fv_target = k, fv_user_id = u, fv_value = vote\<rparr> vs))"

definition bump_topic :: "int \<Rightarrow> int \<Rightarrow> forum_topic \<Rightarrow> forum_topic" where
  "bump_topic a b T = T\<lparr>tp_like := tp_like T + a, tp_unlike := tp_unlike T + b\<rparr>"

definition bump_post :: "int \<Rightarrow> int \<Rightarrow> forum_post \<Rightarrow> forum_post" where
  "bump_post a b P = P\<lparr>ps_like := ps_like P + a, ps_unlike := ps_unlike P + b\<rparr>"

definition arg_vote :: "ctx \<Rightarrow> int" where
  "arg_vote c = (case get_argument_int c ''vote'' (Some 0) of None \<Rightarrow> 0 | Some n \<Rightarrow> n)"

definition TopicVote_post :: "ctx \<Rightarrow> forum session \<Rightarrow> resp \<times> forum session" where
  "TopicVote_post c s =
     (case c_user c of
        None \<Rightarrow> (Write ''Please login to vote again.'' [], s)
      | Some u \<Rightarrow>
          (let ID = f_id c ''id'' in
           if ID = 0 then (Write ''Give me topic id please.'' [], s)
           else case t_get (topics (work s)) ID of
             None \<Rightarrow> (Write ''No such topic: %s'' [ID], s)
           | Some T \<Rightarrow>
               if tp_user_id T = u then (Write ''Can not vote yourself'' [], s)
               else case cast_vote bump_topic u ID (arg_vote c) (topics (work s), topic_votes (work s)) of
                 None \<Rightarrow> (Write ''Voted already.'' [], s)
               | Some (ts, vs) \<Rightarrow>
                   (Write ''Voted success.'' [],
                    commit (modify (\<lambda>f. f\<lparr>topics := ts, topic_votes := vs\<rparr>) s))))"

definition PostVote_post :: "ctx \<Rightarrow> forum session \<Rightarrow> resp \<times> forum session" where
  "PostVote_post = f_login (\<lambda>u c s.
     let ID = f_id c ''id'' in
     if ID = 0 then (Write ''Give me post id please.'' [], s)
     else case t_get (posts (work s)) ID of
       None \<Rightarrow> (Write ''No such post: %s'' [ID], s)
     | Some P \<Rightarrow>
         if ps_user_id P = u then (Write ''Can not vote yourself'' [], s)
         else case cast_vote bump_post u ID (arg_vote c) (posts (work s), post_votes (work s)) of
           None \<Rightarrow> (Write ''Voted already.'' [], s)
         | Some (ps, vs) \<Rightarrow>
             (Write ''Voted success.'' [],
              commit (modify (\<lambda>f. f\<lparr>posts := ps, post_votes := vs\<rparr>) s)))"

section \<open>Catalogues (admin_views.py)\<close>

record catalog_form_f =
  cff_name :: string
  cff_summary :: string
  cff_description :: string

definition CatalogForm_ok :: "catalog_form_f \<Rightarrow> bool" where
  "CatalogForm_ok form \<longleftrightarrow> length_between 2 128 (cff_name form) \<and> length_between 2 1024 (cff_summary form) \<and>
     length (cff_description form) \<le> 1024 * 20"

definition CatalogAddForm_ok :: "forum \<Rightarrow> catalog_form_f \<Rightarrow> bool" where
  "CatalogAddForm_ok f form \<longleftrightarrow>
     CatalogForm_ok form \<and> t_first (\<lambda>_ C. fc_name C = cff_name form) (catalogs_f f) = None"

definition f_admin ::
  "db \<Rightarrow> (ctx \<Rightarrow> forum session \<Rightarrow> resp \<times> forum session) \<Rightarrow> ctx \<Rightarrow> forum session \<Rightarrow> resp \<times> forum session" where
  "f_admin d h c s = (case require_permission ''admin'' c d of Some r \<Rightarrow> (r, s) | None \<Rightarrow> h c s)"

text \<open>The summary has 256 characters in the table and 1024 in the form.\<close>

definition ForumCatalogAdd_post :: "db \<Rightarrow> catalog_form_f \<Rightarrow> ctx \<Rightarrow> forum session \<Rightarrow> resp \<times> forum session" where
  "ForumCatalogAdd_post d form = f_admin d (\<lambda>c s.
     let pid = f_id c ''pid'' in
     if CatalogAddForm_ok (work s) form then
       if length (cff_summary form) > 256 then (Raise ValueError, s)
       else (Redirect ''admin:forum:catalog'' None,
         commit (modify (catalogs_f_update (t_add \<lparr>
           fc_parent_id = (if pid = 0 \<or> t_get (catalogs_f (work s)) pid = None then None else Some pid),
           fc_name = cff_name form, fc_summary = cff_summary form, fc_description = cff_description form,
           fc_is_private = False, fc_is_visible = True, fc_managers = [], fc_allowed_users = []\<rparr>)) s))
     else (Render ''admin/forum/catalog/edit.html'', s))"

definition ForumCatalogEdit_post :: "db \<Rightarrow> catalog_form_f \<Rightarrow> ctx \<Rightarrow> forum session \<Rightarrow> resp \<times> forum session" where
  "ForumCatalogEdit_post d form = f_admin d (\<lambda>c s.
     let ID = f_id c ''id'' in
     if ID = 0 then (Write ''Give me catalog id please'' [], s)
     else case t_get (catalogs_f (work s)) ID of
       None \<Rightarrow> (Write ''Can not find catalog %s'' [ID], s)
     | Some C \<Rightarrow>
         if CatalogForm_ok form then
           if length (cff_summary form) > 256 then (Raise ValueError, s)
           else (Redirect ''admin:forum:catalog:view'' (Some ID),
             commit (modify (catalogs_f_update (t_upd ID (\<lambda>C. C\<lparr>fc_name := cff_name form,
               fc_summary := cff_summary form, fc_description := cff_description form\<rparr>))) s))
         else (Render ''admin/forum/catalog/edit.html'', s))"

section \<open>Listings\<close>

text \<open>
  The rows of a page: sorted by a column, in descending order unless \<open>order\<close> is zero, and cut by
  \<open>slice(start, stop)\<close>. The database refuses a negative offset or limit; a page size of zero
  raises in \<open>pagination\<close>. Rows with equal columns come in some order.
\<close>

definition arg_or :: "ctx \<Rightarrow> string \<Rightarrow> int \<Rightarrow> int" where
  "arg_or c key n = (case get_argument_int c key (Some n) of None \<Rightarrow> n | Some m \<Rightarrow> m)"

definition list_page :: "(int \<times> 'a \<Rightarrow> int) \<Rightarrow> ctx \<Rightarrow> (int \<times> 'a) list \<Rightarrow> (int \<times> 'a) list pyres" where
  "list_page key c xs =
     (let page_size = arg_or c ''ps'' 20; cur_page = arg_or c ''p'' 1;
          start = (cur_page - 1) * page_size;
          sorted_xs = (if arg_or c ''order'' 1 \<noteq> 0 then rev (sort_key key xs) else sort_key key xs)
      in if start < 0 \<or> page_size < 0 then Inl ValueError
         else case pagination (int (length xs)) page_size cur_page 5 [] of
           Inl e \<Rightarrow> Inl e
         | Inr _ \<Rightarrow> Inr (take (nat page_size) (drop (nat start) sorted_xs)))"

definition topic_key :: "ctx \<Rightarrow> int \<times> forum_topic \<Rightarrow> int" where
  "topic_key c p =
     (let by = (case get_argument c ''by'' of None \<Rightarrow> ''created'' | Some b \<Rightarrow> b) in
      if by = ''created'' then tp_created (snd p) else if by = ''updated'' then tp_updated (snd p) else fst p)"

definition post_key :: "ctx \<Rightarrow> int \<times> forum_post \<Rightarrow> int" where
  "post_key c p =
     (let by = (case get_argument c ''by'' of None \<Rightarrow> ''created'' | Some b \<Rightarrow> b) in
      if by = ''created'' then ps_created (snd p) else if by = ''updated'' then ps_updated (snd p) else fst p)"

definition Index_get_topics :: "ctx \<Rightarrow> forum \<Rightarrow> (int \<times> forum_topic) list pyres" where
  "Index_get_topics c f =
     list_page (topic_key c) c (t_select (\<lambda>_ T. tp_status T \<noteq> 1 \<and> tp_is_visible T \<and>
       (case t_get (catalogs_f f) (tp_catalog_id T) of
          None \<Rightarrow> False | Some C \<Rightarrow> fc_is_visible C \<and> \<not> fc_is_private C)) (topics f))"

definition Index_get_posts :: "ctx \<Rightarrow> forum \<Rightarrow> (int \<times> forum_post) list pyres" where
  "Index_get_posts c f = list_page (post_key c) c (rows (posts f))"

definition CatalogIndex_get :: "ctx \<Rightarrow> forum \<Rightarrow> resp + (int \<times> forum_topic) list pyres" where
  "CatalogIndex_get c f =
     (let ID = f_id c ''id'' in
      if ID = 0 then Inl (Write ''Give me catalog id please.'' [])
      else case t_get (catalogs_f f) ID of
        None \<Rightarrow> Inl (Write ''No such catalog %s'' [ID])
      | Some C \<Rightarrow>
          if fc_is_private C \<and> \<not> fc_is_visible C then Inl (Write ''Catalog is private and not visible.'' [])
          else Inr (list_page (topic_key c) c
                 (t_select (\<lambda>_ T. tp_catalog_id T = ID \<and> tp_status T \<noteq> 1) (topics f))))"

definition TagView_get :: "ctx \<Rightarrow> forum \<Rightarrow> resp + (int \<times> forum_topic) list pyres" where
  "TagView_get c f =
     (let ID = f_id c ''id'' in
      if ID = 0 then Inl (Write ''Give me tag id please.'' [])
      else case t_get (tags f) ID of
        None \<Rightarrow> Inl (Write ''No such tag %s'' [ID])
      | Some _ \<Rightarrow> Inr (list_page (topic_key c) c (t_select (\<lambda>_ T. ID \<in> set (tp_tags T)) (topics f))))"

section \<open>Requests\<close>

datatype forum_request =
    ForumTopicAdd topic_form
  | ForumTopicView
  | ForumTopicEdit topic_form
  | ForumTopicReply string
  | ForumTopicDelete
  | ForumTopicVote
  | ForumPostReply string
  | ForumPostEdit string
  | ForumPostVote
  | ForumCatalogAdd catalog_form_f
  | ForumCatalogEdit catalog_form_f

fun handle_forum :: "db \<Rightarrow> forum_request \<Rightarrow> ctx \<Rightarrow> forum session \<Rightarrow> resp \<times> forum session" where
  "handle_forum d (ForumTopicAdd form) = TopicAdd_post d form"
| "handle_forum d ForumTopicView = TopicView_get d"
| "handle_forum d (ForumTopicEdit form) = TopicEdit_post d form"
| "handle_forum d (ForumTopicReply body) = TopicReply_post body"
| "handle_forum d ForumTopicDelete = TopicDelete_post d"
| "handle_forum d ForumTopicVote = TopicVote_post"
| "handle_forum d (ForumPostReply body) = PostReply_post body"
| "handle_forum d (ForumPostEdit body) = PostEdit_post d body"
| "handle_forum d ForumPostVote = PostVote_post"
| "handle_forum d (ForumCatalogAdd form) = ForumCatalogAdd_post d form"
| "handle_forum d (ForumCatalogEdit form) = ForumCatalogEdit_post d form"

definition serve_forum :: "db \<Rightarrow> forum_request \<Rightarrow> ctx \<Rightarrow> forum \<Rightarrow> forum" where
  "serve_forum d q c f = on_finish (snd (handle_forum d q c (open_session f)))"

text \<open>Any requests one after the other, as time goes on; users and permissions may change between them.\<close>

inductive forum_reach :: "int \<Rightarrow> forum \<Rightarrow> int \<Rightarrow> forum \<Rightarrow> bool" for t0 f0 where
  start: "forum_reach t0 f0 t0 f0"
| more: "forum_reach t0 f0 t f \<Longrightarrow> t \<le> c_now c \<Longrightarrow> forum_reach t0 f0 (c_now c) (serve_forum d q c f)"

end
