(* ===== verification/Forum_Inv.thy ===== *)
theory Forum_Inv
  imports Forum
begin

text \<open>
  What the forum keeps. The locale \<open>ballot\<close> has the counters of a row and the operation that changes
  them; it is interpreted for topics and for posts. The locale \<open>forum_keeper\<close> lists the elementary
  changes that the handlers make, with the guards under which they make them; that every request keeps
  a predicate is proved once inside it, and it is interpreted for the votes, for the time between the
  posts of a user, and for what others have written.
\<close>

section \<open>Votes\<close>

definition ups :: "int \<Rightarrow> forum_vote table \<Rightarrow> int" where
  "ups k vs = int (length (t_select (\<lambda>_ v. fv_target v = k \<and> fv_value v > 0) vs))"

definition downs :: "int \<Rightarrow> forum_vote table \<Rightarrow> int" where
  "downs k vs = int (length (t_select (\<lambda>_ v. fv_target v = k \<and> fv_value v < 0) vs))"

text \<open>
  The counters of every row are the numbers of its votes; a user has one vote for a row at most, and
  none for an own one; a vote is for an existing row.
\<close>

definition one_vote :: "forum_vote table \<Rightarrow> bool" where
  "one_vote vs \<longleftrightarrow> (\<forall>i j v w. t_get vs i = Some v \<longrightarrow> t_get vs j = Some w \<longrightarrow>
     fv_target v = fv_target w \<longrightarrow> fv_user_id v = fv_user_id w \<longrightarrow> i = j)"

definition targets_ok :: "('a \<Rightarrow> int) \<Rightarrow> 'a table \<Rightarrow> forum_vote table \<Rightarrow> bool" where
  "targets_ok owner t vs \<longleftrightarrow>
     (\<forall>i v. t_get vs i = Some v \<longrightarrow> (\<exists>x. t_get t (fv_target v) = Some x \<and> owner x \<noteq> fv_user_id v))"

definition counters_ok :: "('a \<Rightarrow> int) \<Rightarrow> ('a \<Rightarrow> int) \<Rightarrow> 'a table \<Rightarrow> forum_vote table \<Rightarrow> bool" where
  "counters_ok like unlike t vs \<longleftrightarrow>
     (\<forall>k x. t_get t k = Some x \<longrightarrow> like x = ups k vs \<and> unlike x = downs k vs)"

definition votes_ok ::
  "('a \<Rightarrow> int) \<Rightarrow> ('a \<Rightarrow> int) \<Rightarrow> ('a \<Rightarrow> int) \<Rightarrow> 'a table \<Rightarrow> forum_vote table \<Rightarrow> bool" where
  "votes_ok like unlike owner t vs \<longleftrightarrow> t_ok t \<and> t_ok vs \<and> one_vote vs \<and> targets_ok owner t vs
     \<and> counters_ok like unlike t vs"

lemma sum_upd:
  "distinct (map fst xs) \<Longrightarrow> map_of xs k = Some v \<Longrightarrow>
   (\<Sum>(i, w)\<leftarrow>map (\<lambda>(i, w). (i, if i = k then f w else w)) xs. g w) = (\<Sum>(i, w)\<leftarrow>xs. g w) - g v + (g (f v) :: int)"
proof (induction xs)
  case (Cons a xs)
  obtain i w where a: "a = (i, w)" by (cases a)
  show ?case
  proof (cases "i = k")
    case True
    then have "map (\<lambda>(i, w). (i, if i = k then f w else w)) xs = xs"
      using Cons.prems(1) by (intro map_idI) (auto simp: a image_iff)
    with True Cons.prems show ?thesis by (simp add: a)
  next
    case False
    with Cons show ?thesis by (simp add: a)
  qed
qed simp

lemma count_sum:
  "int (length (filter (\<lambda>(k, v). P k v) xs)) = (\<Sum>(k, v)\<leftarrow>xs. if P k v then 1 else 0)"
  by (induction xs) auto

lemma select_upd:
  assumes "t_ok vs" and "t_get vs k = Some v"
  shows "int (length (t_select (\<lambda>_ v. P v) (t_upd k f vs))) =
    int (length (t_select (\<lambda>_ v. P v) vs)) - (if P v then 1 else 0) + (if P (f v) then 1 else 0)"
proof -
  have "rows (t_upd k f vs) = map (\<lambda>(i, w). (i, if i = k then f w else w)) (rows vs)"
    by (auto simp: t_upd_def t_upd_where_def)
  moreover have "distinct (map fst (rows vs))" "map_of (rows vs) k = Some v"
    using assms t_ok_distinct [of vs] by (simp_all add: t_get_def)
  ultimately show ?thesis
    using sum_upd [where xs = "rows vs" and k = k and v = v and f = f and g = "\<lambda>v. if P v then 1 else 0"]
    unfolding t_select_def count_sum by simp
qed

lemma ups_upd:
  assumes "t_ok vs" "t_get vs i = Some v"
  shows "ups k (t_upd i (fv_value_update (\<lambda>_. n)) vs) = ups k vs
      - (if fv_target v = k \<and> fv_value v > 0 then 1 else 0) + (if fv_target v = k \<and> n > 0 then 1 else 0)"
    and "downs k (t_upd i (fv_value_update (\<lambda>_. n)) vs) = downs k vs
      - (if fv_target v = k \<and> fv_value v < 0 then 1 else 0) + (if fv_target v = k \<and> n < 0 then 1 else 0)"
  using select_upd [OF assms, of "\<lambda>v. fv_target v = k \<and> fv_value v > 0" "fv_value_update (\<lambda>_. n)"]
    select_upd [OF assms, of "\<lambda>v. fv_target v = k \<and> fv_value v < 0" "fv_value_update (\<lambda>_. n)"]
  by (simp_all add: ups_def downs_def)

lemma ups_add:
  "ups k (t_add v vs) = ups k vs + (if fv_target v = k \<and> fv_value v > 0 then 1 else 0)"
  "downs k (t_add v vs) = downs k vs + (if fv_target v = k \<and> fv_value v < 0 then 1 else 0)"
  by (simp_all add: ups_def downs_def t_select_add)

lemma ups_none:
  assumes "t_ok vs" and "\<forall>i v. t_get vs i = Some v \<longrightarrow> fv_target v \<noteq> k"
  shows "ups k vs = 0" "downs k vs = 0"
  using assms t_ok_distinct [of vs]
  by (auto simp: ups_def downs_def t_select_def filter_empty_conv t_get_def dest: map_of_is_SomeI)

locale ballot =
  fixes like unlike owner :: "'a \<Rightarrow> int" and bump :: "int \<Rightarrow> int \<Rightarrow> 'a \<Rightarrow> 'a"
  assumes like_bump: "like (bump a b x) = like x + a"
    and unlike_bump: "unlike (bump a b x) = unlike x + b"
    and owner_bump: "owner (bump a b x) = owner x"
begin

lemma upd_keep:
  assumes "votes_ok like unlike owner t vs"
    and "\<And>x. like (f x) = like x \<and> unlike (f x) = unlike x \<and> owner (f x) = owner x"
  shows "votes_ok like unlike owner (t_upd_where P f t) vs"
proof -
  have *: "t_get (t_upd_where P f t) k = map_option (\<lambda>x. if P k x then f x else x) (t_get t k)" for k
    by (rule tb.get_upd)
  have "targets_ok owner (t_upd_where P f t) vs"
    unfolding targets_ok_def
  proof (intro allI impI)
    fix i v
    assume "t_get vs i = Some v"
    then obtain x where "t_get t (fv_target v) = Some x" "owner x \<noteq> fv_user_id v"
      using assms(1) unfolding votes_ok_def targets_ok_def by blast
    then show "\<exists>x. t_get (t_upd_where P f t) (fv_target v) = Some x \<and> owner x \<noteq> fv_user_id v"
      using assms(2) by (simp add: *)
  qed
  moreover have "counters_ok like unlike (t_upd_where P f t) vs"
    using assms by (auto simp: votes_ok_def counters_ok_def * split: if_splits)
  ultimately show ?thesis using assms(1) by (simp add: votes_ok_def t_ok_upd)
qed

lemma add_keep:
  assumes "votes_ok like unlike owner t vs" and "like x = 0" "unlike x = 0"
  shows "votes_ok like unlike owner (t_add x t) vs"
proof -
  have t: "t_ok t" "t_ok vs" and tg: "targets_ok owner t vs" using assms(1) by (auto simp: votes_ok_def)
  then have "\<forall>i v. t_get vs i = Some v \<longrightarrow> fv_target v \<noteq> t_newid t"
    using t_get_newid [of t] by (fastforce simp: targets_ok_def)
  then have "ups (t_newid t) vs = 0" "downs (t_newid t) vs = 0" using t(2) ups_none by auto
  then have "counters_ok like unlike (t_add x t) vs"
    using assms t(1) by (auto simp: votes_ok_def counters_ok_def t_get_add)
  moreover have "targets_ok owner (t_add x t) vs"
    using tg t(1) tb.get_add_old by (fastforce simp: targets_ok_def)
  ultimately show ?thesis using assms(1) by (simp add: votes_ok_def t_ok_add)
qed

lemma bump_keep:
  assumes "votes_ok like unlike owner t vs" and "t_ok vs'" "one_vote vs'" "targets_ok owner t vs'"
    and "\<And>j. ups j vs' = ups j vs + (if j = k then a else 0)"
    and "\<And>j. downs j vs' = downs j vs + (if j = k then b else 0)"
  shows "votes_ok like unlike owner (t_upd k (bump a b) t) vs'"
proof -
  have "counters_ok like unlike (t_upd k (bump a b) t) vs'"
    using assms(1,5,6) by (auto simp: votes_ok_def counters_ok_def t_get_upd like_bump unlike_bump split: if_splits)
  moreover have "targets_ok owner (t_upd k (bump a b) t) vs'"
    using assms(4) by (fastforce simp: targets_ok_def t_get_upd owner_bump)
  ultimately show ?thesis using assms(1-3) by (simp add: votes_ok_def)
qed

lemma change_keep:
  assumes ok: "votes_ok like unlike owner t vs" and v: "t_get vs i = Some v" "fv_target v = k"
    and "(fv_value v < 0 \<and> n > 0 \<and> a = 1 \<and> b = - 1) \<or> (fv_value v > 0 \<and> n < 0 \<and> a = - 1 \<and> b = 1)"
  shows "votes_ok like unlike owner (t_upd k (bump a b) t) (t_upd i (fv_value_update (\<lambda>_. n)) vs)"
proof (rule bump_keep [OF ok])
  have vs: "t_ok vs" "one_vote vs" "targets_ok owner t vs" using ok by (simp_all add: votes_ok_def)
  then show "t_ok (t_upd i (fv_value_update (\<lambda>_. n)) vs)" by simp
  show "one_vote (t_upd i (fv_value_update (\<lambda>_. n)) vs)"
    using vs(2) v(1) by (auto simp: one_vote_def t_get_upd split: if_splits)
  show "targets_ok owner t (t_upd i (fv_value_update (\<lambda>_. n)) vs)"
    using vs(3) v(1) by (auto simp: targets_ok_def t_get_upd split: if_splits)
  show "ups j (t_upd i (fv_value_update (\<lambda>_. n)) vs) = ups j vs + (if j = k then a else 0)"
    "downs j (t_upd i (fv_value_update (\<lambda>_. n)) vs) = downs j vs + (if j = k then b else 0)" for j
    using ups_upd [OF vs(1) v(1), of j n] assms(3,4) by auto
qed

lemma first_keep:
  assumes ok: "votes_ok like unlike owner t vs" and x: "t_get t k = Some x" "owner x \<noteq> u"
    and "t_first (\<lambda>_ v. fv_target v = k \<and> fv_user_id v = u) vs = None"
  shows "votes_ok like unlike owner (t_upd k (bump (if n > 0 then 1 else 0) (if n < 0 then 1 else 0)) t)
    (t_add \<lparr>fv_target = k, fv_user_id = u, fv_value = n\<rparr> vs)"
proof (rule bump_keep [OF ok])
  have vs: "t_ok vs" "one_vote vs" "targets_ok owner t vs" using ok by (simp_all add: votes_ok_def)
  then show "t_ok (t_add \<lparr>fv_target = k, fv_user_id = u, fv_value = n\<rparr> vs)" by (simp add: t_ok_add)
  have new: "\<not> (fv_target v = k \<and> fv_user_id v = u)" if "t_get vs i = Some v" for i v
    using assms(4) t_get_in [OF that] by (auto simp: t_first_None)
  then show "one_vote (t_add \<lparr>fv_target = k, fv_user_id = u, fv_value = n\<rparr> vs)"
    using vs(1,2) by (fastforce simp: one_vote_def t_get_add)
  show "targets_ok owner t (t_add \<lparr>fv_target = k, fv_user_id = u, fv_value = n\<rparr> vs)"
    using vs(1,3) x by (auto simp: targets_ok_def t_get_add)
qed (auto simp: ups_add)

lemma cast_keep:
  assumes ok: "votes_ok like unlike owner t vs" and x: "t_get t k = Some x" "owner x \<noteq> u"
    and cast: "cast_vote bump u k n (t, vs) = Some (t', vs')"
  shows "votes_ok like unlike owner t' vs'"
proof (cases "t_first (\<lambda>_ v. fv_target v = k \<and> fv_user_id v = u) vs")
  case None
  with cast first_keep [OF ok x None, of n] show ?thesis by (simp add: cast_vote_def)
next
  case (Some p)
  obtain i v where p: "p = (i, v)" by (cases p)
  have "t_get vs i = Some v" "fv_target v = k"
    using t_first_Some [OF Some [unfolded p]] ok t_get_iff [of vs i v] by (auto simp: votes_ok_def)
  with Some p cast ok change_keep [OF ok this] show ?thesis
    by (auto simp: cast_vote_def split: if_splits)
qed

end

interpretation topic_ballot: ballot tp_like tp_unlike tp_user_id bump_topic
  by unfold_locales (simp_all add: bump_topic_def)

interpretation post_ballot: ballot ps_like ps_unlike ps_user_id bump_post
  by unfold_locales (simp_all add: bump_post_def)

section \<open>What every request keeps\<close>

text \<open>The user may change the topic \<open>k\<close>, if there is one.\<close>

definition may_topic :: "db \<Rightarrow> int \<Rightarrow> int \<Rightarrow> forum \<Rightarrow> bool" where
  "may_topic d u k f \<longleftrightarrow> (\<forall>T. t_get (topics f) k = Some T \<longrightarrow> tp_user_id T = u \<or> isadmin d u)"

definition retag :: "(int \<Rightarrow> forum_topic \<Rightarrow> bool) \<Rightarrow> (int list \<Rightarrow> int list) \<Rightarrow> forum \<Rightarrow> forum" where
  "retag P g f = topics_update (t_upd_where P (tp_tags_update g)) f"

lemma may_topic_retag [simp]: "may_topic d u k (retag P g f) \<longleftrightarrow> may_topic d u k f"
  by (cases "t_get (topics f) k") (auto simp: may_topic_def retag_def tb.get_upd)

lemma may_topic_tags [simp]: "may_topic d u k (f\<lparr>tags := ts\<rparr>) \<longleftrightarrow> may_topic d u k f"
  by (simp add: may_topic_def)

lemma drop_hit_parts:
  obtains ts where "drop_hit k f = f\<lparr>tags := ts\<rparr>"
  | ts P g where "drop_hit k f = retag P g (f\<lparr>tags := ts\<rparr>)"
proof (cases "t_get (tags f) k")
  case None
  then have "drop_hit k f = f\<lparr>tags := tags f\<rparr>" by (simp add: drop_hit_def)
  then show thesis by (rule that(1))
next
  case (Some T)
  show thesis
  proof (cases "tg_hit T = 1")
    case True
    with Some have "drop_hit k f = retag (\<lambda>_ _. True) (filter (\<lambda>i. i \<noteq> k)) (f\<lparr>tags := t_del k (tags f)\<rparr>)"
      by (simp add: drop_hit_def delete_tag_def retag_def)
    then show thesis by (rule that(2))
  next
    case False
    with Some have "drop_hit k f = f\<lparr>tags := t_upd k (tg_hit_update (\<lambda>h. h - 1)) (tags f)\<rparr>"
      by (simp add: drop_hit_def)
    then show thesis by (rule that(1))
  qed
qed

locale forum_keeper =
  fixes Q :: "forum \<Rightarrow> bool" and d :: db and c :: ctx
  assumes keep_tags: "Q f \<Longrightarrow> Q (f\<lparr>tags := ts\<rparr>)"
    and keep_retag: "Q f \<Longrightarrow> Q (retag P g f)"
    and keep_visit: "Q f \<Longrightarrow> Q (topics_update (t_upd k (tp_visit_update (\<lambda>v. v + 1))) f)"
    and keep_topic_add: "Q f \<Longrightarrow> c_user c = Some u \<Longrightarrow>
      Q (topics_update (t_add (new_topic (c_now c) u cid name summary body ml)) f)"
    and keep_topic_edit: "Q f \<Longrightarrow> c_user c = Some u \<Longrightarrow> may_topic d u k f \<Longrightarrow>
      Q (topics_update (t_upd k (\<lambda>T. T\<lparr>tp_catalog_id := cid, tp_name := name,
        tp_summary := summary, tp_body := body\<rparr>)) f)"
    and keep_topic_status: "Q f \<Longrightarrow> c_user c = Some u \<Longrightarrow> may_topic d u k f \<Longrightarrow>
      Q (topics_update (t_upd k (set_status st)) f)"
    and keep_post_add: "Q f \<Longrightarrow> c_user c = Some u \<Longrightarrow> \<not> too_fast (c_now c) u f \<Longrightarrow>
      Q (posts_update (t_add (new_post (c_now c) u tid parent body)) f)"
    and keep_post_edit: "Q f \<Longrightarrow> c_user c = Some u \<Longrightarrow> t_get (posts f) k = Some p \<Longrightarrow>
      ps_user_id p = u \<or> isadmin d u \<Longrightarrow> Q (posts_update (t_upd k (ps_body_update (\<lambda>_. body))) f)"
    and keep_topic_vote: "Q f \<Longrightarrow> c_user c = Some u \<Longrightarrow> t_get (topics f) k = Some T \<Longrightarrow> tp_user_id T \<noteq> u \<Longrightarrow>
      cast_vote bump_topic u k n (topics f, topic_votes f) = Some (t', vs) \<Longrightarrow>
      Q (f\<lparr>topics := t', topic_votes := vs\<rparr>)"
    and keep_post_vote: "Q f \<Longrightarrow> c_user c = Some u \<Longrightarrow> t_get (posts f) k = Some p \<Longrightarrow> ps_user_id p \<noteq> u \<Longrightarrow>
      cast_vote bump_post u k n (posts f, post_votes f) = Some (p', vs) \<Longrightarrow>
      Q (f\<lparr>posts := p', post_votes := vs\<rparr>)"
    and keep_catalogs: "Q f \<Longrightarrow> c_user c = Some u \<Longrightarrow> isadmin d u \<Longrightarrow> Q (catalogs_f_update h f)"
begin

lemma tag_loop_keep:
  "tag_loop old names f acc = Inr (f', new) \<Longrightarrow> Q f \<Longrightarrow> Q f'"
proof (induction names arbitrary: f acc)
  case (Cons tagname names)
  show ?case
  proof (cases "find_tag tagname f")
    case None
    with Cons.prems Cons.IH keep_tags [OF Cons.prems(2)] show ?thesis by (auto split: if_splits)
  next
    case (Some p)
    obtain k T where p: "p = (k, T)" by (cases p)
    from Cons.prems(1) Some p Cons.IH Cons.prems(2) keep_tags [OF Cons.prems(2)] show ?thesis
      by (cases "k \<in> set old") auto
  qed
qed simp

lemma drop_hit_keep: "Q f \<Longrightarrow> may_topic d u t f = m \<Longrightarrow> Q (drop_hit k f) \<and> may_topic d u t (drop_hit k f) = m"
  by (rule drop_hit_parts [of k f]) (auto intro!: keep_tags keep_retag)

lemma drop_hits_keep:
  "Q f \<Longrightarrow> may_topic d u t f = m \<Longrightarrow>
   Q (foldl (\<lambda>f k. drop_hit k f) f ks) \<and> may_topic d u t (foldl (\<lambda>f k. drop_hit k f) f ks) = m"
  by (rule foldl_keep [where P = "\<lambda>f. Q f \<and> may_topic d u t f = m"]) (auto dest: drop_hit_keep)

lemma update_tag_keep:
  assumes "sess Q s" shows "sess Q (snd (update_tag tag tid s))"
proof (cases "t_get (topics (work s)) tid")
  case (Some T)
  show ?thesis
  proof (cases "tag_loop (tp_tags T) (rev (remdups (rev (tag_names tag)))) (work s) []")
    case (Inr p)
    obtain f1 new where p: "p = (f1, new)" by (cases p)
    have "Q f1" using tag_loop_keep [OF Inr [unfolded p]] assms by (simp add: sess_work)
    then have "Q (f1\<lparr>topics := t_upd tid (tp_tags_update (\<lambda>_. rev (remdups (rev new)))) (topics f1)\<rparr>)"
      using keep_retag [of f1 "\<lambda>k _. k = tid" "\<lambda>_. rev (remdups (rev new))"]
      by (cases f1) (simp add: retag_def t_upd_def)
    then have "Q (foldl (\<lambda>f k. if k \<notin> set new then drop_hit k f else f)
        (f1\<lparr>topics := t_upd tid (tp_tags_update (\<lambda>_. rev (remdups (rev new)))) (topics f1)\<rparr>) (tp_tags T))"
      by (rule foldl_keep) (auto dest: drop_hit_keep)
    then show ?thesis using Some Inr p assms
      by (auto simp: update_tag_def Let_def intro!: sess_modify)
  qed (use Some assms in \<open>simp add: update_tag_def\<close>)
qed (use assms in \<open>simp add: update_tag_def\<close>)

lemma f_login_keep:
  "(\<And>u. c_user c = Some u \<Longrightarrow> sess Q (snd (h u c s))) \<Longrightarrow> sess Q s \<Longrightarrow> sess Q (snd (f_login h c s))"
  by (simp add: f_login_def split: option.split)

lemma f_admin_keep:
  "(\<And>u. c_user c = Some u \<Longrightarrow> isadmin d u \<Longrightarrow> sess Q (snd (h c s))) \<Longrightarrow> sess Q s \<Longrightarrow>
   sess Q (snd (f_admin d h c s))"
  by (auto simp: f_admin_def require_permission_def isadmin_def split: option.split)

lemma topic_add_handler:
  assumes s: "sess Q s"
  shows "sess Q (snd (TopicAdd_post d form c s))"
  unfolding TopicAdd_post_def
proof (rule f_login_keep [OF _ s])
  fix u
  assume u: "c_user c = Some u"
  have "sess Q (snd (update_tag (tf_tag form) tid (commit (modify (topics_update
      (t_add (new_topic (c_now c) u cid (tf_name form) (tf_summary form) (tf_body form) ml))) s))))" for tid cid ml
    using s u by (intro update_tag_keep) (auto intro!: sess_modify keep_topic_add dest: sess_work)
  then show "sess Q (snd (case TopicAdd_prepare d u c (work s) of Inl r \<Rightarrow> (r, s) | Inr C \<Rightarrow>
         if TopicForm_validate (work s) form then
           (let cid = (case C of Some (k, _) \<Rightarrow> k | None \<Rightarrow> the (py_int (tf_catalog form)));
                ml = (if get_argument c ''markup_language'' \<in> {None, Some ''WYSIWYM''} then 2 else 1);
                tid = t_newid (topics (work s));
                s1 = commit (modify (topics_update (t_add (new_topic (c_now c) u cid (tf_name form)
                       (tf_summary form) (tf_body form) ml))) s);
                (r, s2) = update_tag (tf_tag form) tid s1
            in case r of Inl e \<Rightarrow> (Raise e, s2) | Inr _ \<Rightarrow> (Redirect ''forum:catalog'' (Some cid), s2))
         else (Render ''forum/topic/edit.html'', s)))"
    using s unfolding Let_def case_prod_beta by (auto split: sum.split)
qed

lemma topic_edit_handler:
  assumes s: "sess Q s"
  shows "sess Q (snd (TopicEdit_post d form c s))"
  unfolding TopicEdit_post_def
proof (rule f_login_keep [OF _ s])
  fix u
  assume u: "c_user c = Some u"
  have "sess Q (snd (update_tag (tf_tag form) k (commit (modify (topics_update (t_upd k (\<lambda>T. T\<lparr>
           tp_catalog_id := cid, tp_name := tf_name form, tp_summary := tf_summary form, tp_body := tf_body form\<rparr>))) s))))"
    if "get_my_topic_byid d u k (work s) = Some T" for k T cid
  proof -
    have "may_topic d u k (work s)"
      using that by (auto simp: get_my_topic_byid_def may_topic_def split: if_splits option.splits)
    then show ?thesis using s u by (intro update_tag_keep) (auto intro!: sess_modify keep_topic_edit dest: sess_work)
  qed
  then show "sess Q (snd (let ID = f_id c ''id'' in
     case get_my_topic_byid d u ID (work s) of
       None \<Rightarrow> (Write ''Can not find topic: %s'' [], s)
     | Some T \<Rightarrow>
         if TopicForm_validate (work s) form then
           (let s1 = commit (modify (topics_update (t_upd ID (\<lambda>T. T\<lparr>
                       tp_catalog_id := the (py_int (tf_catalog form)), tp_name := tf_name form,
                       tp_summary := tf_summary form, tp_body := tf_body form\<rparr>))) s);
                (r, s2) = update_tag (tf_tag form) ID s1
            in case r of Inl e \<Rightarrow> (Raise e, s2) | Inr _ \<Rightarrow> (Redirect ''forum:topic:view'' (Some ID), s2))
         else (Render ''forum/topic/edit.html'', s)))"
    using s unfolding Let_def case_prod_beta by (auto split: sum.split option.split)
qed

lemma topic_delete_handler:
  assumes s: "sess Q s"
  shows "sess Q (snd (TopicDelete_post d c s))"
proof -
  have "Q (topics_update (t_upd k (set_status ''deleted'')) (foldl (\<lambda>f k. drop_hit k f) (work s) (tp_tags T)))"
    if "c_user c = Some u" "t_get (topics (work s)) k = Some T" "tp_user_id T = u \<or> isadmin d u" for u k T
    using drop_hits_keep [of "work s" u k True "tp_tags T"] that s
    by (auto intro!: keep_topic_status simp: sess_work may_topic_def)
  then show ?thesis using s unfolding TopicDelete_post_def
    by (intro f_login_keep) (auto simp: Let_def split: option.split intro!: sess_modify)
qed

lemma reply_handlers:
  assumes "sess Q s"
  shows "sess Q (snd (TopicReply_post body c s))" "sess Q (snd (PostReply_post body c s))"
  using assms unfolding TopicReply_post_def PostReply_post_def
  by (auto simp: TopicReply_prepare_def PostReply_prepare_def Let_def split: option.split sum.split
      intro!: f_login_keep sess_modify keep_post_add dest: sess_work)

lemma vote_handlers:
  assumes "sess Q s"
  shows "sess Q (snd (TopicVote_post c s))" "sess Q (snd (PostVote_post c s))"
  using assms keep_topic_vote [OF sess_work [OF assms]] keep_post_vote [OF sess_work [OF assms]]
  unfolding TopicVote_post_def PostVote_post_def
  by (auto simp: Let_def split: option.split intro!: f_login_keep sess_modify)

lemma other_handlers:
  assumes "sess Q s"
  shows "sess Q (snd (TopicView_get d c s))" "sess Q (snd (PostEdit_post d body c s))"
    "sess Q (snd (ForumCatalogAdd_post d form c s))" "sess Q (snd (ForumCatalogEdit_post d form c s))"
  using assms keep_post_edit [OF sess_work [OF assms]] keep_catalogs [OF sess_work [OF assms]]
  unfolding TopicView_get_def PostEdit_post_def ForumCatalogAdd_post_def ForumCatalogEdit_post_def
  by (auto simp: Let_def sess_work split: option.split intro!: f_login_keep f_admin_keep sess_modify keep_visit)

theorem handle_keep:
  assumes "sess Q s"
  shows "sess Q (snd (handle_forum d q c s))"
  using assms by (cases q)
    (simp_all add: topic_add_handler topic_edit_handler topic_delete_handler reply_handlers vote_handlers other_handlers)

lemma serve_keep:
  assumes "Q f" shows "Q (serve_forum d q c f)"
  using handle_keep [of "open_session f" q] assms
  by (simp add: serve_forum_def sess_def)

end

section \<open>The votes are counted\<close>

definition forum_votes_ok :: "forum \<Rightarrow> bool" where
  "forum_votes_ok f \<longleftrightarrow> votes_ok tp_like tp_unlike tp_user_id (topics f) (topic_votes f) \<and>
     votes_ok ps_like ps_unlike ps_user_id (posts f) (post_votes f)"

interpretation counted: forum_keeper forum_votes_ok d c for d c
proof unfold_locales
  fix f :: forum and u k n T t' vs
  assume "forum_votes_ok f" "t_get (topics f) k = Some T" "tp_user_id T \<noteq> u"
    "cast_vote bump_topic u k n (topics f, topic_votes f) = Some (t', vs)"
  then show "forum_votes_ok (f\<lparr>topics := t', topic_votes := vs\<rparr>)"
    by (auto simp: forum_votes_ok_def intro: topic_ballot.cast_keep)
next
  fix f :: forum and u k n p p' vs
  assume "forum_votes_ok f" "t_get (posts f) k = Some p" "ps_user_id p \<noteq> u"
    "cast_vote bump_post u k n (posts f, post_votes f) = Some (p', vs)"
  then show "forum_votes_ok (f\<lparr>posts := p', post_votes := vs\<rparr>)"
    by (auto simp: forum_votes_ok_def intro: post_ballot.cast_keep)
qed (simp_all add: forum_votes_ok_def retag_def t_upd_def topic_ballot.upd_keep post_ballot.upd_keep
      topic_ballot.add_keep post_ballot.add_keep new_topic_def new_post_def set_status_def)

lemma forum_reach_votes: "forum_reach t0 f0 t f \<Longrightarrow> forum_votes_ok f0 \<Longrightarrow> forum_votes_ok f"
  by (induction rule: forum_reach.induct) (auto intro: counted.serve_keep)

section \<open>The time between posts\<close>

definition posts_spaced :: "int \<Rightarrow> forum_post table \<Rightarrow> bool" where
  "posts_spaced now t \<longleftrightarrow> t_ok t \<and>
     (\<forall>k P. t_get t k = Some P \<longrightarrow> ps_updated P = ps_created P \<and> ps_created P \<le> now) \<and>
     (\<forall>i j P P'. t_get t i = Some P \<longrightarrow> t_get t j = Some P' \<longrightarrow> i \<noteq> j \<longrightarrow>
        ps_user_id P = ps_user_id P' \<longrightarrow> 30 \<le> \<bar>ps_created P - ps_created P'\<bar>)"

lemma cast_vote_rows:
  "cast_vote bump u k n (t, vs) = Some (t', vs') \<Longrightarrow> t' = t \<or> (\<exists>a b. t' = t_upd k (bump a b) t)"
  by (auto simp: cast_vote_def split: option.splits prod.splits if_splits)

lemma spaced_upd:
  assumes "posts_spaced now t"
    and "\<And>p. ps_updated (g p) = ps_updated p \<and> ps_created (g p) = ps_created p \<and> ps_user_id (g p) = ps_user_id p"
  shows "posts_spaced now (t_upd k g t)"
proof -
  have *: "\<exists>q. t_get t i = Some q \<and> ps_updated p = ps_updated q \<and> ps_created p = ps_created q \<and> ps_user_id p = ps_user_id q"
    if "t_get (t_upd k g t) i = Some p" for i p
    using that assms(2) by (auto simp: t_get_upd split: if_splits)
  show ?thesis
    using assms(1) unfolding posts_spaced_def by (auto dest!: *)
qed

lemma spaced_add:
  assumes "posts_spaced (c_now c) (posts f)" and "\<not> too_fast (c_now c) u f"
  shows "posts_spaced (c_now c) (t_add (new_post (c_now c) u tid parent body) (posts f))"
proof -
  have "ps_updated P \<le> c_now c - 30" if "t_get (posts f) k = Some P" "ps_user_id P = u" for k P
    using assms(2) t_get_in [OF that(1)] that(2) by (force simp: too_fast_def t_first_None)
  then have "30 \<le> \<bar>ps_created P - c_now c\<bar>" "30 \<le> \<bar>c_now c - ps_created P\<bar>" if "t_get (posts f) k = Some P" "ps_user_id P = u" for k P
    using that assms(1) by (fastforce simp: posts_spaced_def)+
  with assms(1) show ?thesis
    unfolding posts_spaced_def by (auto simp: t_get_add t_ok_add new_post_def)
qed

lemma spaced_vote:
  "posts_spaced now t \<Longrightarrow> cast_vote bump_post u k n (t, vs) = Some (p', vs') \<Longrightarrow> posts_spaced now p'"
  by (auto simp: bump_post_def intro!: spaced_upd dest!: cast_vote_rows)

interpretation spaced: forum_keeper "\<lambda>f. posts_spaced (c_now c) (posts f)" d c for d c
  by unfold_locales (auto simp: retag_def intro: spaced_add spaced_vote spaced_upd)

lemma forum_reach_spaced: "forum_reach t0 f0 t f \<Longrightarrow> posts_spaced t0 (posts f0) \<Longrightarrow> posts_spaced t (posts f)"
proof (induction rule: forum_reach.induct)
  case (more t f c d q)
  then have "posts_spaced (c_now c) (posts f)" by (fastforce simp: posts_spaced_def)
  then show ?case by (rule spaced.serve_keep)
qed simp

section \<open>What others have written\<close>

text \<open>The rows that the user does not own, as \<open>view\<close> shows them.\<close>

definition others :: "('a \<Rightarrow> bool) \<Rightarrow> ('a \<Rightarrow> 'b) \<Rightarrow> 'a table \<Rightarrow> int \<Rightarrow> 'b option" where
  "others own view t k = (case t_get t k of None \<Rightarrow> None | Some x \<Rightarrow> if own x then None else Some (view x))"

lemma others_add: "t_ok t \<Longrightarrow> own x \<Longrightarrow> others own view (t_add x t) = others own view t"
  using t_get_newid [of t] by (auto simp: others_def t_get_add)

lemma others_same:
  "(\<And>x. own (f x) = own x) \<Longrightarrow> (\<And>x. view (f x) = view x) \<Longrightarrow> others own view (t_upd_where P f t) = others own view t"
  by (auto simp: others_def tb.get_upd split: option.split)

lemma others_own:
  "(\<And>x. t_get t k = Some x \<Longrightarrow> own x) \<Longrightarrow> (\<And>x. own (f x) = own x) \<Longrightarrow>
   others own view (t_upd k f t) = others own view t"
  by (auto simp: others_def t_get_upd split: option.split)

definition topic_text :: "forum_topic \<Rightarrow> forum_topic" where
  "topic_text T = T\<lparr>tp_tags := [], tp_like := 0, tp_unlike := 0, tp_visit := 0\<rparr>"

definition post_text :: "forum_post \<Rightarrow> forum_post" where
  "post_text P = P\<lparr>ps_like := 0, ps_unlike := 0\<rparr>"

definition others_view where
  "others_view cur f =
     (others (\<lambda>T. cur = Some (tp_user_id T)) topic_text (topics f), others (\<lambda>P. cur = Some (ps_user_id P)) post_text (posts f),
      others (\<lambda>v. cur = Some (fv_user_id v)) id (topic_votes f), others (\<lambda>v. cur = Some (fv_user_id v)) id (post_votes f),
      catalogs_f f, forbidden f)"

definition forum_tables_ok :: "forum \<Rightarrow> bool" where
  "forum_tables_ok f \<longleftrightarrow> t_ok (topics f) \<and> t_ok (posts f) \<and> t_ok (topic_votes f) \<and> t_ok (post_votes f)"

lemma cast_vote_votes:
  assumes "cast_vote bump u k n (t, vs) = Some (t', vs')" "t_ok t" "t_ok vs"
  shows "t_ok t' \<and> t_ok vs' \<and> others (\<lambda>v. Some u = Some (fv_user_id v)) id vs' = others (\<lambda>v. Some u = Some (fv_user_id v)) id vs"
proof (cases "t_first (\<lambda>_ v. fv_target v = k \<and> fv_user_id v = u) vs")
  case None
  with assms show ?thesis by (auto simp: cast_vote_def t_ok_add intro!: others_add)
next
  case (Some p)
  obtain i v where p: "p = (i, v)" by (cases p)
  have "t_get vs i = Some v" "fv_user_id v = u"
    using t_first_Some [OF Some [unfolded p]] t_get_iff [OF assms(3)] by auto
  with Some p assms show ?thesis
    by (auto simp: cast_vote_def split: if_splits intro!: others_own)
qed

definition writes_own :: "db \<Rightarrow> ctx \<Rightarrow> forum \<Rightarrow> forum \<Rightarrow> bool" where
  "writes_own d c f0 f \<longleftrightarrow> forum_tables_ok f \<and>
     ((\<forall>u. c_user c = Some u \<longrightarrow> \<not> isadmin d u) \<longrightarrow> others_view (c_user c) f = others_view (c_user c) f0)"

lemma topics_keep_own:
  assumes "writes_own d c f0 f" and "t_ok (g (topics f))" and
    "(\<forall>u. c_user c = Some u \<longrightarrow> \<not> isadmin d u) \<longrightarrow>
      others (\<lambda>T. c_user c = Some (tp_user_id T)) topic_text (g (topics f)) = others (\<lambda>T. c_user c = Some (tp_user_id T)) topic_text (topics f)"
  shows "writes_own d c f0 (topics_update g f)"
  using assms unfolding writes_own_def others_view_def forum_tables_ok_def by auto

lemma posts_keep_own:
  assumes "writes_own d c f0 f" and "t_ok (g (posts f))" and
    "(\<forall>u. c_user c = Some u \<longrightarrow> \<not> isadmin d u) \<longrightarrow>
      others (\<lambda>P. c_user c = Some (ps_user_id P)) post_text (g (posts f)) = others (\<lambda>P. c_user c = Some (ps_user_id P)) post_text (posts f)"
  shows "writes_own d c f0 (posts_update g f)"
  using assms unfolding writes_own_def others_view_def forum_tables_ok_def by auto

lemma tables_of_own: "writes_own d c f0 f \<Longrightarrow> t_ok (topics f) \<and> t_ok (posts f) \<and> t_ok (topic_votes f) \<and> t_ok (post_votes f)"
  by (simp add: writes_own_def forum_tables_ok_def)

lemma topic_vote_own:
  assumes "writes_own d c f0 f" "c_user c = Some u" "cast_vote bump_topic u k n (topics f, topic_votes f) = Some (t', vs)"
  shows "writes_own d c f0 (f\<lparr>topics := t', topic_votes := vs\<rparr>)"
proof -
  have "others (\<lambda>T. c_user c = Some (tp_user_id T)) topic_text t' = others (\<lambda>T. c_user c = Some (tp_user_id T)) topic_text (topics f)"
    using cast_vote_rows [OF assms(3)] by (auto simp: t_upd_def bump_topic_def topic_text_def intro!: others_same)
  with cast_vote_votes [OF assms(3)] assms(1,2) show ?thesis
    by (auto simp: writes_own_def others_view_def forum_tables_ok_def)
qed

lemma post_vote_own:
  assumes "writes_own d c f0 f" "c_user c = Some u" "cast_vote bump_post u k n (posts f, post_votes f) = Some (t', vs)"
  shows "writes_own d c f0 (f\<lparr>posts := t', post_votes := vs\<rparr>)"
proof -
  have "others (\<lambda>P. c_user c = Some (ps_user_id P)) post_text t' = others (\<lambda>P. c_user c = Some (ps_user_id P)) post_text (posts f)"
    using cast_vote_rows [OF assms(3)] by (auto simp: t_upd_def bump_post_def post_text_def intro!: others_same)
  with cast_vote_votes [OF assms(3)] assms(1,2) show ?thesis
    by (auto simp: writes_own_def others_view_def forum_tables_ok_def)
qed

interpretation own_only: forum_keeper "writes_own d c f0" d c for d c f0
proof unfold_locales
  fix f :: forum and u k
  assume f: "writes_own d c f0 f" "c_user c = Some u"
  note ok = tables_of_own [OF f(1)]
  show "writes_own d c f0 (topics_update (t_add (new_topic (c_now c) u cid name summary body ml)) f)" for cid name summary body ml
    using f ok
    by (intro topics_keep_own [OF f(1)]) (auto simp: new_topic_def t_ok_add intro!: others_add)
  show "writes_own d c f0 (posts_update (t_add (new_post (c_now c) u tid parent body)) f)" for tid parent body
    using f ok
    by (intro posts_keep_own [OF f(1)]) (auto simp: new_post_def t_ok_add intro!: others_add)
  show "writes_own d c f0 (catalogs_f_update h f)" if "isadmin d u" for h
    using f that by (auto simp: writes_own_def forum_tables_ok_def)
  show "writes_own d c f0 (posts_update (t_upd k (ps_body_update (\<lambda>_. body))) f)"
    if "t_get (posts f) k = Some p" "ps_user_id p = u \<or> isadmin d u" for body p
    using f ok that
    by (intro posts_keep_own [OF f(1)]) (auto intro!: others_own)
  assume "may_topic d u k f"
  then show "writes_own d c f0 (topics_update (t_upd k (set_status st)) f)" for st
    using f ok
    by (intro topics_keep_own [OF f(1)]) (auto simp: set_status_def may_topic_def intro!: others_own)
  from \<open>may_topic d u k f\<close>
  show "writes_own d c f0 (topics_update (t_upd k (\<lambda>T. T\<lparr>tp_catalog_id := cid, tp_name := name,
        tp_summary := summary, tp_body := body\<rparr>)) f)" for cid name summary body
    using f ok
    by (intro topics_keep_own [OF f(1)]) (auto simp: may_topic_def intro!: others_own)
next
  fix f :: forum
  assume f: "writes_own d c f0 f"
  note ok = tables_of_own [OF f]
  show "writes_own d c f0 (f\<lparr>tags := ts\<rparr>)" for ts
    using f by (simp add: writes_own_def others_view_def forum_tables_ok_def)
  show "writes_own d c f0 (retag P g f)" for P g
    using ok unfolding retag_def
    by (intro topics_keep_own [OF f]) (auto simp: topic_text_def t_ok_upd intro!: others_same)
  show "writes_own d c f0 (topics_update (t_upd k (tp_visit_update (\<lambda>v. v + 1))) f)" for k
    using ok unfolding t_upd_def
    by (intro topics_keep_own [OF f]) (auto simp: topic_text_def t_ok_upd intro!: others_same)
qed (auto intro: topic_vote_own post_vote_own)

section \<open>Properties of the forum\<close>

text \<open>A catalogue, two topics of user 1 with the tag 1, and a post.\<close>

definition topic_ex :: forum_topic where
  "topic_ex = (new_topic 10 1 1 ''a topic'' ''about'' ''text'' 1)\<lparr>tp_tags := [1]\<rparr>"

definition forum_ex :: forum where
  "forum_ex = \<lparr>
     catalogs_f = \<lparr>rows = [(1, \<lparr>fc_parent_id = None, fc_name = ''general'', fc_summary = ''all'', fc_description = [],
       fc_is_private = False, fc_is_visible = True, fc_managers = [], fc_allowed_users = []\<rparr>)], seq = 1\<rparr>,
     topics = \<lparr>rows = [(1, topic_ex), (2, topic_ex)], seq = 2\<rparr>,
     tags = \<lparr>rows = [(1, \<lparr>tg_name = ''cloud'', tg_hit = 2\<rparr>)], seq = 1\<rparr>,
     posts = \<lparr>rows = [(1, new_post 60 2 1 None ''first'')], seq = 1\<rparr>,
     topic_votes = t_empty, post_votes = t_empty, forbidden = []\<rparr>"

lemma forum_ex_ok: "forum_votes_ok forum_ex" "posts_spaced 60 (posts forum_ex)" "forum_tables_ok forum_ex"
  by (auto simp: forum_votes_ok_def votes_ok_def one_vote_def targets_ok_def counters_ok_def posts_spaced_def
      forum_tables_ok_def forum_ex_def topic_ex_def new_topic_def new_post_def t_ok_def t_get_def ups_def downs_def
      t_select_def t_empty_def split: if_splits)

text \<open>
  C21. In every state that requests lead to, the two counters of every topic and of every post are the
  numbers of its positive and of its negative votes, no user has two votes for one row or a vote for
  an own row, and every vote is for a row that exists.
\<close>

theorem forum_votes_exact:
  assumes "forum_reach t0 f0 t f" and "forum_votes_ok f0"
  shows "forum_votes_ok f"
  using forum_reach_votes [OF assms] .

theorem forum_votes_exact_witness:
  "let f1 = serve_forum db_ex ForumTopicVote (ctx_ex 2 [(''id'', ''1''), (''vote'', ''1'')]) forum_ex;
       f2 = serve_forum db_ex ForumTopicVote (ctx_ex 2 [(''id'', ''1''), (''vote'', ''-1'')]) f1
   in forum_votes_ok f2 \<and> map_option tp_like (t_get (topics f1) 1) = Some 1
     \<and> map_option tp_like (t_get (topics f2) 1) = Some 0 \<and> map_option tp_unlike (t_get (topics f2) 1) = Some 1"
proof -
  define f1 where "f1 = serve_forum db_ex ForumTopicVote (ctx_ex 2 [(''id'', ''1''), (''vote'', ''1'')]) forum_ex"
  define f2 where "f2 = serve_forum db_ex ForumTopicVote (ctx_ex 2 [(''id'', ''1''), (''vote'', ''-1'')]) f1"
  have "forum_reach 100 forum_ex 100 f2"
    using forum_reach.more [OF forum_reach.more [OF forum_reach.start [of 100 forum_ex],
        of "ctx_ex 2 [(''id'', ''1''), (''vote'', ''1'')]" db_ex ForumTopicVote],
        of "ctx_ex 2 [(''id'', ''1''), (''vote'', ''-1'')]" db_ex ForumTopicVote]
    by (simp add: f1_def f2_def ctx_ex_def)
  then have "forum_votes_ok f2" using forum_ex_ok(1) by (rule forum_votes_exact)
  moreover have "map_option tp_like (t_get (topics f1) 1) = Some 1"
    "map_option tp_like (t_get (topics f2) 1) = Some 0 \<and> map_option tp_unlike (t_get (topics f2) 1) = Some 1"
    unfolding f1_def f2_def by code_simp+
  ultimately show ?thesis unfolding f2_def f1_def Let_def by blast
qed

text \<open>
  A reply asks neither the catalogue nor the list of forbidden users, and a closed or a deleted topic
  takes replies too.
\<close>

lemma reply_asks_topic_only:
  assumes "c_user c = Some u" "f_id c ''id'' = k" "k \<noteq> 0" "t_get (topics f) k = Some T"
    and "\<not> tp_is_locked T" "tp_is_visible T" "\<not> too_fast (c_now c) u f" "PostForm_validate body"
  shows "serve_forum d (ForumTopicReply body) c f = posts_update (t_add (new_post (c_now c) u k None body)) f"
  using assms by (simp add: serve_forum_def TopicReply_post_def TopicReply_prepare_def f_login_def)

text \<open>
  C23. A user writes at most one post in 30 seconds: whatever requests are sent, two posts of one user
  are created at least 30 seconds apart.
\<close>

theorem forum_post_rate:
  assumes "forum_reach t0 f0 t f" and "posts_spaced t0 (posts f0)"
    and "t_get (posts f) i = Some P" "t_get (posts f) j = Some P'" "i \<noteq> j" "ps_user_id P = ps_user_id P'"
  shows "30 \<le> \<bar>ps_created P - ps_created P'\<bar>"
  using forum_reach_spaced [OF assms(1,2)] assms(3-6) unfolding posts_spaced_def by blast

theorem forum_post_rate_witness:
  "let f = serve_forum db_ex (ForumTopicReply ''second'') (ctx_ex 2 [(''id'', ''1'')]) forum_ex;
       P = new_post 60 2 1 None ''first''; P' = new_post 100 2 1 None ''second''
   in t_get (posts f) 1 = Some P \<and> t_get (posts f) 2 = Some P' \<and> 30 \<le> \<bar>ps_created P - ps_created P'\<bar>"
proof -
  define f where "f = serve_forum db_ex (ForumTopicReply ''second'') (ctx_ex 2 [(''id'', ''1'')]) forum_ex"
  have r: "forum_reach 60 forum_ex 100 f"
    using forum_reach.more [OF forum_reach.start [of 60 forum_ex], of "ctx_ex 2 [(''id'', ''1'')]" db_ex "ForumTopicReply ''second''"]
    by (simp add: f_def ctx_ex_def)
  have "f_id (ctx_ex 2 [(''id'', ''1'')]) ''id'' = 1" by code_simp
  then have "f = posts_update (t_add (new_post 100 2 1 None ''second'')) forum_ex"
    using reply_asks_topic_only [of "ctx_ex 2 [(''id'', ''1'')]" 2 1 forum_ex topic_ex "''second''" db_ex]
    by (simp add: f_def ctx_ex_def forum_ex_def topic_ex_def new_topic_def new_post_def t_get_def too_fast_def t_first_def
        PostForm_validate_def length_between_def)
  then have g: "t_get (posts f) 1 = Some (new_post 60 2 1 None ''first'')"
    "t_get (posts f) 2 = Some (new_post 100 2 1 None ''second'')"
    by (simp_all add: forum_ex_def t_get_def)
  have "30 \<le> \<bar>ps_created (new_post 60 2 1 None ''first'') - ps_created (new_post 100 2 1 None ''second'')\<bar>"
    by (rule forum_post_rate [OF r forum_ex_ok(2) g]) (simp_all add: new_post_def)
  with g show ?thesis unfolding f_def Let_def by blast
qed

text \<open>
  C22. A request of a user without the permission \<open>admin\<close> leaves the forum of the others as it was: the
  same topics and posts with the same text, catalogue, status and flags, the same votes, the same
  catalogues; nothing appears in another user's name. What such a request may change of a foreign topic or
  post is left out of the view: the counters of votes and visits, and the tags of a topic, which are taken
  off when a tag loses its last hit.
\<close>

theorem forum_content_owner:
  assumes "forum_tables_ok f" and "\<forall>u. c_user c = Some u \<longrightarrow> \<not> isadmin d u"
  shows "others_view (c_user c) (serve_forum d q c f) = others_view (c_user c) f"
  using own_only.serve_keep [of d c f f q] assms by (simp add: writes_own_def)

theorem forum_content_owner_witness:
  "let c = ctx_ex 2 [(''id'', ''1'')]; f = serve_forum db_ex ForumTopicDelete c forum_ex
   in others_view (Some 2) f = others_view (Some 2) forum_ex \<and> \<not> isadmin db_ex 2"
proof -
  have "\<not> isadmin db_ex 2" by code_simp
  moreover from this have "others_view (c_user (ctx_ex 2 [(''id'', ''1'')]))
      (serve_forum db_ex ForumTopicDelete (ctx_ex 2 [(''id'', ''1'')]) forum_ex) =
    others_view (c_user (ctx_ex 2 [(''id'', ''1'')])) forum_ex"
    by (intro forum_content_owner forum_ex_ok(3)) (simp add: ctx_ex_def)
  ultimately show ?thesis by (simp add: ctx_ex_def Let_def)
qed

text \<open>
  C39. A topic that is deleted a second time drops the hits of its tags again: of two topics with a tag,
  deleting one of them twice deletes the tag and takes it off the other topic.
\<close>

theorem topic_delete_twice:
  assumes c: "c_user c = Some u" "f_id c ''id'' = k" "k \<noteq> 0"
    and T: "t_get (topics f) k = Some T" "tp_user_id T = u" "tp_tags T = [g]"
    and T2: "t_get (topics f) j = Some T2" "g \<in> set (tp_tags T2)" "j \<noteq> k" "\<not> is_deleted T2"
    and G: "t_ok (tags f)" "t_get (tags f) g = Some G" "tg_hit G = 2"
  shows "t_get (tags (serve_forum d ForumTopicDelete c (serve_forum d ForumTopicDelete c f))) g = None \<and>
    t_get (topics (serve_forum d ForumTopicDelete c (serve_forum d ForumTopicDelete c f))) j
      = Some (T2\<lparr>tp_tags := filter (\<lambda>i. i \<noteq> g) (tp_tags T2)\<rparr>)"
proof -
  define f1 where "f1 = serve_forum d ForumTopicDelete c f"
  have f1: "f1 = f\<lparr>tags := t_upd g (tg_hit_update (\<lambda>h. h - 1)) (tags f), topics := t_upd k (set_status ''deleted'') (topics f)\<rparr>"
    using c T G by (cases f) (simp add: f1_def serve_forum_def TopicDelete_post_def f_login_def drop_hit_def)
  have "serve_forum d ForumTopicDelete c f1 =
      topics_update (t_upd k (set_status ''deleted'')) (delete_tag g f1)"
    using c T G by (simp add: serve_forum_def TopicDelete_post_def f_login_def drop_hit_def f1 set_status_def)
  then show ?thesis using G T2
    by (simp add: delete_tag_def f1_def [symmetric]) (simp add: f1 t_get_del t_get_upd tb.get_upd)
qed

theorem topic_delete_twice_witness:
  "let c = ctx_ex 1 [(''id'', ''1'')]
   in t_get (tags (serve_forum db_ex ForumTopicDelete c (serve_forum db_ex ForumTopicDelete c forum_ex))) 1 = None"
proof -
  have "f_id (ctx_ex 1 [(''id'', ''1'')]) ''id'' = 1" by code_simp
  then show ?thesis
    using topic_delete_twice [of "ctx_ex 1 [(''id'', ''1'')]" 1 1 forum_ex topic_ex 1 2 topic_ex "\<lparr>tg_name = ''cloud'', tg_hit = 2\<rparr>" db_ex]
    by (simp add: ctx_ex_def forum_ex_def topic_ex_def new_topic_def t_get_def t_ok_def is_deleted_def)
qed

text \<open>Without \<open>cid\<close> the form's catalogue is used, and \<open>can_add_topic\<close> is not asked.\<close>

lemma topic_add_unchecked:
  "c_user c = Some u \<Longrightarrow> f_id c ''cid'' = 0 \<Longrightarrow> TopicAdd_prepare d u c f = Inr None"
  by (simp add: TopicAdd_prepare_def)

end
