(* ===== verification/Account.thy ===== *)
theory Account
  imports Myun
begin

text \<open>
  Accounts (\<^verbatim>\<open>lyweb/app/account\<close>, \<^verbatim>\<open>lyweb/app/registration\<close>): logging in and out, lost
  passwords, public keys, e-mail addresses, accounts of other sites (OpenID) and registration.
  Random keys are inputs (\<open>rnd\<close>, \<open>key\<close>); the mails that carry them to the user are left out, and so
  are the picture files of avatars. \<open>lang\<close> is the identity of the language of the request, if it
  has one.
\<close>

record acc_env =
  ae_codec :: codec
  ae_secret :: string

section \<open>Forms\<close>

text \<open>
  The expression \<open>^.+@[^.].*\.[a-z]{2,10}$\<close> of \<open>validators.Email\<close>, without regard to case: a dot
  does not match a line feed, \<open>$\<close> also matches before a final one.
\<close>

definition is_letter :: "char \<Rightarrow> bool" where
  "is_letter c = (let n = of_char c :: nat in (65 \<le> n \<and> n \<le> 90) \<or> (97 \<le> n \<and> n \<le> 122))"

definition one_line :: "string \<Rightarrow> bool" where
  "one_line s = (CHR 0x0A \<notin> set s)"

definition tld_re :: "string \<Rightarrow> bool" where
  "tld_re s = (let t = chop_newline s in 2 \<le> length t \<and> length t \<le> 10 \<and> list_all is_letter t)"

definition splits_at :: "char \<Rightarrow> string \<Rightarrow> (string \<times> string) list" where
  "splits_at c s = map (\<lambda>i. (take i s, drop (i + 1) s)) (filter (\<lambda>i. s ! i = c) [0..<length s])"

definition email_re :: "string \<Rightarrow> bool" where
  "email_re s = list_ex (\<lambda>(a, b). a \<noteq> [] \<and> one_line a \<and>
     (case b of [] \<Rightarrow> False
      | x # r \<Rightarrow> x \<noteq> CHR ''.'' \<and> list_ex (\<lambda>(h, t). one_line h \<and> tld_re t) (splits_at CHR ''.'' r)))
     (splits_at CHR ''@'' s)"

definition email_field :: "string \<Rightarrow> bool" where
  "email_field s = (length_between 6 35 s \<and> email_re s)"

record login_form =
  lf_user :: string
  lf_password :: string

definition login_user :: "db \<Rightarrow> string \<Rightarrow> (int \<times> user) option" where
  "login_user d name =
     (if CHR ''@'' \<in> set name then t_first (\<lambda>_ u. u_email u = Some name) (users d)
      else t_first (\<lambda>_ u. u_username u = name) (users d))"

text \<open>\<open>LoginForm.validate\<close>: the key of \<open>true_user\<close>, when both fields have no error.\<close>

definition LoginForm_validate :: "codec \<Rightarrow> db \<Rightarrow> login_form \<Rightarrow> int option" where
  "LoginForm_validate k d f =
     (case login_user d (lf_user f) of
        None \<Rightarrow> None
      | Some (uid, u) \<Rightarrow>
          if u_is_locked u then None
          else if \<not> check_login_passwd k (lf_password f) (u_password u) then None
          else Some uid)"

record newpass_form =
  np_password :: string
  np_confirm :: string

definition ResetPassForm_validate :: "newpass_form \<Rightarrow> bool" where
  "ResetPassForm_validate f = (length_between 6 120 (np_password f) \<and> np_confirm f = np_password f)"

section \<open>Login and logout\<close>

definition redirect_next :: "ctx \<Rightarrow> string \<Rightarrow> resp" where
  "redirect_next c url =
     (case get_argument c ''next_url'' of None \<Rightarrow> Redirect url None | Some n \<Rightarrow> Redirect (if n = [] then url else n) None)"

definition upd_user :: "int \<Rightarrow> (user \<Rightarrow> user) \<Rightarrow> db \<Rightarrow> db" where
  "upd_user uid f d = users_update (t_upd uid f) d"

definition Login_post :: "acc_env \<Rightarrow> string \<Rightarrow> login_form \<Rightarrow> ctx \<Rightarrow> db session \<Rightarrow> resp \<times> db session" where
  "Login_post e key f c s =
     (case LoginForm_validate (ae_codec e) (work s) f of
        None \<Rightarrow> (Render ''account/login.html'', s)
      | Some uid \<Rightarrow>
          let s1 = save_session (ae_codec e) (ae_secret e) key (c_now c) uid s
          in (redirect_next c ''/'', commit (modify (upd_user uid (u_last_login_update (\<lambda>_. Some (c_now c)))) s1)))"

definition Logout_get :: "string \<Rightarrow> ctx \<Rightarrow> db session \<Rightarrow> resp \<times> db session" where
  "Logout_get cookie = with_login (\<lambda>u c s.
     on_value (delete_session cookie s) s (\<lambda>s1. (Redirect ''/'' None, s1)))"

section \<open>Passwords\<close>

text \<open>
  \<open>ResetPassApply.post\<close>: the filter \<open>UserResetpass.completed is None\<close> is the constant
  \<open>False\<close>, so no earlier application is found and deleted.
\<close>

definition ResetPassApply_post :: "string \<Rightarrow> string \<Rightarrow> ctx \<Rightarrow> db session \<Rightarrow> resp \<times> db session" where
  "ResetPassApply_post key email c s =
     (if email_field email then
        (case t_first (\<lambda>_ u. u_email u = Some (strip email)) (users (work s)) of
           None \<Rightarrow> (RenderErr ''email'' ''Unregistered Mail'', s)
         | Some (uid, _) \<Rightarrow>
             (Render ''account/reset_password_apply_success.html'',
              commit (modify (resetpasses_update (t_add \<lparr>rp_user_id = uid, rp_key = key, rp_created = c_now c\<rparr>)) s)))
      else (Render ''account/reset_password_apply.html'', s))"

definition ResetPass_prepare :: "ctx \<Rightarrow> db \<Rightarrow> resp + (int \<times> resetpass)" where
  "ResetPass_prepare c d =
     (case get_argument c ''key'' of
        None \<Rightarrow> Inl (Render ''account/reset_password_failed.html'')
      | Some key \<Rightarrow>
          if key = [] then Inl (Render ''account/reset_password_failed.html'')
          else (case t_first (\<lambda>_ r. rp_key r = key) (resetpasses d) of
                  None \<Rightarrow> Inl (Render ''account/reset_password_failed.html'')
                | Some r \<Rightarrow> Inr r))"

definition ResetPass_get :: "ctx \<Rightarrow> db session \<Rightarrow> resp \<times> db session" where
  "ResetPass_get c s =
     (case ResetPass_prepare c (work s) of Inl r \<Rightarrow> (r, s) | Inr _ \<Rightarrow> (Render ''account/reset_password.html'', s))"

definition ResetPass_post :: "acc_env \<Rightarrow> string \<Rightarrow> string \<Rightarrow> newpass_form \<Rightarrow> ctx \<Rightarrow> db session \<Rightarrow> resp \<times> db session" where
  "ResetPass_post e rnd key f c s =
     (case ResetPass_prepare c (work s) of
        Inl r \<Rightarrow> (r, s)
      | Inr (k, a) \<Rightarrow>
          if ResetPassForm_validate f then
            (case t_get (users (work s)) (rp_user_id a) of
               None \<Rightarrow> (Raise (AttributeError ''password''), s)
             | Some _ \<Rightarrow>
                 let s1 = commit (modify (resetpasses_update (t_del k) \<circ>
                            upd_user (rp_user_id a) (u_password_update (\<lambda>_. enc_login_passwd (ae_codec e) rnd (np_password f)))) s)
                 in (Redirect ''/'' None, save_session (ae_codec e) (ae_secret e) key (c_now c) (rp_user_id a) s1))
          else (Render ''account/reset_password.html'', s))"

definition ResetMyPass_get :: "ctx \<Rightarrow> db session \<Rightarrow> resp \<times> db session" where
  "ResetMyPass_get = with_login (\<lambda>u c s. (Render ''account/reset_mypass.html'', s))"

definition ResetMyPass_post :: "acc_env \<Rightarrow> string \<Rightarrow> newpass_form \<Rightarrow> ctx \<Rightarrow> db session \<Rightarrow> resp \<times> db session" where
  "ResetMyPass_post e rnd f = with_login (\<lambda>u c s.
     if ResetPassForm_validate f
     then (Redirect ''/account'' None,
           commit (modify (upd_user u (u_password_update (\<lambda>_. enc_login_passwd (ae_codec e) rnd (np_password f)))) s))
     else (Render ''account/reset_mypass.html'', s))"

section \<open>Personal data\<close>

record info_form =
  if_nickname :: string
  if_first_name :: string
  if_last_name :: string
  if_language :: string

text \<open>\<open>BaseInfoEdit\<close>; \<open>langs\<close> are the identities of the offered languages.\<close>

definition BaseInfoForm_validate :: "int list \<Rightarrow> info_form \<Rightarrow> bool" where
  "BaseInfoForm_validate langs f =
     (length_between 1 64 (if_nickname f) \<and> length (if_first_name f) \<le> 32 \<and> length (if_last_name f) \<le> 32 \<and>
      choice_ok (if_language f) langs)"

definition BaseInfoEdit_post :: "int list \<Rightarrow> info_form \<Rightarrow> ctx \<Rightarrow> db session \<Rightarrow> resp \<times> db session" where
  "BaseInfoEdit_post langs f = with_login (\<lambda>u c s.
     if BaseInfoForm_validate langs f
     then (Redirect ''/account'' None,
           commit (modify (upd_user u (\<lambda>x. x\<lparr>u_nickname := Some (strip (if_nickname f)),
             u_first_name := Some (strip (if_first_name f)), u_last_name := Some (strip (if_last_name f)),
             u_language_id := py_int (if_language f)\<rparr>)) s))
     else (Render ''account/baseinfo_edit.html'', s))"

section \<open>Public keys\<close>

record key_form =
  kf_name :: string
  kf_key :: string
  kf_isdefault :: bool

definition PublicKeyForm_validate :: "key_form \<Rightarrow> bool" where
  "PublicKeyForm_validate f = (length_between 1 128 (kf_name f) \<and> length_between 1 1024 (kf_key f))"

definition new_public_key :: "db \<Rightarrow> int \<Rightarrow> string \<Rightarrow> string \<Rightarrow> public_key" where
  "new_public_key d u name key = \<lparr>k_user_id = u, k_name = name, k_data = key,
     k_isdefault = (\<not> list_ex (\<lambda>(_, K). k_isdefault K) (keys_of d u))\<rparr>"

text \<open>\<open>key.set_default()\<close> for the key \<open>k\<close> of the user \<open>u\<close>.\<close>

definition set_default :: "int \<Rightarrow> int \<Rightarrow> db \<Rightarrow> db" where
  "set_default u k d = public_keys_update (t_upd k (k_isdefault_update (\<lambda>_. True)) \<circ>
     t_upd_where (\<lambda>_ K. k_user_id K = u \<and> k_isdefault K) (k_isdefault_update (\<lambda>_. False))) d"

definition PublicKeyAdd_post :: "key_form \<Rightarrow> ctx \<Rightarrow> db session \<Rightarrow> resp \<times> db session" where
  "PublicKeyAdd_post f = with_login (\<lambda>u c s.
     if PublicKeyForm_validate f then
       (let k = t_newid (public_keys (work s));
            s1 = commit (modify (public_keys_update (t_add (new_public_key (work s) u (kf_name f) (kf_key f)))) s);
            s2 = (if kf_isdefault f then modify (set_default u k) s1 else s1)
        in (Redirect ''account:public_key'' None, commit s2))
     else (Render ''account/public_key/edit.html'', s))"

definition PublicKeyHandler_initialize :: "ctx \<Rightarrow> db \<Rightarrow> (resp + (int \<times> public_key)) pyres" where
  "PublicKeyHandler_initialize c d =
     (let ID = arg_id c ''id'' in
      if ID = 0 then Inr (Inl (Write ''Give me the pulic key id please.'' []))
      else case t_get (public_keys d) ID of
        None \<Rightarrow> Inr (Inl (Write ''Can not find public key %s'' [ID]))
      | Some K \<Rightarrow>
          (case c_user c of
             None \<Rightarrow> Inl (AttributeError ''id'')
           | Some u \<Rightarrow> if k_user_id K \<noteq> u then Inr (Inl (Write ''Not you public key.'' [])) else Inr (Inr (ID, K))))"

definition with_key ::
  "(int \<Rightarrow> int \<Rightarrow> public_key \<Rightarrow> ctx \<Rightarrow> db session \<Rightarrow> resp \<times> db session) \<Rightarrow> ctx \<Rightarrow> db session \<Rightarrow> resp \<times> db session" where
  "with_key h c s = on_value (PublicKeyHandler_initialize c (work s)) s (\<lambda>r.
     with_login (\<lambda>u c s. case r of Inl w \<Rightarrow> (w, s) | Inr (k, K) \<Rightarrow> h u k K c s) c s)"

definition PublicKeyEdit_get :: "ctx \<Rightarrow> db session \<Rightarrow> resp \<times> db session" where
  "PublicKeyEdit_get = with_key (\<lambda>u k K c s. (Render ''account/public_key/edit.html'', s))"

definition PublicKeyEdit_post :: "key_form \<Rightarrow> ctx \<Rightarrow> db session \<Rightarrow> resp \<times> db session" where
  "PublicKeyEdit_post f = with_key (\<lambda>u k K c s.
     if PublicKeyForm_validate f then
       if list_ex (\<lambda>(k', _). k' \<noteq> k) (t_select (\<lambda>_ K'. k_data K' = kf_key f) (public_keys (work s)))
       then (RenderErr ''key'' ''This key is exist.'', s)
       else
         (let s1 = modify (public_keys_update (t_upd k (\<lambda>K. K\<lparr>k_name := kf_name f, k_data := kf_key f\<rparr>))) s;
              s2 = (if kf_isdefault f then modify (set_default u k) s1 else s1)
          in (Redirect ''account:public_key'' None, commit s2))
     else (Render ''account/public_key/edit.html'', s))"

definition PublicKeyDelete_get :: "ctx \<Rightarrow> db session \<Rightarrow> resp \<times> db session" where
  "PublicKeyDelete_get = with_key (\<lambda>u k K c s.
     let s1 = commit (modify (public_keys_update (t_del k)) s);
         s2 = (if k_isdefault K
               then (case keys_of (work s1) u of
                       [] \<Rightarrow> commit s1
                     | (k', _) # _ \<Rightarrow> commit (modify (public_keys_update (t_upd k' (k_isdefault_update (\<lambda>_. True)))) s1))
               else s1)
     in (Redirect ''account:public_key'' None, s2))"

section \<open>E-mail addresses\<close>

definition week :: int where "week = 3600 * 24 * 7"

definition new_auth_key :: "int \<Rightarrow> string \<Rightarrow> string \<Rightarrow> int \<Rightarrow> auth_key" where
  "new_auth_key now key data seconds = \<lparr>ak_auth_key = key, ak_auth_data = data, ak_expire_date = now + seconds\<rparr>"

text \<open>The method \<open>get\<close> of \<open>EmailValidate\<close>: a key in the link confirms the address.\<close>

definition EmailValidate_get :: "ctx \<Rightarrow> db session \<Rightarrow> resp \<times> db session" where
  "EmailValidate_get = with_login (\<lambda>u c s.
     case get_argument c ''auth_key'' of
       None \<Rightarrow> (Render ''account/email_validate.html'', s)
     | Some key \<Rightarrow>
         if key = [] then (Render ''account/email_validate.html'', s)
         else
           (case t_first (\<lambda>_ K. ak_auth_key K = key) (auth_keys (work s)) of
              None \<Rightarrow> (Write ''Invalid key: %s'' [], s)
            | Some (k, K) \<Rightarrow>
                if ak_expire_date K < c_now c then (Write ''The key is expired: %s'' [], s)
                else (Redirect ''account'' None,
                      commit (modify (auth_keys_update (t_del k) \<circ>
                        upd_user u (\<lambda>x. x\<lparr>u_email := Some (ak_auth_data K), u_email_valid := True\<rparr>)) s))))"

definition EmailValidate_post :: "string \<Rightarrow> string \<Rightarrow> ctx \<Rightarrow> db session \<Rightarrow> resp \<times> db session" where
  "EmailValidate_post key email = with_login (\<lambda>u c s.
     if email_field email then
       if t_first (\<lambda>k x. k \<noteq> u \<and> u_email x = Some email) (users (work s)) \<noteq> None
       then (RenderErr ''email'' ''This email was used by other people.'', s)
       else
         (case t_get (users (work s)) u of
            None \<Rightarrow> (Raise (AttributeError ''email''), s)
          | Some x \<Rightarrow>
              if u_email x = Some email \<and> u_email_valid x
              then (RenderErr ''email'' ''This email was validate already.'', s)
              else (Render ''account/email_validate_apply_success.html'',
                    commit (modify (auth_keys_update (t_add (new_auth_key (c_now c) key email week))) s)))
     else (Render ''account/email_validate.html'', s))"

section \<open>New users\<close>

text \<open>\<open>User.__init__\<close>; without a language the column gets its default.\<close>

definition new_user :: "int option \<Rightarrow> string \<Rightarrow> string \<Rightarrow> user" where
  "new_user lang name password = \<lparr>u_username = name, u_password = password, u_email = None, u_email_valid = False,
     u_nickname = Some name, u_first_name = None, u_last_name = None, u_is_locked = False, u_notice = 0,
     u_language_id = Some (case lang of None \<Rightarrow> 14 | Some l \<Rightarrow> l), u_last_active = None, u_last_login = None, u_groups = []\<rparr>"

text \<open>\<open>Register\<close>: the first step stores an application, the second one makes the account.\<close>

definition registration_disabled :: "db \<Rightarrow> bool" where
  "registration_disabled d = (case map_of (site_configs d) ''registration.status'' of None \<Rightarrow> False | Some v \<Rightarrow> v \<noteq> ''true'')"

definition post_apply :: "string \<Rightarrow> string \<Rightarrow> bool \<Rightarrow> ctx \<Rightarrow> db session \<Rightarrow> resp \<times> db session" where
  "post_apply key email accept_rules c s =
     (if \<not> (email_field email \<and> accept_rules) then (Render ''registration/apply.html'', s)
      else
        (case t_first (\<lambda>_ r. ra_email r = email) (reg_applies (work s)) of
           Some (k, _) \<Rightarrow>
             (Render ''registration/apply_complete.html'', commit (modify (reg_applies_update (t_upd k (ra_key_update (\<lambda>_. key)))) s))
         | None \<Rightarrow>
             if t_first (\<lambda>_ u. u_email u = Some email) (users (work s)) \<noteq> None
             then (RenderErr ''email'' ''Email (%s) is alreay exist.'', s)
             else (Render ''registration/apply_complete.html'',
                   commit (modify (reg_applies_update (t_add \<lparr>ra_email = email, ra_key = key, ra_created = c_now c\<rparr>)) s))))"

record reg_form =
  rg_username :: string
  rg_password :: string
  rg_confirm :: string

definition RegistrationForm_validate :: "reg_form \<Rightarrow> bool" where
  "RegistrationForm_validate f =
     (length_between 2 21 (rg_username f) \<and> length_between 6 120 (rg_password f) \<and> rg_confirm f = rg_password f)"

definition post_registration ::
  "acc_env \<Rightarrow> int option \<Rightarrow> string \<Rightarrow> string \<Rightarrow> reg_form \<Rightarrow> int \<Rightarrow> reg_apply \<Rightarrow> ctx \<Rightarrow> db session \<Rightarrow> resp \<times> db session" where
  "post_registration e lang rnd key f k a c s =
     (if RegistrationForm_validate f then
        if t_select (\<lambda>_ u. u_username u = rg_username f) (users (work s)) \<noteq> []
        then (RenderErr ''username'' ''Username is occupied.'', s)
        else
          (let uid = t_newid (users (work s));
               u = (new_user lang (rg_username f) (enc_login_passwd (ae_codec e) rnd (rg_password f)))
                     \<lparr>u_email_valid := True, u_email := Some (ra_email a)\<rparr>;
               s1 = commit (modify (reg_applies_update (t_del k) \<circ> users_update (t_add u)) s)
           in on_value (new_profile (work s1) uid) s1 (\<lambda>p.
                let s2 = commit (modify (profiles_update (t_add p)) s1) in
                case init_account (c_now c) uid s2 of
                  (Some ex, s3) \<Rightarrow> (Raise ex, s3)
                | (None, s3) \<Rightarrow> (Redirect ''/'' None, save_session (ae_codec e) (ae_secret e) key (c_now c) uid s3)))
      else (Render ''registration/registration.html'', s))"

definition Register_prepare :: "ctx \<Rightarrow> db \<Rightarrow> resp + (int \<times> reg_apply) option" where
  "Register_prepare c d =
     (if registration_disabled d then Inl (Write ''Registration is disabled now.'' [])
      else case get_argument c ''key'' of
        None \<Rightarrow> if c_post c then Inr None else Inl (Render ''registration/apply.html'')
      | Some key \<Rightarrow>
          if key = [] then (if c_post c then Inr None else Inl (Render ''registration/apply.html''))
          else (case t_first (\<lambda>_ r. ra_key r = key) (reg_applies d) of
                  None \<Rightarrow> Inl (Render ''registration/registration.html'')
                | Some x \<Rightarrow> if c_post c then Inr (Some x) else Inl (Render ''registration/registration.html'')))"

definition Register_post ::
  "acc_env \<Rightarrow> int option \<Rightarrow> string \<Rightarrow> string \<Rightarrow> string \<Rightarrow> bool \<Rightarrow> reg_form \<Rightarrow> ctx \<Rightarrow> db session \<Rightarrow> resp \<times> db session" where
  "Register_post e lang rnd key email accept_rules f c s =
     (case Register_prepare c (work s) of
        Inl r \<Rightarrow> (r, s)
      | Inr None \<Rightarrow> post_apply key email accept_rules c s
      | Inr (Some (k, a)) \<Rightarrow> post_registration e lang rnd key f k a c s)"

section \<open>Accounts of other sites\<close>

text \<open>
  \<open>QQLogin._on_auth\<close> with the \<open>openid\<close> that the other site confirmed (\<open>None\<close> when it did
  not), and \<open>_on_user_info\<close> with its description of a new user (\<open>ret\<close> and the object).
\<close>

definition QQLogin_on_auth :: "acc_env \<Rightarrow> string \<Rightarrow> string \<Rightarrow> string option \<Rightarrow> ctx \<Rightarrow> db session \<Rightarrow> resp option \<times> db session" where
  "QQLogin_on_auth e key akey oid c s =
     (case oid of
        None \<Rightarrow> (Some (Write ''Have not get openid'' []), s)
      | Some x \<Rightarrow>
          if x = [] then (Some (Write ''Have not get openid'' []), s)
          else
            (case t_first (\<lambda>_ v. oi_openid v = x) (openids (work s)) of
               Some (k, v) \<Rightarrow>
                 if truthy_int (oi_user_id v) then
                   (let uid = the (oi_user_id v); s1 = save_session (ae_codec e) (ae_secret e) key (c_now c) uid s in
                    if t_get (users (work s1)) uid = None then (Some (Raise (AttributeError ''last_login'')), s1)
                    else (Some (Redirect ''/'' None),
                          commit (modify (upd_user uid (u_last_login_update (\<lambda>_. Some (c_now c)))) s1)))
                 else (Some (Render ''account/openid_success.html''),
                       commit (modify (auth_keys_update (t_add (new_auth_key (c_now c) akey (oi_openid v) week))) s))
             | None \<Rightarrow> (None, s)))"

definition QQLogin_on_user_info :: "string \<Rightarrow> string \<Rightarrow> json \<Rightarrow> dict \<Rightarrow> ctx \<Rightarrow> db session \<Rightarrow> resp \<times> db session" where
  "QQLogin_on_user_info akey oid ret data c s =
     (if ret \<noteq> JInt 0 then (Write ''QQ auth failed: %s'' [], s)
      else
        (let s1 = commit (modify (openids_update (t_add \<lparr>oi_user_id = None, oi_openid = oid, oi_type = 1,
                            oi_config = Some [(''get_user_info'', JObj data)]\<rparr>)) s);
             s2 = commit (modify (auth_keys_update (t_add (new_auth_key (c_now c) akey oid week))) s1)
         in (Render ''account/openid_success.html'', s2)))"

text \<open>\<open>OpenIDHandler.initialize\<close>: the key of the link and the identity must belong together.\<close>

definition OpenIDHandler_initialize :: "ctx \<Rightarrow> db \<Rightarrow> resp + (int \<times> auth_key \<times> int \<times> openid)" where
  "OpenIDHandler_initialize c d =
     (case get_argument c ''auth_key'' of
        None \<Rightarrow> Inl (Write ''No auth key'' [])
      | Some key \<Rightarrow>
          if key = [] then Inl (Write ''No auth key'' [])
          else
            (case t_first (\<lambda>_ K. ak_auth_key K = key) (auth_keys d) of
               None \<Rightarrow> Inl (Write ''Invalid key: %s'' [])
             | Some (k, K) \<Rightarrow>
                 let ID = arg_id c ''openid'' in
                 if ID = 0 then Inl (Write ''No openid'' [])
                 else
                   (case t_get (openids d) ID of
                      None \<Rightarrow> Inl (Write ''Invalid openid %s'' [ID])
                    | Some v \<Rightarrow>
                        if ak_auth_data K \<noteq> oi_openid v then Inl (Write ''auth key and openid not match.'' [])
                        else Inr (k, K, ID, v))))"

text \<open>\<open>get_user_info.get('nickname', dflt)\<close> as the text column takes it.\<close>

definition openid_nickname :: "openid \<Rightarrow> string option \<Rightarrow> string option pyres" where
  "openid_nickname v dflt =
     (case oi_config v of
        None \<Rightarrow> Inl TypeError
      | Some conf \<Rightarrow>
          (case d_get ''get_user_info'' (JObj []) conf of
             JObj info \<Rightarrow> 
               (case map_of info ''nickname'' of
                  None \<Rightarrow> Inr dflt
                | Some JNull \<Rightarrow> Inr None
                | Some (JStr n) \<Rightarrow> Inr (Some n)
                | Some (JInt i) \<Rightarrow> Inr (Some (show_int i))
                | Some (JBool b) \<Rightarrow> Inr (Some (if b then ''true'' else ''false''))
                | Some _ \<Rightarrow> Inl TypeError)
           | _ \<Rightarrow> Inl (AttributeError ''get'')))"

record openid_form =
  of_email :: string
  of_username :: string
  of_password :: string
  of_confirm :: string

definition OpenIDNewForm_validate :: "db \<Rightarrow> openid_form \<Rightarrow> bool" where
  "OpenIDNewForm_validate d f =
     (email_field (of_email f) \<and> length_between 2 21 (of_username f) \<and> length_between 6 120 (of_password f) \<and>
      of_confirm f = of_password f \<and> t_first (\<lambda>_ u. u_email u = Some (of_email f)) (users d) = None \<and>
      t_first (\<lambda>_ u. u_username u = of_username f) (users d) = None)"

definition OpenIDUserNew_post ::
  "acc_env \<Rightarrow> int option \<Rightarrow> string \<Rightarrow> string \<Rightarrow> openid_form \<Rightarrow> ctx \<Rightarrow> db session \<Rightarrow> resp \<times> db session" where
  "OpenIDUserNew_post e lang rnd key f c s =
     (case OpenIDHandler_initialize c (work s) of
        Inl r \<Rightarrow> (r, s)
      | Inr (k, K, oid, v) \<Rightarrow>
          if OpenIDNewForm_validate (work s) f then
            on_value (openid_nickname v (Some (of_username f))) s (\<lambda>nick.
              let uid = t_newid (users (work s));
                  u = (new_user lang (of_username f) (enc_login_passwd (ae_codec e) rnd (of_password f)))
                        \<lparr>u_nickname := nick, u_email := Some (of_email f)\<rparr>;
                  s1 = commit (modify (users_update (t_add u)) s)
              in case init_account (c_now c) uid s1 of
                   (Some ex, s2) \<Rightarrow> (Raise ex, s2)
                 | (None, s2) \<Rightarrow>
                     let s3 = commit (modify (openids_update (t_upd oid (oi_user_id_update (\<lambda>_. Some uid))) \<circ>
                                upd_user uid (u_last_login_update (\<lambda>_. Some (c_now c)))) s2);
                         s4 = save_session (ae_codec e) (ae_secret e) key (c_now c) uid s3
                     in (redirect_next c ''/account'', commit (modify (auth_keys_update (t_del k)) s4)))
          else (Render ''account/openid_user_new.html'', s))"

definition OpenIDUserBinding_post :: "acc_env \<Rightarrow> string \<Rightarrow> login_form \<Rightarrow> ctx \<Rightarrow> db session \<Rightarrow> resp \<times> db session" where
  "OpenIDUserBinding_post e key f c s =
     (case OpenIDHandler_initialize c (work s) of
        Inl r \<Rightarrow> (r, s)
      | Inr (k, K, oid, v) \<Rightarrow>
          (case LoginForm_validate (ae_codec e) (work s) f of
             None \<Rightarrow> (Render ''account/openid_user_binding.html'', s)
           | Some uid \<Rightarrow>
               let x = the (t_get (users (work s)) uid);
                   s0 = modify (openids_update (t_upd oid (oi_user_id_update (\<lambda>_. Some uid)))) s
               in on_value (if u_nickname x \<in> {None, Some [], Some (u_username x)}
                            then openid_nickname v (Some (u_username x)) else Inr (u_nickname x)) s0 (\<lambda>nick.
                    let s1 = modify (upd_user uid (u_nickname_update (\<lambda>_. nick))) s0;
                        s2 = save_session (ae_codec e) (ae_secret e) key (c_now c) uid s1
                    in (redirect_next c ''/'', commit (modify (auth_keys_update (t_del k)) s2)))))"

section \<open>Requests\<close>

datatype account_request =
    UserLogin string login_form
  | Logout string
  | ResetPassApply string string
  | ResetPass string string newpass_form
  | ResetMyPass string newpass_form
  | BaseInfoEdit "int list" info_form
  | PublicKeyAdd key_form
  | PublicKeyEdit key_form
  | PublicKeyDelete
  | EmailConfirm
  | EmailValidate string string
  | Register "int option" string string string bool reg_form
  | OpenIDUserNew "int option" string string openid_form
  | OpenIDUserBinding string login_form
  | QQAuth string string "string option"
  | QQUserInfo string string json dict

fun handle_account :: "acc_env \<Rightarrow> account_request \<Rightarrow> ctx \<Rightarrow> db session \<Rightarrow> resp \<times> db session" where
  "handle_account e (UserLogin key f) c s = Login_post e key f c s"
| "handle_account e (Logout cookie) c s = Logout_get cookie c s"
| "handle_account e (ResetPassApply key email) c s = ResetPassApply_post key email c s"
| "handle_account e (ResetPass rnd key f) c s = ResetPass_post e rnd key f c s"
| "handle_account e (ResetMyPass rnd f) c s = ResetMyPass_post e rnd f c s"
| "handle_account e (BaseInfoEdit langs f) c s = BaseInfoEdit_post langs f c s"
| "handle_account e (PublicKeyAdd f) c s = PublicKeyAdd_post f c s"
| "handle_account e (PublicKeyEdit f) c s = PublicKeyEdit_post f c s"
| "handle_account e PublicKeyDelete c s = PublicKeyDelete_get c s"
| "handle_account e EmailConfirm c s = EmailValidate_get c s"
| "handle_account e (EmailValidate key email) c s = EmailValidate_post key email c s"
| "handle_account e (Register lang rnd key email ok f) c s = Register_post e lang rnd key email ok f c s"
| "handle_account e (OpenIDUserNew lang rnd key f) c s = OpenIDUserNew_post e lang rnd key f c s"
| "handle_account e (OpenIDUserBinding key f) c s = OpenIDUserBinding_post e key f c s"
| "handle_account e (QQAuth key akey oid) c s =
     (case QQLogin_on_auth e key akey oid c s of (r, s') \<Rightarrow> (case r of None \<Rightarrow> Render [] | Some x \<Rightarrow> x, s'))"
| "handle_account e (QQUserInfo akey oid ret data) c s = QQLogin_on_user_info akey oid ret data c s"

end
