(* ===== verification/Site.thy ===== *)
theory Site
  imports Account
begin

text \<open>
  The pages of the site (\<^verbatim>\<open>lyweb/app/site\<close>): navigation, entries with an article for each language, the
  configuration and its translated part; the settings of the system (\<^verbatim>\<open>lyweb/app/system\<close>); and the
  front page that shows an article (\<^verbatim>\<open>lyweb/app/home\<close>). The tables are a record of their own; users and permissions are read from the
  database \<open>d\<close>. The table of the configuration is kept here row by row; \<open>config_of\<close> is the association
  that \<open>Schema\<close> has of it. Identifiers in a URL are numbers; the JSON list of an argument comes
  decoded, \<open>None\<close> where decoding raises, and the lists of the answers are left out.
\<close>

section \<open>Tables (models.py)\<close>

record language =
  lg_name :: string
  lg_codename :: string

record site_nav =
  nv_type :: int
  nv_position :: int
  nv_language_id :: "int option"
  nv_name :: string
  nv_url :: string
  nv_target :: string
  nv_summary :: string
  nv_isnewopen :: bool

record site_entry =
  en_slug :: string

record site_article =
  ar_language_id :: int
  ar_entry_id :: int
  ar_name :: string
  ar_summary :: string
  ar_body :: string
  ar_is_visible :: bool

record site_config =
  sc_key :: string
  sc_value :: string

record site_locale_config =
  lc_language_id :: int
  lc_key :: string
  lc_value :: string

text \<open>\<open>LuoYunConfig\<close> (\<open>st_luoyun\<close>) has a key and a value as \<open>SiteConfig\<close> has.\<close>

record site =
  st_languages :: "language table"
  st_navs :: "site_nav table"
  st_entries :: "site_entry table"
  st_articles :: "site_article table"
  st_configs :: "site_config table"
  st_locale_configs :: "site_locale_config table"
  st_luoyun :: "site_config table"

definition nav_type_str :: "site_nav \<Rightarrow> string" where
  "nav_type_str N = (if nv_type N = 1 then ''URL'' else ''Unknown'')"

text \<open>\<open>get\<close> and \<open>set\<close> of \<open>SiteConfig\<close> and of \<open>SiteLocaleConfig\<close>, without the commit of \<open>set\<close>.\<close>

definition site_config_get :: "site \<Rightarrow> string \<Rightarrow> string option \<Rightarrow> string option" where
  "site_config_get x key dflt =
     (case t_first (\<lambda>_ C. sc_key C = key) (st_configs x) of None \<Rightarrow> dflt | Some (_, C) \<Rightarrow> Some (sc_value C))"

definition put_row :: "string \<Rightarrow> string \<Rightarrow> site_config table \<Rightarrow> site_config table" where
  "put_row key value t =
     (case t_first (\<lambda>_ C. sc_key C = key) t of
        Some (k, _) \<Rightarrow> t_upd k (\<lambda>C. C\<lparr>sc_value := value\<rparr>) t
      | None \<Rightarrow> t_add \<lparr>sc_key = key, sc_value = value\<rparr> t)"

definition site_config_put :: "string \<Rightarrow> string \<Rightarrow> site \<Rightarrow> site" where
  "site_config_put key value = st_configs_update (put_row key value)"

definition locale_config_get :: "site \<Rightarrow> string \<Rightarrow> int \<Rightarrow> string option \<Rightarrow> string option" where
  "locale_config_get x key lid dflt =
     (case t_first (\<lambda>_ C. lc_key C = key \<and> lc_language_id C = lid) (st_locale_configs x) of
        None \<Rightarrow> dflt | Some (_, C) \<Rightarrow> Some (lc_value C))"

definition locale_config_put :: "string \<Rightarrow> string \<Rightarrow> int \<Rightarrow> site \<Rightarrow> site" where
  "locale_config_put key value lid x =
     (case t_first (\<lambda>_ C. lc_key C = key \<and> lc_language_id C = lid) (st_locale_configs x) of
        Some (k, _) \<Rightarrow> x\<lparr>st_locale_configs := t_upd k (\<lambda>C. C\<lparr>lc_value := value, lc_language_id := lid\<rparr>) (st_locale_configs x)\<rparr>
      | None \<Rightarrow> x\<lparr>st_locale_configs :=
          t_add \<lparr>lc_language_id = lid, lc_key = key, lc_value = value\<rparr> (st_locale_configs x)\<rparr>)"

section \<open>Forms\<close>

text \<open>The languages of \<^verbatim>\<open>settings.LANGUAGES\<close> that are in the table.\<close>

definition LANGUAGES :: "string list" where
  "LANGUAGES = [''en_US'', ''zh_CN'']"

definition language_list :: "site \<Rightarrow> string list" where
  "language_list x = concat (map (\<lambda>codename.
     case t_first (\<lambda>_ L. lg_codename L = codename) (st_languages x) of None \<Rightarrow> [] | Some (k, _) \<Rightarrow> [show_int k]) LANGUAGES)"

definition entries_list :: "site \<Rightarrow> string list" where
  "entries_list x = map (\<lambda>(k, _). show_int k) (rows (st_entries x))"

record nav_form =
  nf_language :: string
  nf_name :: string
  nf_type :: string
  nf_target :: string
  nf_summary :: string
  nf_isnewopen :: bool

definition SiteNavForm_ok :: "site \<Rightarrow> nav_form \<Rightarrow> bool" where
  "SiteNavForm_ok x f \<longleftrightarrow> nf_language f \<in> set (language_list x) \<and> length_between 2 64 (nf_name f) \<and>
     nf_type f = ''1'' \<and> length_between 1 64 (nf_target f) \<and> length_between 2 256 (nf_summary f)"

record article_form =
  af_entry :: string
  af_language :: string
  af_name :: string
  af_summary :: string
  af_body :: string
  af_is_visible :: bool

definition ArticleEditForm_ok :: "article_form \<Rightarrow> bool" where
  "ArticleEditForm_ok f \<longleftrightarrow> length_between 2 64 (af_name f) \<and> length (af_summary f) \<le> 256 \<and> length (af_body f) \<le> 10240"

definition ArticleForm_ok :: "site \<Rightarrow> article_form \<Rightarrow> bool" where
  "ArticleForm_ok x f \<longleftrightarrow> af_entry f \<in> set (entries_list x) \<and> af_language f \<in> set (language_list x) \<and> ArticleEditForm_ok f"

definition SiteConfigForm_ok :: "string \<Rightarrow> string \<Rightarrow> bool" where
  "SiteConfigForm_ok key value \<longleftrightarrow> length_between 2 256 key \<and> length value \<le> 1024"

section \<open>Handlers (admin\_views.py)\<close>

definition site_admin ::
  "db \<Rightarrow> (ctx \<Rightarrow> site session \<Rightarrow> resp \<times> site session) \<Rightarrow> ctx \<Rightarrow> site session \<Rightarrow> resp \<times> site session" where
  "site_admin d h c s = (case require_permission ''admin'' c d of Some r \<Rightarrow> (r, s) | None \<Rightarrow> h c s)"

text \<open>\<open>get_int\<close> of a field; \<open>get_entry_url\<close> knows one type.\<close>

definition field_int :: "string \<Rightarrow> int" where
  "field_int t = (case get_int t (Some 0) of None \<Rightarrow> 0 | Some n \<Rightarrow> n)"

definition get_entry_url :: "nav_form \<Rightarrow> string option" where
  "get_entry_url f = (if field_int (nf_type f) = 1 then Some (nf_target f) else None)"

definition NavAdd_post :: "db \<Rightarrow> nav_form \<Rightarrow> ctx \<Rightarrow> site session \<Rightarrow> resp \<times> site session" where
  "NavAdd_post d f = site_admin d (\<lambda>c s.
     if SiteNavForm_ok (work s) f \<and> truthy_str (get_entry_url f) then
       (let ID = field_int (nf_language f);
            lid = (if t_get (st_languages (work s)) ID = None then None else Some ID)
        in (Redirect ''admin:site:nav'' None,
            commit (modify (st_navs_update (t_add \<lparr>nv_type = field_int (nf_type f), nv_position = 0,
              nv_language_id = lid, nv_name = nf_name f, nv_url = the (get_entry_url f), nv_target = nf_target f,
              nv_summary = nf_summary f, nv_isnewopen = nf_isnewopen f\<rparr>)) s)))
     else (Render ''admin/site/nav_add.html'', s))"

definition NavEdit_post :: "db \<Rightarrow> int \<Rightarrow> nav_form \<Rightarrow> ctx \<Rightarrow> site session \<Rightarrow> resp \<times> site session" where
  "NavEdit_post d ID f = site_admin d (\<lambda>c s.
     case t_get (st_navs (work s)) ID of
       None \<Rightarrow> (Write ''No such entry: %s'' [ID], s)
     | Some N \<Rightarrow>
         if SiteNavForm_ok (work s) f \<and> truthy_str (get_entry_url f) then
           (Redirect ''admin:site:nav'' None,
            commit (modify (st_navs_update (t_upd ID (\<lambda>N. N\<lparr>nv_url := the (get_entry_url f), nv_type := field_int (nf_type f),
              nv_language_id := Some (field_int (nf_language f)), nv_name := nf_name f, nv_target := nf_target f,
              nv_isnewopen := nf_isnewopen f, nv_summary := nf_summary f\<rparr>))) s))
         else (Render ''admin/site/nav_edit.html'', s))"

definition ajaxNavDelete_post :: "db \<Rightarrow> int list option \<Rightarrow> ctx \<Rightarrow> site session \<Rightarrow> resp \<times> site session" where
  "ajaxNavDelete_post d ids = site_admin d (\<lambda>c s.
     case ids of
       None \<Rightarrow> (Raise ValueError, s)
     | Some is \<Rightarrow> (Write ''return_code'' [0],
         commit (modify (st_navs_update (\<lambda>t. foldl (\<lambda>t i. t_del i t) t is)) s)))"

definition ajaxNavPositionAdjust_post :: "db \<Rightarrow> int list option \<Rightarrow> ctx \<Rightarrow> site session \<Rightarrow> resp \<times> site session" where
  "ajaxNavPositionAdjust_post d ids = site_admin d (\<lambda>c s.
     case ids of
       None \<Rightarrow> (Raise ValueError, s)
     | Some is \<Rightarrow>
         (let plus = (case get_argument_int c ''plus'' (Some 0) of None \<Rightarrow> 0 | Some n \<Rightarrow> n)
          in (Write ''return_code'' [0],
              commit (modify (st_navs_update (\<lambda>t. foldl (\<lambda>t i. t_upd i (nv_position_update (\<lambda>p. p + plus)) t) t is)) s))))"

definition EntryAdd_post :: "db \<Rightarrow> string \<Rightarrow> ctx \<Rightarrow> site session \<Rightarrow> resp \<times> site session" where
  "EntryAdd_post d slug = site_admin d (\<lambda>c s.
     if length_between 1 64 slug then
       if t_select (\<lambda>_ E. en_slug E = slug) (st_entries (work s)) \<noteq> [] then (Render ''admin/site/entry_add.html'', s)
       else (Redirect ''admin:site:entry'' None, commit (modify (st_entries_update (t_add \<lparr>en_slug = slug\<rparr>)) s))
     else (Render ''admin/site/entry_add.html'', s))"

definition EntryEdit_post :: "db \<Rightarrow> int \<Rightarrow> string \<Rightarrow> ctx \<Rightarrow> site session \<Rightarrow> resp \<times> site session" where
  "EntryEdit_post d ID slug = site_admin d (\<lambda>c s.
     case t_get (st_entries (work s)) ID of
       None \<Rightarrow> (Write ''No such entry: %s'' [ID], s)
     | Some E \<Rightarrow>
         if length_between 1 64 slug then
           (case t_first (\<lambda>_ E. en_slug E = slug) (st_entries (work s)) of
              Some (k, _) \<Rightarrow>
                if k \<noteq> ID then (Render ''admin/site/entry_edit.html'', s)
                else (Redirect ''admin:site:entry'' None,
                      commit (modify (st_entries_update (t_upd ID (en_slug_update (\<lambda>_. slug)))) s))
            | None \<Rightarrow> (Redirect ''admin:site:entry'' None,
                      commit (modify (st_entries_update (t_upd ID (en_slug_update (\<lambda>_. slug)))) s)))
         else (Render ''admin/site/entry_edit.html'', s))"

definition delete_entry :: "int \<Rightarrow> site \<Rightarrow> site" where
  "delete_entry i x =
     (if t_select (\<lambda>_ A. ar_entry_id A = i) (st_articles x) = [] then x\<lparr>st_entries := t_del i (st_entries x)\<rparr> else x)"

definition ajaxEntryDelete_post :: "db \<Rightarrow> int list option \<Rightarrow> ctx \<Rightarrow> site session \<Rightarrow> resp \<times> site session" where
  "ajaxEntryDelete_post d ids = site_admin d (\<lambda>c s.
     case ids of
       None \<Rightarrow> (Raise ValueError, s)
     | Some is \<Rightarrow> (Write ''return_code'' [0], commit (modify (\<lambda>x. foldl (\<lambda>x i. delete_entry i x) x is) s)))"

definition ArticleAdd_post :: "db \<Rightarrow> article_form \<Rightarrow> ctx \<Rightarrow> site session \<Rightarrow> resp \<times> site session" where
  "ArticleAdd_post d f = site_admin d (\<lambda>c s.
     if ArticleForm_ok (work s) f then
       (let eid = field_int (af_entry f); lid = field_int (af_language f) in
        if t_get (st_entries (work s)) eid = None \<or> t_get (st_languages (work s)) lid = None
        then (Render ''admin/site/article_add.html'', s)
        else case t_first (\<lambda>_ A. ar_entry_id A = eid \<and> ar_language_id A = lid) (st_articles (work s)) of
          Some _ \<Rightarrow> (Render ''admin/site/article_add.html'', s)
        | None \<Rightarrow> (Redirect ''admin:site:article'' None,
            commit (modify (st_articles_update (t_add \<lparr>ar_language_id = lid, ar_entry_id = eid, ar_name = af_name f,
              ar_summary = af_summary f, ar_body = af_body f, ar_is_visible = True\<rparr>)) s)))
     else (Render ''admin/site/article_add.html'', s))"

definition ArticleEdit_post :: "db \<Rightarrow> int \<Rightarrow> article_form \<Rightarrow> ctx \<Rightarrow> site session \<Rightarrow> resp \<times> site session" where
  "ArticleEdit_post d ID f = site_admin d (\<lambda>c s.
     case t_get (st_articles (work s)) ID of
       None \<Rightarrow> (Write ''No such article: %s'' [ID], s)
     | Some A \<Rightarrow>
         if ArticleEditForm_ok f then
           (Redirect ''admin:site:article'' None,
            commit (modify (st_articles_update (t_upd ID (\<lambda>A. A\<lparr>ar_name := af_name f, ar_summary := af_summary f,
              ar_body := af_body f, ar_is_visible := af_is_visible f\<rparr>))) s))
         else (Render ''admin/site/article_edit.html'', s))"

definition ajaxArticleDelete_post :: "db \<Rightarrow> int list option \<Rightarrow> ctx \<Rightarrow> site session \<Rightarrow> resp \<times> site session" where
  "ajaxArticleDelete_post d ids = site_admin d (\<lambda>c s.
     case ids of
       None \<Rightarrow> (Raise ValueError, s)
     | Some is \<Rightarrow> (Write ''return_code'' [0],
         commit (modify (st_articles_update (\<lambda>t. foldl (\<lambda>t i. t_del i t) t is)) s)))"

definition ConfigEdit_post :: "db \<Rightarrow> string \<Rightarrow> string \<Rightarrow> ctx \<Rightarrow> site session \<Rightarrow> resp \<times> site session" where
  "ConfigEdit_post d key value_text = site_admin d (\<lambda>c s.
     if SiteConfigForm_ok key value_text then
       (redirect_next c ''admin:site:config'',
        commit (modify (site_config_put (strip key) (strip value_text)) s))
     else (Render ''admin/site/config/edit.html'', s))"

definition ConfigDelete_get :: "db \<Rightarrow> ctx \<Rightarrow> site session \<Rightarrow> resp \<times> site session" where
  "ConfigDelete_get d = site_admin d (\<lambda>c s.
     let key = get_argument c ''key'' in
     if \<not> truthy_str key then (Write ''No config key found.'' [], s)
     else case t_first (\<lambda>_ C. sc_key C = the key) (st_configs (work s)) of
       Some (k, _) \<Rightarrow> (redirect_next c ''admin:site:config'', commit (modify (st_configs_update (t_del k)) s))
     | None \<Rightarrow> (Write ''No such config for key: %s'' [], s))"

definition LocaleConfigEdit_post ::
  "db \<Rightarrow> string \<Rightarrow> string \<Rightarrow> string \<Rightarrow> ctx \<Rightarrow> site session \<Rightarrow> resp \<times> site session" where
  "LocaleConfigEdit_post d lang key value_text = site_admin d (\<lambda>c s.
     if lang \<in> set (language_list (work s)) \<and> SiteConfigForm_ok key value_text then
       (redirect_next c ''admin:site:localeconfig'',
        commit (modify (locale_config_put (strip key) (strip value_text) (field_int lang)) s))
     else (Render ''admin/site/localeconfig/edit.html'', s))"

definition LocaleConfigDelete_get :: "db \<Rightarrow> int \<Rightarrow> ctx \<Rightarrow> site session \<Rightarrow> resp \<times> site session" where
  "LocaleConfigDelete_get d ID = site_admin d (\<lambda>c s.
     case t_get (st_locale_configs (work s)) ID of
       Some _ \<Rightarrow> (redirect_next c ''admin:site:localeconfig'', commit (modify (st_locale_configs_update (t_del ID)) s))
     | None \<Rightarrow> (Write ''No such locale config : %s'' [ID], s))"

section \<open>Settings of the system (lyweb/app/system)\<close>

text \<open>
  JSON, Markdown and the parser of addresses of the library IPy are parameters. \<open>sx_update_error v\<close> is what
  the update of a dictionary with \<open>json.loads(v)\<close> raises, if it does: for a text that is no JSON, and for one
  that is no dictionary (nor a list of pairs).
\<close>

record sys_env =
  sx_dumps :: "(string \<times> string) list \<Rightarrow> string"
  sx_is_json :: "string \<Rightarrow> bool"
  sx_update_error :: "string \<Rightarrow> pyexn option"
  sx_markdown :: "string \<Rightarrow> string"
  sx_ip_ok :: "string \<Rightarrow> bool"

text \<open>\<open>OpenINI\<close> takes one argument and gets two: the pages that edit the INI file raise.\<close>

definition ini_edit :: "db \<Rightarrow> ctx \<Rightarrow> site session \<Rightarrow> resp \<times> site session" where
  "ini_edit d = site_admin d (\<lambda>c s. (Raise TypeError, s))"

definition NameserversEdit_post :: "sys_env \<Rightarrow> db \<Rightarrow> string \<Rightarrow> ctx \<Rightarrow> site session \<Rightarrow> resp \<times> site session" where
  "NameserversEdit_post e d nameservers = site_admin d (\<lambda>c s.
     if list_all (sx_ip_ok e) (split_ws nameservers) then
       (Render ''system/nameservers_edit.html'', commit (modify (st_luoyun_update (put_row ''nameservers'' nameservers)) s))
     else (Render ''system/nameservers_edit.html'', s))"

text \<open>\<open>RegistrationProtocolEdit\<close> and \<open>WelcomeNewUserEdit\<close> store a text and its HTML under their key.\<close>

definition text_edit :: "sys_env \<Rightarrow> string \<Rightarrow> string \<Rightarrow> db \<Rightarrow> string \<Rightarrow> ctx \<Rightarrow> site session \<Rightarrow> resp \<times> site session" where
  "text_edit e key template d body = site_admin d (\<lambda>c s.
     if length_between 6 12000 body then
       (Render template, commit (modify (st_luoyun_update
          (put_row key (sx_dumps e [(''text'', body), (''html'', sx_markdown e body)]))) s))
     else (Render template, s))"

definition RegistrationProtocolEdit_post :: "sys_env \<Rightarrow> db \<Rightarrow> string \<Rightarrow> ctx \<Rightarrow> site session \<Rightarrow> resp \<times> site session" where
  "RegistrationProtocolEdit_post e = text_edit e ''protocol'' ''system/registration_protocol_edit.html''"

definition WelcomeNewUserEdit_post :: "sys_env \<Rightarrow> db \<Rightarrow> string \<Rightarrow> ctx \<Rightarrow> site session \<Rightarrow> resp \<times> site session" where
  "WelcomeNewUserEdit_post e = text_edit e ''welcome_new_user'' ''system/welcome_new_user_edit.html''"

text \<open>Both read the old value as JSON before they do anything, and the first updates a dictionary with it; the fields of the forms (here as text) are free.\<close>

definition NginxEdit_post ::
  "sys_env \<Rightarrow> db \<Rightarrow> (string \<times> string) list \<Rightarrow> ctx \<Rightarrow> site session \<Rightarrow> resp \<times> site session" where
  "NginxEdit_post e d fs = site_admin d (\<lambda>c s.
     let N = site_config_get (work s) ''nginx'' None in
     if truthy_str N \<and> sx_update_error e (the N) \<noteq> None then (Raise (the (sx_update_error e (the N))), s)
     else (Render ''system/nginx_edit.html'', commit (modify (site_config_put ''nginx'' (sx_dumps e fs)) s)))"

definition QQAuth2Edit_post ::
  "sys_env \<Rightarrow> db \<Rightarrow> (string \<times> string) list \<Rightarrow> ctx \<Rightarrow> site session \<Rightarrow> resp \<times> site session" where
  "QQAuth2Edit_post e d fs = site_admin d (\<lambda>c s.
     case site_config_get (work s) ''qq.auth2'' None of
       Some v \<Rightarrow>
         if \<not> sx_is_json e v then (Raise ValueError, s)
         else (Render ''system/qqauth2_edit.html'', commit (modify (site_config_put ''qq.auth2'' (sx_dumps e fs)) s))
     | None \<Rightarrow> (Render ''system/qqauth2_edit.html'', commit (modify (site_config_put ''qq.auth2'' (sx_dumps e fs)) s)))"

text \<open>
  \<open>DomainEdit\<close> (\<^verbatim>\<open>lyweb/app/domain/admin_views.py\<close>). It renders the page again after the redirection,
  which raises; the answer has been sent by then.
\<close>

definition SiteDomainEdit_post ::
  "sys_env \<Rightarrow> db \<Rightarrow> string \<Rightarrow> string \<Rightarrow> string \<Rightarrow> ctx \<Rightarrow> site session \<Rightarrow> resp \<times> site session" where
  "SiteDomainEdit_post e d topdomain pre post = site_admin d (\<lambda>c s.
     if length_between 6 120 topdomain then
       (Redirect ''admin:domain'' None, commit (modify (site_config_put ''domain''
          (sx_dumps e [(''topdomain'', topdomain), (''prefix'', pre), (''suffix'', post)])) s))
     else (Render ''admin/domain/edit.html'', s))"

text \<open>The front page: the article of the entry \<open>home\<close> in the language of the visitor.\<close>

definition home_article :: "string \<Rightarrow> site \<Rightarrow> string option" where
  "home_article locale_code x =
     (case (t_first (\<lambda>_ E. en_slug E = ''home'') (st_entries x), t_first (\<lambda>_ L. lg_codename L = locale_code) (st_languages x)) of
        (Some (eid, _), Some (lid, _)) \<Rightarrow>
          map_option (ar_body \<circ> snd) (t_first (\<lambda>_ A. ar_entry_id A = eid \<and> ar_language_id A = lid) (st_articles x))
      | _ \<Rightarrow> None)"

section \<open>Requests (urls.py)\<close>

datatype site_request =
    NavAdd nav_form
  | NavEdit int nav_form
  | NavDelete "int list option"
  | NavPositionAdjust "int list option"
  | EntryAdd string
  | EntryEdit int string
  | EntryDelete "int list option"
  | ArticleAdd article_form
  | ArticleEdit int article_form
  | ArticleDelete "int list option"
  | ConfigEdit string string
  | ConfigDelete
  | LocaleConfigEdit string string string
  | LocaleConfigDelete int
  | IniEdit
  | NameserversEdit string
  | RegistrationProtocolEdit string
  | WelcomeNewUserEdit string
  | NginxEdit "(string \<times> string) list"
  | QQAuth2Edit "(string \<times> string) list"
  | SiteDomainEdit string string string

fun handle_site :: "sys_env \<Rightarrow> db \<Rightarrow> site_request \<Rightarrow> ctx \<Rightarrow> site session \<Rightarrow> resp \<times> site session" where
  "handle_site e d (NavAdd f) = NavAdd_post d f"
| "handle_site e d (NavEdit ID f) = NavEdit_post d ID f"
| "handle_site e d (NavDelete ids) = ajaxNavDelete_post d ids"
| "handle_site e d (NavPositionAdjust ids) = ajaxNavPositionAdjust_post d ids"
| "handle_site e d (EntryAdd slug) = EntryAdd_post d slug"
| "handle_site e d (EntryEdit ID slug) = EntryEdit_post d ID slug"
| "handle_site e d (EntryDelete ids) = ajaxEntryDelete_post d ids"
| "handle_site e d (ArticleAdd f) = ArticleAdd_post d f"
| "handle_site e d (ArticleEdit ID f) = ArticleEdit_post d ID f"
| "handle_site e d (ArticleDelete ids) = ajaxArticleDelete_post d ids"
| "handle_site e d (ConfigEdit key v) = ConfigEdit_post d key v"
| "handle_site e d ConfigDelete = ConfigDelete_get d"
| "handle_site e d (LocaleConfigEdit lang key v) = LocaleConfigEdit_post d lang key v"
| "handle_site e d (LocaleConfigDelete ID) = LocaleConfigDelete_get d ID"
| "handle_site e d IniEdit = ini_edit d"
| "handle_site e d (NameserversEdit ns) = NameserversEdit_post e d ns"
| "handle_site e d (RegistrationProtocolEdit body) = RegistrationProtocolEdit_post e d body"
| "handle_site e d (WelcomeNewUserEdit body) = WelcomeNewUserEdit_post e d body"
| "handle_site e d (NginxEdit fs) = NginxEdit_post e d fs"
| "handle_site e d (QQAuth2Edit fs) = QQAuth2Edit_post e d fs"
| "handle_site e d (SiteDomainEdit topdomain pre post) = SiteDomainEdit_post e d topdomain pre post"

definition serve_site :: "sys_env \<Rightarrow> db \<Rightarrow> site_request \<Rightarrow> ctx \<Rightarrow> site \<Rightarrow> resp \<times> site" where
  "serve_site e d q c x = (let (r, s) = handle_site e d q c (open_session x) in (r, on_finish s))"

inductive site_reach :: "site \<Rightarrow> site \<Rightarrow> bool" for x0 where
  start: "site_reach x0 x0"
| more: "site_reach x0 x \<Longrightarrow> site_reach x0 (snd (serve_site e d q c x))"

section \<open>Unique rows\<close>

definition uniq_rows :: "('a \<Rightarrow> 'b) \<Rightarrow> 'a table \<Rightarrow> bool" where
  "uniq_rows key t \<longleftrightarrow> t_ok t \<and>
     (\<forall>i j v w. t_get t i = Some v \<longrightarrow> t_get t j = Some w \<longrightarrow> key v = key w \<longrightarrow> i = j)"

lemma uniq_add:
  assumes "uniq_rows key t" and "\<And>k v. (k, v) \<in> set (rows t) \<Longrightarrow> key v \<noteq> key x"
  shows "uniq_rows key (t_add x t)"
proof -
  have t: "t_ok t" using assms(1) by (simp add: uniq_rows_def)
  have "key v \<noteq> key x" "key x \<noteq> key v" if "t_get t k = Some v" for k v
    using assms(2) [OF t_get_in [OF that]] by auto
  then show ?thesis using assms(1) t unfolding uniq_rows_def by (auto simp: t_get_add t_ok_add)
qed

lemma uniq_upd:
  assumes "uniq_rows key t" and "\<And>x v i. t_get t k = Some x \<Longrightarrow> t_get t i = Some v \<Longrightarrow> i \<noteq> k \<Longrightarrow> key (f x) \<noteq> key v"
  shows "uniq_rows key (t_upd k f t)"
  using assms unfolding uniq_rows_def by (auto simp: t_get_upd split: if_splits) metis+

lemma uniq_upd_same: "uniq_rows key t \<Longrightarrow> (\<And>x. key (f x) = key x) \<Longrightarrow> uniq_rows key (t_upd k f t)"
  by (rule uniq_upd) (auto simp: uniq_rows_def)

lemma uniq_del: "uniq_rows key t \<Longrightarrow> uniq_rows key (t_del k t)"
  unfolding uniq_rows_def by (auto simp: t_get_del split: if_splits)

lemma uniq_first:
  assumes "uniq_rows key t" and "t_get t k = Some v"
  shows "t_first (\<lambda>_ x. key x = key v) t = Some (k, v)"
proof (cases "t_first (\<lambda>_ x. key x = key v) t")
  case None
  with t_get_in [OF assms(2)] show ?thesis by (auto simp: t_first_None)
next
  case (Some p)
  obtain i w where p: "p = (i, w)" by (cases p)
  have "t_get t i = Some w" "key w = key v"
    using t_first_Some [OF Some [unfolded p]] assms(1) t_get_iff [of t] by (auto simp: uniq_rows_def)
  then have "i = k" using assms unfolding uniq_rows_def by blast
  with \<open>t_get t i = Some w\<close> assms(2) Some p show ?thesis by simp
qed

text \<open>What is found under a key, after a change.\<close>

lemma uniq_lookup:
  assumes "uniq_rows key t"
  shows "t_first (\<lambda>_ x. key x = a) t = Some (k, v) \<longleftrightarrow> t_get t k = Some v \<and> key v = a"
  using uniq_first [OF assms] t_first_Some [of "\<lambda>_ x. key x = a" t k v] assms t_get_iff [of t k v]
  by (auto simp: uniq_rows_def)

section \<open>The pages stay consistent\<close>

definition site_ok :: "site \<Rightarrow> bool" where
  "site_ok x \<longleftrightarrow> t_ok (st_languages x) \<and> t_ok (st_navs x) \<and> uniq_rows en_slug (st_entries x) \<and>
     uniq_rows (\<lambda>A. (ar_entry_id A, ar_language_id A)) (st_articles x) \<and>
     uniq_rows sc_key (st_configs x) \<and> uniq_rows sc_key (st_luoyun x) \<and> uniq_rows (\<lambda>C. (lc_key C, lc_language_id C)) (st_locale_configs x) \<and>
     (\<forall>k A. t_get (st_articles x) k = Some A \<longrightarrow>
        t_get (st_entries x) (ar_entry_id A) \<noteq> None \<and> t_get (st_languages x) (ar_language_id A) \<noteq> None) \<and>
     (\<forall>k N. t_get (st_navs x) k = Some N \<longrightarrow> (\<forall>l. nv_language_id N = Some l \<longrightarrow> t_get (st_languages x) l \<noteq> None)) \<and>
     (\<forall>k C. t_get (st_locale_configs x) k = Some C \<longrightarrow> t_get (st_languages x) (lc_language_id C) \<noteq> None)"

lemma language_list_get:
  assumes "t_ok (st_languages x)" and "l \<in> set (language_list x)"
  shows "t_get (st_languages x) (field_int l) \<noteq> None"
proof -
  obtain codename where "l \<in> set (case t_first (\<lambda>_ L. lg_codename L = codename) (st_languages x) of
      None \<Rightarrow> [] | Some (k, _) \<Rightarrow> [show_int k])"
    using assms(2) by (auto simp: language_list_def)
  then obtain k L where "t_first (\<lambda>_ L. lg_codename L = codename) (st_languages x) = Some (k, L)" "l = show_int k"
    by (cases "t_first (\<lambda>_ L. lg_codename L = codename) (st_languages x)") auto
  then show ?thesis
    using t_first_Some t_get_iff [OF assms(1), of k L] by (fastforce simp: field_int_def get_int_def py_int_show_int)
qed

lemma site_admin_keep:
  "(\<And>u. c_user c = Some u \<Longrightarrow> isadmin d u \<Longrightarrow> sess Q (snd (h c s))) \<Longrightarrow> sess Q s \<Longrightarrow> sess Q (snd (site_admin d h c s))"
  by (auto simp: site_admin_def require_permission_def isadmin_def split: option.split)

lemma navs_keep:
  assumes "site_ok x" and "t_ok t" and
    "\<And>k N l. t_get t k = Some N \<Longrightarrow> nv_language_id N = Some l \<Longrightarrow> t_get (st_languages x) l \<noteq> None"
  shows "site_ok (st_navs_update (\<lambda>_. t) x)"
  using assms unfolding site_ok_def by simp

lemma nav_delete_keep: "site_ok x \<Longrightarrow> site_ok (st_navs_update (\<lambda>t. foldl (\<lambda>t i. t_del i t) t is) x)"
proof -
  assume x: "site_ok x"
  let ?P = "\<lambda>t. t_ok t \<and> (\<forall>k N. t_get t k = Some N \<longrightarrow> (\<forall>l. nv_language_id N = Some l \<longrightarrow> t_get (st_languages x) l \<noteq> None))"
  have "?P (foldl (\<lambda>t i. t_del i t) (st_navs x) is)"
    by (rule foldl_keep [where P = ?P]) (use x in \<open>auto simp: site_ok_def t_get_del split: if_splits\<close>)
  then show ?thesis using x unfolding site_ok_def by simp
qed

lemma nav_adjust_keep:
  "site_ok x \<Longrightarrow> site_ok (st_navs_update (\<lambda>t. foldl (\<lambda>t i. t_upd i (nv_position_update g) t) t is) x)"
proof -
  assume x: "site_ok x"
  let ?P = "\<lambda>t. t_ok t \<and> (\<forall>k N. t_get t k = Some N \<longrightarrow> (\<forall>l. nv_language_id N = Some l \<longrightarrow> t_get (st_languages x) l \<noteq> None))"
  have "?P (foldl (\<lambda>t i. t_upd i (nv_position_update g) t) (st_navs x) is)"
    by (rule foldl_keep [where P = ?P]) (use x in \<open>auto simp: site_ok_def t_get_upd split: if_splits\<close>)
  then show ?thesis using x unfolding site_ok_def by simp
qed

lemma delete_entry_keep:
  assumes "site_ok x" shows "site_ok (delete_entry i x)"
proof (cases "t_select (\<lambda>_ A. ar_entry_id A = i) (st_articles x) = []")
  case True
  have "ar_entry_id A \<noteq> i" if "t_get (st_articles x) k = Some A" for k A
  proof
    assume "ar_entry_id A = i"
    then have "(k, A) \<in> set (t_select (\<lambda>_ A. ar_entry_id A = i) (st_articles x))"
      using t_get_in [OF that] by (simp add: t_select_iff)
    with True show False by simp
  qed
  with True assms show ?thesis
    unfolding site_ok_def delete_entry_def by (auto simp: uniq_del t_get_del uniq_rows_def [of en_slug])
qed (use assms in \<open>simp add: delete_entry_def\<close>)

lemma article_delete_keep: "site_ok x \<Longrightarrow> site_ok (st_articles_update (\<lambda>t. foldl (\<lambda>t i. t_del i t) t is) x)"
proof -
  assume x: "site_ok x"
  let ?P = "\<lambda>t. uniq_rows (\<lambda>A. (ar_entry_id A, ar_language_id A)) t \<and> (\<forall>k A. t_get t k = Some A \<longrightarrow>
    t_get (st_entries x) (ar_entry_id A) \<noteq> None \<and> t_get (st_languages x) (ar_language_id A) \<noteq> None)"
  have "?P (foldl (\<lambda>t i. t_del i t) (st_articles x) is)"
    by (rule foldl_keep [where P = ?P])
      (use x in \<open>auto simp: site_ok_def uniq_del t_get_del uniq_rows_def [of "\<lambda>A. (ar_entry_id A, ar_language_id A)"] split: if_splits\<close>)
  then show ?thesis using x unfolding site_ok_def by simp
qed

lemma article_add_keep:
  assumes "site_ok x" "t_get (st_entries x) (ar_entry_id A) \<noteq> None" "t_get (st_languages x) (ar_language_id A) \<noteq> None"
    and "t_first (\<lambda>_ B. ar_entry_id B = ar_entry_id A \<and> ar_language_id B = ar_language_id A) (st_articles x) = None"
  shows "site_ok (st_articles_update (t_add A) x)"
proof -
  have "uniq_rows (\<lambda>A. (ar_entry_id A, ar_language_id A)) (t_add A (st_articles x))"
    by (rule uniq_add) (use assms(1,4) in \<open>auto simp: site_ok_def t_first_None\<close>)
  then show ?thesis using assms(1-3) unfolding site_ok_def
    by (auto simp: t_get_add uniq_rows_def [of "\<lambda>A. (ar_entry_id A, ar_language_id A)" "st_articles x"] split: if_splits)
qed

lemma article_edit_keep:
  assumes "site_ok x" "\<And>A. ar_entry_id (g A) = ar_entry_id A \<and> ar_language_id (g A) = ar_language_id A"
  shows "site_ok (st_articles_update (t_upd k g) x)"
proof -
  have "uniq_rows (\<lambda>A. (ar_entry_id A, ar_language_id A)) (t_upd k g (st_articles x))"
    by (rule uniq_upd_same) (use assms in \<open>auto simp: site_ok_def\<close>)
  then show ?thesis using assms unfolding site_ok_def by (auto simp: t_get_upd split: if_splits)
qed

lemma entry_keep:
  assumes "site_ok x" and "uniq_rows en_slug t" and "\<And>k. t_get (st_entries x) k \<noteq> None \<Longrightarrow> t_get t k \<noteq> None"
  shows "site_ok (st_entries_update (\<lambda>_. t) x)"
  using assms unfolding site_ok_def by simp

lemma entry_add_keep:
  assumes "site_ok x" "t_select (\<lambda>_ E. en_slug E = slug) (st_entries x) = []"
  shows "site_ok (st_entries_update (t_add \<lparr>en_slug = slug\<rparr>) x)"
proof -
  have e: "uniq_rows en_slug (st_entries x)" using assms(1) by (simp add: site_ok_def)
  have "en_slug v \<noteq> slug" if "(k, v) \<in> set (rows (st_entries x))" for k v
    using assms(2) that t_select_iff [of k v "\<lambda>_ E. en_slug E = slug" "st_entries x"] by auto
  then have "uniq_rows en_slug (t_add \<lparr>en_slug = slug\<rparr> (st_entries x))" by (intro uniq_add [OF e]) auto
  with e assms(1) have "site_ok (st_entries_update (\<lambda>_. t_add \<lparr>en_slug = slug\<rparr> (st_entries x)) x)"
    by (intro entry_keep) (auto simp: uniq_rows_def [of en_slug "st_entries x"] t_get_add)
  then show ?thesis by (simp add: site_ok_def)
qed

lemma entry_edit_keep:
  assumes "site_ok x" and "\<And>j E. t_first (\<lambda>_ E. en_slug E = slug) (st_entries x) = Some (j, E) \<Longrightarrow> j = k"
  shows "site_ok (st_entries_update (t_upd k (en_slug_update (\<lambda>_. slug))) x)"
proof -
  have e: "uniq_rows en_slug (st_entries x)" using assms(1) by (simp add: site_ok_def)
  have "uniq_rows en_slug (t_upd k (en_slug_update (\<lambda>_. slug)) (st_entries x))"
    by (rule uniq_upd [OF e]) (use assms(2) uniq_lookup [OF e, of slug] in auto)
  with assms(1) have "site_ok (st_entries_update (\<lambda>_. t_upd k (en_slug_update (\<lambda>_. slug)) (st_entries x)) x)"
    by (intro entry_keep) (auto simp: t_get_upd)
  then show ?thesis by (simp add: site_ok_def)
qed

lemma uniq_put: "uniq_rows sc_key t \<Longrightarrow> uniq_rows sc_key (put_row key v t)"
proof -
  assume e: "uniq_rows sc_key t"
  show ?thesis
  proof (cases "t_first (\<lambda>_ C. sc_key C = key) t")
    case None
    then have "uniq_rows sc_key (t_add \<lparr>sc_key = key, sc_value = v\<rparr> t)"
      by (intro uniq_add [OF e]) (auto simp: t_first_None)
    with None show ?thesis by (simp add: put_row_def)
  next
    case (Some p)
    then show ?thesis using uniq_upd_same [OF e, of "\<lambda>C. C\<lparr>sc_value := v\<rparr>"]
      by (cases p) (simp add: put_row_def)
  qed
qed

lemma config_put_keep:
  "site_ok x \<Longrightarrow> site_ok (site_config_put key v x)" "site_ok x \<Longrightarrow> site_ok (st_luoyun_update (put_row key v) x)"
  by (simp_all add: site_config_put_def site_ok_def uniq_put)

lemma locale_put_keep:
  assumes x: "site_ok x" and l: "t_get (st_languages x) lid \<noteq> None"
  shows "site_ok (locale_config_put key v lid x)"
proof -
  have e: "uniq_rows (\<lambda>C. (lc_key C, lc_language_id C)) (st_locale_configs x)" using x by (simp add: site_ok_def)
  show ?thesis
  proof (cases "t_first (\<lambda>_ C. lc_key C = key \<and> lc_language_id C = lid) (st_locale_configs x)")
    case None
    then have "uniq_rows (\<lambda>C. (lc_key C, lc_language_id C)) (t_add \<lparr>lc_language_id = lid, lc_key = key, lc_value = v\<rparr> (st_locale_configs x))"
      by (intro uniq_add [OF e]) (auto simp: t_first_None)
    with None x l e show ?thesis
      by (auto simp: locale_config_put_def site_ok_def t_get_add uniq_rows_def [of _ "st_locale_configs x"] split: if_splits)
  next
    case (Some p)
    obtain k C where p: "p = (k, C)" by (cases p)
    have C: "t_get (st_locale_configs x) k = Some C" "lc_language_id C = lid"
      using t_first_Some [OF Some [unfolded p]] e t_get_iff [of _ k C] by (auto simp: uniq_rows_def)
    have "uniq_rows (\<lambda>C. (lc_key C, lc_language_id C))
        (t_upd k (\<lambda>C. C\<lparr>lc_value := v, lc_language_id := lid\<rparr>) (st_locale_configs x))"
      by (rule uniq_upd [OF e]) (use C e in \<open>auto simp: uniq_rows_def\<close>)
    with Some p x l show ?thesis
      by (auto simp: locale_config_put_def site_ok_def t_get_upd split: if_splits)
  qed
qed

lemma nav_put_keep:
  assumes x: "site_ok x" and N: "\<And>l. nv_language_id N = Some l \<Longrightarrow> t_get (st_languages x) l \<noteq> None"
  shows "site_ok (st_navs_update (t_add N) x)"
proof -
  have "t_ok (st_navs x)" using x by (simp add: site_ok_def)
  with x N show ?thesis unfolding site_ok_def by (auto simp: t_get_add t_ok_add split: if_splits)
qed

lemma nav_edit_keep:
  assumes x: "site_ok x" and N: "\<And>M. nv_language_id (g M) = Some l" "t_get (st_languages x) l \<noteq> None"
  shows "site_ok (st_navs_update (t_upd k g) x)"
  using assms unfolding site_ok_def by (auto simp: t_get_upd split: if_splits)

lemma deletes_keep:
  "site_ok x \<Longrightarrow> site_ok (st_configs_update (t_del k) x)" "site_ok x \<Longrightarrow> site_ok (st_locale_configs_update (t_del k) x)"
  "site_ok x \<Longrightarrow> site_ok (foldl (\<lambda>x i. delete_entry i x) x is)"
    apply (simp add: site_ok_def uniq_del)
   apply (auto simp: site_ok_def uniq_del t_get_del uniq_rows_def [of _ "st_locale_configs x"] split: if_splits) [1]
  apply (rule foldl_keep) apply (auto intro: delete_entry_keep)
  done

lemma field_int_show [simp]: "field_int (show_int n) = n"
  by (simp add: field_int_def get_int_def py_int_show_int)

lemma nav_handlers:
  assumes "sess site_ok s"
  shows "sess site_ok (snd (NavAdd_post d f c s))" "sess site_ok (snd (NavEdit_post d ID f c s))"
    "sess site_ok (snd (ajaxNavDelete_post d ids c s))" "sess site_ok (snd (ajaxNavPositionAdjust_post d ids c s))"
proof -
  have w: "site_ok (work s)" using assms by (rule sess_work)
  have l: "t_get (st_languages (work s)) (field_int (nf_language f)) \<noteq> None" if "SiteNavForm_ok (work s) f"
    using that w language_list_get [of "work s" "nf_language f"] by (simp add: SiteNavForm_ok_def site_ok_def)
  show "sess site_ok (snd (NavAdd_post d f c s))" unfolding NavAdd_post_def
    using assms w l by (intro site_admin_keep) (auto simp: Let_def intro!: sess_modify nav_put_keep)
  show "sess site_ok (snd (NavEdit_post d ID f c s))" unfolding NavEdit_post_def
    using assms w l by (intro site_admin_keep) (auto split: option.split intro!: sess_modify nav_edit_keep)
  show "sess site_ok (snd (ajaxNavDelete_post d ids c s))" unfolding ajaxNavDelete_post_def
    using assms w by (intro site_admin_keep) (auto split: option.split intro!: sess_modify nav_delete_keep)
  show "sess site_ok (snd (ajaxNavPositionAdjust_post d ids c s))" unfolding ajaxNavPositionAdjust_post_def
    using assms w by (intro site_admin_keep) (auto split: option.split simp: Let_def intro!: sess_modify nav_adjust_keep)
qed

lemma entry_handlers:
  assumes "sess site_ok s"
  shows "sess site_ok (snd (EntryAdd_post d slug c s))" "sess site_ok (snd (EntryEdit_post d ID slug c s))"
    "sess site_ok (snd (ajaxEntryDelete_post d ids c s))"
proof -
  have w: "site_ok (work s)" using assms by (rule sess_work)
  show "sess site_ok (snd (EntryAdd_post d slug c s))" unfolding EntryAdd_post_def
    using assms w by (intro site_admin_keep) (auto intro!: sess_modify entry_add_keep)
  show "sess site_ok (snd (EntryEdit_post d ID slug c s))" unfolding EntryEdit_post_def
    using assms w by (intro site_admin_keep) (auto split: option.split intro!: sess_modify entry_edit_keep)
  show "sess site_ok (snd (ajaxEntryDelete_post d ids c s))" unfolding ajaxEntryDelete_post_def
    using assms w by (intro site_admin_keep) (auto split: option.split intro!: sess_modify deletes_keep)
qed

lemma article_handlers:
  assumes "sess site_ok s"
  shows "sess site_ok (snd (ArticleAdd_post d f c s))" "sess site_ok (snd (ArticleEdit_post d ID f c s))"
    "sess site_ok (snd (ajaxArticleDelete_post d ids c s))"
proof -
  have w: "site_ok (work s)" using assms by (rule sess_work)
  show "sess site_ok (snd (ArticleAdd_post d f c s))" unfolding ArticleAdd_post_def
    using assms w by (intro site_admin_keep) (auto simp: Let_def split: option.split intro!: sess_modify article_add_keep)
  show "sess site_ok (snd (ArticleEdit_post d ID f c s))" unfolding ArticleEdit_post_def
    using assms w by (intro site_admin_keep) (auto split: option.split intro!: sess_modify article_edit_keep)
  show "sess site_ok (snd (ajaxArticleDelete_post d ids c s))" unfolding ajaxArticleDelete_post_def
    using assms w by (intro site_admin_keep) (auto split: option.split intro!: sess_modify article_delete_keep)
qed

lemma config_handlers:
  assumes "sess site_ok s"
  shows "sess site_ok (snd (ConfigEdit_post d key v c s))" "sess site_ok (snd (ConfigDelete_get d c s))"
    "sess site_ok (snd (LocaleConfigEdit_post d lang key v c s))" "sess site_ok (snd (LocaleConfigDelete_get d ID c s))"
proof -
  have w: "site_ok (work s)" using assms by (rule sess_work)
  show "sess site_ok (snd (ConfigEdit_post d key v c s))" unfolding ConfigEdit_post_def
    using assms w by (intro site_admin_keep) (auto intro!: sess_modify config_put_keep)
  show "sess site_ok (snd (ConfigDelete_get d c s))" unfolding ConfigDelete_get_def
    using assms w by (intro site_admin_keep) (auto simp: Let_def split: option.split intro!: sess_modify deletes_keep)
  show "sess site_ok (snd (LocaleConfigEdit_post d lang key v c s))" unfolding LocaleConfigEdit_post_def
    using assms w language_list_get [of "work s" lang]
    by (intro site_admin_keep) (auto simp: site_ok_def [of "work s"] intro!: sess_modify locale_put_keep)
  show "sess site_ok (snd (LocaleConfigDelete_get d ID c s))" unfolding LocaleConfigDelete_get_def
    using assms w by (intro site_admin_keep) (auto split: option.split intro!: sess_modify deletes_keep)
qed

lemma system_handlers:
  assumes "sess site_ok s"
  shows "sess site_ok (snd (ini_edit d c s))" "sess site_ok (snd (NameserversEdit_post e d ns c s))"
    "sess site_ok (snd (text_edit e key template d body c s))"
    "sess site_ok (snd (NginxEdit_post e d fs c s))" "sess site_ok (snd (QQAuth2Edit_post e d fs c s))"
    "sess site_ok (snd (SiteDomainEdit_post e d topdomain pre post c s))"
  using assms unfolding SiteDomainEdit_post_def ini_edit_def NameserversEdit_post_def text_edit_def NginxEdit_post_def QQAuth2Edit_post_def
  by (auto simp: Let_def sess_work split: option.split intro!: site_admin_keep sess_modify config_put_keep)

lemma serve_site_ok: "site_ok x \<Longrightarrow> site_ok (snd (serve_site e d q c x))"
proof -
  assume "site_ok x"
  then have "sess site_ok (open_session x)" by simp
  then have "sess site_ok (snd (handle_site e d q c (open_session x)))"
    by (cases q) (simp_all add: nav_handlers entry_handlers article_handlers config_handlers
        system_handlers RegistrationProtocolEdit_post_def WelcomeNewUserEdit_post_def)
  then show ?thesis by (auto simp: serve_site_def sess_def split: prod.split)
qed

lemma site_reach_ok: "site_reach x0 x \<Longrightarrow> site_ok x0 \<Longrightarrow> site_ok x"
  by (induction rule: site_reach.induct) (auto intro: serve_site_ok)

section \<open>The configuration as a dictionary\<close>

definition config_of :: "site \<Rightarrow> string \<Rightarrow> string option" where
  "config_of x key = site_config_get x key None"

text \<open>What a request does to the configuration.\<close>

definition config_step :: "sys_env \<Rightarrow> db \<Rightarrow> site_request \<Rightarrow> ctx \<Rightarrow> (string \<Rightarrow> string option) \<Rightarrow> string \<Rightarrow> string option" where
  "config_step e d q c m =
     (if \<forall>u. c_user c = Some u \<longrightarrow> \<not> isadmin d u then m
      else case q of
        ConfigEdit key v \<Rightarrow> if SiteConfigForm_ok key v then m(strip key \<mapsto> strip v) else m
      | ConfigDelete \<Rightarrow> (case get_argument c ''key'' of None \<Rightarrow> m | Some key \<Rightarrow> if key = [] then m else m(key := None))
      | NginxEdit fs \<Rightarrow>
          if truthy_str (m ''nginx'') \<and> sx_update_error e (the (m ''nginx'')) \<noteq> None then m else m(''nginx'' \<mapsto> sx_dumps e fs)
      | QQAuth2Edit fs \<Rightarrow>
          (case m ''qq.auth2'' of
             Some v \<Rightarrow> if sx_is_json e v then m(''qq.auth2'' \<mapsto> sx_dumps e fs) else m
           | None \<Rightarrow> m(''qq.auth2'' \<mapsto> sx_dumps e fs))
      | SiteDomainEdit topdomain pre post \<Rightarrow>
          if length_between 6 120 topdomain
          then m(''domain'' \<mapsto> sx_dumps e [(''topdomain'', topdomain), (''prefix'', pre), (''suffix'', post)]) else m
      | _ \<Rightarrow> m)"

lemma config_of_get:
  assumes "uniq_rows sc_key (st_configs x)"
  shows "config_of x key = Some v \<longleftrightarrow> (\<exists>k. t_get (st_configs x) k = Some \<lparr>sc_key = key, sc_value = v\<rparr>)"
proof
  assume "config_of x key = Some v"
  then obtain k C where "t_first (\<lambda>_ C. sc_key C = key) (st_configs x) = Some (k, C)" "v = sc_value C"
    by (auto simp: config_of_def site_config_get_def split: option.splits)
  then show "\<exists>k. t_get (st_configs x) k = Some \<lparr>sc_key = key, sc_value = v\<rparr>"
    using uniq_lookup [OF assms, of key k C] by (cases C) auto
next
  assume "\<exists>k. t_get (st_configs x) k = Some \<lparr>sc_key = key, sc_value = v\<rparr>"
  then show "config_of x key = Some v"
    using uniq_first [OF assms] by (fastforce simp: config_of_def site_config_get_def)
qed

lemma t_first_add:
  "t_first P (t_add (v :: 'a) t) = (case t_first P t of Some p \<Rightarrow> Some p | None \<Rightarrow> if P (t_newid t) v then Some (t_newid t, v) else None)"
proof -
  have "find Q (xs @ [p]) = (case find Q xs of Some q \<Rightarrow> Some q | None \<Rightarrow> if Q p then Some p else None)"
    for Q and p :: "int \<times> 'a" and xs
    by (induction xs) auto
  then show ?thesis by (simp add: t_first_def t_newid_def split: option.split)
qed

lemma serve_site_snd: "snd (serve_site e d q c x) = store (snd (handle_site e d q c (open_session x)))"
  by (simp add: serve_site_def case_prod_beta Let_def)

lemma config_of_put:
  assumes u: "uniq_rows sc_key (st_configs x)"
  shows "config_of (site_config_put key v x) = (config_of x)(key \<mapsto> v)"
proof
  fix key'
  show "config_of (site_config_put key v x) key' = ((config_of x)(key \<mapsto> v)) key'"
  proof (cases "t_first (\<lambda>_ C. sc_key C = key) (st_configs x)")
    case None
    then show ?thesis
      by (auto simp: config_of_def site_config_get_def site_config_put_def put_row_def t_first_add split: option.split)
  next
    case (Some p)
    obtain k C where p: "p = (k, C)" by (cases p)
    then have C: "t_get (st_configs x) k = Some C" "sc_key C = key" using Some uniq_lookup [OF u] by auto
    let ?x = "x\<lparr>st_configs := t_upd k (\<lambda>C. C\<lparr>sc_value := v\<rparr>) (st_configs x)\<rparr>"
    have u': "uniq_rows sc_key (st_configs ?x)" using uniq_upd_same [OF u] by simp
    have "config_of ?x key' = Some w \<longleftrightarrow> ((config_of x)(key \<mapsto> v)) key' = Some w" for w
    proof (cases "key' = key")
      case True
      have "config_of ?x key = Some v"
        using config_of_get [OF u', of key v] C by (cases C) (auto intro!: exI [of _ k])
      with True show ?thesis by auto
    next
      case False
      have "t_get (st_configs ?x) i = Some \<lparr>sc_key = key', sc_value = w\<rparr> \<longleftrightarrow>
          t_get (st_configs x) i = Some \<lparr>sc_key = key', sc_value = w\<rparr>" for i
        using False C by (cases C) (auto simp: t_get_upd)
      with False show ?thesis
        using config_of_get [OF u', of key' w] config_of_get [OF u, of key' w] by simp
    qed
    then have "config_of ?x key' = ((config_of x)(key \<mapsto> v)) key'" by (metis option.exhaust)
    with Some p show ?thesis by (simp add: site_config_put_def put_row_def config_of_def site_config_get_def)
  qed
qed

lemma config_of_del:
  assumes u: "uniq_rows sc_key (st_configs x)" and C: "t_get (st_configs x) k = Some C"
  shows "config_of (st_configs_update (t_del k) x) = (config_of x)(sc_key C := None)"
proof
  fix key'
  let ?x = "st_configs_update (t_del k) x"
  have t: "t_ok (st_configs x)" using u by (simp add: uniq_rows_def)
  have u': "uniq_rows sc_key (st_configs ?x)" using uniq_del [OF u] by simp
  have "config_of ?x key' = Some w \<longleftrightarrow> ((config_of x)(sc_key C := None)) key' = Some w" for w
  proof -
    have "config_of ?x key' = Some w \<longleftrightarrow> (\<exists>i. i \<noteq> k \<and> t_get (st_configs x) i = Some \<lparr>sc_key = key', sc_value = w\<rparr>)"
      using config_of_get [OF u', of key' w] t by (auto simp: t_get_del)
    also have "\<dots> \<longleftrightarrow> key' \<noteq> sc_key C \<and> config_of x key' = Some w"
      unfolding config_of_get [OF u] using C u unfolding uniq_rows_def
      by (metis option.inject site_config.select_convs(1))
    finally show ?thesis by auto
  qed
  then show "config_of ?x key' = ((config_of x)(sc_key C := None)) key'" by (metis option.exhaust)
qed

lemma site_admin_refused:
  "\<forall>u. c_user c = Some u \<longrightarrow> \<not> isadmin d u \<Longrightarrow> snd (site_admin d h c s) = s"
  by (auto simp: site_admin_def require_permission_def isadmin_def split: option.split)

lemma site_admin_allowed: "c_user c = Some u \<Longrightarrow> isadmin d u \<Longrightarrow> site_admin d h c s = h c s"
  by (simp add: site_admin_def require_permission_def isadmin_def)

lemmas site_posts = NavAdd_post_def NavEdit_post_def ajaxNavDelete_post_def ajaxNavPositionAdjust_post_def
  EntryAdd_post_def EntryEdit_post_def ajaxEntryDelete_post_def ArticleAdd_post_def ArticleEdit_post_def
  ajaxArticleDelete_post_def ConfigEdit_post_def ConfigDelete_get_def LocaleConfigEdit_post_def LocaleConfigDelete_get_def
  ini_edit_def NameserversEdit_post_def RegistrationProtocolEdit_post_def WelcomeNewUserEdit_post_def text_edit_def
  NginxEdit_post_def QQAuth2Edit_post_def SiteDomainEdit_post_def

lemma delete_entries_configs: "st_configs (foldl (\<lambda>x i. delete_entry i x) x is) = st_configs x"
  by (rule foldl_keep [where P = "\<lambda>y. st_configs y = st_configs x"]) (auto simp: delete_entry_def)

lemma locale_put_configs: "st_configs (locale_config_put key v lid x) = st_configs x"
  by (simp add: locale_config_put_def split: option.split)

lemma other_requests_configs:
  assumes "c_user c = Some u" "isadmin d u" "\<forall>k v. q \<noteq> ConfigEdit k v" "q \<noteq> ConfigDelete"
    "\<forall>fs. q \<noteq> NginxEdit fs \<and> q \<noteq> QQAuth2Edit fs" "\<forall>a b x. q \<noteq> SiteDomainEdit a b x"
  shows "st_configs (snd (serve_site e d q c x)) = st_configs x"
  using assms by (cases q)
    (simp_all add: serve_site_snd site_posts site_admin_allowed Let_def delete_entries_configs locale_put_configs
      split: option.split)

section \<open>Properties of the site\<close>

text \<open>
  C25. Whatever requests are sent, by whom and in whatever order, the pages of the site stay consistent:
  slugs, keys of the configuration, translated keys and the articles of an entry in a language are
  unique, every article has its entry and its language, and so have navigation and translations.
\<close>

theorem site_pages_consistent:
  assumes "site_reach x0 x" and "site_ok x0"
  shows "site_ok x"
  using site_reach_ok [OF assms] .

definition site_ex :: site where
  "site_ex = \<lparr>st_languages = \<lparr>rows = [(1, \<lparr>lg_name = ''English'', lg_codename = ''en_US''\<rparr>)], seq = 1\<rparr>,
     st_navs = t_empty, st_entries = \<lparr>rows = [(1, \<lparr>en_slug = ''home''\<rparr>)], seq = 1\<rparr>, st_articles = t_empty,
     st_configs = t_empty, st_locale_configs = t_empty, st_luoyun = t_empty\<rparr>"

definition sys_ex :: sys_env where
  "sys_ex = \<lparr>sx_dumps = concat \<circ> map snd, sx_is_json = (\<lambda>_. True), sx_update_error = (\<lambda>_. None), sx_markdown = id, sx_ip_ok = (\<lambda>_. True)\<rparr>"

lemma site_ex_ok: "site_ok site_ex"
  by (simp add: site_ok_def site_ex_def uniq_rows_def t_ok_def t_get_def t_empty_def)

theorem site_pages_consistent_witness:
  "let x = snd (serve_site sys_ex db_ex (EntryAdd ''news'') (ctx_ex 1 []) site_ex);
       y = snd (serve_site sys_ex db_ex (EntryAdd ''news'') (ctx_ex 1 []) x)
   in site_ok y \<and> map snd (rows (st_entries y)) = [\<lparr>en_slug = ''home''\<rparr>, \<lparr>en_slug = ''news''\<rparr>]"
proof -
  define x where "x = snd (serve_site sys_ex db_ex (EntryAdd ''news'') (ctx_ex 1 []) site_ex)"
  define y where "y = snd (serve_site sys_ex db_ex (EntryAdd ''news'') (ctx_ex 1 []) x)"
  have "site_reach site_ex y" unfolding y_def x_def by (intro site_reach.more site_reach.start)
  then have "site_ok y" using site_ex_ok by (rule site_pages_consistent)
  moreover have "map snd (rows (st_entries y)) = [\<lparr>en_slug = ''home''\<rparr>, \<lparr>en_slug = ''news''\<rparr>]"
    unfolding y_def x_def by code_simp
  ultimately show ?thesis unfolding y_def x_def Let_def by blast
qed

text \<open>
  C24. The table of the configuration implements a dictionary: seen through \<open>SiteConfig.get\<close>, an
  administrator's \<open>ConfigEdit\<close> with a valid form sets exactly its key, \<open>ConfigDelete\<close> removes exactly its key, \<open>DomainEdit\<close> sets its key, \<open>NginxEdit\<close> and
  \<open>QQAuth2Edit\<close> set theirs if the old value can be read, and every other request, and every request of somebody else, leaves all keys as they are.
\<close>

theorem site_config_refines_dict:
  assumes "site_ok x"
  shows "config_of (snd (serve_site e d q c x)) = config_step e d q c (config_of x)"
proof (cases "\<forall>u. c_user c = Some u \<longrightarrow> \<not> isadmin d u")
  case True
  then have "snd (serve_site e d q c x) = x"
    by (cases q) (simp_all add: serve_site_snd site_posts site_admin_refused)
  with True show ?thesis by (simp add: config_step_def)
next
  case False
  then obtain u where u: "c_user c = Some u" "isadmin d u" by blast
  have e: "uniq_rows sc_key (st_configs x)" using assms by (simp add: site_ok_def)
  note allowed = site_admin_allowed [OF u]
  show ?thesis
  proof (cases q)
    case (ConfigEdit key v)
    then show ?thesis using u e
      by (simp add: serve_site_snd ConfigEdit_post_def allowed config_step_def config_of_put)
  next
    case ConfigDelete
    show ?thesis
    proof (cases "get_argument c ''key''")
      case None
      with ConfigDelete u show ?thesis
        by (simp add: serve_site_snd ConfigDelete_get_def allowed config_step_def)
    next
      case (Some key)
      then show ?thesis
      proof (cases "t_first (\<lambda>_ C. sc_key C = key) (st_configs x)")
        case None
        then have "(config_of x)(key := None) = config_of x"
          by (simp add: fun_eq_iff config_of_def site_config_get_def)
        with None ConfigDelete u Some show ?thesis
          by (simp add: serve_site_snd ConfigDelete_get_def allowed config_step_def)
      next
        case (Some p)
        obtain k C where p: "p = (k, C)" by (cases p)
        then have "t_get (st_configs x) k = Some C" "sc_key C = key" using Some uniq_lookup [OF e] by auto
        with config_of_del [OF e] Some p ConfigDelete u \<open>get_argument c ''key'' = Some key\<close> show ?thesis
          by (auto simp: serve_site_snd ConfigDelete_get_def allowed config_step_def)
      qed
    qed
  next
    case (NginxEdit fs)
    have "site_config_get x ''nginx'' None = config_of x ''nginx''" by (simp add: config_of_def)
    with NginxEdit u e show ?thesis
      by (auto simp: serve_site_snd NginxEdit_post_def allowed config_step_def config_of_put Let_def)
  next
    case (SiteDomainEdit topdomain pre post)
    with u e show ?thesis
      by (simp add: serve_site_snd SiteDomainEdit_post_def allowed config_step_def config_of_put)
  next
    case (QQAuth2Edit fs)
    have "site_config_get x ''qq.auth2'' None = config_of x ''qq.auth2''" by (simp add: config_of_def)
    with QQAuth2Edit u e show ?thesis
      by (simp add: serve_site_snd QQAuth2Edit_post_def allowed config_step_def config_of_put split: option.split)
  qed (use u other_requests_configs [of c u d q e x] in
      \<open>auto simp: config_step_def config_of_def site_config_get_def fun_eq_iff\<close>)
qed

theorem site_config_refines_dict_witness:
  "config_of (snd (serve_site sys_ex db_ex (ConfigEdit '' site.name '' ''cloud'') (ctx_ex 1 []) site_ex)) ''site.name'' = Some ''cloud''"
proof -
  have "config_step sys_ex db_ex (ConfigEdit '' site.name '' ''cloud'') (ctx_ex 1 []) (config_of site_ex) ''site.name'' = Some ''cloud''"
  proof -
    have "isadmin db_ex 1" "strip '' site.name '' = ''site.name''" "strip ''cloud'' = ''cloud''" by code_simp+
    then show ?thesis by (simp add: config_step_def ctx_ex_def SiteConfigForm_ok_def length_between_def)
  qed
  then show ?thesis by (simp only: site_config_refines_dict [OF site_ex_ok])
qed

text \<open>
  The dictionary is the one that the handlers of the cloud read: setting a key here is
  \<open>SiteConfig.set\<close> there.
\<close>

lemma config_edit_is_set:
  assumes "site_ok x" "config_of x = map_of (site_configs (work s))"
  shows "config_of (site_config_put key v x) = map_of (site_configs (work (SiteConfig_set key v s)))"
  using assms config_of_put [of x key v] by (simp add: site_ok_def SiteConfig_set_def update_conv')

text \<open>A new article of the entry \<open>home\<close> is what the front page shows in that language.\<close>

lemma article_add_home:
  assumes "site_ok x" and "c_user c = Some u" "isadmin d u" and "ArticleForm_ok x f"
    and "t_first (\<lambda>_ E. en_slug E = ''home'') (st_entries x) = Some (field_int (af_entry f), E)"
    and "t_first (\<lambda>_ L. lg_codename L = code) (st_languages x) = Some (field_int (af_language f), L)"
    and "home_article code x = None"
  shows "home_article code (snd (serve_site e d (ArticleAdd f) c x)) = Some (af_body f)"
proof -
  let ?e = "field_int (af_entry f)" and ?l = "field_int (af_language f)"
  have n: "t_first (\<lambda>_ A. ar_entry_id A = ?e \<and> ar_language_id A = ?l) (st_articles x) = None"
    using assms(5-7) by (simp add: home_article_def)
  have "t_get (st_entries x) ?e = Some E" "t_get (st_languages x) ?l = Some L"
    using t_first_Some [OF assms(5)] t_first_Some [OF assms(6)] assms(1)
      t_get_iff [of "st_entries x"] t_get_iff [of "st_languages x"] by (auto simp: site_ok_def uniq_rows_def)
  with n assms(2-6) show ?thesis
    by (simp add: serve_site_snd ArticleAdd_post_def site_admin_allowed [OF assms(2,3)] Let_def home_article_def)
      (simp add: t_first_add)
qed

end
