(* ===== verification/Cloud_Inv.thy ===== *)
theory Cloud_Inv
  imports Instance_Views
begin

text \<open>
  The invariant of the shared pools: addresses, ports and domain names are unique, an instance has
  at most one address and one storage, and what refers to an instance or an address refers to an
  existing one. Each elementary change of the database that the handlers make keeps it.
\<close>

section \<open>The invariant\<close>

definition keys_ok :: "db \<Rightarrow> bool" where
  "keys_ok d \<longleftrightarrow> t_ok (instances d) \<and> t_ok (ippools d) \<and> t_ok (storages d) \<and> t_ok (user_domains d) \<and>
     t_ok (port_mappings d)"

definition uniq_ok :: "db \<Rightarrow> bool" where
  "uniq_ok d \<longleftrightarrow> distinct (ip_texts (ippools d)) \<and> distinct (port_numbers (port_mappings d)) \<and>
     (\<forall>k D k' D'. (k, D) \<in> set (rows (user_domains d)) \<longrightarrow> (k', D') \<in> set (rows (user_domains d)) \<longrightarrow>
        ud_domain D = ud_domain D' \<longrightarrow> k = k')"

definition single_ok :: "db \<Rightarrow> bool" where
  "single_ok d \<longleftrightarrow>
     (\<forall>k r k' r' i. (k, r) \<in> set (rows (ippools d)) \<longrightarrow> (k', r') \<in> set (rows (ippools d)) \<longrightarrow>
        ip_instance_id r = Some i \<longrightarrow> ip_instance_id r' = Some i \<longrightarrow> k = k') \<and>
     (\<forall>k r k' r'. (k, r) \<in> set (rows (storages d)) \<longrightarrow> (k', r') \<in> set (rows (storages d)) \<longrightarrow>
        st_instance_id r = st_instance_id r' \<longrightarrow> k = k')"

definition refs_ok :: "db \<Rightarrow> bool" where
  "refs_ok d \<longleftrightarrow>
     (\<forall>k r i. (k, r) \<in> set (rows (ippools d)) \<longrightarrow> ip_instance_id r = Some i \<longrightarrow> i \<in> fst ` set (rows (instances d))) \<and>
     (\<forall>k r. (k, r) \<in> set (rows (storages d)) \<longrightarrow> st_instance_id r \<in> fst ` set (rows (instances d))) \<and>
     port_refs_ok d"

definition cloud_inv :: "db \<Rightarrow> bool" where
  "cloud_inv d \<longleftrightarrow> keys_ok d \<and> uniq_ok d \<and> single_ok d \<and> refs_ok d"

lemmas cloud_inv_defs = cloud_inv_def keys_ok_def uniq_ok_def single_ok_def refs_ok_def port_refs_ok_def

lemma cloud_inv_cong:
  "instances d' = instances d \<Longrightarrow> ippools d' = ippools d \<Longrightarrow> storages d' = storages d \<Longrightarrow>
   user_domains d' = user_domains d \<Longrightarrow> port_mappings d' = port_mappings d \<Longrightarrow> cloud_inv d' = cloud_inv d"
  by (simp add: cloud_inv_defs)

lemma inv_lengths: "cloud_inv d \<Longrightarrow> length (ips_of d i) \<le> 1 \<and> length (storages_of d i) \<le> 1"
  unfolding ips_of_def storages_of_def cloud_inv_def keys_ok_def single_ok_def
  by (intro conjI t_select_le1) auto

text \<open>Changes of the other tables.\<close>

lemma inv_other_tables [simp]:
  "cloud_inv (profiles_update f1 d) = cloud_inv d" "cloud_inv (traces_update f2 d) = cloud_inv d"
  "cloud_inv (networkpools_update f3 d) = cloud_inv d" "cloud_inv (gateways_update f4 d) = cloud_inv d"
  "cloud_inv (storagepools_update f5 d) = cloud_inv d" "cloud_inv (jobs_update f6 d) = cloud_inv d"
  "cloud_inv (users_update f7 d) = cloud_inv d" "cloud_inv (update_used pid d) = cloud_inv d"
  by (simp_all add: cloud_inv_defs update_used_def Let_def)

section \<open>Elementary changes\<close>

lemma keys_upd [simp]: "fst ` set (rows (t_upd k f t)) = fst ` set (rows t)"
  by (force simp: t_upd_def)

lemma row_upd: "(a, b) \<in> set (rows (t_upd k f t)) \<Longrightarrow> \<exists>b'. (a, b') \<in> set (rows t) \<and> b = (if a = k then f b' else b')"
  by (auto simp: t_upd_def)

lemma row_del: "(a, b) \<in> set (rows (t_del k t)) \<longleftrightarrow> (a, b) \<in> set (rows t) \<and> a \<noteq> k"
  by (auto simp: t_del_def)

lemma inv_upd_instance: "cloud_inv d \<Longrightarrow> cloud_inv (upd_instance iid f d)"
  by (simp add: cloud_inv_defs upd_instance_def)

lemma inv_add_instance: "cloud_inv d \<Longrightarrow> cloud_inv (instances_update (t_add I) d)"
  by (auto simp: cloud_inv_defs t_ok_add)

lemma map_texts_upd:
  "(\<And>v. g (f v) = g v) \<Longrightarrow> map (g \<circ> snd) (rows (t_upd k f t)) = map (g \<circ> snd) (rows t)"
  by (auto simp: t_upd_def)

lemma inv_set_ip:
  assumes "cloud_inv d" and "\<And>i. iid = Some i \<Longrightarrow> i \<in> fst ` set (rows (instances d)) \<and> ips_of d i = []"
  shows "cloud_inv (set_ip_instance k iid d)"
proof -
  let ?t = "t_upd k (\<lambda>r. r\<lparr>ip_instance_id := iid\<rparr>) (ippools d)"
  have free: "(a, r) \<in> set (rows (ippools d)) \<Longrightarrow> ip_instance_id r \<noteq> Some i" if "iid = Some i" for a r i
    using assms(2) [OF that] by (auto simp: ips_of_def t_select_def filter_empty_conv)
  have "ip_texts ?t = ip_texts (ippools d)"
    unfolding ip_texts_def by (rule map_texts_upd) simp
  moreover have "k1 = k2" if "(k1, r1) \<in> set (rows ?t)" "(k2, r2) \<in> set (rows ?t)"
      "ip_instance_id r1 = Some i" "ip_instance_id r2 = Some i" for k1 r1 k2 r2 i
    using that free assms(1)
    by (auto dest!: row_upd simp: cloud_inv_def single_ok_def split: if_splits)
  moreover have "i \<in> fst ` set (rows (instances d))" if "(k1, r1) \<in> set (rows ?t)" "ip_instance_id r1 = Some i" for k1 r1 i
    using that assms by (auto dest!: row_upd simp: cloud_inv_def refs_ok_def split: if_splits)
  moreover have "port_refs_ok (set_ip_instance k iid d) = port_refs_ok d"
    by (simp add: port_refs_ok_def set_ip_instance_def)
  moreover have "keys_ok (set_ip_instance k iid d)"
    using assms(1) by (simp add: cloud_inv_def keys_ok_def set_ip_instance_def)
  ultimately show ?thesis
    using assms(1) by (auto simp: cloud_inv_def uniq_ok_def single_ok_def refs_ok_def set_ip_instance_def)
qed

lemma ips_of_set_ip: "instances (set_ip_instance k i d) = instances d" "storages (set_ip_instance k i d) = storages d"
  "user_domains (set_ip_instance k i d) = user_domains d" "port_mappings (set_ip_instance k i d) = port_mappings d"
  by (simp_all add: set_ip_instance_def)

lemma inv_storage_add:
  assumes "cloud_inv d" "st_instance_id S \<in> fst ` set (rows (instances d))" "storages_of d (st_instance_id S) = []"
  shows "cloud_inv (storages_update (t_add S) d)"
proof -
  have "(a, r) \<in> set (rows (storages d)) \<Longrightarrow> st_instance_id r \<noteq> st_instance_id S" for a r
    using assms(3) by (auto simp: storages_of_def t_select_def filter_empty_conv)
  then have "k1 = k2" if "(k1, r1) \<in> set (rows (t_add S (storages d)))" "(k2, r2) \<in> set (rows (t_add S (storages d)))"
      "st_instance_id r1 = st_instance_id r2" for k1 r1 k2 r2
    using that assms(1) by (auto simp: cloud_inv_def single_ok_def dest: sym)
  moreover have "st_instance_id r \<in> fst ` set (rows (instances d))" if "(a, r) \<in> set (rows (t_add S (storages d)))" for a r
    using that assms(1,2) by (auto simp: cloud_inv_def refs_ok_def)
  ultimately show ?thesis
    using assms(1) by (auto simp: cloud_inv_def keys_ok_def uniq_ok_def single_ok_def refs_ok_def port_refs_ok_def
        t_ok_add simp del: rows_table_simps)
qed

lemma inv_storage_upd:
  assumes "cloud_inv d" "\<And>S. st_instance_id (f S) = st_instance_id S"
  shows "cloud_inv (storages_update (t_upd k f) d)"
proof -
  let ?t = "t_upd k f (storages d)"
  have i: "\<exists>r'. (a, r') \<in> set (rows (storages d)) \<and> st_instance_id r = st_instance_id r'" if "(a, r) \<in> set (rows ?t)" for a r
    using row_upd [OF that] assms(2) by auto
  have "k1 = k2" if "(k1, r1) \<in> set (rows ?t)" "(k2, r2) \<in> set (rows ?t)" "st_instance_id r1 = st_instance_id r2" for k1 r1 k2 r2
    using i [OF that(1)] i [OF that(2)] that(3) assms(1) by (auto simp: cloud_inv_def single_ok_def)
  moreover have "st_instance_id r \<in> fst ` set (rows (instances d))" if "(a, r) \<in> set (rows ?t)" for a r
    using i [OF that] assms(1) by (auto simp: cloud_inv_def refs_ok_def)
  ultimately show ?thesis
    using assms(1) by (auto simp: cloud_inv_def keys_ok_def uniq_ok_def single_ok_def refs_ok_def port_refs_ok_def)
qed

lemma inv_storage_subset:
  assumes "cloud_inv d" "t_ok (f (storages d))" "set (rows (f (storages d))) \<subseteq> set (rows (storages d))"
  shows "cloud_inv (storages_update f d)"
proof -
  have "single_ok (storages_update f d)"
    using assms(1,3) unfolding cloud_inv_def single_ok_def by simp (meson subsetD)
  moreover have "refs_ok (storages_update f d)"
    using assms(1,3) unfolding cloud_inv_def refs_ok_def port_refs_ok_def by simp (meson subsetD)
  ultimately show ?thesis
    using assms(1,2) by (simp add: cloud_inv_def keys_ok_def uniq_ok_def)
qed

lemma inv_storage_del: "cloud_inv d \<Longrightarrow> cloud_inv (storages_update (t_del k) d)"
  by (rule inv_storage_subset) (auto simp: row_del cloud_inv_def keys_ok_def)

lemma inv_domain_table:
  assumes "cloud_inv d" "t_ok (f (user_domains d))"
    "\<And>k D k' D'. (k, D) \<in> set (rows (f (user_domains d))) \<Longrightarrow> (k', D') \<in> set (rows (f (user_domains d))) \<Longrightarrow>
       ud_domain D = ud_domain D' \<Longrightarrow> k = k'"
  shows "cloud_inv (user_domains_update f d)"
proof -
  have "uniq_ok (user_domains_update f d)"
    using assms(1,3) unfolding cloud_inv_def uniq_ok_def by simp
  then show ?thesis
    using assms(1,2) by (simp add: cloud_inv_def keys_ok_def single_ok_def refs_ok_def port_refs_ok_def)
qed

lemma inv_domainD: "cloud_inv d \<Longrightarrow> (k, D) \<in> set (rows (user_domains d)) \<Longrightarrow> (k', D') \<in> set (rows (user_domains d)) \<Longrightarrow>
    ud_domain D = ud_domain D' \<Longrightarrow> k = k'"
  unfolding cloud_inv_def uniq_ok_def by blast

lemma inv_domain_add:
  assumes "cloud_inv d" "t_first (\<lambda>_ D. ud_domain D = ud_domain x) (user_domains d) = None"
  shows "cloud_inv (user_domains_update (t_add x) d)"
proof -
  have no: "(a, D) \<in> set (rows (user_domains d)) \<Longrightarrow> ud_domain D \<noteq> ud_domain x" for a D
    using assms(2) by (auto simp: t_first_None)
  show ?thesis
    using assms(1) no
    by (intro inv_domain_table) (auto simp: t_ok_add cloud_inv_def keys_ok_def dest: inv_domainD [OF assms(1)] dest: sym)
qed

lemma inv_domain_upd:
  assumes "cloud_inv d" "\<not> list_ex (\<lambda>(old, _). old \<noteq> k) (t_select (\<lambda>_ D. ud_domain D = name) (user_domains d))"
  shows "cloud_inv (user_domains_update (t_upd k (\<lambda>D. D\<lparr>ud_domain := name\<rparr>)) d)"
proof -
  have no: "(a, D) \<in> set (rows (user_domains d)) \<Longrightarrow> ud_domain D = name \<Longrightarrow> a = k" for a D
    using assms(2) by (auto simp: list_ex_iff t_select_def)
  show ?thesis
  proof (rule inv_domain_table [OF assms(1)])
    fix k1 D1 k2 D2
    assume r: "(k1, D1) \<in> set (rows (t_upd k (\<lambda>D. D\<lparr>ud_domain := name\<rparr>) (user_domains d)))"
      "(k2, D2) \<in> set (rows (t_upd k (\<lambda>D. D\<lparr>ud_domain := name\<rparr>) (user_domains d)))" and e: "ud_domain D1 = ud_domain D2"
    from row_upd [OF r(1)] row_upd [OF r(2)] e show "k1 = k2"
      using no inv_domainD [OF assms(1)] by (auto split: if_splits)
  qed (use assms(1) in \<open>simp add: cloud_inv_def keys_ok_def\<close>)
qed

lemma inv_domain_del: "cloud_inv d \<Longrightarrow> cloud_inv (user_domains_update (t_del k) d)"
  by (rule inv_domain_table) (auto simp: row_del cloud_inv_def keys_ok_def uniq_ok_def)

lemma inv_port_upd:
  assumes "cloud_inv d" "\<And>P. pm_gateway_port (f P) = pm_gateway_port P"
    "\<And>P i. pm_ip_id (f P) = Some i \<Longrightarrow> i \<in> fst ` set (rows (ippools d))"
  shows "cloud_inv (port_mappings_update (t_upd k f) d)"
proof -
  have "port_numbers (t_upd k f (port_mappings d)) = port_numbers (port_mappings d)"
    unfolding port_numbers_def by (rule map_texts_upd) (rule assms(2))
  moreover have "i \<in> fst ` set (rows (ippools d))"
    if "(a, P) \<in> set (rows (t_upd k f (port_mappings d)))" "pm_ip_id P = Some i" for a P i
    using row_upd [OF that(1)] that(2) assms(1,3)
    by (auto simp: cloud_inv_def refs_ok_def port_refs_ok_def split: if_splits)
  ultimately show ?thesis
    using assms(1) by (auto simp: cloud_inv_def keys_ok_def uniq_ok_def single_ok_def refs_ok_def port_refs_ok_def)
qed

lemma appends_row: "appends Q t t' \<Longrightarrow> (k, v) \<in> set (rows t') \<Longrightarrow> (k, v) \<in> set (rows t) \<or> Q v"
  by (fastforce simp: appends_def list_all_iff)

lemma appends_keys: "appends Q t t' \<Longrightarrow> fst ` set (rows t) \<subseteq> fst ` set (rows t')"
  by (auto simp: appends_def)

lemma inv_port_table:
  assumes "cloud_inv d" "t_ok (f (port_mappings d))" "distinct (port_numbers (f (port_mappings d)))"
    "\<And>k P i. (k, P) \<in> set (rows (f (port_mappings d))) \<Longrightarrow> pm_ip_id P = Some i \<Longrightarrow> i \<in> fst ` set (rows (ippools d))"
  shows "cloud_inv (port_mappings_update f d)"
proof -
  have "port_refs_ok (port_mappings_update f d)" using assms(4) by (auto simp: port_refs_ok_def)
  then show ?thesis
    using assms(1-3) by (simp add: cloud_inv_def keys_ok_def uniq_ok_def single_ok_def refs_ok_def)
qed

lemma inv_ip_table:
  assumes "cloud_inv d" "t_ok (f (ippools d))" "distinct (ip_texts (f (ippools d)))"
    "fst ` set (rows (ippools d)) \<subseteq> fst ` set (rows (f (ippools d)))"
    "\<And>k r. (k, r) \<in> set (rows (f (ippools d))) \<Longrightarrow> ip_instance_id r = None \<or>
       (\<exists>r'. (k, r') \<in> set (rows (ippools d)) \<and> ip_instance_id r = ip_instance_id r')"
  shows "cloud_inv (ippools_update f d)"
proof -
  have old: "\<exists>r'. (k, r') \<in> set (rows (ippools d)) \<and> ip_instance_id r' = Some i"
    if "(k, r) \<in> set (rows (f (ippools d)))" "ip_instance_id r = Some i" for k r i
    using assms(5) [OF that(1)] that(2) by auto
  have "k1 = k2" if "(k1, r1) \<in> set (rows (f (ippools d)))" "(k2, r2) \<in> set (rows (f (ippools d)))"
      "ip_instance_id r1 = Some i" "ip_instance_id r2 = Some i" for k1 r1 k2 r2 i
    using old [OF that(1,3)] old [OF that(2,4)] assms(1) unfolding cloud_inv_def single_ok_def by blast
  moreover have "i \<in> fst ` set (rows (instances d))" if "(k, r) \<in> set (rows (f (ippools d)))" "ip_instance_id r = Some i" for k r i
    using old [OF that] assms(1) unfolding cloud_inv_def refs_ok_def by blast
  moreover have "port_refs_ok (ippools_update f d)"
    using assms(1,4) unfolding cloud_inv_def refs_ok_def port_refs_ok_def by simp blast
  ultimately show ?thesis
    using assms(1-3) by (auto simp: cloud_inv_def keys_ok_def uniq_ok_def single_ok_def refs_ok_def)
qed

lemma inv_add_ports: "cloud_inv d \<Longrightarrow> cloud_inv (port_mappings_update (add_ports cur stop ex gid) d)"
  by (rule inv_port_table)
    (auto simp: add_ports_ok add_ports_distinct cloud_inv_def keys_ok_def uniq_ok_def refs_ok_def port_refs_ok_def
      dest!: appends_row [OF add_ports_rows])

lemma inv_add_addresses:
  assumes "cloud_inv d"
  shows "cloud_inv (ippools_update (add_addresses y start stop ex nid now xs) d)"
proof (rule inv_ip_table [OF assms])
  let ?t = "add_addresses y start stop ex nid now xs (ippools d)"
  show "t_ok ?t" "distinct (ip_texts ?t)"
    using assms by (simp_all add: add_addresses_ok add_addresses_distinct cloud_inv_def keys_ok_def uniq_ok_def)
  show "fst ` set (rows (ippools d)) \<subseteq> fst ` set (rows ?t)"
    by (rule appends_keys [OF add_addresses_rows])
  show "ip_instance_id r = None \<or> (\<exists>r'. (k, r') \<in> set (rows (ippools d)) \<and> ip_instance_id r = ip_instance_id r')"
    if "(k, r) \<in> set (rows ?t)" for k r
    using appends_row [OF add_addresses_rows that] by auto
qed

lemma inv_delete_ips: "cloud_inv d \<Longrightarrow> cloud_inv (delete_ips P d)"
proof -
  assume i: "cloud_inv d"
  have "port_refs_ok (delete_ips P d)" using i delete_ips_refs by (auto simp: cloud_inv_def refs_ok_def)
  then show ?thesis
    using i by (auto simp: cloud_inv_def keys_ok_def uniq_ok_def single_ok_def refs_ok_def delete_ips_def Let_def
        t_ok_del t_ok_upd ip_texts_del table_simps)
qed

lemma inv_release_all:
  assumes "cloud_inv d"
  shows "cloud_inv (release_all now iid d)"
proof -
  let ?u1 = "t_upd_where (\<lambda>_ y. case pm_ip_id y of None \<Rightarrow> False | Some k \<Rightarrow> k \<in> set (map fst (ips_of d iid)))
      (\<lambda>y. y\<lparr>pm_ip_id := None, pm_ip_port := None\<rparr>)"
  let ?u2 = "t_upd_where (\<lambda>_ x. ip_instance_id x = Some iid) (\<lambda>x. x\<lparr>ip_instance_id := None, ip_updated := now\<rparr>)"
  let ?u3 = "t_del_where (\<lambda>_ x. ud_instance_id x = iid)" and ?u4 = "t_del_where (\<lambda>_ x. st_instance_id x = iid)"
  let ?d1 = "port_mappings_update ?u1 d"
  let ?d2 = "ippools_update ?u2 ?d1"
  let ?d3 = "user_domains_update ?u3 ?d2"
  have c1: "cloud_inv ?d1"
    using assms by (intro inv_port_table)
      (auto simp: t_ok_upd cloud_inv_def keys_ok_def uniq_ok_def refs_ok_def port_refs_ok_def table_simps(1-6) port_numbers_simps
        split: if_splits)
  have c2: "cloud_inv ?d2"
    using c1 by (intro inv_ip_table) (force simp: t_ok_upd cloud_inv_def keys_ok_def uniq_ok_def ip_texts_simps split: if_splits)+
  have c3: "cloud_inv ?d3"
    using c2 by (intro inv_domain_table) (auto simp: t_ok_del cloud_inv_def keys_ok_def uniq_ok_def)
  have "cloud_inv (storages_update ?u4 ?d3)"
    using c3 by (intro inv_storage_subset) (auto simp: cloud_inv_def keys_ok_def t_ok_del)
  moreover have "release_all now iid d = storages_update ?u4 ?d3"
    by (simp add: release_all_def Let_def)
  ultimately show ?thesis by simp
qed

end
