(* ===== verification/Keeper.thy ===== *)
theory Keeper
  imports Cloud_Inv
begin

text \<open>
  What the handlers of an ordinary user do to the database, as an interface: the locale
  \<open>user_keeper\<close> lists the elementary changes with the guards under which the handlers make them; a
  property that survives each of them survives every handler. It is interpreted for the invariant
  of the pools and for the isolation of the users from each other.
\<close>

section \<open>Handlers step by step\<close>

lemma with_login_keep:
  "(\<And>u. c_user c = Some u \<Longrightarrow> sess R (snd (h u c s))) \<Longrightarrow> sess R s \<Longrightarrow> sess R (snd (with_login h c s))"
  by (simp add: with_login_def split: option.split)

lemma with_permission_keep:
  "(\<And>u. c_user c = Some u \<Longrightarrow> sess R (snd (h c s))) \<Longrightarrow> sess R s \<Longrightarrow> sess R (snd (with_permission p h c s))"
  by (auto simp: with_permission_def require_permission_def split: option.split)

lemma on_value_keep:
  "(\<And>x. r = Inr x \<Longrightarrow> sess R (snd (k x))) \<Longrightarrow> sess R s \<Longrightarrow> sess R (snd (on_value r s k))"
  by (simp add: on_value_def split: sum.split)

definition owns :: "int \<Rightarrow> db \<Rightarrow> int \<Rightarrow> bool" where
  "owns u d iid = (\<exists>I. t_get (instances d) iid = Some I \<and> i_user_id I = u)"

lemma set_myinstance_Inr:
  "set_myinstance u c d = Inr (iid, I) \<Longrightarrow>
     t_get (instances d) iid = Some I \<and> i_user_id I = u \<and> i_status I \<noteq> INSTANCE_DELETED_STATUS \<and> iid = arg_id c ''id''"
  by (auto simp: set_myinstance_def Let_def split: option.splits if_splits)

lemma set_myinstance_owns: "set_myinstance u c d = Inr (iid, I) \<Longrightarrow> owns u d iid"
  by (auto simp: owns_def dest: set_myinstance_Inr)

lemma with_myinstance_keep:
  "(\<And>u iid I. c_user c = Some u \<Longrightarrow> set_myinstance u c (work s) = Inr (iid, I) \<Longrightarrow> sess R (snd (h u iid I c s))) \<Longrightarrow>
   sess R s \<Longrightarrow> sess R (snd (with_myinstance h c s))"
  unfolding with_myinstance_def by (rule with_login_keep) (auto split: sum.split)

lemma StorageAdd_prepare_keep:
  "(\<And>u iid I. c_user c = Some u \<Longrightarrow> set_myinstance u c (work s) = Inr (iid, I) \<Longrightarrow> storages_of (work s) iid = [] \<Longrightarrow>
      sess R (snd (h u iid I c s))) \<Longrightarrow>
   sess R s \<Longrightarrow> sess R (snd (StorageAdd_prepare h c s))"
  unfolding StorageAdd_prepare_def by (rule with_myinstance_keep) (auto simp: not_le)

lemma NetworkAdd_prepare_keep:
  "(\<And>u iid I. c_user c = Some u \<Longrightarrow> set_myinstance u c (work s) = Inr (iid, I) \<Longrightarrow> ips_of (work s) iid = [] \<Longrightarrow>
      sess R (snd (h u iid I c s))) \<Longrightarrow>
   sess R s \<Longrightarrow> sess R (snd (NetworkAdd_prepare h c s))"
  unfolding NetworkAdd_prepare_def by (rule with_myinstance_keep) (auto simp: not_le)

lemma DomainAdd_prepare_keep:
  "(\<And>u iid I. c_user c = Some u \<Longrightarrow> set_myinstance u c (work s) = Inr (iid, I) \<Longrightarrow> sess R (snd (h u iid I c s))) \<Longrightarrow>
   sess R s \<Longrightarrow> sess R (snd (DomainAdd_prepare h c s))"
  unfolding DomainAdd_prepare_def by (rule with_myinstance_keep) (auto split: option.split)

lemma with_storage_keep:
  "(\<And>u sid S I. c_user c = Some u \<Longrightarrow> StorageAction_initialize c (work s) = Inr (Inr (sid, S, I)) \<Longrightarrow>
      sess R (snd (h u sid S c s))) \<Longrightarrow>
   sess R s \<Longrightarrow> sess R (snd (with_storage h c s))"
  unfolding with_storage_def by (rule on_value_keep, rule with_login_keep) (auto split: sum.split)

lemma with_ip_keep:
  "(\<And>u k IP. c_user c = Some u \<Longrightarrow> NetworkAction_initialize c (work s) = Inr (Inr (k, IP)) \<Longrightarrow>
      sess R (snd (h u k IP c s))) \<Longrightarrow>
   sess R s \<Longrightarrow> sess R (snd (with_ip h c s))"
  unfolding with_ip_def by (rule on_value_keep, rule with_login_keep) (auto split: sum.split)

lemma with_domain_keep:
  "(\<And>u k D. c_user c = Some u \<Longrightarrow> DomainAction_initialize c (work s) = Inr (Inr (k, D)) \<Longrightarrow>
      sess R (snd (h u k D c s))) \<Longrightarrow>
   sess R s \<Longrightarrow> sess R (snd (with_domain h c s))"
  unfolding with_domain_def by (rule on_value_keep, rule with_login_keep) (auto split: sum.split)

lemma StorageAction_Inr:
  "StorageAction_initialize c d = Inr (Inr (sid, S, I)) \<Longrightarrow> c_user c = Some u \<Longrightarrow>
     t_get (storages d) sid = Some S \<and> t_get (instances d) (st_instance_id S) = Some I \<and> i_user_id I = u"
  by (auto simp: StorageAction_initialize_def Let_def split: option.splits if_splits)

lemma NetworkAction_Inr:
  "NetworkAction_initialize c d = Inr (Inr (k, r)) \<Longrightarrow> c_user c = Some u \<Longrightarrow>
     t_get (ippools d) k = Some r \<and>
     (\<forall>iid. ip_instance_id r = Some iid \<longrightarrow> iid \<noteq> 0 \<longrightarrow> (\<exists>I. t_get (instances d) iid = Some I \<and> i_user_id I = u))"
  by (auto simp: NetworkAction_initialize_def Let_def split: option.splits if_splits)

lemma DomainAction_Inr:
  "DomainAction_initialize c d = Inr (Inr (k, D)) \<Longrightarrow> c_user c = Some u \<Longrightarrow>
     t_get (user_domains d) k = Some D \<and> (\<exists>I. t_get (instances d) (ud_instance_id D) = Some I \<and> i_user_id I = u)"
  by (auto simp: DomainAction_initialize_def Let_def split: option.splits if_splits)

lemma session_update_network_result:
  "session_update_network c iid s = Inr s' \<Longrightarrow>
     \<exists>I'. s' = modify (upd_instance iid (\<lambda>_. I')) s \<and> (\<exists>I. t_get (instances (work s)) iid = Some I \<and> i_user_id I' = i_user_id I)"
  by (auto simp: session_update_network_def dest!: update_network_other_fields split: option.splits sum.splits)

lemma set_domain_entry_result:
  "set_domain_entry c iid name s = Inr s' \<Longrightarrow>
     \<exists>v. s' = modify (upd_instance iid (inst_set (c_now c) ''domain'' v)) s"
  unfolding set_domain_entry_def Let_def by (force split: option.splits json.splits)

lemma owns_simps [simp]:
  "owns u (set_ip_instance k i d) iid = owns u d iid" "owns u (user_domains_update f d) iid = owns u d iid"
  "owns u (storages_update g d) iid = owns u d iid" "owns u (traces_update h d) iid = owns u d iid"
  by (simp_all add: owns_def set_ip_instance_def)

lemma work_add_trace: "work (add_trace who ty tid msg s) = traces_update (t_add \<lparr>tr_who_id = who, tr_target_type = ty, tr_target_id = tid, tr_do = msg\<rparr>) (work s)"
  by (simp add: add_trace_def)

lemma owns_upd [simp]: "(\<And>I. i_user_id (f I) = i_user_id I) \<Longrightarrow> owns u (upd_instance k f d) iid = owns u d iid"
  by (auto simp: owns_def upd_instance_def t_get_upd)

lemma get_free_ip_row: "get_free_ip d nid = Some (k, r) \<Longrightarrow> (k, r) \<in> set (rows (ippools d)) \<and> \<not> truthy_int (ip_instance_id r)"
  by (auto simp: get_free_ip_def network_ips_def t_select_def dest!: find_Some_set)

lemma first_free_ip_row:
  "first_free_ip d ns = Some (k, r) \<Longrightarrow> (k, r) \<in> set (rows (ippools d)) \<and> \<not> truthy_int (ip_instance_id r)"
  by (induction ns) (auto dest: get_free_ip_row split: option.splits)

lemma get_free_port_row:
  "get_free_port d gid = Some (m, P) \<Longrightarrow>
     (m, P) \<in> set (rows (port_mappings d)) \<and> \<not> truthy_int (pm_ip_id P) \<and> \<not> truthy_int (pm_ip_port P)"
  by (auto simp: get_free_port_def gateway_ports_def t_select_def dest!: find_Some_set)

section \<open>The interface\<close>

locale user_keeper =
  fixes Q :: "db \<Rightarrow> bool" and u :: int
  assumes inst_ok: "Q d \<Longrightarrow> t_ok (instances d)"
    and new_no_ip: "Q d \<Longrightarrow> ips_of d (t_newid (instances d)) = []"
    and upd_own: "Q d \<Longrightarrow> owns u d iid \<Longrightarrow> (\<And>I. t_get (instances d) iid = Some I \<Longrightarrow> i_user_id (f I) = i_user_id I) \<Longrightarrow> Q (upd_instance iid f d)"
    and add_own: "Q d \<Longrightarrow> i_user_id I = u \<Longrightarrow> Q (instances_update (t_add I) d)"
    and own_profile: "Q d \<Longrightarrow> (k, p) \<in> set (rows (profiles d)) \<Longrightarrow> pf_user_id p = u \<Longrightarrow> Q (profiles_update (t_upd k (set_root_password h)) d)"
    and add_trace_row: "Q d \<Longrightarrow> Q (traces_update tf d)"
    and pool_used: "Q d \<Longrightarrow> Q (update_used pid d)"
    and give_ip: "Q d \<Longrightarrow> owns u d iid \<Longrightarrow> ips_of d iid = [] \<Longrightarrow> (k, r) \<in> set (rows (ippools d)) \<Longrightarrow>
       \<not> truthy_int (ip_instance_id r) \<Longrightarrow> Q (set_ip_instance k (Some iid) d)"
    and free_ip: "Q d \<Longrightarrow> t_get (ippools d) k = Some r \<Longrightarrow> ip_instance_id r = Some iid \<Longrightarrow> owns u d iid \<Longrightarrow>
       Q (set_ip_instance k None d)"
    and storage_add: "Q d \<Longrightarrow> owns u d (st_instance_id S) \<Longrightarrow> storages_of d (st_instance_id S) = [] \<Longrightarrow>
       Q (storages_update (t_add S) d)"
    and storage_upd: "Q d \<Longrightarrow> t_get (storages d) k = Some S \<Longrightarrow> owns u d (st_instance_id S) \<Longrightarrow>
       (\<And>S. st_instance_id (g S) = st_instance_id S) \<Longrightarrow> Q (storages_update (t_upd k g) d)"
    and storage_del: "Q d \<Longrightarrow> t_get (storages d) k = Some S \<Longrightarrow> owns u d (st_instance_id S) \<Longrightarrow>
       Q (storages_update (t_del k) d)"
    and domain_add: "Q d \<Longrightarrow> owns u d (ud_instance_id D) \<Longrightarrow>
       t_first (\<lambda>_ x. ud_domain x = ud_domain D) (user_domains d) = None \<Longrightarrow> Q (user_domains_update (t_add D) d)"
    and domain_upd: "Q d \<Longrightarrow> t_get (user_domains d) k = Some D \<Longrightarrow> owns u d (ud_instance_id D) \<Longrightarrow>
       \<not> list_ex (\<lambda>(old, _). old \<noteq> k) (t_select (\<lambda>_ D. ud_domain D = name) (user_domains d)) \<Longrightarrow>
       Q (user_domains_update (t_upd k (\<lambda>D. D\<lparr>ud_domain := name\<rparr>)) d)"
    and domain_del: "Q d \<Longrightarrow> t_get (user_domains d) k = Some D \<Longrightarrow> owns u d (ud_instance_id D) \<Longrightarrow>
       Q (user_domains_update (t_del k) d)"
    and port_bind: "Q d \<Longrightarrow> (m, P) \<in> set (rows (port_mappings d)) \<Longrightarrow> \<not> truthy_int (pm_ip_id P) \<Longrightarrow>
       t_get (ippools d) k = Some r \<Longrightarrow> ip_instance_id r = Some iid \<Longrightarrow> owns u d iid \<Longrightarrow>
       Q (port_mappings_update (t_upd m (\<lambda>P. P\<lparr>pm_ip_id := Some k, pm_ip_port := port\<rparr>)) d)"
    and port_unbind: "Q d \<Longrightarrow> t_get (port_mappings d) m = Some P \<Longrightarrow> pm_ip_id P = Some k \<Longrightarrow>
       (k, r) \<in> set (rows (ippools d)) \<Longrightarrow> ip_instance_id r = Some iid \<Longrightarrow> owns u d iid \<Longrightarrow>
       Q (port_mappings_update (t_upd m (\<lambda>P. P\<lparr>pm_ip_port := None, pm_ip_id := None\<rparr>)) d)"
begin

lemma keep_upd [intro!]:
  "sess Q s \<Longrightarrow> owns u (work s) iid \<Longrightarrow> (\<And>I. t_get (instances (work s)) iid = Some I \<Longrightarrow> i_user_id (f I) = i_user_id I) \<Longrightarrow>
     sess Q (modify (upd_instance iid f) s)"
  by (auto intro!: sess_modify upd_own dest: sess_work)

lemma keep_trace [intro!]: "sess Q s \<Longrightarrow> sess Q (add_trace who ty tid msg s)"
  by (auto simp: add_trace_def intro!: sess_modify add_trace_row dest: sess_work)

lemma keep_network:
  "session_update_network c iid s = Inr s' \<Longrightarrow> sess Q s \<Longrightarrow> owns u (work s) iid \<Longrightarrow> sess Q s'"
  by (auto dest!: session_update_network_result)

lemma keep_domain_entry:
  "set_domain_entry c iid name s = Inr s' \<Longrightarrow> sess Q s \<Longrightarrow> owns u (work s) iid \<Longrightarrow> sess Q s'"
  by (auto dest!: set_domain_entry_result)

lemma on_network_keep:
  "sess Q s \<Longrightarrow> owns u (work s) iid \<Longrightarrow> (\<And>s'. sess Q s' \<Longrightarrow> sess Q (snd (k s'))) \<Longrightarrow>
     sess Q (snd (on_value (session_update_network c iid s) s k))"
  by (rule on_value_keep) (auto dest: keep_network)

lemma on_domain_keep:
  "sess Q s \<Longrightarrow> owns u (work s) iid \<Longrightarrow> (\<And>s'. sess Q s' \<Longrightarrow> sess Q (snd (k s'))) \<Longrightarrow>
     sess Q (snd (on_value (set_domain_entry c iid name s) s k))"
  by (rule on_value_keep) (auto dest: keep_domain_entry)

lemma keep_GlobalPasswordEdit:
  "c_user c = Some u \<Longrightarrow> sess Q s \<Longrightarrow> sess Q (snd (GlobalPasswordEdit_post hash pw cf c s))"
  unfolding GlobalPasswordEdit_post_def
  by (rule with_login_keep) (auto split: option.split dest!: t_first_Some intro!: sess_modify own_profile dest: sess_work)

lemma keep_ResourceEdit:
  "c_user c = Some u \<Longrightarrow> sess Q s \<Longrightarrow> sess Q (snd (ResourceEdit_post f c s))"
  unfolding ResourceEdit_post_def
  by (rule with_myinstance_keep) (auto dest: set_myinstance_owns)

lemma keep_BaseinfoEdit:
  "c_user c = Some u \<Longrightarrow> sess Q s \<Longrightarrow> sess Q (snd (BaseinfoEdit_post f c s))"
  unfolding BaseinfoEdit_post_def
  by (rule with_myinstance_keep) (auto dest: set_myinstance_owns)

lemma keep_InstancePublicKeyEdit:
  "c_user c = Some u \<Longrightarrow> sess Q s \<Longrightarrow> sess Q (snd (InstancePublicKeyEdit_post data c s))"
  unfolding InstancePublicKeyEdit_post_def
  by (rule with_myinstance_keep, rule on_value_keep) (auto dest: set_myinstance_owns split: option.split)

lemma keep_InstancePasswordEdit:
  assumes "c_user c = Some u" "sess Q s"
  shows "sess Q (snd (InstancePasswordEdit_post hash f c s))"
  unfolding InstancePasswordEdit_post_def
proof (rule with_myinstance_keep)
  fix v iid I assume "c_user c = Some v" "set_myinstance v c (work s) = Inr (iid, I)"
  then have o: "owns u (work s) iid" using assms(1) set_myinstance_owns by auto
  let ?r = "if pwf_usedefault f then
      (case profile_of (work s) (i_user_id I) of None \<Rightarrow> Inl (AttributeError ''get'')
       | Some p \<Rightarrow> (case profile_shadow p of Inl e \<Rightarrow> Inl e | Inr passwd \<Rightarrow> Inr (inst_set (c_now c) ''passwd_hash'' passwd)))
    else Inr (inst_set_root_password (c_now c) hash)"
  have k: "i_user_id (upd J) = i_user_id J" if "?r = Inr upd" for upd J
    using that by (auto simp: inst_set_root_password_def split: if_splits option.splits sum.splits)
  have "sess Q (snd (on_value ?r s (\<lambda>upd. (view_url iid, commit (modify (upd_instance iid
            (\<lambda>I. inst_set (c_now c) ''use_global_passwd'' (JBool (pwf_usedefault f)) (upd I))) s)))))"
  proof (rule on_value_keep)
    fix upd assume "?r = Inr upd"
    then have "i_user_id (upd J) = i_user_id J" for J by (rule k)
    then show "sess Q (snd (view_url iid, commit (modify (upd_instance iid
            (\<lambda>I. inst_set (c_now c) ''use_global_passwd'' (JBool (pwf_usedefault f)) (upd I))) s)))"
      unfolding snd_conv by (intro sess_commit keep_upd assms(2) o) simp
  qed (rule assms(2))
  then show "sess Q (snd (if InstancePasswordForm_validate f then on_value ?r s (\<lambda>upd. (view_url iid, commit (modify (upd_instance iid
            (\<lambda>I. inst_set (c_now c) ''use_global_passwd'' (JBool (pwf_usedefault f)) (upd I))) s)))
      else (Render ''myun/instance/password_edit.html'', s)))"
    using assms(2) by simp
qed (rule assms(2))

lemma keep_StorageAdd:
  assumes "c_user c = Some u" "sess Q s"
  shows "sess Q (snd (StorageAdd_post f c s))"
proof -
  have "sess Q (modify (update_used pid) (commit (modify (storages_update (t_add (new_storage n pid pool iid))) s)))"
    if "owns u (work s) iid" "storages_of (work s) iid = []" for n pid pool iid
    using assms(2) that
    by (intro sess_modify sess_commit) (auto simp: new_storage_def intro!: pool_used storage_add dest: sess_work)
  then show ?thesis
    unfolding StorageAdd_post_def using assms
    by (intro StorageAdd_prepare_keep on_value_keep)
      (auto simp: Let_def dest: set_myinstance_owns split: option.split)
qed

lemma keep_StorageEdit:
  assumes "c_user c = Some u" "sess Q s"
  shows "sess Q (snd (StorageEdit_post f c s))"
proof -
  have "sess Q (modify (update_used pid) (commit (modify (storages_update (t_upd sid (\<lambda>S. S\<lparr>st_size := n, st_pool_id := pid\<rparr>))) s)))"
    if "StorageAction_initialize c (work s) = Inr (Inr (sid, S, I))" for sid S I n pid
    using assms(2) StorageAction_Inr [OF that assms(1)]
    by (intro sess_modify sess_commit) (auto simp: owns_def intro!: pool_used storage_upd dest: sess_work)
  then show ?thesis
    unfolding StorageEdit_post_def using assms(2)
    by (intro with_storage_keep on_value_keep) (auto simp: Let_def split: option.split)
qed

lemma keep_StorageDelete:
  assumes "c_user c = Some u" "sess Q s"
  shows "sess Q (snd (StorageDelete_get c s))"
proof -
  have "sess Q (commit (modify (storages_update (t_del sid)) s)) \<and>
      sess Q (modify (update_used pid) (commit (modify (storages_update (t_del sid)) s)))"
    if "StorageAction_initialize c (work s) = Inr (Inr (sid, S, I))" for sid S I pid
    using assms(2) StorageAction_Inr [OF that assms(1)]
    by (intro conjI sess_modify sess_commit) (auto simp: owns_def intro!: pool_used storage_del dest: sess_work)
  then show ?thesis
    unfolding StorageDelete_get_def using assms(2)
    by (intro with_storage_keep) (auto simp: Let_def split: option.split)
qed

lemma keep_NetworkAdd:
  assumes "c_user c = Some u" "sess Q s"
  shows "sess Q (snd (NetworkAdd_post pool c s))"
proof -
  have g: "sess Q (modify (set_ip_instance k (Some iid)) s)"
    if "owns u (work s) iid" "ips_of (work s) iid = []" "NetworkForm_validate (work s) pool = Inr (Some (k, r))" for k r iid
  proof -
    have "(k, r) \<in> set (rows (ippools (work s))) \<and> \<not> truthy_int (ip_instance_id r)"
      using that(3) by (auto simp: NetworkForm_validate_def dest!: get_free_ip_row split: sum.splits option.splits if_splits)
    then show ?thesis
      using assms(2) that(1,2) by (intro sess_modify give_ip) (auto dest: sess_work)
  qed
  show ?thesis
    unfolding NetworkAdd_post_def using assms g
    by (intro NetworkAdd_prepare_keep on_value_keep)
      (auto simp: Let_def dest: set_myinstance_owns intro!: on_network_keep split: option.split)
qed

lemma keep_MyNetworkDelete:
  assumes "c_user c = Some u" "sess Q s"
  shows "sess Q (snd (MyNetworkDelete_get c s))"
proof -
  have f: "sess Q (modify (set_ip_instance k None) s)" "owns u (work s) iid"
    if "NetworkAction_initialize c (work s) = Inr (Inr (k, r))" "ip_instance_id r = Some iid"
      "t_get (instances (work s)) iid = Some J" for k r iid J
  proof -
    have "iid \<noteq> 0"
      using that(3) t_ok_key [OF inst_ok [OF sess_work [OF assms(2)]]] t_get_in by force
    then have "owns u (work s) iid" "t_get (ippools (work s)) k = Some r"
      using NetworkAction_Inr [OF that(1) assms(1)] that(2) by (auto simp: owns_def)
    then show "sess Q (modify (set_ip_instance k None) s)" "owns u (work s) iid"
      using assms(2) that(2) by (auto intro!: sess_modify free_ip dest: sess_work)
  qed
  show ?thesis
    unfolding MyNetworkDelete_get_def using assms(2)
    by (intro with_ip_keep)
      (auto simp: Let_def work_add_trace intro!: on_network_keep intro: f split: option.split)
qed

lemma keep_DomainAdd:
  assumes "c_user c = Some u" "sess Q s"
  shows "sess Q (snd (DomainAdd_post name c s))"
proof -
  have "sess Q (modify (user_domains_update (t_add \<lparr>ud_domain = name, ud_user_id = u, ud_instance_id = iid\<rparr>)) s)"
    if "owns u (work s) iid" "t_first (\<lambda>_ D. ud_domain D = name) (user_domains (work s)) = None" for iid
    using assms(2) that by (intro sess_modify domain_add) (auto dest: sess_work)
  then show ?thesis
    unfolding DomainAdd_post_def using assms
    by (intro DomainAdd_prepare_keep) (auto simp: Let_def simp del: not_None_eq dest: set_myinstance_owns intro!: on_domain_keep)
qed

lemma keep_DomainDelete:
  assumes "c_user c = Some u" "sess Q s"
  shows "sess Q (snd (DomainDelete_get c s))"
  unfolding DomainDelete_get_def using assms
  by (intro with_domain_keep) (auto simp: owns_def intro!: sess_modify domain_del dest: sess_work dest!: DomainAction_Inr)

lemma keep_DomainEdit:
  assumes "c_user c = Some u" "sess Q s"
  shows "sess Q (snd (DomainEdit_post name c s))"
proof -
  have "sess Q (modify (user_domains_update (t_upd k (\<lambda>D. D\<lparr>ud_domain := name\<rparr>))) s) \<and> owns u (work s) (ud_instance_id D)"
    if "DomainAction_initialize c (work s) = Inr (Inr (k, D))"
      "\<not> list_ex (\<lambda>(old, _). old \<noteq> k) (t_select (\<lambda>_ D. ud_domain D = name) (user_domains (work s)))" for k D
    using assms(2) that(2) DomainAction_Inr [OF that(1) assms(1)]
    by (auto simp: owns_def intro!: sess_modify domain_upd dest: sess_work)
  then show ?thesis
    unfolding DomainEdit_post_def using assms
    by (intro with_domain_keep) (auto simp: Let_def intro!: on_domain_keep)
qed

lemma keep_set_ip:
  assumes "sess Q s" "owns u (work s) iid" "ips_of (work s) iid = []"
  shows "sess Q (fst (set_ip w c iid s)) \<and> owns u (work (fst (set_ip w c iid s))) iid"
proof (cases "first_free_ip (work s) (map fst (rows (networkpools (work s))))")
  case None
  then show ?thesis using assms by (simp add: set_ip_def)
next
  case (Some x)
  obtain k r where x: "x = (k, r)" by (cases x)
  define s1 where "s1 = commit (modify (set_ip_instance k (Some iid)) s)"
  have s1: "sess Q s1" "owns u (work s1) iid"
    using assms first_free_ip_row [of "work s"] Some
    unfolding s1_def x by (auto intro!: sess_modify give_ip dest: sess_work)
  show ?thesis
  proof (cases "session_update_network c iid s1")
    case (Inl e)
    then show ?thesis using s1 Some by (simp add: set_ip_def x Let_def flip: s1_def)
  next
    case (Inr s2)
    have "sess Q s2" using keep_network [OF Inr s1] .
    moreover have "owns u (work s2) iid"
      using session_update_network_result [OF Inr] s1(2) by (auto simp: owns_def upd_instance_def)
    ultimately show ?thesis
      using Some Inr by (auto simp: set_ip_def x Let_def work_add_trace simp flip: s1_def)
  qed
qed

lemma keep_set_secret:
  assumes "sess Q s" "owns u (work s) iid"
  shows "sess Q (set_secret w c p iid s)"
proof -
  have *: "sess Q (commit (modify (upd_instance iid (inst_set n k v)) s'))" if "sess Q s'" "owns u (work s') iid" for s' n k v
    using that by auto
  have o: "owns u (upd_instance iid (\<lambda>I. inst_set a b c' (inst_set d e f I)) dd) iid = owns u dd iid" for a b c' d e f dd
    by (rule owns_upd) simp
  show ?thesis
    using assms by (auto simp: set_secret_def Let_def o intro!: * split: list.split)
qed

lemma keep_create_instance:
  assumes "sess Q s"
  shows "sess Q (snd (create_instance u cookie c p aid f s))"
proof -
  define I where "I = (new_instance (c_now c) cookie (cf_name f) u aid)\<lparr>i_cpus := the (cf_cpus f),
      i_memory := the (cf_memory f), i_isprivate := cf_isprivate f\<rparr>"
  define iid where "iid = t_newid (instances (work s))"
  define s1 where "s1 = commit (modify (instances_update (t_add I)) s)"
  have q: "Q (work s)" using assms by (rule sess_work)
  have s1: "sess Q s1"
    using assms q add_own [OF q, of I] unfolding s1_def by (auto simp: I_def new_instance_def intro!: sess_modify)
  moreover have "owns u (work s1) iid"
    using tb.get_add [OF inst_ok [OF q]] by (simp add: s1_def owns_def iid_def I_def new_instance_def)
  moreover have "ips_of (work s1) iid = []"
    using new_no_ip [OF q] by (simp add: s1_def iid_def ips_of_def)
  ultimately have k: "sess Q (fst (set_ip u c iid s1)) \<and> owns u (work (fst (set_ip u c iid s1))) iid"
    by (rule keep_set_ip)
  obtain s2 r where s2: "set_ip u c iid s1 = (s2, r)" by (cases "set_ip u c iid s1")
  have "snd (create_instance u cookie c p aid f s) = (case r of None \<Rightarrow> set_secret u c p iid s2 | Some e \<Rightarrow> s2)"
    using s2 by (simp add: create_instance_def Let_def I_def iid_def s1_def split: option.split)
  then show ?thesis using k s2 by (auto intro!: keep_set_secret split: option.split)
qed

lemma keep_InstanceCreate:
  assumes "c_user c = Some u" "sess Q s"
  shows "sess Q (snd (InstanceCreate_post cookie f c s))"
  unfolding InstanceCreate_post_def using assms keep_create_instance
  by (intro with_permission_keep) (auto simp: Let_def intro!: on_value_keep split: sum.split option.split)

lemma keep_PortMappingAdd:
  assumes "c_user c = Some u" "sess Q s"
  shows "sess Q (fst (snd (PortMappingAdd_post e f c (s, ch))))"
proof -
  have "sess Q (modify (port_mappings_update (t_upd m (\<lambda>P. P\<lparr>pm_ip_id := Some k, pm_ip_port := pof_port f\<rparr>))) s)"
    if "PortMappingAdd_prepare c (work s) = Inr (gid, G, iid, I)" "PortMappingForm_validate (work s) iid f = Inr (Some (k, IP))"
      "get_free_port (work s) gid = Some (m, FP)" for gid G iid I k IP m FP
  proof -
    have "owns u (work s) iid"
      using that(1) assms(1) by (auto simp: PortMappingAdd_prepare_def dest!: set_myinstance_owns
          split: list.splits sum.splits option.splits if_splits)
    moreover have "t_get (ippools (work s)) k = Some IP" "ip_instance_id IP = Some iid"
      using that(2) by (auto simp: PortMappingForm_validate_def dest!: get_by_arg_Some split: sum.splits option.splits if_splits)
    ultimately show ?thesis
      using get_free_port_row [OF that(3)] assms(2) by (intro sess_modify port_bind) (auto dest: sess_work)
  qed
  then show ?thesis
    using assms(2) by (auto simp: PortMappingAdd_post_def split: sum.split option.split)
qed

lemma keep_PortMappingDelete:
  assumes "c_user c = Some u" "sess Q s"
  shows "sess Q (fst (snd (PortMappingDelete_get e c (s, ch))))"
proof -
  have "sess Q (modify (port_mappings_update (t_upd m (\<lambda>P. P\<lparr>pm_ip_port := None, pm_ip_id := None\<rparr>))) s)"
    if "set_myinstance u c (work s) = Inr (iid, I)" "t_get (port_mappings (work s)) m = Some P"
      "find (\<lambda>(k, _). pm_ip_id P = Some k) (ips_of (work s) iid) = Some (k, IP)" for iid I m P k IP
  proof -
    have "(k, IP) \<in> set (ips_of (work s) iid)" "pm_ip_id P = Some k"
      using find_Some_set [OF that(3)] by auto
    then show ?thesis
      using that(2) set_myinstance_owns [OF that(1)] assms(2)
      by (intro sess_modify port_unbind) (auto simp: ips_of_def t_select_def dest: sess_work)
  qed
  then show ?thesis
    using assms by (auto simp: PortMappingDelete_get_def Let_def split: sum.split option.split)
qed

end

end
