(* ===== verification/Isolation.thy ===== *)
theory Isolation
  imports Keeper
begin

text \<open>
  The interface of the handlers of ordinary users, interpreted twice: for the invariant of the
  pools, and for the isolation of the users. What belongs to a user's instance is its row, its
  addresses, its storages, its domains and the port mappings of its addresses.
\<close>

section \<open>The invariant\<close>

lemma owns_key: "owns u d iid \<Longrightarrow> iid \<in> fst ` set (rows (instances d))"
  by (force simp: owns_def dest: t_get_in)

lemma inv_new_no_ip: "cloud_inv d \<Longrightarrow> ips_of d (t_newid (instances d)) = []"
proof -
  assume i: "cloud_inv d"
  then have "t_newid (instances d) \<notin> fst ` set (rows (instances d))"
    by (force simp: t_newid_def cloud_inv_def keys_ok_def dest: t_ok_key)
  with i show ?thesis by (force simp: ips_of_def t_select_def filter_empty_conv cloud_inv_def refs_ok_def)
qed

lemma inv_set_ip_own:
  "cloud_inv d \<Longrightarrow> owns u d iid \<Longrightarrow> ips_of d iid = [] \<Longrightarrow> cloud_inv (set_ip_instance k (Some iid) d)"
  by (rule inv_set_ip) (auto dest: owns_key)

lemma inv_set_ip_free: "cloud_inv d \<Longrightarrow> cloud_inv (set_ip_instance k None d)"
  by (rule inv_set_ip) auto

lemma inv_port_bind:
  "cloud_inv d \<Longrightarrow> t_get (ippools d) k = Some r \<Longrightarrow>
     cloud_inv (port_mappings_update (t_upd m (\<lambda>P. P\<lparr>pm_ip_id := Some k, pm_ip_port := port\<rparr>)) d)"
  by (rule inv_port_upd) (force dest: t_get_in)+

lemma inv_port_unbind:
  "cloud_inv d \<Longrightarrow> cloud_inv (port_mappings_update (t_upd m (\<lambda>P. P\<lparr>pm_ip_port := None, pm_ip_id := None\<rparr>)) d)"
  by (rule inv_port_upd) auto

lemmas inv_changes =
  inv_upd_instance inv_add_instance inv_set_ip_own inv_set_ip_free inv_storage_add inv_storage_upd
  inv_storage_del inv_domain_add inv_domain_upd inv_domain_del inv_port_bind inv_port_unbind

interpretation pools: user_keeper cloud_inv u for u
proof unfold_locales
  show "cloud_inv d \<Longrightarrow> t_ok (instances d)" for d by (simp add: cloud_inv_def keys_ok_def)
qed (auto intro: inv_changes inv_new_no_ip owns_key)

section \<open>The isolation of the users\<close>

definition user_view :: "db \<Rightarrow> int \<Rightarrow> instance_row option \<times> (int \<times> ippool) list \<times> (int \<times> storage_row) list
    \<times> (int \<times> user_domain) list \<times> (int \<times> port_mapping) list" where
  "user_view d iid = (t_get (instances d) iid, ips_of d iid, storages_of d iid, domains_of d iid, View_portmappings d iid)"

definition foreign_same :: "int \<Rightarrow> db \<Rightarrow> db \<Rightarrow> bool" where
  "foreign_same u d d' \<longleftrightarrow>
     (\<forall>iid I. t_get (instances d) iid = Some I \<longrightarrow> i_user_id I \<noteq> u \<longrightarrow> user_view d' iid = user_view d iid) \<and>
     (\<forall>v. v \<noteq> u \<longrightarrow> profile_of d' v = profile_of d v)"

lemma foreign_same_refl: "foreign_same u d d"
  by (simp add: foreign_same_def)

lemma foreign_same_trans: "foreign_same u d d' \<Longrightarrow> foreign_same u d' d'' \<Longrightarrow> foreign_same u d d''"
  unfolding foreign_same_def user_view_def by simp

text \<open>What each elementary change leaves alone.\<close>

lemma foreign_sameI:
  assumes "profiles d' = profiles d"
    and "\<And>iid I. t_get (instances d) iid = Some I \<Longrightarrow> i_user_id I \<noteq> u \<Longrightarrow> \<not> owns u d iid \<Longrightarrow> user_view d' iid = user_view d iid"
  shows "foreign_same u d d'"
  using assms by (auto simp: foreign_same_def profile_of_def owns_def)

lemma foreign_upd_own: "owns u d iid \<Longrightarrow> foreign_same u d (upd_instance iid f d)"
proof (rule foreign_sameI)
  fix j I assume o: "owns u d iid" "\<not> owns u d j"
  then have "j \<noteq> iid" by auto
  then show "user_view (upd_instance iid f d) j = user_view d j"
    by (simp add: user_view_def upd_instance_def relation_defs View_portmappings_def)
qed (simp add: upd_instance_def)

lemma foreign_add_own: "cloud_inv d \<Longrightarrow> foreign_same u d (instances_update (t_add I) d)"
  by (rule foreign_sameI) (auto simp: cloud_inv_def keys_ok_def user_view_def relation_defs View_portmappings_def tb.get_add_old)

lemma foreign_profile:
  assumes "t_ok (profiles d)" "(k, p) \<in> set (rows (profiles d))" "pf_user_id p = u"
  shows "foreign_same u d (profiles_update (t_upd k (set_root_password h)) d)"
proof -
  have "t_first (\<lambda>_ q. pf_user_id q = v) (t_upd k (set_root_password h) (profiles d)) = t_first (\<lambda>_ q. pf_user_id q = v) (profiles d)"
    if "v \<noteq> u" for v
    unfolding t_first_select using assms that
    by (subst t_select_upd_other) (auto simp: set_root_password_def Let_def t_get_iff [symmetric])
  then show ?thesis
    by (simp add: foreign_same_def user_view_def relation_defs View_portmappings_def)
qed

lemma foreign_ip:
  assumes "cloud_inv d" "(k, r) \<in> set (rows (ippools d))"
    and "\<And>j. ip_instance_id r = Some j \<Longrightarrow> j \<noteq> 0 \<Longrightarrow> owns u d j" "\<And>j. iid = Some j \<Longrightarrow> owns u d j"
  shows "foreign_same u d (set_ip_instance k iid d)"
proof (rule foreign_sameI)
  fix j J assume J: "t_get (instances d) j = Some J" and o: "\<not> owns u d j"
  have "j \<noteq> 0" using assms(1) t_get_in [OF J] by (auto simp: cloud_inv_def keys_ok_def dest: t_ok_key)
  moreover have "v = r" if "(k, v) \<in> set (rows (ippools d))" for v
    using that assms(1,2) by (metis cloud_inv_def keys_ok_def option.inject t_get_iff)
  ultimately have "ips_of (set_ip_instance k iid d) j = ips_of d j"
    unfolding ips_of_def set_ip_instance_def using assms(3,4) o
    by simp (rule t_select_upd_other, auto)
  then show "user_view (set_ip_instance k iid d) j = user_view d j"
    by (simp add: user_view_def View_portmappings_def) (simp add: set_ip_instance_def storages_of_def domains_of_def)
qed (simp add: set_ip_instance_def)

lemma foreign_storage:
  assumes "\<And>j J. t_get (instances d) j = Some J \<Longrightarrow> i_user_id J \<noteq> u \<Longrightarrow> \<not> owns u d j \<Longrightarrow>
      t_select (\<lambda>_ v. st_instance_id v = j) (f (storages d)) = storages_of d j"
  shows "foreign_same u d (storages_update f d)"
  using assms by (intro foreign_sameI) (auto simp: user_view_def View_portmappings_def relation_defs)

lemma foreign_domain:
  assumes "\<And>j J. t_get (instances d) j = Some J \<Longrightarrow> i_user_id J \<noteq> u \<Longrightarrow> \<not> owns u d j \<Longrightarrow>
      t_select (\<lambda>_ v. ud_instance_id v = j) (f (user_domains d)) = domains_of d j"
  shows "foreign_same u d (user_domains_update f d)"
  using assms by (intro foreign_sameI) (auto simp: user_view_def View_portmappings_def relation_defs)

lemma foreign_port:
  assumes "cloud_inv d" "(m, P) \<in> set (rows (port_mappings d))"
    and old: "\<And>i. pm_ip_id P = Some i \<Longrightarrow> i \<noteq> 0 \<Longrightarrow> \<exists>r j. (i, r) \<in> set (rows (ippools d)) \<and> ip_instance_id r = Some j \<and> owns u d j"
    and new: "\<And>i. pm_ip_id (f P) = Some i \<Longrightarrow> \<exists>r j. (i, r) \<in> set (rows (ippools d)) \<and> ip_instance_id r = Some j \<and> owns u d j"
  shows "foreign_same u d (port_mappings_update (t_upd m f) d)"
proof (rule foreign_sameI)
  fix j J assume o: "\<not> owns u d j"
  have t: "t_ok (ippools d)" "t_ok (port_mappings d)" using assms(1) by (simp_all add: cloud_inv_def keys_ok_def)
  have "t_select (\<lambda>_ Q. pm_ip_id Q = Some k) (t_upd m f (port_mappings d)) = t_select (\<lambda>_ Q. pm_ip_id Q = Some k) (port_mappings d)"
    if "(k, r) \<in> set (ips_of d j)" for k r
  proof (rule t_select_upd_other)
    fix Q assume "(m, Q) \<in> set (rows (port_mappings d))"
    then have q: "Q = P" using t_get_unique [OF t(2)] assms(2) t_get_iff [OF t(2)] by metis
    have r: "(k, r) \<in> set (rows (ippools d))" "ip_instance_id r = Some j" using that by (auto simp: ips_of_def t_select_iff)
    have "k \<noteq> 0" using t_ok_key [OF t(1) r(1)] by simp
    have "\<not> (\<exists>r' i. (k, r') \<in> set (rows (ippools d)) \<and> ip_instance_id r' = Some i \<and> owns u d i)"
      using r o t_get_iff [OF t(1)] by (metis option.inject)
    then show "pm_ip_id Q \<noteq> Some k \<and> pm_ip_id (f Q) \<noteq> Some k" using old new q \<open>k \<noteq> 0\<close> by blast
  qed
  then have "View_portmappings (port_mappings_update (t_upd m f) d) j = View_portmappings d j"
    unfolding View_portmappings_def by (intro arg_cong [where f = concat] map_cong) (auto simp: ips_of_def)
  then show "user_view (port_mappings_update (t_upd m f) d) j = user_view d j"
    by (simp add: user_view_def relation_defs)
qed simp

lemma foreign_give_ip:
  "cloud_inv d \<Longrightarrow> owns u d iid \<Longrightarrow> (k, r) \<in> set (rows (ippools d)) \<Longrightarrow> \<not> truthy_int (ip_instance_id r) \<Longrightarrow>
     foreign_same u d (set_ip_instance k (Some iid) d)"
  by (rule foreign_ip) (auto simp: truthy_int_def split: option.splits)

lemma foreign_free_ip:
  "cloud_inv d \<Longrightarrow> t_get (ippools d) k = Some r \<Longrightarrow> ip_instance_id r = Some iid \<Longrightarrow> owns u d iid \<Longrightarrow>
     foreign_same u d (set_ip_instance k None d)"
  by (rule foreign_ip [where r = r]) (auto dest: t_get_in)

lemma foreign_storage_add: "owns u d (st_instance_id S) \<Longrightarrow> foreign_same u d (storages_update (t_add S) d)"
  by (rule foreign_storage) (auto simp: t_select_add_row storages_of_def)

lemma foreign_storage_upd:
  assumes "cloud_inv d" "t_get (storages d) k = Some S" "owns u d (st_instance_id S)"
    "\<And>S. st_instance_id (g S) = st_instance_id S"
  shows "foreign_same u d (storages_update (t_upd k g) d)"
proof (rule foreign_storage)
  fix j assume "\<not> owns u d j"
  then show "t_select (\<lambda>_ v. st_instance_id v = j) (t_upd k g (storages d)) = storages_of d j"
    unfolding storages_of_def using assms t_get_unique [of "storages d" k S]
    by (intro t_select_upd_other) (auto simp: cloud_inv_def keys_ok_def)
qed

lemma foreign_storage_del:
  assumes "cloud_inv d" "t_get (storages d) k = Some S" "owns u d (st_instance_id S)"
  shows "foreign_same u d (storages_update (t_del k) d)"
proof (rule foreign_storage)
  fix j assume "\<not> owns u d j"
  then show "t_select (\<lambda>_ v. st_instance_id v = j) (t_del k (storages d)) = storages_of d j"
    unfolding storages_of_def using assms t_get_unique [of "storages d" k S]
    by (intro t_select_del_other) (auto simp: cloud_inv_def keys_ok_def)
qed

lemma foreign_domain_add: "owns u d (ud_instance_id D) \<Longrightarrow> foreign_same u d (user_domains_update (t_add D) d)"
  by (rule foreign_domain) (auto simp: t_select_add_row domains_of_def)

lemma foreign_domain_upd:
  assumes "cloud_inv d" "t_get (user_domains d) k = Some D" "owns u d (ud_instance_id D)"
  shows "foreign_same u d (user_domains_update (t_upd k (\<lambda>D. D\<lparr>ud_domain := name\<rparr>)) d)"
proof (rule foreign_domain)
  fix j assume "\<not> owns u d j"
  then show "t_select (\<lambda>_ v. ud_instance_id v = j) (t_upd k (\<lambda>D. D\<lparr>ud_domain := name\<rparr>) (user_domains d)) = domains_of d j"
    unfolding domains_of_def using assms t_get_unique [of "user_domains d" k D]
    by (intro t_select_upd_other) (auto simp: cloud_inv_def keys_ok_def)
qed

lemma foreign_domain_del:
  assumes "cloud_inv d" "t_get (user_domains d) k = Some D" "owns u d (ud_instance_id D)"
  shows "foreign_same u d (user_domains_update (t_del k) d)"
proof (rule foreign_domain)
  fix j assume "\<not> owns u d j"
  then show "t_select (\<lambda>_ v. ud_instance_id v = j) (t_del k (user_domains d)) = domains_of d j"
    unfolding domains_of_def using assms t_get_unique [of "user_domains d" k D]
    by (intro t_select_del_other) (auto simp: cloud_inv_def keys_ok_def)
qed

lemma foreign_port_bind:
  assumes "cloud_inv d" "(m, P) \<in> set (rows (port_mappings d))" "\<not> truthy_int (pm_ip_id P)"
    "t_get (ippools d) k = Some r" "ip_instance_id r = Some iid" "owns u d iid"
  shows "foreign_same u d (port_mappings_update (t_upd m (\<lambda>P. P\<lparr>pm_ip_id := Some k, pm_ip_port := port\<rparr>)) d)"
  using assms by (intro foreign_port [where P = P]) (auto simp: truthy_int_def dest: t_get_in split: option.splits)

lemma foreign_port_unbind:
  assumes "cloud_inv d" "t_get (port_mappings d) m = Some P" "pm_ip_id P = Some k"
    "(k, r) \<in> set (rows (ippools d))" "ip_instance_id r = Some iid" "owns u d iid"
  shows "foreign_same u d (port_mappings_update (t_upd m (\<lambda>P. P\<lparr>pm_ip_port := None, pm_ip_id := None\<rparr>)) d)"
  using assms by (intro foreign_port [where P = P]) (auto dest: t_get_in)

lemma foreign_other_tables:
  "foreign_same u d (traces_update f d)" "foreign_same u d (update_used pid d)" "foreign_same u d (jobs_update g d)"
  by (simp_all add: foreign_same_def user_view_def relation_defs View_portmappings_def update_used_def Let_def)

lemmas foreign_changes =
  foreign_upd_own foreign_add_own foreign_profile foreign_give_ip foreign_free_ip foreign_storage_add
  foreign_storage_upd foreign_storage_del foreign_domain_add foreign_domain_upd foreign_domain_del
  foreign_port_bind foreign_port_unbind foreign_other_tables

definition isolated :: "int \<Rightarrow> db \<Rightarrow> db \<Rightarrow> bool" where
  "isolated u d0 d \<longleftrightarrow> cloud_inv d \<and> t_ok (profiles d) \<and> foreign_same u d0 d"

lemma isolated_step:
  "isolated u d0 d \<Longrightarrow> (cloud_inv d \<Longrightarrow> cloud_inv d') \<Longrightarrow> (t_ok (profiles d) \<Longrightarrow> t_ok (profiles d')) \<Longrightarrow>
     (cloud_inv d \<Longrightarrow> t_ok (profiles d) \<Longrightarrow> foreign_same u d d') \<Longrightarrow> isolated u d0 d'"
  unfolding isolated_def using foreign_same_trans by blast

lemma profiles_other_tables [simp]:
  "profiles (upd_instance iid f d) = profiles d" "profiles (set_ip_instance k i d) = profiles d"
  "profiles (update_used pid d) = profiles d"
  by (simp_all add: upd_instance_def set_ip_instance_def update_used_def Let_def)

interpretation iso: user_keeper "isolated u d0" u for u d0
proof unfold_locales
  show "isolated u d0 d \<Longrightarrow> t_ok (instances d)" for d by (simp add: isolated_def cloud_inv_def keys_ok_def)
  show "isolated u d0 d \<Longrightarrow> ips_of d (t_newid (instances d)) = []" for d
    by (simp add: isolated_def inv_new_no_ip)
qed (erule isolated_step, (auto intro: inv_changes foreign_changes owns_key)[3])+

end
