(* ===== verification/Life_Keeper.thy ===== *)
theory Life_Keeper
  imports Isolation
begin

text \<open>
  The same for the handlers of \<^verbatim>\<open>instance/views.py\<close>, which run jobs and delete instances and which
  an administrator may use for any instance: \<open>may\<close> says for which instances the user may.
\<close>

section \<open>The interface\<close>

definition owners :: "db \<Rightarrow> int \<Rightarrow> int option" where
  "owners d k = map_option i_user_id (t_get (instances d) k)"

lemma owners_simps [simp]:
  "owners (jobs_update f d) = owners d" "owners (traces_update g d) = owners d" "owners (release_all now iid d) = owners d"
  by (simp_all add: owners_def fun_eq_iff release_all_def Let_def)

lemma owners_upd: "(\<And>I. t_get (instances d) iid = Some I \<Longrightarrow> i_user_id (f I) = i_user_id I) \<Longrightarrow> owners (upd_instance iid f d) = owners d"
proof (rule ext)
  fix k assume "\<And>I. t_get (instances d) iid = Some I \<Longrightarrow> i_user_id (f I) = i_user_id I"
  then show "owners (upd_instance iid f d) k = owners d k"
    by (cases "t_get (instances d) k") (auto simp: owners_def upd_instance_def t_get_upd)
qed

locale life_keeper =
  fixes Q :: "db \<Rightarrow> bool" and u :: int and may :: "db \<Rightarrow> int \<Rightarrow> bool"
  assumes allowed: "Q d \<Longrightarrow> t_get (instances d) k = Some I \<Longrightarrow> u = i_user_id I \<or> isadmin d u \<Longrightarrow> may d k"
    and may_owners: "owners d' = owners d \<Longrightarrow> may d' k = may d k"
    and upd_may: "Q d \<Longrightarrow> may d k \<Longrightarrow> (\<And>I. t_get (instances d) k = Some I \<Longrightarrow> i_user_id (f I) = i_user_id I) \<Longrightarrow> Q (upd_instance k f d)"
    and job_change: "Q d \<Longrightarrow> Q (jobs_update g d)"
    and trace_change: "Q d \<Longrightarrow> Q (traces_update h d)"
    and release: "Q d \<Longrightarrow> may d k \<Longrightarrow> Q (release_all now k d)"
begin

definition ready :: "int \<Rightarrow> db session \<Rightarrow> bool" where
  "ready k s \<longleftrightarrow> sess Q s \<and> may (work s) k"

lemma ready_sess: "ready k s \<Longrightarrow> sess Q s"
  by (simp add: ready_def)

lemma ready_commit [intro!]: "ready k s \<Longrightarrow> ready k (commit s)"
  by (auto simp: ready_def)

lemma ready_upd [intro!]:
  assumes "ready k s" "\<And>I. t_get (instances (work s)) k = Some I \<Longrightarrow> i_user_id (f I) = i_user_id I"
  shows "ready k (modify (upd_instance k f) s)"
  using assms may_owners [OF owners_upd [OF assms(2)]]
  by (auto simp: ready_def intro!: sess_modify upd_may dest: sess_work)

lemma ready_jobs [intro!]: "ready k s \<Longrightarrow> ready k (modify (jobs_update g) s)"
  using may_owners [of "jobs_update g (work s)" "work s"]
  by (auto simp: ready_def intro!: sess_modify job_change dest: sess_work)

lemma ready_trace [intro!]: "ready k s \<Longrightarrow> ready k (add_trace who ty tid msg s)"
  using may_owners [of "traces_update h (work s)" "work s" for h]
  by (auto simp: ready_def add_trace_def intro!: sess_modify trace_change dest: sess_work)

lemma ready_release [intro!]: "ready k s \<Longrightarrow> ready k (modify (release_all now k) s)"
  using may_owners [of "release_all now k (work s)" "work s"]
  by (auto simp: ready_def intro!: sess_modify release dest: sess_work)

lemma ready_run_job: "ready k s \<Longrightarrow> ready k (snd (run_job env v c k act s))"
  by (auto simp: run_job_def Let_def split: option.split)

lemma ready_rebind: "rebind_domain c k s = Inr s' \<Longrightarrow> ready k s \<Longrightarrow> ready k s'"
  by (auto simp: rebind_domain_def dest!: session_update_network_result split: sum.splits)

lemma set_root_passwd_user: "set_root_passwd now d I = Inr J \<Longrightarrow> i_user_id J = i_user_id I"
  by (auto simp: set_root_passwd_def split: if_splits option.splits sum.splits)

lemma boot_config_user [simp]:
  "i_user_id (set_libvirt_conf b64 now conf I) = i_user_id I" "i_user_id (update_storage now d k I) = i_user_id I"
  by (simp_all add: set_libvirt_conf_def update_storage_def secret_set_def inst_delete_def Let_def split: option.split)

lemma ready_LifeControl_stop: "ready k s \<Longrightarrow> ready k (snd (LifeControl_stop env v c k I s))"
  using ready_run_job [of k s env v c STOP_INSTANCE]
  by (auto simp: LifeControl_stop_def Let_def dest: ready_rebind split: prod.split sum.split)

lemma ready_LifeControl_query: "ready k s \<Longrightarrow> ready k (snd (LifeControl_query env v c k I s))"
  using ready_run_job [of k s env v c QUERY_INSTANCE]
  by (auto simp: LifeControl_query_def Let_def split: prod.split)

lemma ready_LifeControl_run:
  assumes "ready k s" "t_get (instances (work s)) k = Some I"
  shows "ready k (snd (LifeControl_run env v c k I s))"
proof -
  have *: "ready k (snd (case run_job env v c k RUN_INSTANCE (commit (modify (upd_instance k (\<lambda>_. I3)) s)) of (ret, s2) \<Rightarrow>
      case rebind_domain c k s2 of Inl e \<Rightarrow> (Inl e, s2) | Inr s3 \<Rightarrow> (Inr (job_answer k ret), s3)))"
    if "i_user_id I3 = i_user_id I" for I3
  proof -
    have "ready k (commit (modify (upd_instance k (\<lambda>_. I3)) s))" using assms that by auto
    from ready_run_job [OF this, of env v c RUN_INSTANCE]
    show ?thesis by (auto simp: Let_def dest: ready_rebind split: prod.split sum.split)
  qed
  show ?thesis
    using assms(1) by (auto simp: LifeControl_run_def Let_def dest!: set_root_passwd_user intro!: * split: option.split sum.split)
qed

lemma ready_callback:
  "ready k s \<Longrightarrow> t_get (instances (work s)) k = Some I \<Longrightarrow> ready k (snd (life_callback act env v c k I s))"
  by (simp add: life_callback_def ready_LifeControl_run ready_LifeControl_stop ready_LifeControl_query)

lemma check_ready:
  "check_instance u (work s) k (t_get (instances (work s)) k) = Inr (iid, I) \<Longrightarrow> sess Q s \<Longrightarrow>
     ready iid s \<and> t_get (instances (work s)) iid = Some I"
  using allowed [of "work s" k] sess_work [of Q s]
  by (auto simp: check_instance_def ready_def split: option.splits if_splits)

lemma keep_life_loop: "sess Q s \<Longrightarrow> sess Q (snd (life_loop act env u c ids s))"
proof (induction ids arbitrary: s)
  case (Cons ID ids)
  show ?case
  proof (cases "get_instance u (work s) ID")
    case (Inr x)
    define y where "y = (case x of Inl r \<Rightarrow> (Inr \<lparr>lr_id = - 1, lr_code = 1, lr_data = resp_text r\<rparr>, s)
                 | Inr (iid, I) \<Rightarrow> life_callback act env u c iid I s)"
    have "sess Q (snd y)"
      unfolding y_def using Inr Cons.prems ready_sess [OF ready_callback]
      by (auto simp: get_instance_def dest!: check_ready split: sum.split option.splits)
    then show ?thesis
      using Inr Cons.IH [of "snd y"] by (cases y) (auto simp flip: y_def split: sum.split prod.split)
  qed (use Cons.prems in simp)
qed simp

lemma keep_LifeControl: "c_user c = Some u \<Longrightarrow> sess Q s \<Longrightarrow> sess Q (snd (LifeControl_post env c s))"
  using keep_life_loop by (auto simp: LifeControl_post_def Let_def split: prod.split sum.split) (metis snd_conv)+

lemma set_isprivate_user: "set_isprivate value = Inr f \<Longrightarrow> i_user_id (f I) = i_user_id I"
  by (auto simp: set_isprivate_def split: if_splits)

lemma keep_attr_loop: "sess Q s \<Longrightarrow> sess Q (snd (attr_loop u value ids s))"
proof (induction ids arbitrary: s)
  case (Cons k ids)
  have "ready k s" if "t_get (instances (work s)) k = Some I" "u = i_user_id I \<or> isadmin (work s) u" for I
    using Cons.prems that allowed [of "work s" k] sess_work [of Q s] by (auto simp: ready_def)
  then have "sess Q (snd (attr_loop u value ids (modify (upd_instance k f) s)))"
    if "t_get (instances (work s)) k = Some I" "u = i_user_id I \<or> isadmin (work s) u" "set_isprivate value = Inr f" for I f
    using that set_isprivate_user by (intro Cons.IH ready_sess [of k] ready_upd) auto
  then show ?case
    using Cons.prems Cons.IH [of s] by (auto split: option.split sum.split prod.split) (metis snd_conv)+
qed simp

lemma keep_AttrSet: "c_user c = Some u \<Longrightarrow> sess Q s \<Longrightarrow> sess Q (snd (AttrSet_post c s))"
  using keep_attr_loop by (auto simp: AttrSet_post_def Let_def split: prod.split sum.split) (metis sess_commit snd_conv)+

lemma keep_InstanceDelete:
  assumes "c_user c = Some u" "sess Q s"
  shows "sess Q (snd (InstanceDelete_post env c s))"
proof -
  have "sess Q (snd (on_value (rebind_domain c k s) s (\<lambda>s1.
       let s2 = commit (modify (upd_instance k (\<lambda>I. I\<lparr>i_status := INSTANCE_DELETED_STATUS,
                   i_name := ''_deleted_'' @ show_int k @ ''_''\<rparr>)) s1);
           s3 = commit (modify (release_all (c_now c) k) s2);
           (ret, s4) = run_job env u c k DESTROY_INSTANCE s3;
           s5 = add_trace u TARGET_INSTANCE k ''delete instance'' s4
       in (Write (case ret of Some msg \<Rightarrow> msg | None \<Rightarrow> ''Task starts successfully.'')
             [k, if ret = None then 0 else 1], s5))))" if "ready k s" for k
  proof (rule on_value_keep [OF _ assms(2)])
    fix s1 assume "rebind_domain c k s = Inr s1"
    then have "ready k s1" using that by (rule ready_rebind)
    then have "ready k (commit (modify (release_all (c_now c) k) (commit (modify (upd_instance k (\<lambda>I. I\<lparr>i_status := INSTANCE_DELETED_STATUS,
                   i_name := ''_deleted_'' @ show_int k @ ''_''\<rparr>)) s1))))" by auto
    from ready_run_job [OF this, of env u c DESTROY_INSTANCE]
    show "sess Q (snd (let s2 = commit (modify (upd_instance k (\<lambda>I. I\<lparr>i_status := INSTANCE_DELETED_STATUS,
                   i_name := ''_deleted_'' @ show_int k @ ''_''\<rparr>)) s1);
           s3 = commit (modify (release_all (c_now c) k) s2);
           (ret, s4) = run_job env u c k DESTROY_INSTANCE s3;
           s5 = add_trace u TARGET_INSTANCE k ''delete instance'' s4
       in (Write (case ret of Some msg \<Rightarrow> msg | None \<Rightarrow> ''Task starts successfully.'')
             [k, if ret = None then 0 else 1], s5)))"
      unfolding Let_def by (auto split: prod.split intro: ready_sess [OF ready_trace])
  qed
  then show ?thesis
    unfolding InstanceDelete_post_def
    by (intro with_login_keep) (use assms in \<open>auto simp: get_instance_byid_def Let_def dest!: check_ready split: sum.split if_splits\<close>)
qed

end

section \<open>The interface for both properties\<close>

text \<open>The invariant holds whoever acts; the isolation when a user without the permission \<open>admin\<close> does.\<close>

interpretation life: life_keeper cloud_inv u "\<lambda>_ _. True" for u
  by unfold_locales (auto intro: inv_upd_instance inv_release_all)

lemma user_view_release:
  assumes "cloud_inv d" and j: "j \<noteq> iid"
  shows "user_view (release_all now iid d) j = user_view d j"
proof -
  let ?d = "release_all now iid d"
  have ips: "ips_of ?d j = ips_of d j"
    using j by (auto simp: release_all_def Let_def ips_of_def intro!: t_select_upd_where_same)
  have "t_select (\<lambda>_ Q. pm_ip_id Q = Some k) (port_mappings ?d) = t_select (\<lambda>_ Q. pm_ip_id Q = Some k) (port_mappings d)"
    if "(k, r) \<in> set (ips_of d j)" for k r
  proof -
    have "(k, r') \<notin> set (ips_of d iid)" for r'
      using that j assms(1) t_get_unique [of "ippools d" k]
      by (auto simp: ips_of_def t_select_iff cloud_inv_def keys_ok_def simp flip: t_get_iff)
    then show ?thesis
      by (auto simp: release_all_def Let_def intro!: t_select_upd_where_same split: option.splits)
  qed
  then have "View_portmappings ?d j = View_portmappings d j"
    unfolding View_portmappings_def ips by (intro arg_cong [where f = concat] map_cong) auto
  moreover have "storages_of ?d j = storages_of d j" "domains_of ?d j = domains_of d j" "instances ?d = instances d"
    using j by (auto simp: release_all_def Let_def storages_of_def domains_of_def intro!: t_select_del_where_same)
  ultimately show ?thesis by (simp add: user_view_def ips)
qed

lemma profiles_release [simp]: "profiles (release_all now k d) = profiles d" "profiles (jobs_update g d) = profiles d"
  by (simp_all add: release_all_def Let_def)

lemma foreign_release: "cloud_inv d \<Longrightarrow> owns u d iid \<Longrightarrow> foreign_same u d (release_all now iid d)"
  by (rule foreign_sameI) (auto intro: user_view_release)

lemma release_all_frees:
  "ips_of (release_all now iid d) iid = []" "storages_of (release_all now iid d) iid = []"
  "domains_of (release_all now iid d) iid = []"
  "(m, P) \<in> set (rows (port_mappings (release_all now iid d))) \<Longrightarrow> (k, r) \<in> set (ips_of d iid) \<Longrightarrow> pm_ip_id P \<noteq> Some k"
  by (auto simp: release_all_def Let_def ips_of_def storages_of_def domains_of_def t_select_def filter_empty_conv
      split: option.splits if_splits) force

lemma isadmin_cong:
  assumes "users d' = users d" "groups d' = groups d" "permissions d' = permissions d"
  shows "isadmin d' = isadmin d"
proof -
  have g: "group_codenames d' = group_codenames d" unfolding group_codenames_def fun_eq_iff assms by simp
  show ?thesis by (rule ext) (simp only: isadmin_def user_codenames_def assms g)
qed

lemma isadmin_other_tables [simp]:
  "isadmin (upd_instance k f d) = isadmin d" "isadmin (jobs_update g d) = isadmin d" "isadmin (traces_update h d) = isadmin d"
  "isadmin (release_all now k d) = isadmin d"
  by (rule isadmin_cong, simp_all add: upd_instance_def release_all_def Let_def)+

lemma owns_owners: "owns u d k \<longleftrightarrow> owners d k = Some u"
  by (auto simp: owns_def owners_def)

interpretation isolife: life_keeper "\<lambda>d. isolated u d0 d \<and> \<not> isadmin d u" u "owns u" for u d0
proof unfold_locales
  show "isolated u d0 d \<and> \<not> isadmin d u \<Longrightarrow> t_get (instances d) k = Some I \<Longrightarrow> u = i_user_id I \<or> isadmin d u \<Longrightarrow> owns u d k" for d k I
    by (auto simp: owns_def)
  show "owners d' = owners d \<Longrightarrow> owns u d' k = owns u d k" for d d' k by (simp add: owns_owners)
qed (erule conjE, intro conjI, erule isolated_step,
    (auto intro: inv_changes inv_release_all foreign_changes foreign_release)[3], simp)+

end
