(* ===== verification/Account_Inv.thy ===== *)
theory Account_Inv
  imports Account Life_Keeper
begin

text \<open>
  What the account handlers do to the database, as an interface (\<open>account_keeper\<close>), interpreted for
  the uniqueness of user names, for the invariant of the pools and for the data of the instances; the
  default public key; logging in and resetting passwords.
\<close>

section \<open>The interface\<close>

locale account_keeper =
  fixes Q :: "db \<Rightarrow> bool"
  assumes user_upd: "Q d \<Longrightarrow> (\<And>x. u_username (f x) = u_username x) \<Longrightarrow> Q (upd_user uid f d)"
    and user_add: "Q d \<Longrightarrow> t_first (\<lambda>_ x. u_username x = u_username v) (users d) = None \<Longrightarrow> Q (users_update (t_add v) d)"
    and profile_add: "Q d \<Longrightarrow> Q (profiles_update (t_add p) d)"
    and resource_add: "Q d \<Longrightarrow> Q (resources_update (t_add r) d)"
    and websessions: "Q d \<Longrightarrow> Q (websessions_update g1 d)"
    and auth_keys: "Q d \<Longrightarrow> Q (auth_keys_update g2 d)"
    and openids: "Q d \<Longrightarrow> Q (openids_update g3 d)"
    and resetpasses: "Q d \<Longrightarrow> Q (resetpasses_update g4 d)"
    and reg_applies: "Q d \<Longrightarrow> Q (reg_applies_update g5 d)"
    and public_keys: "Q d \<Longrightarrow> Q (public_keys_update g6 d)"
begin

lemmas changes = profile_add resource_add websessions auth_keys openids resetpasses reg_applies public_keys

lemma keep_mod [intro!]:
  "sess Q s \<Longrightarrow> sess Q (modify (profiles_update (t_add p)) s)" "sess Q s \<Longrightarrow> sess Q (modify (websessions_update g1) s)"
  "sess Q s \<Longrightarrow> sess Q (modify (auth_keys_update g2) s)" "sess Q s \<Longrightarrow> sess Q (modify (openids_update g3) s)"
  "sess Q s \<Longrightarrow> sess Q (modify (resetpasses_update g4) s)" "sess Q s \<Longrightarrow> sess Q (modify (reg_applies_update g5) s)"
  "sess Q s \<Longrightarrow> sess Q (modify (public_keys_update g6) s)"
  by (auto intro!: sess_modify changes dest: sess_work)

lemma keep_user [intro!]: "sess Q s \<Longrightarrow> (\<And>x. u_username (f x) = u_username x) \<Longrightarrow> sess Q (modify (upd_user uid f) s)"
  by (auto intro!: sess_modify user_upd dest: sess_work)

lemma modify_comp: "modify (f \<circ> g) s = modify f (modify g s)"
  by (simp add: modify_def)

lemma keep_default [intro!]: "sess Q s \<Longrightarrow> sess Q (modify (set_default u k) s)"
  by (auto simp: set_default_def intro!: sess_modify public_keys dest: sess_work)

lemma keep_save [intro!]: "sess Q s \<Longrightarrow> sess Q (save_session k sk key now uid s)"
  by (auto simp: save_session_def Let_def)

lemma keep_delete: "delete_session cookie s = Inr s' \<Longrightarrow> sess Q s \<Longrightarrow> sess Q s'"
  by (auto simp: delete_session_def split: option.splits)

lemma keep_default_resources: "Q d \<Longrightarrow> Q (add_default_resources now uid d)"
  unfolding add_default_resources_def by (rule foldl_keep) (auto intro: resource_add)

lemma keep_init_account: "sess Q s \<Longrightarrow> sess Q (snd (init_account now uid s))"
proof -
  assume s: "sess Q s"
  then have 1: "sess Q (modify (add_default_resources now uid) s)"
    by (auto intro!: sess_modify keep_default_resources dest: sess_work)
  then have 2: "sess Q (snd (init_profile uid (modify (add_default_resources now uid) s)))"
    by (auto simp: init_profile_def split: option.split sum.split)
  have 3: "sess Q (snd (init_groups uid s'))" if "sess Q s'" for s'
    using that user_upd [OF sess_work [OF that]]
    by (auto simp: init_groups_def upd_user_def split: sum.split intro!: sess_modify)
  obtain e s1 where e: "init_profile uid (modify (add_default_resources now uid) s) = (e, s1)" by fastforce
  then show ?thesis using 2 3 by (auto simp: init_account_def split: option.split)
qed

lemma keep_post_registration: "sess Q s \<Longrightarrow> sess Q (snd (post_registration e lang rnd key f k a c s))"
proof -
  assume s: "sess Q s"
  have add: "sess Q (modify (reg_applies_update (t_del k) \<circ> users_update (t_add v)) s)"
    if "t_select (\<lambda>_ u. u_username u = u_username v) (users (work s)) = []" for v
    using that s unfolding modify_comp
    by (auto simp: t_first_select intro!: sess_modify user_add dest: sess_work)
  have fin: "sess Q (snd (case init_account (c_now c) uid s2 of (Some ex, s3) \<Rightarrow> (Raise ex, s3)
        | (None, s3) \<Rightarrow> (Redirect ''/'' None, save_session (ae_codec e) (ae_secret e) key (c_now c) uid s3)))" if "sess Q s2" for uid s2
    using keep_init_account [OF that, of "c_now c" uid] by (auto split: prod.split option.split)
  show ?thesis
    unfolding post_registration_def Let_def using s
    by (auto simp: new_user_def intro!: on_value_keep fin add)
qed

lemma keep_Register: "sess Q s \<Longrightarrow> sess Q (snd (Register_post e lang rnd key email ok f c s))"
  by (auto simp: Register_post_def post_apply_def keep_post_registration split: sum.split option.split)

lemma keep_OpenIDUserNew: "sess Q s \<Longrightarrow> sess Q (snd (OpenIDUserNew_post e lang rnd key f c s))"
proof -
  assume s: "sess Q s"
  have add: "sess Q (modify (users_update (t_add v)) s)"
    if "t_first (\<lambda>_ u. u_username u = u_username v) (users (work s)) = None" for v
    using that s by (auto intro!: sess_modify user_add dest: sess_work)
  have fin: "sess Q (snd (case init_account (c_now c) uid s1 of (Some ex, s2) \<Rightarrow> (Raise ex, s2)
      | (None, s2) \<Rightarrow> let s3 = commit (modify (openids_update (t_upd oid (oi_user_id_update (\<lambda>_. Some uid))) \<circ>
                                upd_user uid (u_last_login_update (\<lambda>_. Some (c_now c)))) s2);
                         s4 = save_session (ae_codec e) (ae_secret e) key (c_now c) uid s3
                     in (redirect_next c ''/account'', commit (modify (auth_keys_update (t_del k)) s4))))" if "sess Q s1" for uid oid k s1
    using keep_init_account [OF that, of "c_now c" uid] unfolding modify_comp Let_def by (auto split: prod.split option.split)
  show ?thesis
    unfolding OpenIDUserNew_post_def using s
    by (auto simp: Let_def new_user_def OpenIDNewForm_validate_def split: sum.split intro!: on_value_keep fin add)
qed

lemma keep_OpenIDUserBinding: "sess Q s \<Longrightarrow> sess Q (snd (OpenIDUserBinding_post e key f c s))"
  unfolding OpenIDUserBinding_post_def Let_def
  by (auto split: sum.split option.split intro!: on_value_keep)

lemma keep_handle_account: "sess Q s \<Longrightarrow> sess Q (snd (handle_account e q c s))"
proof (cases q)
  case (UserLogin key f)
  then show "sess Q s \<Longrightarrow> ?thesis" by (auto simp: Login_post_def Let_def split: option.split)
next
  case (Logout cookie)
  then show "sess Q s \<Longrightarrow> ?thesis"
    by (auto simp: Logout_get_def intro!: with_login_keep on_value_keep dest: keep_delete)
next
  case (ResetPass rnd key f)
  then show "sess Q s \<Longrightarrow> ?thesis" by (auto simp: ResetPass_post_def Let_def modify_comp split: sum.split option.split)
next
  case EmailConfirm
  then show "sess Q s \<Longrightarrow> ?thesis" by (auto simp: EmailValidate_get_def modify_comp intro!: with_login_keep split: option.split)
next
  case (QQAuth key akey oid)
  have "sess Q s \<Longrightarrow> sess Q (snd (QQLogin_on_auth e key akey oid c s))"
    by (auto simp: QQLogin_on_auth_def Let_def split: option.split)
  then show "sess Q s \<Longrightarrow> ?thesis" using QQAuth by (auto split: prod.split)
next
  case (PublicKeyDelete)
  then show "sess Q s \<Longrightarrow> ?thesis"
    by (auto simp: PublicKeyDelete_get_def with_key_def Let_def intro!: on_value_keep with_login_keep split: sum.split list.split)
next
  case (PublicKeyEdit f)
  then show "sess Q s \<Longrightarrow> ?thesis"
    by (auto simp: PublicKeyEdit_post_def with_key_def Let_def intro!: on_value_keep with_login_keep split: sum.split)
qed (auto simp: ResetPassApply_post_def ResetMyPass_post_def BaseInfoEdit_post_def PublicKeyAdd_post_def EmailValidate_post_def
    QQLogin_on_user_info_def Let_def keep_Register keep_OpenIDUserNew keep_OpenIDUserBinding intro!: with_login_keep split: option.split)

end

section \<open>The interface for three properties\<close>

definition usernames :: "db \<Rightarrow> string list" where
  "usernames d = map (u_username \<circ> snd) (rows (users d))"

definition names_ok :: "db \<Rightarrow> bool" where
  "names_ok d \<longleftrightarrow> t_ok (users d) \<and> distinct (usernames d)"

lemma usernames_upd: "(\<And>x. u_username (f x) = u_username x) \<Longrightarrow> usernames (upd_user uid f d) = usernames d"
  unfolding usernames_def upd_user_def using map_texts_upd [of u_username f uid "users d"] by simp

interpretation names: account_keeper names_ok
proof unfold_locales
  show "names_ok d \<Longrightarrow> (\<And>x. u_username (f x) = u_username x) \<Longrightarrow> names_ok (upd_user uid f d)" for d f uid
    by (simp add: names_ok_def usernames_upd) (simp add: upd_user_def)
  show "names_ok d \<Longrightarrow> t_first (\<lambda>_ x. u_username x = u_username v) (users d) = None \<Longrightarrow> names_ok (users_update (t_add v) d)" for d v
    by (auto simp: names_ok_def usernames_def t_ok_add t_first_None)
qed (simp_all add: names_ok_def usernames_def)

interpretation acc_pools: account_keeper cloud_inv
  by unfold_locales (erule cloud_inv_cong [THEN iffD2, rotated -1]; simp add: upd_user_def)+

lemma account_views:
  "user_view (users_update g0 d) iid = user_view d iid" "user_view (profiles_update g7 d) iid = user_view d iid"
  "user_view (resources_update g8 d) iid = user_view d iid" "user_view (websessions_update g1 d) iid = user_view d iid"
  "user_view (auth_keys_update g2 d) iid = user_view d iid" "user_view (openids_update g3 d) iid = user_view d iid"
  "user_view (resetpasses_update g4 d) iid = user_view d iid" "user_view (reg_applies_update g5 d) iid = user_view d iid"
  "user_view (public_keys_update g6 d) iid = user_view d iid"
  by (simp_all add: user_view_def relation_defs View_portmappings_def)

interpretation acc_inst: account_keeper "\<lambda>d. \<forall>iid. user_view d iid = user_view d0 iid" for d0
  by unfold_locales (simp_all add: account_views upd_user_def)

section \<open>User names\<close>

text \<open>
  C9. No request of the account pages, whatever it contains, makes two users with the same name, and
  none of them changes an instance, its addresses, storages, domains or port mappings, nor breaks the
  invariant of the pools.
\<close>

theorem account_requests_safe:
  assumes "names_ok d" "cloud_inv d"
  shows "names_ok (on_finish (snd (handle_account e q c (open_session d)))) \<and>
    cloud_inv (on_finish (snd (handle_account e q c (open_session d)))) \<and>
    (\<forall>iid. user_view (on_finish (snd (handle_account e q c (open_session d)))) iid = user_view d iid)"
  using assms names.keep_handle_account [of "open_session d"] acc_pools.keep_handle_account [of "open_session d"]
    acc_inst.keep_handle_account [of d "open_session d"]
  by (auto simp: sess_def)

section \<open>The default key\<close>

definition default_keys :: "db \<Rightarrow> int \<Rightarrow> (int \<times> public_key) list" where
  "default_keys d u = t_select (\<lambda>_ K. k_user_id K = u \<and> k_isdefault K) (public_keys d)"

definition default_ok :: "db \<Rightarrow> bool" where
  "default_ok d \<longleftrightarrow> t_ok (public_keys d) \<and> (\<forall>u. length (default_keys d u) = (if keys_of d u = [] then 0 else 1))"

lemma default_keys_filter: "default_keys d u = filter (\<lambda>(_, K). k_isdefault K) (keys_of d u)"
  by (simp add: default_keys_def keys_of_def t_select_def case_prod_unfold conj_commute)

lemma no_default: "\<not> list_ex (\<lambda>(_, K). k_isdefault K) (keys_of d u) \<longleftrightarrow> default_keys d u = []"
  by (auto simp: default_keys_filter list_ex_iff filter_empty_conv)

lemma default_ok_add:
  assumes "default_ok d"
  shows "default_ok (public_keys_update (t_add (new_public_key d u name key)) d)"
proof -
  define N where "N = new_public_key d u name key"
  have N: "k_user_id N = u" "k_isdefault N \<longleftrightarrow> default_keys d u = []"
    by (simp_all add: N_def new_public_key_def no_default)
  let ?d = "public_keys_update (t_add N) d"
  have k: "keys_of ?d v = keys_of d v @ (if v = u then [(seq (public_keys d) + 1, N)] else [])" for v
    by (auto simp: keys_of_def t_select_add_row N(1))
  have "default_keys ?d v = default_keys d v @ (if v = u \<and> k_isdefault N then [(seq (public_keys d) + 1, N)] else [])" for v
    by (simp add: default_keys_filter k)
  moreover have "default_keys d u = [] \<longleftrightarrow> keys_of d u = []"
    using assms by (metis default_ok_def length_0_conv zero_neq_one)
  ultimately have "default_ok ?d"
    using assms k N(2) by (auto simp: default_ok_def t_ok_add)
  then show ?thesis by (simp add: N_def)
qed

lemma map_fst_filter_map:
  "(\<And>a b. (a, b) \<in> set xs \<Longrightarrow> P a (g a b) = P a b) \<Longrightarrow>
     map fst (filter (\<lambda>(a, b). P a b) (map (\<lambda>(a, b). (a, g a b)) xs)) = map fst (filter (\<lambda>(a, b). P a b) xs)"
proof (induction xs)
  case (Cons x xs)
  then show ?case using Cons.prems [of "fst x" "snd x"] by (cases x) simp
qed simp

text \<open>\<open>set_default\<close> as one pass over the rows.\<close>

definition default_key :: "int \<Rightarrow> int \<Rightarrow> int \<Rightarrow> public_key \<Rightarrow> public_key" where
  "default_key u k a K = (if a = k then K\<lparr>k_isdefault := True\<rparr> else if k_user_id K = u then K\<lparr>k_isdefault := False\<rparr> else K)"

lemma default_key_fields [simp]:
  "k_user_id (default_key u k a K) = k_user_id K"
  "k_isdefault (default_key u k a K) = (a = k \<or> k_user_id K \<noteq> u \<and> k_isdefault K)"
  by (simp_all add: default_key_def)

lemma rows_set_default:
  "rows (public_keys (set_default u k d)) = map (\<lambda>(a, b). (a, default_key u k a b)) (rows (public_keys d))"
proof -
  have "\<not> k_isdefault b \<Longrightarrow> b\<lparr>k_isdefault := False\<rparr> = b" for b :: public_key
    by (cases b) simp
  then show ?thesis by (auto simp: set_default_def t_upd_def default_key_def)
qed

lemma keys_of_set_default: "map fst (keys_of (set_default u k d) v) = map fst (keys_of d v)"
  unfolding keys_of_def t_select_def rows_set_default by (rule map_fst_filter_map) simp

lemma filter_key: "distinct (map fst xs) \<Longrightarrow> map fst (filter (\<lambda>(a, _). a = k) xs) = (if k \<in> fst ` set xs then [k] else [])"
proof (induction xs)
  case (Cons x xs)
  then show ?case by (cases x) (auto simp: filter_empty_conv)
qed simp

lemma default_keys_set_default:
  assumes "t_ok (public_keys d)" "t_get (public_keys d) k = Some K" "k_user_id K = u"
  shows "map fst (default_keys (set_default u k d) v) = (if v = u then [k] else map fst (default_keys d v))"
proof -
  let ?xs = "rows (public_keys d)"
  have k: "k_user_id b = u" if "(k, b) \<in> set ?xs" for b
    using t_get_unique [OF assms(1,2) that] assms(3) by simp
  have m: "default_keys (set_default u k d) v =
      filter (\<lambda>(_, K). k_user_id K = v \<and> k_isdefault K) (map (\<lambda>(a, b). (a, default_key u k a b)) ?xs)"
    by (simp add: default_keys_def t_select_def rows_set_default)
  show ?thesis
  proof (cases "v = u")
    case True
    have "filter (\<lambda>(_, K). k_user_id K = v \<and> k_isdefault K) (map (\<lambda>(a, b). (a, default_key u k a b)) ?xs) =
        filter (\<lambda>(a, _). a = k) (map (\<lambda>(a, b). (a, default_key u k a b)) ?xs)"
      using k True by (intro filter_cong) auto
    moreover have "k \<in> fst ` set (map (\<lambda>(a, b). (a, default_key u k a b)) ?xs)"
      using t_get_in [OF assms(2)] by force
    moreover have "distinct (map fst (map (\<lambda>(a, b). (a, default_key u k a b)) ?xs))"
      using t_ok_distinct [OF assms(1)] by (simp add: case_prod_unfold o_def)
    ultimately show ?thesis unfolding m using True filter_key [of "map (\<lambda>(a, b). (a, default_key u k a b)) ?xs" k] by (simp del: map_map)
  next
    case False
    have "map fst (filter (\<lambda>(_, K). k_user_id K = v \<and> k_isdefault K) (map (\<lambda>(a, b). (a, default_key u k a b)) ?xs)) =
        map fst (filter (\<lambda>(_, K). k_user_id K = v \<and> k_isdefault K) ?xs)"
      using False k by (intro map_fst_filter_map) auto
    then show ?thesis unfolding m using False by (simp add: default_keys_def t_select_def)
  qed
qed

lemma default_ok_set_default:
  assumes "default_ok d" "t_get (public_keys d) k = Some K" "k_user_id K = u"
  shows "default_ok (set_default u k d)"
proof -
  have t: "t_ok (public_keys d)" using assms(1) by (simp add: default_ok_def)
  then have "t_ok (public_keys (set_default u k d))" by (simp add: set_default_def t_ok_upd)
  moreover have "length (default_keys (set_default u k d) v) = (if keys_of (set_default u k d) v = [] then 0 else 1)" for v
  proof -
    have "keys_of (set_default u k d) v = [] \<longleftrightarrow> keys_of d v = []" using keys_of_set_default [of u k d v] by (metis map_is_Nil_conv)
    moreover have "length (default_keys (set_default u k d) v) = (if v = u then 1 else length (default_keys d v))"
      using arg_cong [OF default_keys_set_default [OF t assms(2,3), of v], of length] by simp
    moreover have "(k, K) \<in> set (keys_of d u)" using assms(2,3) by (simp add: keys_of_def t_select_iff t_get_in)
    ultimately show ?thesis using assms(1) by (auto simp: default_ok_def)
  qed
  ultimately show ?thesis by (simp add: default_ok_def)
qed

lemma default_ok_delete:
  assumes "default_ok d" "t_get (public_keys d) k = Some K" "\<not> k_isdefault K"
  shows "default_ok (public_keys_update (t_del k) d)"
proof -
  let ?d = "public_keys_update (t_del k) d"
  have t: "t_ok (public_keys d)" using assms(1) by (simp add: default_ok_def)
  have same: "default_keys ?d v = default_keys d v" for v
    using t_get_unique [OF t assms(2)] assms(3) unfolding default_keys_def by simp (rule t_select_del_other, auto)
  have "keys_of ?d v = [] \<longleftrightarrow> keys_of d v = []" for v
  proof
    assume "keys_of ?d v = []"
    then have "default_keys d v = []" unfolding same [symmetric] by (simp add: default_keys_filter)
    then show "keys_of d v = []" using assms(1) by (metis default_ok_def length_0_conv zero_neq_one)
  qed (auto simp: keys_of_def t_select_def t_del_def filter_empty_conv)
  then show ?thesis using assms(1) same t by (simp add: default_ok_def)
qed

lemma default_ok_delete_default:
  assumes "default_ok d" "t_get (public_keys d) k = Some K" "k_isdefault K" "k_user_id K = u"
  shows "default_ok (case keys_of (public_keys_update (t_del k) d) u of
      [] \<Rightarrow> public_keys_update (t_del k) d
    | (k', _) # _ \<Rightarrow> public_keys_update (t_upd k' (k_isdefault_update (\<lambda>_. True))) (public_keys_update (t_del k) d))"
proof -
  let ?d = "public_keys_update (t_del k) d"
  have t: "t_ok (public_keys d)" using assms(1) by (simp add: default_ok_def)
  then have td: "t_ok (public_keys ?d)" by simp
  have "(k, K) \<in> set (default_keys d u)" using assms(2-4) by (simp add: default_keys_def t_select_iff t_get_in)
  moreover have "length (default_keys d u) \<le> 1" using assms(1) by (simp add: default_ok_def)
  ultimately have "default_keys d u = [(k, K)]" by (cases "default_keys d u") auto
  moreover have "default_keys ?d u = filter (\<lambda>(a, _). a \<noteq> k) (default_keys d u)"
    by (simp add: default_keys_def t_select_def t_del_def case_prod_unfold conj_commute)
  ultimately have none: "default_keys ?d u = []" by simp
  have other: "default_keys ?d v = default_keys d v \<and> keys_of ?d v = keys_of d v" if "v \<noteq> u" for v
    using that t_get_unique [OF t assms(2)] assms(4) unfolding default_keys_def keys_of_def
    by (auto intro!: t_select_del_other)
  show ?thesis
  proof (cases "keys_of ?d u")
    case Nil
    have "length (default_keys ?d v) = (if keys_of ?d v = [] then 0 else 1)" for v
      using assms(1) none other [of v] Nil by (cases "v = u") (auto simp: default_ok_def)
    then show ?thesis using td Nil by (simp add: default_ok_def)
  next
    case (Cons x xs)
    obtain k' K' where x: "x = (k', K')" by (cases x)
    have row: "t_get (public_keys ?d) k' = Some K'" "k_user_id K' = u"
      using Cons x t_get_iff [OF td] by (auto simp: keys_of_def dest!: arg_cong [of _ _ set] simp: t_select_def)
        (metis (mono_tags, lifting) case_prod_conv insertI1 mem_Collect_eq)+
    have nd: "\<not> k_isdefault K'"
      using none t_get_in [OF row(1)] row(2) by (auto simp: default_keys_def t_select_def filter_empty_conv)
    let ?e = "public_keys_update (t_upd k' (k_isdefault_update (\<lambda>_. True))) ?d"
    have "keys_of ?e v = [] \<longleftrightarrow> keys_of ?d v = []" for v
      unfolding keys_of_def by (simp add: t_select_upd)
    moreover have "length (default_keys ?e u) = 1"
      using t_select_upd_length [OF td row(1), of "\<lambda>_ K. k_user_id K = u \<and> k_isdefault K" "k_isdefault_update (\<lambda>_. True)"] none row(2) nd
      by (simp add: default_keys_def)
    moreover have "default_keys ?e v = default_keys ?d v" if "v \<noteq> u" for v
      using that t_get_unique [OF td row(1)] row(2) unfolding default_keys_def by simp (rule t_select_upd_other, auto)
    ultimately have "length (default_keys ?e v) = (if keys_of ?e v = [] then 0 else 1)" for v
      using assms(1) other [of v] Cons by (cases "v = u") (auto simp: default_ok_def)
    then show ?thesis using td Cons x by (simp add: default_ok_def)
  qed
qed

lemma with_key_result:
  "with_key h c s = (r, s') \<Longrightarrow>
     s' = s \<or> (\<exists>u k K. c_user c = Some u \<and> t_get (public_keys (work s)) k = Some K \<and> k_user_id K = u \<and> h u k K c s = (r, s'))"
  by (auto simp: with_key_def with_login_def on_value_def PublicKeyHandler_initialize_def Let_def
      split: option.splits sum.splits if_splits)

lemma default_ok_other: "public_keys d' = public_keys d \<Longrightarrow> default_ok d' = default_ok d"
  by (simp add: default_ok_def default_keys_def keys_of_def)

lemma default_ok_rename:
  assumes "default_ok d" "\<And>K. k_user_id (f K) = k_user_id K \<and> k_isdefault (f K) = k_isdefault K"
  shows "default_ok (public_keys_update (t_upd k f) d)"
  using assms by (simp add: default_ok_def default_keys_def keys_of_def t_select_upd)

text \<open>
  As long as a user has public keys, exactly one of them is the default one: adding, editing and
  deleting keys, with any of their options and by any user, keep this.
\<close>

theorem one_default_key:
  assumes "default_ok d" "q = PublicKeyAdd f \<or> q = PublicKeyEdit f \<or> q = PublicKeyDelete"
  shows "default_ok (on_finish (snd (handle_account e q c (open_session d))))"
  using assms(2)
proof (elim disjE)
  assume q: "q = PublicKeyAdd f"
  let ?N = "\<lambda>u. new_public_key d u (kf_name f) (kf_key f)"
  have t: "t_ok (public_keys d)" using assms(1) by (simp add: default_ok_def)
  have a: "default_ok (public_keys_update (t_add (?N u)) d)" for u by (rule default_ok_add [OF assms(1)])
  have g: "t_get (public_keys (public_keys_update (t_add (?N u)) d)) (t_newid (public_keys d)) = Some (?N u)" for u
    by (simp add: t_get_add [OF t])
  have "default_ok (set_default u (t_newid (public_keys d)) (public_keys_update (t_add (?N u)) d))" for u
    by (rule default_ok_set_default [OF a g]) (simp add: new_public_key_def)
  then show ?thesis using q assms(1) a by (auto simp: PublicKeyAdd_post_def with_login_def Let_def split: option.split)
next
  assume q: "q = PublicKeyEdit f"
  let ?g = "\<lambda>K. K\<lparr>k_name := kf_name f, k_data := kf_key f\<rparr>"
  obtain r s' where r: "PublicKeyEdit_post f c (open_session d) = (r, s')" by fastforce
  from with_key_result [OF r [unfolded PublicKeyEdit_post_def]]
  consider "s' = open_session d" | u k K where "t_get (public_keys d) k = Some K" "k_user_id K = u"
    "store s' = public_keys_update (t_upd k ?g) d \<or> store s' = set_default u k (public_keys_update (t_upd k ?g) d)"
    by (auto simp: Let_def split: if_splits)
  then show ?thesis
  proof cases
    case (2 u k K)
    have a: "default_ok (public_keys_update (t_upd k ?g) d)" by (rule default_ok_rename [OF assms(1)]) simp
    have "default_ok (set_default u k (public_keys_update (t_upd k ?g) d))"
      by (rule default_ok_set_default [OF a, where K = "?g K"]) (simp_all add: 2)
    with a 2(3) r q show ?thesis by auto
  qed (use r q assms(1) in simp)
next
  assume q: "q = PublicKeyDelete"
  obtain r s' where r: "PublicKeyDelete_get c (open_session d) = (r, s')" by fastforce
  from with_key_result [OF r [unfolded PublicKeyDelete_get_def]]
  show ?thesis
  proof (elim disjE exE conjE)
    fix u k K
    assume k: "t_get (public_keys (work (open_session d))) k = Some K" "k_user_id K = u"
      and h: "(let s1 = commit (modify (public_keys_update (t_del k)) (open_session d));
         s2 = (if k_isdefault K
               then (case keys_of (work s1) u of
                       [] \<Rightarrow> commit s1
                     | (k', _) # _ \<Rightarrow> commit (modify (public_keys_update (t_upd k' (k_isdefault_update (\<lambda>_. True)))) s1))
               else s1)
         in (Redirect ''account:public_key'' None, s2)) = (r, s')"
    have k1: "t_get (public_keys d) k = Some K" using k(1) by simp
    show ?thesis
    proof (cases "k_isdefault K")
      case True
      from default_ok_delete_default [OF assms(1) k1 True k(2)] h True show ?thesis
        unfolding q by (cases "keys_of (public_keys_update (t_del k) d) u") (auto simp: Let_def r)
    next
      case False
      from default_ok_delete [OF assms(1) k1 False] h False show ?thesis unfolding q by (auto simp: Let_def r)
    qed
  qed (use r q assms(1) in simp)
qed

definition account_db_ex :: db where
  "account_db_ex = db_empty\<lparr>
     users := \<lparr>rows = [(1, (user_ex ''bob'' [])\<lparr>u_password := enc_login_passwd codec_ex ''0.5'' ''secret''\<rparr>), (2, user_ex ''alice'' [])], seq = 2\<rparr>,
     resetpasses := \<lparr>rows = [(1, \<lparr>rp_user_id = 1, rp_key = ''k1'', rp_created = 5\<rparr>)], seq = 1\<rparr>,
     public_keys := \<lparr>rows = [(1, \<lparr>k_user_id = 1, k_name = ''a'', k_data = ''x'', k_isdefault = True\<rparr>),
                           (2, \<lparr>k_user_id = 1, k_name = ''b'', k_data = ''y'', k_isdefault = False\<rparr>)], seq = 2\<rparr>\<rparr>"

definition acc_env_ex :: acc_env where
  "acc_env_ex = \<lparr>ae_codec = codec_ex, ae_secret = ''sk''\<rparr>"

lemma account_db_ex_ok: "names_ok account_db_ex" "cloud_inv account_db_ex" "default_ok account_db_ex"
proof -
  show "names_ok account_db_ex" by (simp add: names_ok_def usernames_def account_db_ex_def t_ok_def user_ex_def)
  show "cloud_inv account_db_ex"
    using cloud_inv_cong [of account_db_ex db_empty]
    by (simp add: account_db_ex_def cloud_inv_defs db_empty_def ip_texts_def port_numbers_def)
  show "default_ok account_db_ex"
    by (auto simp: default_ok_def default_keys_def keys_of_def t_select_def account_db_ex_def t_ok_def)
qed

theorem account_requests_safe_witness:
  "let f = \<lparr>rg_username = ''bob'', rg_password = ''secret'', rg_confirm = ''secret''\<rparr>;
       d = account_db_ex\<lparr>reg_applies := \<lparr>rows = [(1, \<lparr>ra_email = ''b@c.org'', ra_key = ''k'', ra_created = 1\<rparr>)], seq = 1\<rparr>\<rparr>
   in names_ok (on_finish (snd (handle_account acc_env_ex (Register None ''0.1'' ''s'' [] True f) (ctx_ex 1 [(''key'', ''k'')]) (open_session d))))"
proof -
  let ?d = "account_db_ex\<lparr>reg_applies := \<lparr>rows = [(1, \<lparr>ra_email = ''b@c.org'', ra_key = ''k'', ra_created = 1\<rparr>)], seq = 1\<rparr>\<rparr>"
  have "names_ok ?d" "cloud_inv ?d"
    using account_db_ex_ok(1,2) cloud_inv_cong [of ?d account_db_ex] by (simp_all add: names_ok_def usernames_def)
  from conjunct1 [OF account_requests_safe [OF this]] show ?thesis unfolding Let_def .
qed

theorem one_default_key_witness:
  "default_ok (on_finish (snd (handle_account acc_env_ex PublicKeyDelete (ctx_ex 1 [(''id'', ''1'')]) (open_session account_db_ex)))) \<and>
   map fst (default_keys (on_finish (snd (handle_account acc_env_ex PublicKeyDelete (ctx_ex 1 [(''id'', ''1'')]) (open_session account_db_ex)))) 1) = [2]"
proof
  show "default_ok (on_finish (snd (handle_account acc_env_ex PublicKeyDelete (ctx_ex 1 [(''id'', ''1'')]) (open_session account_db_ex))))"
    by (rule one_default_key [OF account_db_ex_ok(3)]) simp
  show "map fst (default_keys (on_finish (snd (handle_account acc_env_ex PublicKeyDelete (ctx_ex 1 [(''id'', ''1'')]) (open_session account_db_ex)))) 1) = [2]"
    by code_simp
qed

section \<open>Login\<close>





lemma ResetPass_prepare_failed:
  "ResetPass_prepare c d = Inl r \<Longrightarrow> r = Render ''account/reset_password_failed.html''"
  by (auto simp: ResetPass_prepare_def split: option.splits if_splits)

text \<open>
  C16. A lost password: the link that was mailed sets the password of the user who applied and of
  nobody else, the new password is accepted from then on, and the link does not work a second time.
\<close>

theorem reset_password_once:
  assumes "codec_ok (ae_codec e)" "ResetPass_post e rnd key f c s = (Redirect ''/'' None, s')"
    "t_ok (resetpasses (work s))" "distinct (map (rp_key \<circ> snd) (rows (resetpasses (work s))))"
  shows "\<exists>a u'. a \<in> snd ` set (rows (resetpasses (work s))) \<and> get_argument c ''key'' = Some (rp_key a) \<and>
    t_get (users (work s')) (rp_user_id a) = Some u' \<and> check_login_passwd (ae_codec e) (np_password f) (u_password u') \<and>
    (\<forall>v. v \<noteq> rp_user_id a \<longrightarrow> t_get (users (work s')) v = t_get (users (work s)) v) \<and>
    (\<forall>rnd2 key2 f2. ResetPass_post e rnd2 key2 f2 c s' = (Render ''account/reset_password_failed.html'', s'))"
proof -
  from assms(2) obtain k a u where a: "ResetPass_prepare c (work s) = Inr (k, a)" "t_get (users (work s)) (rp_user_id a) = Some u"
    and s': "s' = save_session (ae_codec e) (ae_secret e) key (c_now c) (rp_user_id a) (commit (modify (resetpasses_update (t_del k) \<circ>
       upd_user (rp_user_id a) (u_password_update (\<lambda>_. enc_login_passwd (ae_codec e) rnd (np_password f)))) s))"
    by (auto simp: ResetPass_post_def Let_def dest: ResetPass_prepare_failed split: sum.splits if_splits option.splits)
  obtain g where g: "get_argument c ''key'' = Some g" "g \<noteq> []" "t_first (\<lambda>_ r. rp_key r = g) (resetpasses (work s)) = Some (k, a)"
    using a(1) by (auto simp: ResetPass_prepare_def split: option.splits if_splits)
  have row: "(k, a) \<in> set (rows (resetpasses (work s)))" "rp_key a = g" using t_first_Some [OF g(3)] by auto
  have "rp_key b \<noteq> g" if "(j, b) \<in> set (rows (resetpasses (work s)))" "j \<noteq> k" for j b
    using that row assms(4) by (fastforce simp: distinct_map inj_on_def)
  then have "t_first (\<lambda>_ r. rp_key r = g) (t_del k (resetpasses (work s))) = None"
    by (auto simp: t_first_None t_del_def)
  then have again: "ResetPass_prepare c (work s') = Inl (Render ''account/reset_password_failed.html'')"
    by (simp add: ResetPass_prepare_def g(1,2) s' save_session_def Let_def upd_user_def)
  have "users (work s') = t_upd (rp_user_id a) (u_password_update (\<lambda>_. enc_login_passwd (ae_codec e) rnd (np_password f))) (users (work s))"
    by (simp add: s' save_session_def Let_def upd_user_def)
  then have "t_get (users (work s')) (rp_user_id a) = Some (u\<lparr>u_password := enc_login_passwd (ae_codec e) rnd (np_password f)\<rparr>)"
    "\<forall>v. v \<noteq> rp_user_id a \<longrightarrow> t_get (users (work s')) v = t_get (users (work s)) v"
    using a(2) by simp_all
  moreover have "check_login_passwd (ae_codec e) (np_password f) (enc_login_passwd (ae_codec e) rnd (np_password f))"
    using split_enc_login [OF assms(1)] by (simp add: check_login_passwd_def)
  moreover have "ResetPass_post e rnd2 key2 f2 c s' = (Render ''account/reset_password_failed.html'', s')" for rnd2 key2 f2
    by (simp add: ResetPass_post_def again)
  ultimately show ?thesis using row g(1) by (intro exI [of _ a]) (force simp: image_iff)
qed

theorem reset_password_once_witness:
  "fst (ResetPass_post acc_env_ex ''0.7'' ''key'' \<lparr>np_password = ''secret2'', np_confirm = ''secret2''\<rparr>
     (ctx_ex 1 [(''key'', ''k1'')]) (open_session account_db_ex)) = Redirect ''/'' None \<and>
   (\<exists>a u'. a \<in> snd ` set (rows (resetpasses account_db_ex)) \<and> Some ''k1'' = Some (rp_key a) \<and>
     t_get (users (work (snd (ResetPass_post acc_env_ex ''0.7'' ''key'' \<lparr>np_password = ''secret2'', np_confirm = ''secret2''\<rparr>
       (ctx_ex 1 [(''key'', ''k1'')]) (open_session account_db_ex))))) (rp_user_id a) = Some u' \<and>
     check_login_passwd codec_ex ''secret2'' (u_password u'))"
proof -
  let ?r = "ResetPass_post acc_env_ex ''0.7'' ''key'' \<lparr>np_password = ''secret2'', np_confirm = ''secret2''\<rparr>
     (ctx_ex 1 [(''key'', ''k1'')]) (open_session account_db_ex)"
  have r: "fst ?r = Redirect ''/'' None" by code_simp
  have "codec_ok (ae_codec acc_env_ex)" by (simp add: acc_env_ex_def codec_ex_ok)
  from reset_password_once [OF this pair_of_fst [OF r]] show ?thesis
    using r by (fastforce simp: account_db_ex_def t_ok_def acc_env_ex_def ctx_ex_def get_argument_def)
qed


end
