(* ===== verification/Api.thy ===== *)
theory Api
  imports Account_Inv
begin

text \<open>
  The interface for client programs (\<^verbatim>\<open>lyweb/app/api/views.py\<close>): logging in with a name and a
  password gives the key of a session, which the other requests carry as an argument. The routines
  for sessions are written a second time there; that they agree with those of the web pages is shown
  below. An answer is a JSON object with a code and a text.
\<close>

datatype api_resp =
    ApiFail string
  | ApiKey string
  | ApiInfo int int string
  | ApiList "(int \<times> string \<times> string option \<times> int \<times> string \<times> string \<times> int) list"
  | ApiRaise pyexn

section \<open>Sessions\<close>

text \<open>\<open>ApiRequestHandler.get_current_user\<close>; a missing argument is compared with \<open>NULL\<close>.\<close>

definition api_current_user :: "codec \<Rightarrow> string \<Rightarrow> ctx \<Rightarrow> db \<Rightarrow> int option pyres" where
  "api_current_user k sk c d =
     (case get_argument c ''session_key'' of
        None \<Rightarrow> Inr None
      | Some session_key \<Rightarrow>
          (case t_select (\<lambda>_ v. ws_session_key v = session_key) (websessions d) of
             [] \<Rightarrow> Inr None
           | _ # _ # _ \<Rightarrow> Inl (NameError ''session'')
           | [(_, session)] \<Rightarrow>
               if ws_expire_date session < c_now c then Inr None
               else
                 let encoded = b64dec k (ws_session_data session);
                     n = length encoded - 32
                 in if md5hex k (take n encoded @ sk) \<noteq> drop n encoded then Inr None
                    else
                      let uid = (case ploads k (take n encoded) of None \<Rightarrow> 0 | Some u \<Rightarrow> u)
                      in case t_get (users d) uid of
                           None \<Rightarrow> Inr None
                         | Some u \<Rightarrow> if u_is_locked u then Inr None else Inr (Some uid)))"

text \<open>The decorator \<open>authenticated\<close> of this file.\<close>

definition api_authenticated ::
  "codec \<Rightarrow> string \<Rightarrow> (int \<Rightarrow> ctx \<Rightarrow> db \<Rightarrow> api_resp) \<Rightarrow> ctx \<Rightarrow> db \<Rightarrow> api_resp" where
  "api_authenticated k sk h c d =
     (case api_current_user k sk c d of
        Inl e \<Rightarrow> ApiRaise e
      | Inr None \<Rightarrow> ApiFail ''Requires authentication''
      | Inr (Some u) \<Rightarrow> h u c d)"

definition api_save_session :: "codec \<Rightarrow> string \<Rightarrow> string \<Rightarrow> int \<Rightarrow> int \<Rightarrow> db session \<Rightarrow> db session" where
  "api_save_session k sk session_key now user_id s =
     (let pickled = pdumps k user_id;
          pickled_md5 = md5hex k (pickled @ sk)
      in commit (modify (websessions_update (t_add \<lparr>ws_session_key = session_key,
           ws_session_data = b64enc k (pickled @ pickled_md5), ws_expire_date = now + 30 * 24 * 3600\<rparr>)) s))"

text \<open>\<open>Login.post\<close>: without a password the text of the salt and \<open>None\<close> can not be joined.\<close>

definition api_login :: "acc_env \<Rightarrow> string \<Rightarrow> ctx \<Rightarrow> db session \<Rightarrow> api_resp \<times> db session" where
  "api_login e key c s =
     (case get_argument c ''username'' of
        None \<Rightarrow> (ApiFail ''No such user.'', s)
      | Some username \<Rightarrow>
          (case t_first (\<lambda>_ u. u_username u = username) (users (work s)) of
             None \<Rightarrow> (ApiFail ''No such user.'', s)
           | Some (uid, U) \<Rightarrow>
               if u_is_locked U then (ApiFail ''User is locked'', s)
               else case get_argument c ''password'' of
                 None \<Rightarrow>
                   if length (split_on CHR ''$'' (u_password U)) = 2 then (ApiRaise TypeError, s)
                   else (ApiFail ''Password is wrong.'', s)
               | Some password \<Rightarrow>
                   if \<not> check_login_passwd (ae_codec e) password (u_password U) then (ApiFail ''Password is wrong.'', s)
                   else (ApiKey key,
                         commit (modify (upd_user uid (u_last_login_update (\<lambda>_. Some (c_now c))))
                           (api_save_session (ae_codec e) (ae_secret e) key (c_now c) uid s)))))"

section \<open>Instances\<close>

definition node_host :: "db \<Rightarrow> instance_row \<Rightarrow> string" where
  "node_host d I = (case i_node_id I of None \<Rightarrow> [] | Some n \<Rightarrow> (case t_get (nodes d) n of None \<Rightarrow> [] | Some N \<Rightarrow> nd_ip N))"

definition InstanceBaseinfo_post :: "codec \<Rightarrow> string \<Rightarrow> ctx \<Rightarrow> db \<Rightarrow> api_resp" where
  "InstanceBaseinfo_post k sk = api_authenticated k sk (\<lambda>u c d.
     let ID = (case get_argument_int c ''instance_id'' None of None \<Rightarrow> 0 | Some n \<Rightarrow> n) in
     if ID = 0 then ApiFail ''Give me instance_id please.''
     else case t_get (instances d) ID of
       None \<Rightarrow> ApiFail ''Can not find instance %s''
     | Some I \<Rightarrow>
         if i_user_id I \<noteq> u then ApiFail ''Instance %s is someone else's''
         else ApiInfo ID (i_vdi_port I) (node_host d I))"

text \<open>The database refuses a negative offset or limit; the order of the rows is that of their keys.\<close>

definition MyInstanceList_post :: "codec \<Rightarrow> string \<Rightarrow> ctx \<Rightarrow> db \<Rightarrow> api_resp" where
  "MyInstanceList_post k sk = api_authenticated k sk (\<lambda>u c d.
     let page_size = (case get_argument_int c ''sepa'' (Some 50) of None \<Rightarrow> 50 | Some n \<Rightarrow> n);
         cur_page = (case get_argument_int c ''p'' (Some 1) of None \<Rightarrow> 1 | Some n \<Rightarrow> n);
         start = (cur_page - 1) * page_size;
         IL = t_select (\<lambda>_ I. i_user_id I = u) (instances d)
     in if IL = [] then ApiFail ''No instances found''
        else if start < 0 \<or> page_size < 0 then ApiRaise ValueError
        else ApiList (map (\<lambda>(iid, I). (iid, i_name I, i_summary I, i_status I, status_string I, node_host d I, i_vdi_port I))
               (take (nat page_size) (drop (nat start) IL))))"

section \<open>Properties\<close>

lemma api_current_user_spec:
  assumes "get_argument c ''session_key'' = Some key"
  shows "api_current_user k sk c (work s) = map_sum id fst (get_current_user k sk key (c_now c) s)"
  using assms by (auto simp: api_current_user_def get_current_user_def Let_def split: list.split option.split)

lemma api_login_spec:
  assumes "get_argument c ''username'' = Some name" "get_argument c ''password'' = Some p" "CHR ''@'' \<notin> set name"
  shows "case LoginForm_validate (ae_codec e) (work s) \<lparr>lf_user = name, lf_password = p\<rparr> of
      None \<Rightarrow> \<exists>m. api_login e key c s = (ApiFail m, s)
    | Some uid \<Rightarrow> api_login e key c s = (ApiKey key, snd (Login_post e key \<lparr>lf_user = name, lf_password = p\<rparr> c s))"
  using assms
  by (auto simp: api_login_def Login_post_def LoginForm_validate_def login_user_def api_save_session_def save_session_def
      Let_def split: option.split)

text \<open>
  C37. The interface for programs and the web pages, given a user name and a password. For a name without
  an at sign, a login succeeds in one exactly if it does in the other, with the same effect on the database. For a
  name with an at sign the web page looks for the e-mail address, the interface for a user of that name: where
  there is none it refuses the login and changes nothing. Without a password the interface never logs in. The key of a
  session, wherever it comes from, stands for the same user in both.
\<close>

theorem api_agrees_with_web:
  assumes "get_argument c ''username'' = Some name" and "get_argument c' ''session_key'' = Some k"
  shows "(case get_argument c ''password'' of
      None \<Rightarrow> snd (api_login e key c s) = s \<and> (\<forall>k. fst (api_login e key c s) \<noteq> ApiKey k)
    | Some p \<Rightarrow>
        if CHR ''@'' \<in> set name then
          (\<forall>j U. (j, U) \<in> set (rows (users (work s))) \<longrightarrow> u_username U \<noteq> name) \<longrightarrow> (\<exists>m. api_login e key c s = (ApiFail m, s))
        else
          snd (api_login e key c s) = snd (Login_post e key \<lparr>lf_user = name, lf_password = p\<rparr> c s) \<and>
          ((\<exists>m. fst (api_login e key c s) = ApiFail m) \<longleftrightarrow>
             LoginForm_validate (ae_codec e) (work s) \<lparr>lf_user = name, lf_password = p\<rparr> = None)) \<and>
    api_current_user cd sk c' (work s) = map_sum id fst (get_current_user cd sk k (c_now c') s)"
proof (rule conjI [OF _ api_current_user_spec [OF assms(2)]], cases "get_argument c ''password''")
  case None
  with assms(1) show "case get_argument c ''password'' of
      None \<Rightarrow> snd (api_login e key c s) = s \<and> (\<forall>k. fst (api_login e key c s) \<noteq> ApiKey k)
    | Some p \<Rightarrow>
        if CHR ''@'' \<in> set name then
          (\<forall>j U. (j, U) \<in> set (rows (users (work s))) \<longrightarrow> u_username U \<noteq> name) \<longrightarrow> (\<exists>m. api_login e key c s = (ApiFail m, s))
        else
          snd (api_login e key c s) = snd (Login_post e key \<lparr>lf_user = name, lf_password = p\<rparr> c s) \<and>
          ((\<exists>m. fst (api_login e key c s) = ApiFail m) \<longleftrightarrow>
             LoginForm_validate (ae_codec e) (work s) \<lparr>lf_user = name, lf_password = p\<rparr> = None)"
    by (auto simp: api_login_def split: option.split)
next
  case (Some p)
  show "case get_argument c ''password'' of
      None \<Rightarrow> snd (api_login e key c s) = s \<and> (\<forall>k. fst (api_login e key c s) \<noteq> ApiKey k)
    | Some p \<Rightarrow>
        if CHR ''@'' \<in> set name then
          (\<forall>j U. (j, U) \<in> set (rows (users (work s))) \<longrightarrow> u_username U \<noteq> name) \<longrightarrow> (\<exists>m. api_login e key c s = (ApiFail m, s))
        else
          snd (api_login e key c s) = snd (Login_post e key \<lparr>lf_user = name, lf_password = p\<rparr> c s) \<and>
          ((\<exists>m. fst (api_login e key c s) = ApiFail m) \<longleftrightarrow>
             LoginForm_validate (ae_codec e) (work s) \<lparr>lf_user = name, lf_password = p\<rparr> = None)"
  proof (cases "CHR ''@'' \<in> set name")
    case True
    have "\<exists>m. api_login e key c s = (ApiFail m, s)" if "\<forall>j U. (j, U) \<in> set (rows (users (work s))) \<longrightarrow> u_username U \<noteq> name"
    proof -
      have "t_first (\<lambda>_ u. u_username u = name) (users (work s)) = None" using that by (auto simp: t_first_None)
      then show ?thesis using assms(1) by (simp add: api_login_def)
    qed
    with Some True show ?thesis by simp
  next
    case False
    have "snd (Login_post e key \<lparr>lf_user = name, lf_password = p\<rparr> c s) = s"
      if "LoginForm_validate (ae_codec e) (work s) \<lparr>lf_user = name, lf_password = p\<rparr> = None"
      using that by (simp add: Login_post_def)
    with Some False api_login_spec [OF assms(1) Some False, where e = e and s = s and key = key]
    show ?thesis by (cases "LoginForm_validate (ae_codec e) (work s) \<lparr>lf_user = name, lf_password = p\<rparr>") auto
  qed
qed

theorem api_agrees_with_web_witness:
  "let c = ctx_ex 2 [(''username'', ''bob''), (''password'', ''secret''), (''session_key'', ''key'')]
   in fst (api_login acc_env_ex ''key'' c (open_session account_db_ex)) = ApiKey ''key'' \<and>
     snd (api_login acc_env_ex ''key'' c (open_session account_db_ex)) =
       snd (Login_post acc_env_ex ''key'' \<lparr>lf_user = ''bob'', lf_password = ''secret''\<rparr> c (open_session account_db_ex))"
proof -
  let ?c = "ctx_ex 2 [(''username'', ''bob''), (''password'', ''secret''), (''session_key'', ''key'')]"
  have a: "get_argument ?c ''username'' = Some ''bob''" "get_argument ?c ''session_key'' = Some ''key''"
    "get_argument ?c ''password'' = Some ''secret''" "CHR ''@'' \<notin> set ''bob''"
    by code_simp+
  have "fst (api_login acc_env_ex ''key'' ?c (open_session account_db_ex)) = ApiKey ''key''" by code_simp
  with api_agrees_with_web [OF a(1,2), of acc_env_ex "''key''" "open_session account_db_ex" codec_ex "''sk''"]
  show ?thesis unfolding a(3) option.case if_not_P [OF a(4)] by (simp add: Let_def)
qed

text \<open>A client learns of its own instances only, and the list has all of them, page by page.\<close>

lemma api_private:
  assumes "api_current_user k sk c d = Inr (Some u)"
  shows "InstanceBaseinfo_post k sk c d = ApiInfo iid port host \<Longrightarrow> \<exists>I. t_get (instances d) iid = Some I \<and> i_user_id I = u"
    and "MyInstanceList_post k sk c d = ApiList xs \<Longrightarrow> (iid, y) \<in> set xs \<Longrightarrow> \<exists>I. (iid, I) \<in> set (rows (instances d)) \<and> i_user_id I = u"
proof -
  show "\<exists>I. t_get (instances d) iid = Some I \<and> i_user_id I = u" if "InstanceBaseinfo_post k sk c d = ApiInfo iid port host"
    using that assms by (auto simp: InstanceBaseinfo_post_def api_authenticated_def Let_def split: option.splits if_splits)
  assume l: "MyInstanceList_post k sk c d = ApiList xs" and i: "(iid, y) \<in> set xs"
  then obtain I where "(iid, I) \<in> set (t_select (\<lambda>_ I. i_user_id I = u) (instances d))"
    using assms by (auto simp: MyInstanceList_post_def api_authenticated_def Let_def split: if_splits
        dest!: in_set_takeD in_set_dropD)
  then show "\<exists>I. (iid, I) \<in> set (rows (instances d)) \<and> i_user_id I = u" by (auto simp: t_select_iff)
qed

lemma api_pages:
  assumes "api_current_user k sk c d = Inr (Some u)" and "t_select (\<lambda>_ I. i_user_id I = u) (instances d) \<noteq> []"
    and "get_argument_int c ''sepa'' (Some 50) = Some n" "0 < n"
    and "get_argument_int c ''p'' (Some 1) = Some (int j + 1)"
  shows "\<exists>xs. MyInstanceList_post k sk c d = ApiList xs \<and>
    map fst xs = take (nat n) (drop (j * nat n) (map fst (t_select (\<lambda>_ I. i_user_id I = u) (instances d))))"
proof -
  have "nat (int j * n) = j * nat n" using assms(4) by (simp add: nat_mult_distrib)
  moreover have "map fst (map (\<lambda>(iid, I). (iid, g iid I)) ys) = map fst ys" for g :: "int \<Rightarrow> instance_row \<Rightarrow> 'x" and ys
    by (induction ys) auto
  ultimately show ?thesis
    using assms by (auto simp: MyInstanceList_post_def api_authenticated_def Let_def take_map drop_map mult_less_0_iff)
qed

end
