(* ===== verification/Admin.thy ===== *)
theory Admin
  imports Account
begin

text \<open>
  Administration of users, groups and resources (\<^verbatim>\<open>lyweb/app/admin/user_views.py\<close>,
  \<^verbatim>\<open>group_views.py\<close>, \<^verbatim>\<open>lyweb/app/resource/admin_views.py\<close>,
  \<^verbatim>\<open>lyweb/app/registration/admin_views.py\<close>). The mails to the users concerned are left out, and so
  are two handlers that put \<open>NULL\<close> into columns which are values here: the deletion of a user,
  and the change of a resource (which may lack its dates).
\<close>

section \<open>Users\<close>

text \<open>
  Under \<open>@has_permission('admin')\<close>, \<open>initialize\<close> or \<open>prepare\<close> look up a row by the argument
  \<open>id\<close>, and answer \<open>m\<close> when there is none.
\<close>

definition with_row ::
  "(db \<Rightarrow> 'a table) \<Rightarrow> string \<Rightarrow> (int \<Rightarrow> 'a \<Rightarrow> ctx \<Rightarrow> db session \<Rightarrow> resp \<times> db session) \<Rightarrow> ctx \<Rightarrow> db session \<Rightarrow> resp \<times> db session" where
  "with_row t m h = with_permission ''admin'' (\<lambda>c s.
     let ID = arg_id c ''id'' in
     case t_get (t (work s)) ID of None \<Rightarrow> (Write m [ID], s) | Some x \<Rightarrow> h ID x c s)"

record user_form =
  uf_username :: string
  uf_email :: string
  uf_password :: string
  uf_confirm :: string

definition CreateUserForm_validate :: "user_form \<Rightarrow> bool" where
  "CreateUserForm_validate f =
     (length_between 2 25 (uf_username f) \<and> email_field (uf_email f) \<and>
      uf_password f = uf_confirm f \<and> length_between 6 120 (uf_password f))"

text \<open>The profile is made after \<open>init_account\<close>, which has already made one.\<close>

definition UserAdd_post :: "acc_env \<Rightarrow> string \<Rightarrow> user_form \<Rightarrow> ctx \<Rightarrow> db session \<Rightarrow> resp \<times> db session" where
  "UserAdd_post e rnd f = with_permission ''admin'' (\<lambda>c s.
     if CreateUserForm_validate f then
       if t_first (\<lambda>_ u. u_username u = uf_username f) (users (work s)) \<noteq> None
       then (RenderErr ''username'' ''This username is occupied'', s)
       else
         (let uid = t_newid (users (work s));
              s1 = commit (modify (users_update (t_add (new_user None (uf_username f)
                     (enc_login_passwd (ae_codec e) rnd (uf_password f))))) s)
          in case init_account (c_now c) uid s1 of
               (Some ex, s2) \<Rightarrow> (Raise ex, s2)
             | (None, s2) \<Rightarrow> on_value (new_profile (work s2) uid) s2 (\<lambda>p.
                 (Redirect ''admin:user:view'' (Some uid), commit (modify (profiles_update (t_add p)) s2))))
     else (Render ''admin/user/add.html'', s))"

definition AdminView_get :: "ctx \<Rightarrow> db session \<Rightarrow> resp \<times> db session" where
  "AdminView_get = with_row users ''No such user: %s'' (\<lambda>uid u c s.
     if profile_of (work s) uid = None then (Raise (AttributeError ''get_resource_total''), s)
     else (Render ''admin/user/view.html'', s))"

definition AdminResetPass_post :: "acc_env \<Rightarrow> string \<Rightarrow> newpass_form \<Rightarrow> ctx \<Rightarrow> db session \<Rightarrow> resp \<times> db session" where
  "AdminResetPass_post e rnd f = with_permission ''admin'' (\<lambda>c s.
     case get_argument_int c ''id'' None of
       None \<Rightarrow> (Write ''Give me user id please.'' [], s)
     | Some ID \<Rightarrow>
         if ID = 0 then (Write ''Give me user id please.'' [], s)
         else if t_get (users (work s)) ID = None then (Write ''Can not find user %s'' [ID], s)
         else if ResetPassForm_validate f
         then (Redirect ''admin:user:view'' (Some ID),
               commit (modify (upd_user ID (u_password_update (\<lambda>_. enc_login_passwd (ae_codec e) rnd (np_password f)))) s))
         else (Render ''admin/user/reset_password.html'', s))"

text \<open>
  \<open>GroupEdit\<close>: the form checks the stripped names, the handler looks up the values as they
  were sent (\<open>names\<close>) and passes over those that no group has.
\<close>

definition multi_choice_ok :: "string list \<Rightarrow> string list \<Rightarrow> bool" where
  "multi_choice_ok data choices = list_all (\<lambda>x. x \<in> set choices) data"

definition group_named :: "db \<Rightarrow> string \<Rightarrow> int option" where
  "group_named d name = map_option fst (t_first (\<lambda>_ g. g_name g = name) (groups d))"

definition GroupEdit_post :: "string list \<Rightarrow> ctx \<Rightarrow> db session \<Rightarrow> resp \<times> db session" where
  "GroupEdit_post names = with_row users ''No such user: %s'' (\<lambda>uid u c s.
     if multi_choice_ok (map strip names) (map (g_name \<circ> snd) (rows (groups (work s))))
     then (Redirect ''admin:user:view'' (Some uid),
           commit (modify (upd_user uid (u_groups_update (\<lambda>_. List.map_filter (group_named (work s)) names))) s))
     else (Render ''admin/user/group_edit.html'', s))"

section \<open>Resources\<close>

record dates =
  effect_date :: "int option"
  expired_date :: "int option"

record ares_form = dates +
  af_type :: string
  af_size :: "int option"

definition AdminResourceForm_validate :: "ares_form \<Rightarrow> bool" where
  "AdminResourceForm_validate f =
     (choice_ok (af_type f) [T_CPU, T_MEMORY, T_STORAGE, T_INSTANCE] \<and> at_least 1 (af_size f))"

definition add_row :: "resource \<Rightarrow> db \<Rightarrow> db" where
  "add_row r d = resources_update (t_add r) d"

definition ResourceAdd_post :: "ares_form \<Rightarrow> ctx \<Rightarrow> db session \<Rightarrow> resp \<times> db session" where
  "ResourceAdd_post f = with_row users ''No such user: %s'' (\<lambda>uid u c s.
     if AdminResourceForm_validate f then
       on_value (new_resource (c_now c) uid (the (py_int (af_type f))) (the (af_size f)) (effect_date f) (expired_date f)) s (\<lambda>r.
         (Redirect ''admin:user:view'' (Some uid), commit (modify (add_row r) s)))
     else (Render ''admin/user/resource_add.html'', s))"

record simple_form = dates +
  sm_cpu :: "int option"
  sm_memory :: "int option"
  sm_storage :: "int option"
  sm_instance :: "int option"

definition ResourceSimpleForm_validate :: "simple_form \<Rightarrow> bool" where
  "ResourceSimpleForm_validate f =
     (at_least 1 (sm_cpu f) \<and> at_least 64 (sm_memory f) \<and>
      at_least 1 (sm_storage f) \<and> at_least 1 (sm_instance f))"

text \<open>The loop over the four kinds, with the exception of the first row that cannot be made.\<close>

definition simple_rows :: "int \<Rightarrow> simple_form \<Rightarrow> int \<Rightarrow> resource list pyres" where
  "simple_rows now f uid =
     foldr (\<lambda>(t, sz) acc.
         case new_resource now uid t (the sz) (effect_date f) (expired_date f) of
           Inl e \<Rightarrow> Inl e
         | Inr r \<Rightarrow> (case acc of Inl e \<Rightarrow> Inl e | Inr rs \<Rightarrow> Inr (r # rs)))
       [(T_CPU, sm_cpu f), (T_MEMORY, sm_memory f), (T_STORAGE, sm_storage f), (T_INSTANCE, sm_instance f)] (Inr [])"

definition ResourceSimpleAdd_post :: "simple_form \<Rightarrow> ctx \<Rightarrow> db session \<Rightarrow> resp \<times> db session" where
  "ResourceSimpleAdd_post f = with_row users ''No such user: %s'' (\<lambda>uid u c s.
     if ResourceSimpleForm_validate f then
       on_value (simple_rows (c_now c) f uid) s (\<lambda>rs.
         (Redirect ''admin:user:view'' (Some uid), commit (modify (fold add_row rs) s)))
     else (Render ''admin/user/simple_resource_add.html'', s))"

text \<open>\<open>AllUserResourceAdd\<close>, which no decorator guards: the loop over the users.\<close>

fun all_users_add :: "int \<Rightarrow> simple_form \<Rightarrow> int list \<Rightarrow> db session \<Rightarrow> pyexn option \<times> db session" where
  "all_users_add now f [] s = (None, s)"
| "all_users_add now f (uid # us) s =
     (if resources_of (work s) uid \<noteq> [] then all_users_add now f us s
      else case simple_rows now f uid of
        Inl e \<Rightarrow> (Some e, s)
      | Inr rs \<Rightarrow> all_users_add now f us (commit (modify (fold add_row rs) s)))"

definition AllUserResourceAdd_post :: "simple_form \<Rightarrow> ctx \<Rightarrow> db session \<Rightarrow> resp \<times> db session" where
  "AllUserResourceAdd_post f c s =
     (if ResourceSimpleForm_validate f then
        (case all_users_add (c_now c) f (map fst (rows (users (work s)))) s of
           (Some e, s1) \<Rightarrow> (Raise e, s1)
         | (None, s1) \<Rightarrow> (Redirect ''admin:user'' None, s1))
      else (Render ''admin/user/alluser_resource_add.html'', s))"

text \<open>\<open>ResourceDelete\<close>: its message names the variable \<open>resource_id\<close>, which does not exist.\<close>

definition ResourceDelete_get :: "ctx \<Rightarrow> db session \<Rightarrow> resp \<times> db session" where
  "ResourceDelete_get = with_permission ''admin'' (\<lambda>c s.
     let ID = arg_id c ''id'' in
     case t_get (resources (work s)) ID of
       None \<Rightarrow> (Raise (NameError ''resource_id''), s)
     | Some r \<Rightarrow> (redirect_next c ''admin:resource'', commit (modify (resources_update (t_del ID)) s)))"

section \<open>Groups\<close>

definition GroupMerge_post :: "string \<Rightarrow> ctx \<Rightarrow> db session \<Rightarrow> resp \<times> db session" where
  "GroupMerge_post choice = with_permission ''admin'' (\<lambda>c s.
     case get_argument_int c ''id'' None of
       None \<Rightarrow> (Write ''Give me group id please.'' [], s)
     | Some ID \<Rightarrow>
         if ID = 0 then (Write ''Give me group id please.'' [], s)
         else if t_get (groups (work s)) ID = None then (Write ''Can not find group %s'' [ID], s)
         else if choice_ok choice (map fst (rows (groups (work s))))
         then (Redirect ''admin:group'' None,
               commit (modify (users_update (t_upd_where (\<lambda>_ _. True)
                 (u_groups_update (map (\<lambda>g. if g = ID then the (get_int choice (Some 0)) else g))))) s))
         else (Render ''admin/account/group_merge.html'', s))"

record group_form =
  gf_name :: string
  gf_description :: string
  gf_perms :: "string list"

text \<open>\<open>GroupManagement.prepare\<close>: the group, if the argument \<open>id\<close> names one.\<close>

definition GroupManagement_prepare :: "ctx \<Rightarrow> db \<Rightarrow> (resp + (int \<times> group) option) pyres" where
  "GroupManagement_prepare c d =
     (case get_argument c ''id'' of
        None \<Rightarrow> Inr (Inr None)
      | Some ID \<Rightarrow>
          if ID = [] then Inr (Inr None)
          else (case get_by_arg (groups d) ID of
                  Inl e \<Rightarrow> Inl e
                | Inr None \<Rightarrow> Inr (Inl (Write ''No such group : %s'' []))
                | Inr (Some g) \<Rightarrow> Inr (Inr (Some g))))"

text \<open>In \<open>post_add\<close> the field \<open>perms\<close> has no choices, so values for it raise.\<close>

definition post_add :: "group_form \<Rightarrow> db session \<Rightarrow> resp \<times> db session" where
  "post_add f s =
     (if gf_perms f \<noteq> [] then (Raise TypeError, s)
      else if length_between 2 25 (gf_name f) then
        if t_select (\<lambda>_ g. g_name g = gf_name f) (groups (work s)) \<noteq> []
        then (RenderErr ''name'' ''This name is occupied'', s)
        else (Redirect ''admin:group'' None,
              commit (modify (groups_update (t_add \<lparr>g_name = gf_name f,
                g_description = (if gf_description f = [] then None else Some (gf_description f)),
                g_islocked = False, g_permissions = []\<rparr>)) s))
      else (Render ''admin/group/add.html'', s))"

definition perm_named :: "db \<Rightarrow> string \<Rightarrow> int option" where
  "perm_named d name = map_option fst (t_first (\<lambda>_ p. p_codename p = name) (permissions d))"

definition post_edit :: "(int \<times> group) option \<Rightarrow> group_form \<Rightarrow> db session \<Rightarrow> resp \<times> db session" where
  "post_edit G f s =
     (if length_between 2 25 (gf_name f) \<and> multi_choice_ok (gf_perms f) (map (p_codename \<circ> snd) (rows (permissions (work s))))
      then (case G of
              None \<Rightarrow> (Raise (AttributeError ''name''), s)
            | Some (gid, _) \<Rightarrow>
                (Redirect ''admin:group'' None,
                 commit (modify (groups_update (t_upd gid (\<lambda>g. g\<lparr>g_name := gf_name f, g_description := Some (gf_description f),
                   g_permissions := List.map_filter (perm_named (work s)) (gf_perms f)\<rparr>))) s)))
      else (Render ''admin/group/edit.html'', s))"

definition group_users :: "db \<Rightarrow> int \<Rightarrow> (int \<times> user) list" where
  "group_users d gid = t_select (\<lambda>_ u. gid \<in> set (u_groups u)) (users d)"

definition get_delete :: "(int \<times> group) option \<Rightarrow> db session \<Rightarrow> resp \<times> db session" where
  "get_delete G s =
     (case G of
        None \<Rightarrow> (Raise (AttributeError ''users''), s)
      | Some (gid, g) \<Rightarrow>
          if group_users (work s) gid \<noteq> [] \<or> g_islocked g then (Render ''admin/group/delete_failed.html'', s)
          else (Redirect ''admin:group'' None, commit (modify (groups_update (t_del gid)) s)))"

definition with_group :: "((int \<times> group) option \<Rightarrow> ctx \<Rightarrow> db session \<Rightarrow> resp \<times> db session) \<Rightarrow> ctx \<Rightarrow> db session \<Rightarrow> resp \<times> db session" where
  "with_group h = with_permission ''admin'' (\<lambda>c s.
     on_value (GroupManagement_prepare c (work s)) s (\<lambda>r. case r of Inl w \<Rightarrow> (w, s) | Inr G \<Rightarrow> h G c s))"

definition GroupManagement_post :: "group_form \<Rightarrow> ctx \<Rightarrow> db session \<Rightarrow> resp \<times> db session" where
  "GroupManagement_post f = with_group (\<lambda>G c s.
     let action = (case get_argument c ''action'' of None \<Rightarrow> ''index'' | Some a \<Rightarrow> a) in
     if action = [] then (Write ''No action found !'' [], s)
     else if action = ''add'' then post_add f s
     else if action = ''edit'' then post_edit G f s
     else (Write ''Wrong action value!'' [], s))"

definition GroupManagement_get :: "ctx \<Rightarrow> db session \<Rightarrow> resp \<times> db session" where
  "GroupManagement_get = with_group (\<lambda>G c s.
     let action = (case get_argument c ''action'' of None \<Rightarrow> ''index'' | Some a \<Rightarrow> a) in
     if action = ''index'' then (Render (if G = None then ''admin/group/index.html'' else ''admin/group/view.html''), s)
     else if action = ''add'' then (Render ''admin/group/add.html'', s)
     else if action = ''edit'' then
       (if G = None \<and> rows (permissions (work s)) \<noteq> [] then (Raise (AttributeError ''permissions''), s)
        else if G = None then (Raise (AttributeError ''name''), s)
        else (Render ''admin/group/edit.html'', s))
     else if action = ''delete'' then get_delete G s
     else (Write ''Wrong action value!'' [], s))"

section \<open>Registration\<close>

definition RegistrationStatusToggle_get :: "ctx \<Rightarrow> db session \<Rightarrow> resp \<times> db session" where
  "RegistrationStatusToggle_get = with_permission ''admin'' (\<lambda>c s.
     let value = (case map_of (site_configs (work s)) ''registration.status'' of
                    None \<Rightarrow> ''false'' | Some v \<Rightarrow> if v = ''true'' then ''false'' else ''true'')
     in (Redirect ''admin:registration'' None, SiteConfig_set ''registration.status'' value s))"

section \<open>Requests\<close>

datatype manage_request =
    UserAdd string user_form
  | AdminView
  | AdminResetPass string newpass_form
  | GroupEdit "string list"
  | ResourceAdd ares_form
  | ResourceSimpleAdd simple_form
  | AllUserResourceAdd simple_form
  | ResourceDelete
  | GroupMerge string
  | GroupSave group_form
  | GroupManagement
  | RegistrationStatusToggle

fun handle_manage :: "acc_env \<Rightarrow> manage_request \<Rightarrow> ctx \<Rightarrow> db session \<Rightarrow> resp \<times> db session" where
  "handle_manage e (UserAdd rnd f) = UserAdd_post e rnd f"
| "handle_manage e AdminView = AdminView_get"
| "handle_manage e (AdminResetPass rnd f) = AdminResetPass_post e rnd f"
| "handle_manage e (GroupEdit names) = GroupEdit_post names"
| "handle_manage e (ResourceAdd f) = ResourceAdd_post f"
| "handle_manage e (ResourceSimpleAdd f) = ResourceSimpleAdd_post f"
| "handle_manage e (AllUserResourceAdd f) = AllUserResourceAdd_post f"
| "handle_manage e ResourceDelete = ResourceDelete_get"
| "handle_manage e (GroupMerge choice) = GroupMerge_post choice"
| "handle_manage e (GroupSave f) = GroupManagement_post f"
| "handle_manage e GroupManagement = GroupManagement_get"
| "handle_manage e RegistrationStatusToggle = RegistrationStatusToggle_get"

end
