(* ===== verification/Message.thy ===== *)
theory Message
  imports Account Instance_Views
begin

text \<open>
  Messages between users and notices to all (\<^verbatim>\<open>lyweb/app/message\<close>). A message to somebody else is
  stored twice with one text: in the inbox of the receiver and in the outbox of the sender. A user
  row counts the unread messages in \<open>notice\<close>.
\<close>

section \<open>Rows\<close>

definition new_message :: "int \<Rightarrow> int option \<Rightarrow> int \<Rightarrow> message" where
  "new_message sender receiver txt = \<lparr>m_reply_id = None, m_sender_id = sender, m_receiver_id = receiver,
     m_text_id = txt, m_isinbox = True, m_isread = False, m_readtime = None\<rparr>"

definition escape_char :: "char \<Rightarrow> string" where
  "escape_char c = (if c = CHR ''<'' then ''&lt;'' else if c = CHR ''>'' then ''&gt;'' else [c])"

definition new_message_text :: "string \<Rightarrow> string \<Rightarrow> message_text" where
  "new_message_text subject body = \<lparr>mt_subject = concat (map escape_char subject), mt_body = body\<rparr>"

text \<open>The column of the subject has room for 256 characters; the database refuses a longer one.\<close>

definition subject_fits :: "message_text \<Rightarrow> bool" where
  "subject_fits T \<longleftrightarrow> length (mt_subject T) \<le> 256"

text \<open>\<open>User.notify\<close>\<close>

definition notify :: "int \<Rightarrow> user \<Rightarrow> user" where
  "notify n u = u\<lparr>u_notice := max 0 (if u_notice u \<noteq> 0 then u_notice u + n else n)\<rparr>"

definition party :: "int \<Rightarrow> message \<Rightarrow> bool" where
  "party u M \<longleftrightarrow> m_receiver_id M = Some u \<or> m_sender_id M = u"

definition my_message :: "int \<Rightarrow> db \<Rightarrow> int \<Rightarrow> message option" where
  "my_message u d mid =
     (case t_get (messages d) mid of None \<Rightarrow> None | Some M \<Rightarrow> if party u M then Some M else None)"

text \<open>\<open>M.receiver.notify(n)\<close>; a notice has no receiver.\<close>

definition notify_receiver :: "int \<Rightarrow> message \<Rightarrow> db \<Rightarrow> db pyres" where
  "notify_receiver n M d =
     (case m_receiver_id M of
        None \<Rightarrow> Inl (AttributeError ''notify'')
      | Some r \<Rightarrow>
          if t_get (users d) r = None then Inl (AttributeError ''notify'') else Inr (upd_user r (notify n) d))"

definition set_message :: "int \<Rightarrow> (message \<Rightarrow> message) \<Rightarrow> db \<Rightarrow> db" where
  "set_message mid f d = messages_update (t_upd mid f) d"

section \<open>Reading and deleting\<close>

text \<open>The number \<open>mid\<close> is part of the URL.\<close>

definition Message_View_get :: "int \<Rightarrow> ctx \<Rightarrow> db session \<Rightarrow> resp \<times> db session" where
  "Message_View_get mid = with_login (\<lambda>u c s.
     case my_message u (work s) mid of
       None \<Rightarrow> (Render ''message/view_message.html'', s)
     | Some M \<Rightarrow>
         on_value (if \<not> m_isread M
                   then notify_receiver (- 1) M (set_message mid (m_isread_update (\<lambda>_. True)) (work s))
                   else Inr (work s)) s (\<lambda>d.
           let d1 = (if m_readtime M = None then set_message mid (m_readtime_update (\<lambda>_. Some (c_now c))) d else d)
           in (Render ''message/view_message.html'', commit (modify (\<lambda>_. d1) s))))"

text \<open>
  \<open>Delete\<close>: messages of the user that quote the deleted one lose the reference; another
  reference makes the database refuse the deletion. The text goes with its last message.
\<close>

definition quotes :: "int \<Rightarrow> db \<Rightarrow> (int \<times> message) list" where
  "quotes mid d = t_select (\<lambda>_ q. m_reply_id q = Some mid) (messages d)"

definition Message_Delete_get :: "int \<Rightarrow> ctx \<Rightarrow> db session \<Rightarrow> resp \<times> db session" where
  "Message_Delete_get mid = with_login (\<lambda>u c s.
     case my_message u (work s) mid of
       None \<Rightarrow> (Write ''This is not your message !'' [], s)
     | Some M \<Rightarrow>
         let x = length (t_select (\<lambda>_ v. m_text_id v = m_text_id M) (messages (work s))) in
         on_value (if \<not> m_isread M then notify_receiver (- 1) M (work s) else Inr (work s)) s (\<lambda>d.
           let d1 = messages_update (t_upd_where (\<lambda>_ q. m_reply_id q = Some mid \<and> party u q) (m_reply_id_update (\<lambda>_. None))) d;
               d2 = messages_update (t_del mid) d1;
               d3 = (if x = 1 then message_texts_update (t_del (m_text_id M)) d2 else d2)
           in if quotes mid d2 \<noteq> [] then (Raise IntegrityError, s)
              else (if get_argument c ''ajax'' \<in> {None, Some []} then Redirect ''message:inbox'' None else Write [] [],
                    commit (modify (\<lambda>_. d3) s))))"

section \<open>Sending\<close>

record message_form =
  mf_to :: string
  mf_subject :: string
  mf_text :: string

definition MessageForm_validate :: "message_form \<Rightarrow> bool" where
  "MessageForm_validate f = (length_between 2 256 (mf_subject f) \<and> length_between 6 10240 (mf_text f))"

text \<open>The message, and the copy for the sender unless both are the same user.\<close>

definition add_message :: "message \<Rightarrow> db \<Rightarrow> db" where
  "add_message M d = messages_update (t_add M) d"

definition post_message :: "int \<Rightarrow> message \<Rightarrow> db \<Rightarrow> db" where
  "post_message u M d =
     (let d1 = add_message M d in
      if m_receiver_id M \<noteq> Some u then add_message (M\<lparr>m_isinbox := False\<rparr>) d1 else d1)"

definition Message_New_post :: "message_form \<Rightarrow> ctx \<Rightarrow> db session \<Rightarrow> resp \<times> db session" where
  "Message_New_post f = with_login (\<lambda>u c s.
     if MessageForm_validate f then
       (case t_first (\<lambda>_ x. u_username x = mf_to f) (users (work s)) of
          None \<Rightarrow> (RenderErr ''to'' ''Can not find user %s'', s)
        | Some (r, _) \<Rightarrow>
            let txt = t_newid (message_texts (work s));
                T = new_message_text (mf_subject f) (mf_text f);
                s1 = commit (modify (message_texts_update (t_add T)) s)
            in if \<not> subject_fits T then (Raise DataError, s)
               else (Redirect ''message:inbox'' None,
                commit (modify (upd_user r (notify 1) \<circ> post_message u (new_message u (Some r) txt)) s1)))
     else (Render ''message/send_message.html'', s))"

text \<open>
  \<open>reply_regex.sub('', s)\<close>: the marks of a reply, with white space around them, are
  removed. The pattern is a byte string with four marks, two of them with Chinese characters, and
  is matched without regard to the case of ASCII letters.
\<close>

definition reply_marks :: "string list" where
  "reply_marks = (let hui_fu = map char_of [0xE5, 0x9B, 0x9E, 0xE5, 0xA4, 0x8D :: nat]; wide = map char_of [0xEF, 0xBC, 0x9A :: nat] in
     [''re:'', hui_fu @ wide, ''re'' @ wide, hui_fu @ '':''])"

definition reply_mark :: "string \<Rightarrow> nat option" where
  "reply_mark s = map_option length (find (\<lambda>m. map lower_char (take (length m) s) = m) reply_marks)"

function strip_reply :: "string \<Rightarrow> string" where
  "strip_reply s =
     (case s of
        [] \<Rightarrow> []
      | x # xs \<Rightarrow>
          (case reply_mark (lstrip s) of
             Some (Suc n) \<Rightarrow> strip_reply (lstrip (drop (Suc n) (lstrip s)))
           | _ \<Rightarrow> x # strip_reply xs))"
  by pat_completeness auto

lemma length_lstrip: "length (lstrip s) \<le> length s"
  by (simp add: lstrip_def length_dropWhile_le)

termination strip_reply
proof (relation "measure length")
  fix s :: string and x xs n
  assume "s = x # xs"
  show "(lstrip (drop (Suc n) (lstrip s)), s) \<in> measure length"
    using length_lstrip [of s] length_lstrip [of "drop (Suc n) (lstrip s)"] \<open>s = x # xs\<close> by (simp add: less_Suc_eq_le)
qed auto

declare strip_reply.simps [simp del]

definition Message_Reply_post :: "int \<Rightarrow> ctx \<Rightarrow> db session \<Rightarrow> resp \<times> db session" where
  "Message_Reply_post mid = with_login (\<lambda>u c s.
     case my_message u (work s) mid of
       None \<Rightarrow> (Write ''Can not find message %s'' [mid], s)
     | Some M \<Rightarrow>
         (case get_argument c ''text'' of
            None \<Rightarrow> (Write ''No content write !'' [], s)
          | Some body \<Rightarrow>
              if body = [] then (Write ''No content write !'' [], s)
              else
                (case t_get (message_texts (work s)) (m_text_id M) of
                   None \<Rightarrow> (Raise (AttributeError ''subject''), s)
                 | Some T \<Rightarrow>
                     let txt = t_newid (message_texts (work s));
                         subject = ''Re: '' @ strip_reply (mt_subject T);
                         T' = new_message_text subject body;
                         s1 = commit (modify (message_texts_update (t_add T')) s);
                         d = post_message u ((new_message u (Some (m_sender_id M)) txt)\<lparr>m_reply_id := Some mid\<rparr>) (work s1)
                     in if \<not> subject_fits T' then (Raise DataError, s)
                        else if t_get (users (work s1)) (m_sender_id M) = None then (Raise (AttributeError ''notify''), s1)
                        else (Redirect ''message:outbox'' None, commit (modify (\<lambda>_. upd_user (m_sender_id M) (notify 1) d) s1)))))"

section \<open>Notices\<close>

definition SendNotice_post :: "message_form \<Rightarrow> ctx \<Rightarrow> db session \<Rightarrow> resp \<times> db session" where
  "SendNotice_post f = with_permission ''admin'' (\<lambda>c s.
     if MessageForm_validate f then
       (let u = the (c_user c); txt = t_newid (message_texts (work s));
            T = new_message_text (mf_subject f) (mf_text f);
            s1 = commit (modify (message_texts_update (t_add T)) s);
            d = add_message ((new_message u None txt)\<lparr>m_isinbox := False\<rparr>) (work s1)
        in if \<not> subject_fits T then (Raise DataError, s)
           else (Redirect ''message:notice'' None,
            commit (modify (\<lambda>_. foldl (\<lambda>d r. upd_user r (notify 1) (add_message (new_message u (Some r) txt) d))
              d (map fst (rows (users (work s1))))) s1)))
     else (Render ''message/send_notice.html'', s))"

text \<open>
  \<open>NoticeDelete\<close> would delete the text when no message had it, but the notice itself still has
  it at that point.
\<close>

definition NoticeDelete_get :: "int \<Rightarrow> ctx \<Rightarrow> db session \<Rightarrow> resp \<times> db session" where
  "NoticeDelete_get mid = with_permission ''admin'' (\<lambda>c s.
     case t_get (messages (work s)) mid of
       None \<Rightarrow> (Raise (AttributeError ''receiver_id''), s)
     | Some M \<Rightarrow>
         if truthy_int (m_receiver_id M) then (Write ''This is not a notice !'' [], s)
         else
           (let d1 = (if t_select (\<lambda>_ v. m_text_id v = m_text_id M) (messages (work s)) = []
                      then message_texts_update (t_del (m_text_id M)) (work s) else work s);
                d2 = messages_update (t_del mid) d1
            in if quotes mid d2 \<noteq> [] then (Raise IntegrityError, s)
               else (if get_argument c ''ajax'' \<in> {None, Some []} then Redirect ''message:notice'' None else Write [] [],
                     commit (modify (\<lambda>_. d2) s))))"

section \<open>Boxes\<close>

text \<open>The lists of \<open>my_box_list\<close>, in the order of the keys.\<close>

definition inbox :: "db \<Rightarrow> int \<Rightarrow> (int \<times> message) list" where
  "inbox d u = t_select (\<lambda>_ M. m_receiver_id M = Some u \<and> m_isinbox M) (messages d)"

definition outbox :: "db \<Rightarrow> int \<Rightarrow> (int \<times> message) list" where
  "outbox d u = t_select (\<lambda>_ M. m_sender_id M = u \<and> \<not> m_isinbox M \<and> m_receiver_id M \<noteq> None) (messages d)"

section \<open>Requests\<close>

datatype message_request =
    MessageView int
  | MessageDelete int
  | MessageNew message_form
  | MessageReply int
  | SendNotice message_form
  | NoticeDelete int

fun handle_message :: "message_request \<Rightarrow> ctx \<Rightarrow> db session \<Rightarrow> resp \<times> db session" where
  "handle_message (MessageView mid) = Message_View_get mid"
| "handle_message (MessageDelete mid) = Message_Delete_get mid"
| "handle_message (MessageNew f) = Message_New_post f"
| "handle_message (MessageReply mid) = Message_Reply_post mid"
| "handle_message (SendNotice f) = SendNotice_post f"
| "handle_message (NoticeDelete mid) = NoticeDelete_get mid"

end
