(* ===== verification/Admin_Inv.thy ===== *)
theory Admin_Inv
  imports Account_Inv Admin Message
begin

text \<open>
  What administration and messages do to the database: the interface of the account handlers
  extended by the further tables, and what the handlers achieve (permissions, quotas, delivery).
\<close>

section \<open>The interface\<close>

locale admin_keeper = account_keeper +
  assumes users_where: "Q d \<Longrightarrow> (\<And>x. u_username (f x) = u_username x) \<Longrightarrow> Q (users_update (t_upd_where P f) d)"
    and groups: "Q d \<Longrightarrow> Q (groups_update h1 d)"
    and resources: "Q d \<Longrightarrow> Q (resources_update h2 d)"
    and messages: "Q d \<Longrightarrow> Q (messages_update h3 d)"
    and message_texts: "Q d \<Longrightarrow> Q (message_texts_update h4 d)"
    and site_configs: "Q d \<Longrightarrow> Q (site_configs_update h5 d)"
begin

lemma keep_more [intro!]:
  "sess Q s \<Longrightarrow> sess Q (modify (groups_update h1) s)" "sess Q s \<Longrightarrow> sess Q (modify (resources_update h2) s)"
  "sess Q s \<Longrightarrow> sess Q (modify (message_texts_update h4) s)" "sess Q s \<Longrightarrow> sess Q (modify (site_configs_update h5) s)"
  by (auto intro!: sess_modify groups resources message_texts site_configs dest: sess_work)

lemma keep_const: "sess Q s \<Longrightarrow> Q d \<Longrightarrow> sess Q (modify (\<lambda>_. d) s)"
  by (rule sess_modify)

lemma keep_row: "Q d \<Longrightarrow> Q (add_row r d)"
  by (simp add: add_row_def resources)

lemma keep_rows: "Q d \<Longrightarrow> Q (fold add_row rs d)"
  by (induction rs arbitrary: d) (auto intro: keep_row)

lemma keep_add_rows [intro!]:
  "sess Q s \<Longrightarrow> sess Q (modify (add_row r) s)" "sess Q s \<Longrightarrow> sess Q (modify (fold add_row rs) s)"
  by (auto intro!: sess_modify keep_row keep_rows dest: sess_work)

lemma keep_all_users: "sess Q s \<Longrightarrow> sess Q (snd (all_users_add now f us s))"
proof (induction us arbitrary: s)
  case (Cons uid us)
  have "sess Q (commit (modify (fold add_row rs) s))" for rs
    using Cons.prems by (auto intro!: sess_modify keep_rows dest: sess_work)
  then show ?case using Cons by (simp split: sum.split)
qed simp

lemma with_row_keep:
  "(\<And>u k x. c_user c = Some u \<Longrightarrow> t_get (t (work s)) k = Some x \<Longrightarrow> sess R (snd (h k x c s))) \<Longrightarrow> sess R s \<Longrightarrow>
   sess R (snd (with_row t m h c s))"
  by (auto simp: with_row_def Let_def intro!: with_permission_keep split: option.split)

lemma with_group_keep:
  "(\<And>u G. c_user c = Some u \<Longrightarrow> sess R (snd (h G c s))) \<Longrightarrow> sess R s \<Longrightarrow> sess R (snd (with_group h c s))"
  by (auto simp: with_group_def intro!: with_permission_keep on_value_keep split: sum.split)

lemma keep_UserAdd: "sess Q s \<Longrightarrow> sess Q (snd (UserAdd_post e rnd f c s))"
proof -
  assume s: "sess Q s"
  have add: "sess Q (modify (users_update (t_add v)) s)"
    if "t_first (\<lambda>_ u. u_username u = u_username v) (users (work s)) = None" for v
    using that s by (auto intro!: sess_modify user_add dest: sess_work)
  have fin: "sess Q (snd (case init_account (c_now c) uid s1 of (Some ex, s2) \<Rightarrow> (Raise ex, s2)
      | (None, s2) \<Rightarrow> on_value (new_profile (work s2) uid) s2 (\<lambda>p.
          (Redirect ''admin:user:view'' (Some uid), commit (modify (profiles_update (t_add p)) s2)))))" if "sess Q s1" for uid s1
    using keep_init_account [OF that, of "c_now c" uid] by (auto split: prod.split option.split intro!: on_value_keep)
  show ?thesis
    unfolding UserAdd_post_def Let_def using s
    by (auto simp: new_user_def simp del: not_None_eq intro!: with_permission_keep fin add)
qed

lemma keep_handle_manage: "sess Q s \<Longrightarrow> sess Q (snd (handle_manage e q c s))"
proof (cases q)
  case (AllUserResourceAdd f)
  assume "sess Q s"
  note k = keep_all_users [OF this, of "c_now c" f "map fst (rows (users (work s)))"]
  show ?thesis
    using k \<open>sess Q s\<close> AllUserResourceAdd
    by (cases "all_users_add (c_now c) f (map fst (rows (users (work s)))) s")
      (auto simp: AllUserResourceAdd_post_def split: option.split)
next
  case (GroupMerge ch)
  then show "sess Q s \<Longrightarrow> ?thesis"
    by (auto simp: GroupMerge_post_def intro!: with_permission_keep sess_modify users_where dest: sess_work split: option.split)
qed (auto simp: keep_UserAdd AdminView_get_def AdminResetPass_post_def GroupEdit_post_def ResourceAdd_post_def
    ResourceSimpleAdd_post_def ResourceDelete_get_def GroupManagement_post_def GroupManagement_get_def
    RegistrationStatusToggle_get_def SiteConfig_set_def Let_def post_add_def post_edit_def get_delete_def
    intro!: with_permission_keep with_row_keep with_group_keep on_value_keep split: option.split)

lemma keep_set_message: "Q d \<Longrightarrow> Q (set_message mid f d)"
  by (simp add: set_message_def messages)

lemma keep_notify: "notify_receiver n M d = Inr d' \<Longrightarrow> Q d \<Longrightarrow> Q d'"
  by (auto simp: notify_receiver_def notify_def intro: user_upd split: option.splits if_splits)

lemma keep_viewed: "notify_receiver n M (set_message mid f d) = Inr d' \<Longrightarrow> Q d \<Longrightarrow> Q d'"
  by (auto dest: keep_notify intro: keep_set_message)

lemma keep_maybe_notify: "(if b then notify_receiver n M d else Inr d) = Inr d' \<Longrightarrow> Q d \<Longrightarrow> Q d'"
  by (auto dest: keep_notify split: if_splits)

lemma keep_post_message: "Q d \<Longrightarrow> Q (post_message u M d)"
  by (simp add: post_message_def add_message_def Let_def messages)

lemma keep_notify_user: "Q d \<Longrightarrow> Q (upd_user r (notify n) d)"
  by (rule user_upd) (simp_all add: notify_def)

lemma keep_handle_message: "sess Q s \<Longrightarrow> sess Q (snd (handle_message q c s))"
proof (cases q)
  case (MessageView mid)
  assume s: "sess Q s"
  show ?thesis unfolding MessageView handle_message.simps Message_View_get_def Let_def
    using s sess_work [OF s] by (auto intro!: with_login_keep on_value_keep keep_const keep_set_message
        dest!: keep_viewed split: option.split if_splits)
next
  case (MessageDelete mid)
  assume s: "sess Q s"
  have upd: "Q (if b then message_texts_update h (messages_update g d) else messages_update g d)" if "Q d" for b g h d
    using that by (auto intro: messages message_texts)
  have fin: "sess Q (snd (if b then (Raise IntegrityError, s) else (r, commit (modify (\<lambda>_. d) s))))" if "Q d" for b r d
    using that s by (auto intro!: keep_const)
  show ?thesis unfolding MessageDelete handle_message.simps Message_Delete_get_def Let_def
    by (rule with_login_keep [OF _ s], split option.split, intro conjI allI impI on_value_keep fin upd messages)
      (simp_all add: s, erule keep_maybe_notify [OF _ sess_work [OF s]])
next
  case (MessageNew f)
  assume s: "sess Q s"
  show ?thesis unfolding MessageNew handle_message.simps Message_New_post_def Let_def
    using s sess_work [OF s] by (auto intro!: with_login_keep sess_modify keep_notify_user keep_post_message message_texts
        split: option.split)
next
  case (MessageReply mid)
  assume s: "sess Q s"
  show ?thesis unfolding MessageReply handle_message.simps Message_Reply_post_def Let_def
    using s sess_work [OF s] by (auto intro!: with_login_keep sess_modify keep_notify_user keep_post_message message_texts
        split: option.split)
next
  case (SendNotice f)
  assume s: "sess Q s"
  have all: "Q (foldl (\<lambda>d r. upd_user r (notify 1) (add_message (M r) d)) d us)" if "Q d" for M d us
    by (rule foldl_keep [where P = Q, OF that]) (simp add: keep_notify_user add_message_def messages)
  show ?thesis unfolding SendNotice handle_message.simps SendNotice_post_def Let_def
    using s sess_work [OF s]
    by (auto intro!: with_permission_keep sess_modify all message_texts simp: add_message_def [of "new_message _ _ _\<lparr>m_isinbox := _\<rparr>"] intro: messages)
next
  case (NoticeDelete mid)
  assume s: "sess Q s"
  show ?thesis unfolding NoticeDelete handle_message.simps NoticeDelete_get_def Let_def
    using s sess_work [OF s] by (auto intro!: with_permission_keep keep_const messages message_texts split: option.split)
qed

end

section \<open>The interface for three properties\<close>

lemma usernames_where:
  "(\<And>x. u_username (f x) = u_username x) \<Longrightarrow> usernames (users_update (t_upd_where P f) d) = usernames d"
  by (auto simp: usernames_def t_upd_where_def)

interpretation admin_names: admin_keeper names_ok
  by unfold_locales (simp_all add: names_ok_def usernames_where t_ok_upd, simp_all add: usernames_def)

interpretation admin_pools: admin_keeper cloud_inv
  by unfold_locales (erule cloud_inv_cong [THEN iffD2, rotated -1]; simp)+

lemma admin_views:
  "user_view (groups_update g0 d) iid = user_view d iid" "user_view (messages_update g7 d) iid = user_view d iid"
  "user_view (message_texts_update g8 d) iid = user_view d iid" "user_view (site_configs_update g1 d) iid = user_view d iid"
  by (simp_all add: user_view_def relation_defs View_portmappings_def)

interpretation admin_inst: admin_keeper "\<lambda>d. \<forall>iid. user_view d iid = user_view d0 iid" for d0
  by unfold_locales (simp_all add: account_views admin_views)

section \<open>Permissions\<close>

text \<open>
  C12. The administration pages and the notices are for administrators: a request of anybody else,
  logged in or not, changes nothing. The page that gives resources to all users is the exception, as
  no decorator guards it.
\<close>

theorem manage_needs_admin:
  assumes "\<forall>u. c_user c = Some u \<longrightarrow> \<not> isadmin (work s) u" "\<forall>f. q \<noteq> AllUserResourceAdd f"
  shows "snd (handle_manage e q c s) = s \<and> snd (SendNotice_post f c s) = s \<and> snd (NoticeDelete_get mid c s) = s"
proof -
  have p: "snd (with_permission ''admin'' h c s) = s" for h
    using assms(1) by (auto simp: with_permission_def require_permission_def isadmin_def split: option.split)
  have "snd (handle_manage e q c s) = s"
    using assms(2) by (cases q)
      (auto simp: p UserAdd_post_def AdminView_get_def AdminResetPass_post_def GroupEdit_post_def ResourceAdd_post_def with_row_def
        ResourceSimpleAdd_post_def ResourceDelete_get_def GroupMerge_post_def GroupManagement_post_def with_group_def
        GroupManagement_get_def RegistrationStatusToggle_get_def)
  then show ?thesis by (simp add: p SendNotice_post_def NoticeDelete_get_def)
qed

definition simple_form_ex :: simple_form where
  "simple_form_ex = \<lparr>effect_date = Some 50, expired_date = Some 500, sm_cpu = Some 4, sm_memory = Some 2048,
     sm_storage = Some 100, sm_instance = Some 10\<rparr>"

theorem manage_needs_admin_witness:
  "snd (handle_manage acc_env_ex (ResourceSimpleAdd simple_form_ex) (ctx_ex 2 [(''id'', ''2'')]) (open_session db_ex)) = open_session db_ex \<and>
   snd (handle_manage acc_env_ex (ResourceSimpleAdd simple_form_ex) (ctx_ex 1 [(''id'', ''2'')]) (open_session db_ex)) \<noteq> open_session db_ex"
proof
  have "\<forall>u. c_user (ctx_ex 2 [(''id'', ''2'')]) = Some u \<longrightarrow> \<not> isadmin (work (open_session db_ex)) u"
    by (simp add: ctx_ex_def) code_simp
  from manage_needs_admin [OF this, of "ResourceSimpleAdd simple_form_ex"]
  show "snd (handle_manage acc_env_ex (ResourceSimpleAdd simple_form_ex) (ctx_ex 2 [(''id'', ''2'')]) (open_session db_ex)) = open_session db_ex"
    by simp
  show "snd (handle_manage acc_env_ex (ResourceSimpleAdd simple_form_ex) (ctx_ex 1 [(''id'', ''2'')]) (open_session db_ex)) \<noteq> open_session db_ex"
    by code_simp
qed

text \<open>A visitor who is not logged in gives resources to everybody who has none.\<close>

lemma all_user_resource_unguarded:
  "let c = \<lparr>c_user = None, c_args = [], c_post = True, c_now = 100, c_domain = None\<rparr>;
       d = on_finish (snd (handle_manage acc_env_ex (AllUserResourceAdd simple_form_ex) c (open_session db_ex)))
   in map (\<lambda>u. length (resources_of d u)) [1, 2] = [4, 4]"
  by code_simp

section \<open>Groups\<close>

text \<open>
  Deleting a group takes no permission from anybody: only a group without members that is not
  locked is deleted, the other groups stay, and every user has the same permissions as before.
\<close>

theorem group_delete_keeps_permissions:
  assumes "GroupManagement_get c s = (Redirect ''admin:group'' None, s')" "t_ok (groups (work s))"
  shows "\<exists>gid g. t_get (groups (work s)) gid = Some g \<and> \<not> g_islocked g \<and> group_users (work s) gid = [] \<and>
    (\<forall>k. t_get (groups (work s')) k = (if k = gid then None else t_get (groups (work s)) k)) \<and>
    (\<forall>u. user_codenames (work s') u = user_codenames (work s) u) \<and> on_finish s' = work s'"
proof -
  have del: "get_delete G s = (r, s') \<Longrightarrow> r = Redirect ''admin:group'' None \<Longrightarrow>
      \<exists>gid g. G = Some (gid, g) \<and> \<not> g_islocked g \<and> group_users (work s) gid = [] \<and> s' = commit (modify (groups_update (t_del gid)) s)" for G r
    unfolding get_delete_def by (simp del: session_simps split: option.splits prod.splits if_splits)
  have "GroupManagement_prepare c (work s) \<noteq> Inr (Inl (Redirect x y))" for x y
    by (simp add: GroupManagement_prepare_def split: option.split sum.split)
  then obtain G where G: "GroupManagement_prepare c (work s) = Inr (Inr G)" "get_delete G s = (Redirect ''admin:group'' None, s')"
    using with_permission_result [OF assms(1) [unfolded GroupManagement_get_def with_group_def]]
    by (simp add: on_value_def Let_def split: sum.splits if_splits)
  obtain gid g where g: "GroupManagement_prepare c (work s) = Inr (Inr (Some (gid, g)))" "\<not> g_islocked g" "group_users (work s) gid = []"
    and s': "s' = commit (modify (groups_update (t_del gid)) s)"
    using del [OF G(2) refl] G(1) by blast
  have "t_get (groups (work s)) gid = Some g"
    using g(1) by (auto simp: GroupManagement_prepare_def dest: get_by_arg_Some split: option.splits if_splits sum.splits)
  moreover have gone: "t_get (groups (work s')) k = (if k = gid then None else t_get (groups (work s)) k)" for k
    by (simp add: s' t_get_del [OF assms(2)])
  moreover have "user_codenames (work s') u = user_codenames (work s) u" for u
  proof -
    have same: "permissions (work s') = permissions (work s)" "users (work s') = users (work s)" by (simp_all add: s')
    have "gid \<notin> set (u_groups x)" if "t_get (users (work s)) u = Some x" for x
      using g(3) t_get_in [OF that] by (auto simp: group_users_def t_select_def filter_empty_conv)
    then have "map (group_codenames (work s')) (u_groups x) = map (group_codenames (work s)) (u_groups x)"
      if "t_get (users (work s)) u = Some x" for x
      using that gone by (intro map_cong) (auto simp: group_codenames_def same split: option.split)
    then show ?thesis by (auto simp: user_codenames_def same simp del: map_eq_conv split: option.split)
  qed
  ultimately show ?thesis using g s' by auto
qed

lemma map_fst_filter:
  "map fst (filter (\<lambda>(_, y). P y) (map (\<lambda>(k, x). (k, f x)) xs)) = map fst (filter (\<lambda>(_, x). P (f x)) xs)"
  by (induction xs) auto

text \<open>
  Merging a group into another one moves exactly its members: afterwards nobody is in the old
  group, the members of the new group are those of both, every other membership is the same, and
  nothing else of any user changes.
\<close>

theorem group_merge_correct:
  assumes "GroupMerge_post choice c s = (Redirect ''admin:group'' None, s')"
  shows "\<exists>gid new. get_argument_int c ''id'' None = Some gid \<and> py_int choice = Some new \<and> new \<in> fst ` set (rows (groups (work s))) \<and>
    (new \<noteq> gid \<longrightarrow> group_users (work s') gid = [] \<and>
       map fst (group_users (work s') new) =
         map fst (t_select (\<lambda>_ u. gid \<in> set (u_groups u) \<or> new \<in> set (u_groups u)) (users (work s)))) \<and>
    (\<forall>g. g \<noteq> gid \<and> g \<noteq> new \<longrightarrow> map fst (group_users (work s') g) = map fst (group_users (work s) g)) \<and>
    map (\<lambda>(k, u). (k, u\<lparr>u_groups := []\<rparr>)) (rows (users (work s'))) = map (\<lambda>(k, u). (k, u\<lparr>u_groups := []\<rparr>)) (rows (users (work s)))"
proof -
  have "GroupMerge_post choice c s \<noteq> (Redirect x y, z)" if "get_argument_int c ''id'' None = None" for x y z
    using that by (auto simp: GroupMerge_post_def dest!: with_permission_result)
  with assms obtain gid where g: "get_argument_int c ''id'' None = Some gid" by (cases "get_argument_int c ''id'' None") auto
  have body: "(if gid = 0 then (Write ''Give me group id please.'' [], s)
         else if t_get (groups (work s)) gid = None then (Write ''Can not find group %s'' [gid], s)
         else if choice_ok choice (map fst (rows (groups (work s))))
         then (Redirect ''admin:group'' None,
               commit (modify (users_update (t_upd_where (\<lambda>_ _. True)
                 (u_groups_update (map (\<lambda>g. if g = gid then the (get_int choice (Some 0)) else g))))) s))
         else (Render ''admin/account/group_merge.html'', s)) = (Redirect ''admin:group'' None, s')"
    using with_permission_result [OF assms [unfolded GroupMerge_post_def]] g by simp
  then have gid: "get_argument_int c ''id'' None = Some gid" "choice_ok choice (map fst (rows (groups (work s))))"
    by (simp_all add: g split: if_splits)
  have s': "s' = commit (modify (users_update (t_upd_where (\<lambda>_ _. True)
                 (u_groups_update (map (\<lambda>g. if g = gid then the (get_int choice (Some 0)) else g))))) s)"
    using body by (simp del: session_simps split: if_split_asm)
  from gid(2) obtain new where new: "new \<in> fst ` set (rows (groups (work s)))" "choice = show_int new"
    by (auto simp: choice_ok_def)
  then have n: "py_int choice = Some new" by (simp add: py_int_show_int)
  have rows': "rows (users (work s')) = map (\<lambda>(k, u). (k, u_groups_update (map (\<lambda>g. if g = gid then new else g)) u)) (rows (users (work s)))"
    by (auto simp: s' get_int_def n t_upd_where_def)
  have sel: "map fst (t_select (\<lambda>_. P) (users (work s'))) =
      map fst (t_select (\<lambda>_ u. P (u_groups_update (map (\<lambda>g. if g = gid then new else g)) u)) (users (work s)))" for P
    unfolding t_select_def rows' by (simp add: map_fst_filter)
  have mem: "map fst (group_users (work s') g) =
      map fst (t_select (\<lambda>_ u. if g = new then gid \<in> set (u_groups u) \<or> new \<in> set (u_groups u) else g \<noteq> gid \<and> g \<in> set (u_groups u)) (users (work s)))" for g
    unfolding group_users_def sel by (auto intro!: arg_cong [where f = "map fst"] arg_cong2 [where f = t_select] split: if_splits)
  have none: "t_select (\<lambda>_ _. False) t = []" for t :: "user table" by (simp add: t_select_def)
  have "new \<noteq> gid \<Longrightarrow> group_users (work s') gid = []" using mem [of gid] none by simp
  moreover have "g \<noteq> gid \<and> g \<noteq> new \<Longrightarrow> map fst (group_users (work s') g) = map fst (group_users (work s) g)" for g
    using mem [of g] by (simp add: group_users_def)
  moreover have "map (\<lambda>(k, u). (k, u\<lparr>u_groups := []\<rparr>)) (rows (users (work s'))) = map (\<lambda>(k, u). (k, u\<lparr>u_groups := []\<rparr>)) (rows (users (work s)))"
    unfolding rows' by (simp add: case_prod_unfold)
  ultimately show ?thesis using g n new(1) mem [of new] by (intro exI [of _ gid] exI [of _ new]) simp
qed

section \<open>Resources\<close>

lemma totals_add:
  "resources_of d' (pf_user_id p) = resources_of d (pf_user_id p) @ [(k, R)] \<Longrightarrow>
   get_resource_total d' now p = add_resource now R (get_resource_total d now p)"
  by (simp add: get_resource_total_def)

text \<open>
  A resource that an administrator adds raises the quota of that user, in the one kind of the
  resource, by exactly its size (at least 1) while it is in effect, and by nothing outside these dates; no other quota
  changes.
\<close>

theorem resource_add_total:
  assumes "ResourceAdd_post f c s = (Redirect ''admin:user:view'' (Some uid), s')"
  shows "\<exists>ty sz eff ex. ty \<in> {T_CPU, T_MEMORY, T_STORAGE, T_INSTANCE} \<and> af_size f = Some sz \<and> 1 \<le> sz \<and>
    (\<forall>p now. let a = get_resource_total (work s) now p; b = get_resource_total (work s') now p;
         n = (if pf_user_id p = uid \<and> eff < now \<and> now < ex then sz else 0)
       in tt_cpu b = tt_cpu a + (if ty = T_CPU then n else 0) \<and> tt_memory b = tt_memory a + (if ty = T_MEMORY then n else 0) \<and>
          tt_storage b = tt_storage a + (if ty = T_STORAGE then n else 0) \<and>
          tt_instance b = tt_instance a + (if ty = T_INSTANCE then n else 0)) \<and>
    on_finish s' = work s'"
proof -
  define R where "R = (new_resource (c_now c) uid (the (py_int (af_type f))) (the (af_size f)) (effect_date f) (expired_date f))"
  have body: "AdminResourceForm_validate f \<and> on_value R s (\<lambda>r. (Redirect ''admin:user:view'' (Some uid), commit (modify (add_row r) s))) =
      (Redirect ''admin:user:view'' (Some uid), s')"
    using with_permission_result [OF assms [unfolded ResourceAdd_post_def with_row_def]]
    by (auto simp: Let_def on_value_def R_def split: option.splits if_splits sum.splits)
  then obtain r where r: "R = Inr r" and s': "s' = commit (modify (add_row r) s)"
    by (cases R) (auto simp del: session_simps)
  from body obtain sz where sz: "af_size f = Some sz" "1 \<le> sz" by (auto simp: AdminResourceForm_validate_def at_least_def split: option.splits)
  from body have ty: "the (py_int (af_type f)) \<in> {T_CPU, T_MEMORY, T_STORAGE, T_INSTANCE}"
    by (auto simp: AdminResourceForm_validate_def choice_ok_def py_int_show_int)
  have r_fields: "r_user_id r = uid" "r_type r = the (py_int (af_type f))" "r_size r = sz"
    using r by (auto simp: R_def new_resource_def sz split: option.splits)
  have own: "get_resource_total (work s') now p = add_resource now r (get_resource_total (work s) now p)" if "pf_user_id p = uid" for now p
    by (rule totals_add) (simp add: s' add_row_def resources_of_def t_select_add_row r_fields that)
  have other: "get_resource_total (work s') now p = get_resource_total (work s) now p" if "pf_user_id p \<noteq> uid" for now p
    using that by (simp add: get_resource_total_def s' add_row_def resources_of_def t_select_add_row r_fields)
  show ?thesis
  proof (intro exI conjI allI)
    show "let a = get_resource_total (work s) now p; b = get_resource_total (work s') now p;
         n = (if pf_user_id p = uid \<and> r_effect_date r < now \<and> now < r_expired_date r then sz else 0)
       in tt_cpu b = tt_cpu a + (if r_type r = T_CPU then n else 0) \<and> tt_memory b = tt_memory a + (if r_type r = T_MEMORY then n else 0) \<and>
          tt_storage b = tt_storage a + (if r_type r = T_STORAGE then n else 0) \<and>
          tt_instance b = tt_instance a + (if r_type r = T_INSTANCE then n else 0)" for p now
      by (cases "pf_user_id p = uid") (auto simp: own other add_resource_def in_effect_def r_fields Let_def rtype_defs)
  qed (use ty r_fields sz s' in auto)
qed

section \<open>Messages\<close>

lemma foreign_upd_where:
  "t_get t mid = Some M \<Longrightarrow> \<not> P mid M \<Longrightarrow> t_get (t_upd_where P f t) mid = Some M"
  by (simp add: tb.get_upd)

definition kept :: "int \<Rightarrow> message \<Rightarrow> message_text \<Rightarrow> db \<Rightarrow> bool" where
  "kept mid M T d \<longleftrightarrow> t_ok (messages d) \<and> t_ok (message_texts d) \<and>
     t_get (messages d) mid = Some M \<and> t_get (message_texts d) (m_text_id M) = Some T"

lemma kept_simps:
  "kept mid M T (upd_user r g d) = kept mid M T d"
  "k \<noteq> mid \<Longrightarrow> kept mid M T d \<Longrightarrow> kept mid M T (set_message k f d)"
  "k \<noteq> mid \<Longrightarrow> kept mid M T d \<Longrightarrow> kept mid M T (messages_update (t_del k) d)"
  "\<not> P mid M \<Longrightarrow> kept mid M T d \<Longrightarrow> kept mid M T (messages_update (t_upd_where P f) d)"
  "k \<noteq> m_text_id M \<Longrightarrow> kept mid M T d \<Longrightarrow> kept mid M T (message_texts_update (t_del k) d)"
  "kept mid M T d \<Longrightarrow> kept mid M T (message_texts_update (t_add x) d)"
  "kept mid M T d \<Longrightarrow> kept mid M T (add_message y d)"
  by (auto simp: kept_def upd_user_def set_message_def add_message_def t_get_upd t_get_del t_ok_upd foreign_upd_where
      t_get_add t_get_newid t_ok_add)

lemma kept_post_message: "kept mid M T d \<Longrightarrow> kept mid M T (post_message u y d)"
  by (simp add: post_message_def Let_def kept_simps)

lemma kept_notify: "notify_receiver n y d = Inr d' \<Longrightarrow> kept mid M T d' = kept mid M T d"
  by (auto simp: notify_receiver_def kept_simps split: option.splits if_splits)

lemma my_message_other: "kept mid M T d \<Longrightarrow> \<not> party u M \<Longrightarrow> my_message u d k = Some y \<Longrightarrow> k \<noteq> mid"
  by (auto simp: my_message_def kept_def split: option.splits if_splits)

lemma text_shared:
  assumes "t_get t mid = Some M" "t_get t k = Some y" "k \<noteq> mid" "length (t_select (\<lambda>_ v. m_text_id v = m_text_id y) t) = 1"
  shows "m_text_id y \<noteq> m_text_id M"
proof
  assume "m_text_id y = m_text_id M"
  then have "{(k, y), (mid, M)} \<subseteq> set (t_select (\<lambda>_ v. m_text_id v = m_text_id y) t)"
    using assms(1,2) t_get_in by (fastforce simp: t_select_def)
  then show False using assms(3,4) by (auto simp: length_Suc_conv)
qed

text \<open>
  C13. Messages are private: whatever a user who is no administrator requests, a message of which the
  user is neither sender nor receiver stays as it is, and so does its text.
\<close>

theorem message_private:
  assumes "c_user c = Some u" "\<not> isadmin d u" "t_ok (messages d)" "t_ok (message_texts d)"
    "t_get (messages d) mid = Some M" "\<not> party u M" "t_get (message_texts d) (m_text_id M) = Some T"
  shows "let d' = on_finish (snd (handle_message q c (open_session d)))
    in t_get (messages d') mid = Some M \<and> t_get (message_texts d') (m_text_id M) = Some T"
proof -
  have k: "kept mid M T d" using assms by (simp add: kept_def)
  have fin: "sess (kept mid M T) (commit (modify (\<lambda>_. d') (open_session d)))" if "kept mid M T d'" for d'
    using that by (simp add: sess_def)
  have fin2: "sess (kept mid M T) (snd (if b then (Raise e, open_session d) else (r, commit (modify (\<lambda>_. d') (open_session d)))))"
    if "kept mid M T d'" for d' b e r
    using that k by (simp add: sess_def)
  have "sess (kept mid M T) (snd (handle_message q c (open_session d)))"
  proof (cases q)
    case (MessageView j)
    have upd: "kept mid M T (if b then set_message j g d' else d')"
      if "my_message u d j = Some y" "(if b' then notify_receiver n y (set_message j f d) else Inr d) = Inr d'" for b b' n y f g d'
      using that k my_message_other [OF k assms(6) that(1)] by (auto simp: kept_simps dest!: kept_notify split: if_splits)
    show ?thesis
    proof (cases "my_message u d j")
      case (Some y)
      show ?thesis unfolding MessageView handle_message.simps Message_View_get_def with_login_def assms(1) option.case session_simps Some Let_def
        by (rule on_value_keep, unfold snd_conv, rule fin, erule upd [OF Some]) (simp add: k)
    qed (simp add: MessageView Message_View_get_def with_login_def assms(1) k Let_def)
  next
    case (MessageDelete j)
    have upd: "kept mid M T (if length (t_select (\<lambda>_ v. m_text_id v = m_text_id y) (messages d)) = 1
        then message_texts_update (t_del (m_text_id y)) (messages_update (t_del j) (messages_update (t_upd_where (\<lambda>_ q. P q \<and> party u q) g) d'))
        else messages_update (t_del j) (messages_update (t_upd_where (\<lambda>_ q. P q \<and> party u q) g) d'))"
      if "my_message u d j = Some y" "(if b' then notify_receiver n y d else Inr d) = Inr d'" for b' n y g P d'
    proof -
      have "j \<noteq> mid" "kept mid M T d'"
        using that k my_message_other [OF k assms(6) that(1)] by (auto dest!: kept_notify split: if_splits)
      moreover have "t_get (messages d) j = Some y" using that(1) by (auto simp: my_message_def split: option.splits if_splits)
      moreover have "kept mid M T (messages_update (t_del j) (messages_update (t_upd_where (\<lambda>_ q. P q \<and> party u q) g) d'))"
        by (rule kept_simps(3) [OF _ kept_simps(4)]) (use calculation assms(6) in auto)
      ultimately show ?thesis using text_shared [OF assms(5)] by (split if_split) (blast intro: kept_simps(5))
    qed
    show ?thesis
    proof (cases "my_message u d j")
      case (Some y)
      show ?thesis unfolding MessageDelete handle_message.simps Message_Delete_get_def with_login_def assms(1) option.case session_simps Some Let_def
        by (rule on_value_keep, rule fin2, erule upd [OF Some]) (simp add: k)
    qed (simp add: MessageDelete Message_Delete_get_def with_login_def assms(1) k Let_def)
  next
    case (MessageNew f)
    then show ?thesis using k
      by (auto simp: Message_New_post_def Let_def kept_simps kept_post_message intro!: with_login_keep sess_modify split: option.split)
  next
    case (MessageReply j)
    then show ?thesis using k
      by (auto simp: Message_Reply_post_def Let_def kept_simps kept_post_message intro!: with_login_keep sess_modify split: option.split)
  next
    case (SendNotice f)
    have "snd (SendNotice_post f c (open_session d)) = open_session d"
      using assms(1,2) by (simp add: SendNotice_post_def with_permission_def require_permission_def isadmin_def)
    then show ?thesis using SendNotice k by simp
  next
    case (NoticeDelete j)
    have "snd (NoticeDelete_get j c (open_session d)) = open_session d"
      using assms(1,2) by (simp add: NoticeDelete_get_def with_permission_def require_permission_def isadmin_def)
    then show ?thesis using NoticeDelete k by simp
  qed
  then show ?thesis by (simp add: sess_def kept_def Let_def)
qed

text \<open>
  C14. A message that was sent is in the inbox of the user with the given name, unread, with the
  subject (made safe for HTML) and the text, as the last one; a copy is in the outbox of the sender, if
  that is somebody else; every other box is unchanged and the number of new messages of the receiver
  is one higher.
\<close>

theorem message_delivered:
  assumes "Message_New_post f c s = (Redirect ''message:inbox'' None, s')" "t_ok (message_texts (work s))" "t_ok (users (work s))"
  shows "\<exists>u r x mid txt M. c_user c = Some u \<and> t_get (users (work s)) r = Some x \<and> u_username x = mf_to f \<and>
    M = \<lparr>m_reply_id = None, m_sender_id = u, m_receiver_id = Some r, m_text_id = txt, m_isinbox = True, m_isread = False, m_readtime = None\<rparr> \<and>
    t_get (message_texts (work s')) txt = Some \<lparr>mt_subject = concat (map escape_char (mf_subject f)), mt_body = mf_text f\<rparr> \<and>
    (\<forall>v. inbox (work s') v = inbox (work s) v @ (if v = r then [(mid, M)] else [])) \<and>
    (\<forall>v. map snd (outbox (work s') v) = map snd (outbox (work s) v) @ (if v = u \<and> r \<noteq> u then [M\<lparr>m_isinbox := False\<rparr>] else [])) \<and>
    t_get (users (work s')) r = Some (x\<lparr>u_notice := max 0 (u_notice x + 1)\<rparr>) \<and> on_finish s' = work s'"
proof -
  obtain u where u: "c_user c = Some u" using assms(1) by (auto simp: Message_New_post_def with_login_def split: option.splits if_splits)
  obtain r x where r: "t_first (\<lambda>_ x. u_username x = mf_to f) (users (work s)) = Some (r, x)"
    using assms(1) by (auto simp: Message_New_post_def with_login_def u Let_def split: option.splits if_splits)
  let ?txt = "t_newid (message_texts (work s))" and ?T = "new_message_text (mf_subject f) (mf_text f)"
  let ?M = "new_message u (Some r) ?txt" and ?d = "message_texts_update (t_add (new_message_text (mf_subject f) (mf_text f))) (work s)"
  have w: "work s' = upd_user r (notify 1) (post_message u ?M ?d)" "on_finish s' = work s'"
    using assms(1) by (auto simp: Message_New_post_def with_login_def u r Let_def split: if_splits)
  have x: "t_get (users (work s)) r = Some x" "u_username x = mf_to f"
    using t_first_Some [OF r] by (auto simp: t_get_iff assms(3))
  have m: "messages (work s') = (if r \<noteq> u then t_add (?M\<lparr>m_isinbox := False\<rparr>) (t_add ?M (messages (work s))) else t_add ?M (messages (work s)))"
    by (simp add: w post_message_def add_message_def upd_user_def new_message_def Let_def)
  have "t_get (message_texts (work s')) ?txt = Some ?T"
    using t_get_add [OF assms(2)] by (simp add: w post_message_def add_message_def upd_user_def Let_def)
  moreover have "inbox (work s') v = inbox (work s) v @ (if v = r then [(seq (messages (work s)) + 1, ?M)] else [])" for v
    by (simp add: inbox_def m t_select_add_row new_message_def)
  moreover have "map snd (outbox (work s') v) = map snd (outbox (work s) v) @ (if v = u \<and> r \<noteq> u then [?M\<lparr>m_isinbox := False\<rparr>] else [])" for v
    by (simp add: outbox_def m t_select_add_row new_message_def)
  moreover have "t_get (users (work s')) r = Some (x\<lparr>u_notice := max 0 (u_notice x + 1)\<rparr>)"
    using x(1) by (simp add: w upd_user_def post_message_def add_message_def Let_def notify_def)
  ultimately show ?thesis using u x w(2) by (intro exI [of _ u] exI [of _ r] exI [of _ x] exI [of _ "seq (messages (work s)) + 1"]
      exI [of _ ?txt] exI [of _ ?M]) (simp add: new_message_def new_message_text_def)
qed

text \<open>
  The sender who looks at the copy in the outbox takes the message off the count of the receiver, who
  has not read it.
\<close>

definition message_db_ex :: db where
  "message_db_ex = db_ex\<lparr>users := \<lparr>rows = [(1, user_ex ''root'' [1]), (2, user_ex ''alice'' []), (3, user_ex ''bob'' []), (4, user_ex ''eve'' [])], seq = 4\<rparr>\<rparr>"

definition message_form_ex :: message_form where
  "message_form_ex = \<lparr>mf_to = ''bob'', mf_subject = ''<Hi>'', mf_text = ''Hello Bob''\<rparr>"

definition sent_ex :: db where
  "sent_ex = on_finish (snd (Message_New_post message_form_ex (ctx_ex 2 []) (open_session message_db_ex)))"

lemma outbox_view_counts:
  "map (\<lambda>d. u_notice (the (t_get (users d) 3)))
     [sent_ex, on_finish (snd (Message_View_get 2 (ctx_ex 2 []) (open_session sent_ex)))] = [1, 0]"
  by code_simp

theorem message_private_witness:
  "let d' = on_finish (snd (handle_message (MessageDelete 1) (ctx_ex 4 []) (open_session sent_ex)))
   in t_get (messages d') 1 = Some (new_message 2 (Some 3) 1) \<and>
      t_get (message_texts d') 1 = Some \<lparr>mt_subject = ''&lt;Hi&gt;'', mt_body = ''Hello Bob''\<rparr>"
proof -
  let ?M = "new_message 2 (Some 3) 1"
  have "c_user (ctx_ex 4 []) = Some 4" by (simp add: ctx_ex_def)
  moreover have "\<not> isadmin sent_ex 4" by code_simp
  moreover have "t_ok (messages sent_ex) \<and> t_ok (message_texts sent_ex)" by code_simp
  moreover have "t_get (messages sent_ex) 1 = Some ?M" by code_simp
  moreover have "\<not> party 4 ?M" by code_simp
  moreover have "t_get (message_texts sent_ex) (m_text_id ?M) = Some \<lparr>mt_subject = ''&lt;Hi&gt;'', mt_body = ''Hello Bob''\<rparr>" by code_simp
  ultimately show ?thesis
    using message_private [of "ctx_ex 4 []" 4 sent_ex 1 ?M "\<lparr>mt_subject = ''&lt;Hi&gt;'', mt_body = ''Hello Bob''\<rparr>" "MessageDelete 1"]
    by (simp add: new_message_def)
qed

theorem message_delivered_witness:
  "\<exists>r x mid txt. t_get (users message_db_ex) r = Some x \<and> u_username x = ''bob'' \<and>
     inbox sent_ex r = inbox message_db_ex r @ [(mid, new_message 2 (Some r) txt)]"
proof -
  let ?p = "Message_New_post message_form_ex (ctx_ex 2 []) (open_session message_db_ex)"
  have r: "fst ?p = Redirect ''message:inbox'' None" by code_simp
  have "t_ok (message_texts (work (open_session message_db_ex))) \<and> t_ok (users (work (open_session message_db_ex)))" by code_simp
  then obtain u r x mid tid where "c_user (ctx_ex 2 []) = Some u" "t_get (users (work (open_session message_db_ex))) r = Some x"
      "u_username x = mf_to message_form_ex"
      "\<forall>v. inbox (work (snd ?p)) v = inbox (work (open_session message_db_ex)) v @ (if v = r then [(mid, new_message u (Some r) tid)] else [])"
      "on_finish (snd ?p) = work (snd ?p)"
    using message_delivered [OF pair_of_fst [OF r]] unfolding new_message_def by blast
  then show ?thesis
    by (intro exI [of _ r] exI [of _ x] exI [of _ mid] exI [of _ tid]) (auto simp: ctx_ex_def message_form_ex_def sent_ex_def simp del: session_simps(7))
qed

text \<open>A user in group 2; group 3 has nobody.\<close>

definition group_db_ex :: db where
  "group_db_ex = message_db_ex\<lparr>
     users := \<lparr>rows = [(1, user_ex ''root'' [1]), (2, user_ex ''alice'' [2])], seq = 2\<rparr>,
     groups := \<lparr>rows = [(1, \<lparr>g_name = ''admin'', g_description = None, g_islocked = True, g_permissions = [1]\<rparr>),
                       (2, \<lparr>g_name = ''staff'', g_description = None, g_islocked = False, g_permissions = []\<rparr>),
                       (3, \<lparr>g_name = ''guests'', g_description = None, g_islocked = False, g_permissions = [1]\<rparr>)], seq = 3\<rparr>\<rparr>"

theorem group_delete_keeps_permissions_witness:
  "\<forall>u. user_codenames (work (snd (GroupManagement_get (ctx_ex 1 [(''action'', ''delete''), (''id'', ''3'')]) (open_session group_db_ex)))) u =
     user_codenames group_db_ex u"
proof -
  let ?p = "GroupManagement_get (ctx_ex 1 [(''action'', ''delete''), (''id'', ''3'')]) (open_session group_db_ex)"
  have r: "fst ?p = Redirect ''admin:group'' None" by code_simp
  have "t_ok (groups (work (open_session group_db_ex)))" by code_simp
  from group_delete_keeps_permissions [OF pair_of_fst [OF r] this] show ?thesis by auto
qed

theorem group_merge_correct_witness:
  "map fst (group_users (work (snd (GroupMerge_post ''3'' (ctx_ex 1 [(''id'', ''2'')]) (open_session group_db_ex)))) 3) = [2] \<and>
   (\<exists>gid new. py_int ''3'' = Some new \<and>
      (new \<noteq> gid \<longrightarrow> group_users (work (snd (GroupMerge_post ''3'' (ctx_ex 1 [(''id'', ''2'')]) (open_session group_db_ex)))) gid = []))"
proof
  let ?p = "GroupMerge_post ''3'' (ctx_ex 1 [(''id'', ''2'')]) (open_session group_db_ex)"
  show "map fst (group_users (work (snd ?p)) 3) = [2]" by code_simp
  have r: "fst ?p = Redirect ''admin:group'' None" by code_simp
  from group_merge_correct [OF pair_of_fst [OF r]]
  show "\<exists>gid new. py_int ''3'' = Some new \<and> (new \<noteq> gid \<longrightarrow> group_users (work (snd ?p)) gid = [])" by blast
qed

theorem resource_add_total_witness:
  "\<exists>ty sz. af_size \<lparr>effect_date = Some 50, expired_date = Some 500, af_type = ''2'', af_size = Some 512\<rparr> = Some sz \<and> ty \<in> {1, 2, 3, 4} \<and>
     on_finish (snd (ResourceAdd_post \<lparr>effect_date = Some 50, expired_date = Some 500, af_type = ''2'', af_size = Some 512\<rparr>
       (ctx_ex 1 [(''id'', ''2'')]) (open_session db_ex))) =
     work (snd (ResourceAdd_post \<lparr>effect_date = Some 50, expired_date = Some 500, af_type = ''2'', af_size = Some 512\<rparr>
       (ctx_ex 1 [(''id'', ''2'')]) (open_session db_ex)))"
proof -
  let ?f = "\<lparr>effect_date = Some 50, expired_date = Some 500, af_type = ''2'', af_size = Some 512\<rparr> :: ares_form"
  let ?p = "ResourceAdd_post ?f (ctx_ex 1 [(''id'', ''2'')]) (open_session db_ex)"
  have r: "fst ?p = Redirect ''admin:user:view'' (Some 2)" by code_simp
  from resource_add_total [OF pair_of_fst [OF r]] show ?thesis unfolding rtype_defs by blast
qed

end
