(* ===== verification/Appliance.thy ===== *)
theory Appliance
  imports Admin Instance_Views
begin

text \<open>
  Appliances, the images that instances are made from (\<^verbatim>\<open>lyweb/app/appliance/views.py\<close>,
  \<^verbatim>\<open>lyweb/app/myun/appliance/views.py\<close>, \<^verbatim>\<open>lyweb/app/admin/appliance_views.py\<close>): upload, deletion,
  visibility, description, owner, catalogues and screenshots. An uploaded file is kept in the
  directory \<open>appliance_top_dir\<close> under its checksum; \<open>files\<close> is the list of the checksums there. The
  pictures (logos and screenshots) themselves are left out.
\<close>

section \<open>Access\<close>

text \<open>The two messages of \<open>get_appliance_byid\<close> are those of the page 404.\<close>

definition get_appliance_byid :: "ctx \<Rightarrow> db \<Rightarrow> resp + (int \<times> appliance)" where
  "get_appliance_byid c d =
     (case get_argument_int c ''id'' None of
        None \<Rightarrow> Inl (RenderErr ''404'' ''Give appliance id please.'')
      | Some ID \<Rightarrow>
          if ID = 0 then Inl (RenderErr ''404'' ''Give appliance id please.'')
          else
            (case t_get (appliances d) ID of
               None \<Rightarrow> Inl (RenderErr ''404'' ''Can not find appliance %s'')
             | Some A \<Rightarrow>
                 if a_isprivate A \<and> (case c_user c of None \<Rightarrow> True | Some u \<Rightarrow> u \<noteq> a_user_id A \<and> \<not> isadmin d u)
                 then Inl (RenderErr ''404'' ''Appliance %s is private !'')
                 else Inr (ID, A)))"

definition Appliance_View_get :: "ctx \<Rightarrow> db session \<Rightarrow> resp \<times> db session" where
  "Appliance_View_get c s =
     (case get_appliance_byid c (work s) of Inl r \<Rightarrow> (r, s) | Inr _ \<Rightarrow> (Render ''appliance/view.html'', s))"

definition may_manage :: "db \<Rightarrow> int \<Rightarrow> appliance \<Rightarrow> bool" where
  "may_manage d u A \<longleftrightarrow> a_user_id A = u \<or> isadmin d u"

section \<open>Upload and deletion\<close>

datatype link_result = Linked | LinkFailed | UnlinkFailed

record upload_env =
  up_exists :: "string \<Rightarrow> bool"
  up_appdir :: bool
  up_samedev :: bool
  up_link :: link_result

text \<open>\<open>save_upfile\<close>: the error message, if any, and the files afterwards.\<close>

definition save_upfile :: "upload_env \<Rightarrow> string \<Rightarrow> string \<Rightarrow> string list \<Rightarrow> string option \<times> string list" where
  "save_upfile e fpath fhash files =
     (if \<not> up_exists e fpath then (Some ''Can not found %s'', files)
      else if \<not> up_appdir e then (Some ''mkdir error: %s'', files)
      else if fhash \<in> set files then (None, files)
      else if \<not> up_samedev e then (Some ''copy have not complete !'', files)
      else case up_link e of
        Linked \<Rightarrow> (None, fhash # files)
      | LinkFailed \<Rightarrow> (Some ''OSError: %s'', files)
      | UnlinkFailed \<Rightarrow> (Some ''OSError: %s'', fhash # files))"

definition done_resp :: "ctx \<Rightarrow> string \<Rightarrow> resp" where
  "done_resp c m = (if truthy_int (get_argument_int c ''ajax'' (Some 0)) then Write m [] else Render ''appliance/action_result.html'')"

definition new_appliance :: "string \<Rightarrow> int \<Rightarrow> int \<Rightarrow> string \<Rightarrow> appliance" where
  "new_appliance name u sz hash = \<lparr>a_name = name, a_summary = None, a_description = None, a_os = 1, a_user_id = u,
     a_catalog_id = None, a_filesize = sz, a_checksum = hash, a_islocked = False, a_isuseable = True, a_isprivate = True\<rparr>"

text \<open>A text argument is greater than 0 for Python 2, so the test of the size only finds a missing one.\<close>

definition Upload_post :: "upload_env \<Rightarrow> ctx \<Rightarrow> db session \<times> string list \<Rightarrow> resp \<times> db session \<times> string list" where
  "Upload_post e c sf =
     (case sf of (s, files) \<Rightarrow>
      case require_permission ''appliance.upload'' c (work s) of
        Some r \<Rightarrow> (r, s, files)
      | None \<Rightarrow>
          let u = the (c_user c) in
          (case (get_argument c ''upfile_name'', get_argument c ''upfile_path'', get_argument c ''upfile_size'', get_argument c ''upfile_md5'') of
             (Some fname, Some fpath, Some fsize, Some fhash) \<Rightarrow>
               if fname = [] \<or> fpath = [] \<or> fhash = [] then (Raise (HTTPError 400), s, files)
               else
                 (case t_first (\<lambda>_ A. a_checksum A = fhash) (appliances (work s)) of
                    Some (ID, A) \<Rightarrow>
                      if \<not> may_manage (work s) u A
                      then (done_resp c ''Appliance exists, but you have not any permission to management it.'', s, files)
                      else (Redirect ''myun:appliance:baseinfo:edit'' (Some ID), s, files)
                  | None \<Rightarrow>
                      (case save_upfile e fpath fhash files of
                         (Some msg, files1) \<Rightarrow> (done_resp c ''Save %(filename)s failed: %(emsg)s'', s, files1)
                       | (None, files1) \<Rightarrow>
                           (case py_int fsize of
                              None \<Rightarrow> (Raise ValueError, s, files1)
                            | Some sz \<Rightarrow>
                                (Redirect ''myun:appliance:baseinfo:edit'' (Some (t_newid (appliances (work s)))),
                                 commit (modify (appliances_update (t_add (new_appliance
                                   (map (\<lambda>x. if x = CHR ''.'' then CHR '' '' else x) fname) u sz fhash))) s), files1))))
           | _ \<Rightarrow> (Raise (HTTPError 400), s, files)))"

text \<open>
  \<open>Delete.get\<close>: \<open>unlink_ok\<close> tells whether the file can be removed. Screenshots lose their reference.
\<close>

definition delete_appliance :: "int \<Rightarrow> db \<Rightarrow> db" where
  "delete_appliance ID d = appliances_update (t_del ID)
     (screenshots_update (t_upd_where (\<lambda>_ S. sc_appliance_id S = Some ID) (sc_appliance_id_update (\<lambda>_. None))) d)"

definition Appliance_Delete_get :: "bool \<Rightarrow> int \<Rightarrow> ctx \<Rightarrow> db session \<times> string list \<Rightarrow> resp \<times> db session \<times> string list" where
  "Appliance_Delete_get unlink_ok ID c sf =
     (case sf of (s, files) \<Rightarrow>
      case c_user c of
        None \<Rightarrow> (if c_post c then Raise (HTTPError 403) else Login, s, files)
      | Some u \<Rightarrow>
          (case t_get (appliances (work s)) ID of
             None \<Rightarrow> (RenderErr ''E'' ''Can not find appliance %s.'', s, files)
           | Some A \<Rightarrow>
               if \<not> may_manage (work s) u A then (RenderErr ''E'' ''No permission !'', s, files)
               else if t_select (\<lambda>_ I. i_appliance_id I = ID) (instances (work s)) \<noteq> []
               then (RenderErr ''E'' ''Have instances exist'', s, files)
               else if a_checksum A \<in> set files \<and> \<not> unlink_ok
               then (RenderErr ''E'' ''Delete %(filename)s failed: %(emsg)s'', s, files)
               else (RenderErr ''E'' ''Delete appliance %s success !'', commit (modify (delete_appliance ID) s),
                     filter (\<lambda>x. x \<noteq> a_checksum A) files)))"

section \<open>Flags\<close>

definition upd_appliance :: "int \<Rightarrow> (appliance \<Rightarrow> appliance) \<Rightarrow> db \<Rightarrow> db" where
  "upd_appliance ID f d = appliances_update (t_upd ID f) d"

text \<open>
  \<open>SetUseable\<close> and \<open>SetPrivate\<close>: the URL to return to is computed first; the pattern of
  \<open>appliance:view\<close> has no group, so \<open>reverse_url\<close> with an argument fails.
\<close>

definition set_flag :: "(bool \<Rightarrow> appliance \<Rightarrow> appliance) \<Rightarrow> int \<Rightarrow> ctx \<Rightarrow> db session \<Rightarrow> resp \<times> db session" where
  "set_flag f ID = with_login (\<lambda>u c s.
     case get_argument c ''next_url'' of
       None \<Rightarrow> (Raise AssertionError, s)
     | Some url \<Rightarrow>
         if url = [] then (Raise AssertionError, s)
         else
           (case t_get (appliances (work s)) ID of
              None \<Rightarrow> (Write ''No such appliance!'' [], s)
            | Some A \<Rightarrow>
                if \<not> may_manage (work s) u A then (Write ''No permission!'' [], s)
                else (Redirect url None, commit (modify (upd_appliance ID (f (get_argument c ''flag'' = Some ''true''))) s))))"

definition SetUseable_get :: "int \<Rightarrow> ctx \<Rightarrow> db session \<Rightarrow> resp \<times> db session" where
  "SetUseable_get = set_flag (\<lambda>b. a_isuseable_update (\<lambda>_. b))"

definition SetPrivate_get :: "int \<Rightarrow> ctx \<Rightarrow> db session \<Rightarrow> resp \<times> db session" where
  "SetPrivate_get = set_flag (\<lambda>b. a_isprivate_update (\<lambda>_. b))"

definition islockedToggle_get :: "int \<Rightarrow> ctx \<Rightarrow> db session \<Rightarrow> resp \<times> db session" where
  "islockedToggle_get ID = with_permission ''admin'' (\<lambda>c s.
     case t_get (appliances (work s)) ID of
       None \<Rightarrow> (Write ''Can not find appliance %s.'' [ID], s)
     | Some A \<Rightarrow> (Write [] [], commit (modify (upd_appliance ID (a_islocked_update Not)) s)))"

text \<open>
  \<open>isuseableToggle\<close> and \<open>AttrSet\<close> ask \<open>has_permission('admin')\<close>, the decorator and not the
  method; its value is a function, which is true, so their tests of the owner never refuse.
\<close>

definition isuseableToggle_get :: "int \<Rightarrow> ctx \<Rightarrow> db session \<Rightarrow> resp \<times> db session" where
  "isuseableToggle_get ID = with_login (\<lambda>u c s.
     case t_get (appliances (work s)) ID of
       None \<Rightarrow> (Write ''Can not find appliance %s.'' [ID], s)
     | Some A \<Rightarrow>
         if \<not> (u = a_user_id A \<or> True) then (Write ''No permissions !'' [], s)
         else (Write [] [], commit (modify (upd_appliance ID (a_isuseable_update Not)) s)))"

definition set_attr :: "string \<Rightarrow> string \<Rightarrow> (appliance \<Rightarrow> appliance) pyres" where
  "set_attr attr value =
     (if value \<noteq> ''true'' \<and> value \<noteq> ''false'' then Inl (NameError ''value'')
      else Inr (\<lambda>A. if attr = ''isprivate'' then A\<lparr>a_isprivate := (value = ''true'')\<rparr>
                     else A\<lparr>a_isuseable := (value = ''true'')\<rparr>))"

text \<open>The loop over the identities: the code of each, or the exception.\<close>

fun appliance_attr_loop :: "int \<Rightarrow> string \<Rightarrow> string \<Rightarrow> int list \<Rightarrow> db session \<Rightarrow> int list pyres \<times> db session" where
  "appliance_attr_loop u attr value [] s = (Inr [], s)"
| "appliance_attr_loop u attr value (ID # IDS) s =
     (case t_get (appliances (work s)) ID of
        Some A \<Rightarrow>
          if u = a_user_id A \<or> True then
            (case set_attr attr value of
               Inl e \<Rightarrow> (Inl e, s)
             | Inr f \<Rightarrow> map_prod (map_sum id ((#) 0)) id (appliance_attr_loop u attr value IDS (modify (upd_appliance ID f) s)))
          else map_prod (map_sum id ((#) 1)) id (appliance_attr_loop u attr value IDS s)
      | None \<Rightarrow> map_prod (map_sum id ((#) 1)) id (appliance_attr_loop u attr value IDS s))"

definition Appliance_AttrSet_post :: "ctx \<Rightarrow> db session \<Rightarrow> resp \<times> db session" where
  "Appliance_AttrSet_post = with_login (\<lambda>u c s.
     let ID = (case get_argument c ''id'' of None \<Rightarrow> [] | Some a \<Rightarrow> a);
         value = strip (map lower_char (case get_argument c ''value'' of None \<Rightarrow> [] | Some a \<Rightarrow> a))
     in if ID = [] then (Write ''Please give me the appliance id.'' [1], s)
        else
          (case get_argument c ''attr'' of
             None \<Rightarrow> (Write ''No attr find.'' [1], s)
           | Some attr \<Rightarrow>
               if attr = [] then (Write ''No attr find.'' [1], s)
               else if attr \<notin> {''isprivate'', ''isuseable''} then (Write ''Can not support attr: %s'' [1], s)
               else if value = [] then (Write ''No value find.'' [1], s)
               else
                 (case appliance_attr_loop u attr value (map (\<lambda>x. the (get_int x (Some 0))) (split_on CHR '','' ID)) s of
                    (Inl e, s1) \<Rightarrow> (Raise e, s1)
                  | (Inr codes, s1) \<Rightarrow>
                      (Write (if last codes = 0 then ''Set attr (%s) success.'' else ''Have something failed.'') [last codes], commit s1))))"

section \<open>Description, owner\<close>

record appliance_form =
  ap_name :: string
  ap_os :: string
  ap_summary :: string
  ap_catalog :: string
  ap_description :: string

definition ApplianceForm_validate :: "db \<Rightarrow> appliance_form \<Rightarrow> bool" where
  "ApplianceForm_validate d f =
     (length_between 2 64 (ap_name f) \<and> choice_ok (ap_os f) [1, 2] \<and> choice_ok (ap_catalog f) (map fst (rows (catalogs d))))"

definition save_baseinfo :: "appliance_form \<Rightarrow> appliance \<Rightarrow> appliance" where
  "save_baseinfo f A = A\<lparr>a_name := ap_name f, a_os := the (get_int (ap_os f) (Some 0)), a_summary := Some (ap_summary f),
     a_catalog_id := py_int (ap_catalog f), a_description := Some (ap_description f)\<rparr>"

definition ApplianceHandler_initialize :: "ctx \<Rightarrow> db \<Rightarrow> (resp + (int \<times> appliance)) pyres" where
  "ApplianceHandler_initialize c d =
     (let ID = arg_id c ''id'' in
      if ID = 0 then Inr (Inl (Write ''Give the appliance id please.'' []))
      else case t_get (appliances d) ID of
        None \<Rightarrow> Inr (Inl (Write ''No such appliance: %s'' [ID]))
      | Some A \<Rightarrow>
          (case c_user c of
             None \<Rightarrow> Inl (AttributeError ''id'')
           | Some u \<Rightarrow> if u \<noteq> a_user_id A then Inr (Inl (Write ''Not your appliance'' [])) else Inr (Inr (ID, A))))"

definition Appliance_BaseinfoEdit_post :: "appliance_form \<Rightarrow> ctx \<Rightarrow> db session \<Rightarrow> resp \<times> db session" where
  "Appliance_BaseinfoEdit_post f c s = on_value (ApplianceHandler_initialize c (work s)) s (\<lambda>r.
     with_login (\<lambda>u c s. case r of
         Inl w \<Rightarrow> (w, s)
       | Inr (ID, A) \<Rightarrow>
           if ApplianceForm_validate (work s) f
           then (Redirect ''myun:appliance:view'' (Some ID), commit (modify (upd_appliance ID (save_baseinfo f)) s))
           else (Render ''myun/appliance/baseinfo_edit.html'', s)) c s)"

text \<open>The administrators' handlers find the row named by the argument \<open>id\<close>.\<close>

definition with_admin_row ::
  "(db \<Rightarrow> 'a table) \<Rightarrow> string \<Rightarrow> string \<Rightarrow> (int \<Rightarrow> 'a \<Rightarrow> ctx \<Rightarrow> db session \<Rightarrow> resp \<times> db session) \<Rightarrow> ctx \<Rightarrow> db session \<Rightarrow> resp \<times> db session" where
  "with_admin_row t m1 m2 h = with_permission ''admin'' (\<lambda>c s.
     case get_argument_int c ''id'' None of
       None \<Rightarrow> (Write m1 [], s)
     | Some ID \<Rightarrow>
         if ID = 0 then (Write m1 [], s)
         else (case t_get (t (work s)) ID of None \<Rightarrow> (Write m2 [ID], s) | Some x \<Rightarrow> h ID x c s))"

definition ApplianceEdit_post :: "appliance_form \<Rightarrow> ctx \<Rightarrow> db session \<Rightarrow> resp \<times> db session" where
  "ApplianceEdit_post f = with_admin_row appliances ''Give me appliance id please.'' ''Can not find appliance %s'' (\<lambda>ID A c s.
     if ApplianceForm_validate (work s) f
     then (Redirect ''admin:appliance:view'' (Some ID), commit (modify (upd_appliance ID (save_baseinfo f)) s))
     else (Render ''admin/appliance/edit.html'', s))"

definition find_owner :: "db \<Rightarrow> string \<Rightarrow> (int \<times> user) option" where
  "find_owner d name =
     (let U = (if name \<noteq> [] \<and> list_all is_digit name
               then (case py_int name of None \<Rightarrow> None | Some k \<Rightarrow> map_option (Pair k) (t_get (users d) k)) else None)
      in if U = None then t_first (\<lambda>_ u. u_username u = name) (users d) else U)"

definition ApplianceChangeUser_post :: "ctx \<Rightarrow> db session \<Rightarrow> resp \<times> db session" where
  "ApplianceChangeUser_post = with_admin_row appliances ''Give me appliance id please.'' ''Can not find appliance %s'' (\<lambda>ID A c s.
     case get_argument c ''user'' of
       None \<Rightarrow> (RenderErr ''E'' ''No user input !'', s)
     | Some name \<Rightarrow>
         if name = [] then (RenderErr ''E'' ''No user input !'', s)
         else
           (case find_owner (work s) name of
              None \<Rightarrow> (RenderErr ''E'' ''Can not find user %s'', s)
            | Some (v, V) \<Rightarrow>
                (case t_get (users (work s)) (a_user_id A) of
                   None \<Rightarrow> (Raise (AttributeError ''username''), s)
                 | Some old \<Rightarrow>
                     let s1 = commit (modify (upd_appliance ID (a_user_id_update (\<lambda>_. v))) s);
                         msg = ''change owner '' @ u_username old @ '' to '' @ u_username V @
                           (case get_argument c ''reason'' of None \<Rightarrow> [] | Some r \<Rightarrow> if r = [] then [] else '' : '' @ r)
                     in (Redirect ''admin:appliance:view'' (Some ID), add_trace (the (c_user c)) 5 ID msg s1))))"

section \<open>Catalogues\<close>

record catalog_form =
  cg_name :: string
  cg_summary :: string
  cg_description :: string

definition CatalogForm_validate :: "catalog_form \<Rightarrow> bool" where
  "CatalogForm_validate f = (length_between 2 32 (cg_name f) \<and> length_between 2 256 (cg_summary f))"

definition CatalogAdd_post :: "catalog_form \<Rightarrow> ctx \<Rightarrow> db session \<Rightarrow> resp \<times> db session" where
  "CatalogAdd_post f = with_permission ''admin'' (\<lambda>c s.
     if CatalogForm_validate f
     then (Redirect ''admin:appliance:catalog:view'' (Some (t_newid (catalogs (work s)))),
           commit (modify (catalogs_update (t_add \<lparr>ac_name = cg_name f, ac_summary = cg_summary f,
             ac_description = cg_description f, ac_position = 0\<rparr>)) s))
     else (Render ''admin/appliance/catalog/add.html'', s))"

definition CatalogEdit_post :: "catalog_form \<Rightarrow> ctx \<Rightarrow> db session \<Rightarrow> resp \<times> db session" where
  "CatalogEdit_post f = with_admin_row catalogs ''Give me catalog id please.'' ''Can not find catalog %s'' (\<lambda>ID C c s.
     if CatalogForm_validate f
     then (Redirect ''admin:appliance:catalog:view'' (Some ID),
           commit (modify (catalogs_update (t_upd ID (\<lambda>C. C\<lparr>ac_name := cg_name f, ac_summary := cg_summary f,
             ac_description := cg_description f\<rparr>))) s))
     else (Render ''admin/appliance/catalog/edit.html'', s))"

definition CatalogDelete_get :: "ctx \<Rightarrow> db session \<Rightarrow> resp \<times> db session" where
  "CatalogDelete_get = with_admin_row catalogs ''Give me catalog id please.'' ''Can not find catalog %s'' (\<lambda>ID C c s.
     if t_select (\<lambda>_ A. a_catalog_id A = Some ID) (appliances (work s)) \<noteq> []
     then (Write ''There are appliances exist, can not delete catalog now.'' [], s)
     else (Redirect ''admin:appliance:catalog'' None, commit (modify (catalogs_update (t_del ID)) s)))"

definition tuneCatalogPosition_get :: "int \<Rightarrow> ctx \<Rightarrow> db session \<Rightarrow> resp \<times> db session" where
  "tuneCatalogPosition_get ID = with_permission ''admin'' (\<lambda>c s.
     case t_get (catalogs (work s)) ID of
       None \<Rightarrow> (Write ''Can not find appliance catalog %s'' [ID], s)
     | Some C \<Rightarrow>
         let n = the (get_argument_int c ''value'' (Some 0)) in
         if n = 0 then (Write ''tune value must be a integer.'' [], s)
         else (Write [] [], commit (modify (catalogs_update (t_upd ID (\<lambda>C. C\<lparr>ac_position := ac_position C + n\<rparr>))) s)))"

section \<open>Screenshots\<close>

record fileobj =
  fo_name :: string
  fo_size :: int
  fo_checksum :: string

datatype uploaded = NoFiles | OtherFiles | Logo "fileobj list"

definition ATTACHMENT_MAXSIZE :: int where "ATTACHMENT_MAXSIZE = 10 * 1024 * 1024"

definition get_appliance :: "int \<Rightarrow> ctx \<Rightarrow> db \<Rightarrow> resp + (int \<times> appliance)" where
  "get_appliance u c d =
     (case get_argument_int c ''appliance_id'' None of
        None \<Rightarrow> Inl (Write ''Give me appliance_id please.'' [])
      | Some ID \<Rightarrow>
          if ID = 0 then Inl (Write ''Give me appliance_id please.'' [])
          else (case t_get (appliances d) ID of
                  None \<Rightarrow> Inl (Write ''Can not find appliance %s'' [ID])
                | Some A \<Rightarrow> if \<not> may_manage d u A then Inl (Write ''No permission to manage screenshot'' []) else Inr (ID, A)))"

fun add_screenshots :: "int \<Rightarrow> fileobj list \<Rightarrow> db session \<Rightarrow> bool \<times> db session" where
  "add_screenshots ID [] s = (True, s)"
| "add_screenshots ID (f # fs) s =
     (if fo_size f > ATTACHMENT_MAXSIZE then (False, s)
      else add_screenshots ID fs (commit (modify (screenshots_update (t_add \<lparr>sc_appliance_id = Some ID,
             sc_filename = fo_name f, sc_size = fo_size f, sc_checksum = fo_checksum f\<rparr>)) s)))"

text \<open>
  A refused \<open>prepare\<close> of \<open>ScreenshotAdd\<close> does not finish the request; \<open>post\<close> then misses
  its argument.
\<close>

definition ScreenshotAdd_post :: "uploaded \<Rightarrow> ctx \<Rightarrow> db session \<Rightarrow> resp \<times> db session" where
  "ScreenshotAdd_post up = with_login (\<lambda>u c s.
     case get_appliance u c (work s) of
       Inl w \<Rightarrow> (Raise KeyError, s)
     | Inr (ID, A) \<Rightarrow>
         (case up of
            NoFiles \<Rightarrow> (Write ''No file find'' [], s)
          | OtherFiles \<Rightarrow> (Raise KeyError, s)
          | Logo fs \<Rightarrow>
              (case add_screenshots ID fs s of
                 (False, s1) \<Rightarrow> (Write ''Upload screenshot failed: %s'' [], s1)
               | (True, s1) \<Rightarrow> (case get_argument c ''next_url'' of None \<Rightarrow> Redirect ''appliance:view'' (Some ID) | Some url \<Rightarrow> Redirect url None, s1))))"

text \<open>The test of \<open>get_screenshot\<close>: it refuses the owner and nobody else.\<close>

definition get_screenshot :: "int \<Rightarrow> ctx \<Rightarrow> db \<Rightarrow> (resp + (int \<times> screenshot)) pyres" where
  "get_screenshot u c d =
     (case get_argument_int c ''screenshot_id'' None of
        None \<Rightarrow> Inr (Inl (Write ''Give me screenshot_id please.'' []))
      | Some ID \<Rightarrow>
          if ID = 0 then Inr (Inl (Write ''Give me screenshot_id please.'' []))
          else (case t_get (screenshots d) ID of
                  None \<Rightarrow> Inr (Inl (Write ''Can not find screenshot %s'' [ID]))
                | Some S \<Rightarrow>
                    (case Option.bind (sc_appliance_id S) (t_get (appliances d)) of
                       None \<Rightarrow> Inl (AttributeError ''user_id'')
                     | Some A \<Rightarrow>
                         if \<not> (a_user_id A \<noteq> u \<or> isadmin d u) then Inr (Inl (Write ''No permission to manage screenshot'' []))
                         else Inr (Inr (ID, S)))))"

definition ScreenshotDelete_get :: "ctx \<Rightarrow> db session \<Rightarrow> resp \<times> db session" where
  "ScreenshotDelete_get = with_login (\<lambda>u c s.
     on_value (get_screenshot u c (work s)) s (\<lambda>r. case r of
         Inl w \<Rightarrow> (w, s)
       | Inr (ID, S) \<Rightarrow> (Redirect ''appliance:screenshot:management'' (sc_appliance_id S), commit (modify (screenshots_update (t_del ID)) s))))"

section \<open>Requests\<close>

datatype appliance_request =
    Upload upload_env
  | ApplianceDelete bool int
  | SetUseable int
  | SetPrivate int
  | islockedToggle int
  | isuseableToggle int
  | ApplianceAttrSet
  | ApplianceBaseinfoEdit appliance_form
  | ApplianceEdit appliance_form
  | ApplianceChangeUser
  | CatalogAdd catalog_form
  | CatalogEdit catalog_form
  | CatalogDelete
  | tuneCatalogPosition int
  | ScreenshotAdd uploaded
  | ScreenshotDelete

fun handle_appliance_db :: "appliance_request \<Rightarrow> ctx \<Rightarrow> db session \<Rightarrow> resp \<times> db session" where
  "handle_appliance_db (SetUseable ID) = SetUseable_get ID"
| "handle_appliance_db (SetPrivate ID) = SetPrivate_get ID"
| "handle_appliance_db (islockedToggle ID) = islockedToggle_get ID"
| "handle_appliance_db (isuseableToggle ID) = isuseableToggle_get ID"
| "handle_appliance_db ApplianceAttrSet = Appliance_AttrSet_post"
| "handle_appliance_db (ApplianceBaseinfoEdit f) = Appliance_BaseinfoEdit_post f"
| "handle_appliance_db (ApplianceEdit f) = ApplianceEdit_post f"
| "handle_appliance_db ApplianceChangeUser = ApplianceChangeUser_post"
| "handle_appliance_db (CatalogAdd f) = CatalogAdd_post f"
| "handle_appliance_db (CatalogEdit f) = CatalogEdit_post f"
| "handle_appliance_db CatalogDelete = CatalogDelete_get"
| "handle_appliance_db (tuneCatalogPosition ID) = tuneCatalogPosition_get ID"
| "handle_appliance_db (ScreenshotAdd up) = ScreenshotAdd_post up"
| "handle_appliance_db ScreenshotDelete = ScreenshotDelete_get"
| "handle_appliance_db _ = (\<lambda>c s. (Raise (HTTPError 404), s))"

fun handle_appliance :: "appliance_request \<Rightarrow> ctx \<Rightarrow> db session \<times> string list \<Rightarrow> resp \<times> db session \<times> string list" where
  "handle_appliance (Upload e) c sf = Upload_post e c sf"
| "handle_appliance (ApplianceDelete ok ID) c sf = Appliance_Delete_get ok ID c sf"
| "handle_appliance q c sf = (case handle_appliance_db q c (fst sf) of (r, s) \<Rightarrow> (r, s, snd sf))"

end
