(* ===== verification/Appliance_Inv.thy ===== *)
theory Appliance_Inv
  imports Admin_Inv Appliance
begin

text \<open>
  What the appliance handlers keep: an interface of their elementary changes, interpreted for the
  consistency of tables and files, for the invariant of the pools and for the data of the instances;
  who may change an appliance.
\<close>

section \<open>The interface\<close>

definition keys_in :: "'a table \<Rightarrow> int set" where
  "keys_in t = fst ` set (rows t)"

lemma keys_in_simps [simp]:
  "keys_in (t_upd k f t) = keys_in t" "keys_in (t_upd_where P f t) = keys_in t" "keys_in (t_add v t) = insert (t_newid t) (keys_in t)"
  "keys_in (t_del k t) = keys_in t - {k}"
  by (force simp: keys_in_def t_upd_def t_upd_where_def t_newid_def t_del_def t_del_where_def image_iff)+

lemma t_get_keys: "t_get t k = Some v \<Longrightarrow> k \<in> keys_in t"
  by (auto simp: keys_in_def dest: t_get_in intro: rev_image_eqI)

definition keeps_refs :: "db \<Rightarrow> (appliance \<Rightarrow> appliance) \<Rightarrow> bool" where
  "keeps_refs d f \<longleftrightarrow> (\<forall>A. a_checksum (f A) = a_checksum A \<and>
     (a_catalog_id (f A) = a_catalog_id A \<or> a_catalog_id (f A) \<in> Some ` keys_in (catalogs d)))"

locale appliance_keeper =
  fixes Q :: "db \<Rightarrow> bool"
  assumes app_upd: "Q d \<Longrightarrow> keeps_refs d f \<Longrightarrow> Q (upd_appliance ID f d)"
    and catalog_add: "Q d \<Longrightarrow> Q (catalogs_update (t_add C) d)"
    and catalog_upd: "Q d \<Longrightarrow> Q (catalogs_update (t_upd k g) d)"
    and catalog_del: "Q d \<Longrightarrow> t_select (\<lambda>_ A. a_catalog_id A = Some k) (appliances d) = [] \<Longrightarrow> Q (catalogs_update (t_del k) d)"
    and shot_add: "Q d \<Longrightarrow> sc_appliance_id S \<in> Some ` keys_in (appliances d) \<Longrightarrow> Q (screenshots_update (t_add S) d)"
    and shot_del: "Q d \<Longrightarrow> Q (screenshots_update (t_del k) d)"
    and trace_add: "Q d \<Longrightarrow> Q (traces_update (t_add T) d)"
begin

lemma keep_app: "sess Q s \<Longrightarrow> keeps_refs (work s) f \<Longrightarrow> sess Q (modify (upd_appliance ID f) s)"
  by (auto intro!: sess_modify app_upd dest: sess_work)

lemma keep_tables [intro!]:
  "sess Q s \<Longrightarrow> sess Q (modify (catalogs_update (t_add C)) s)" "sess Q s \<Longrightarrow> sess Q (modify (catalogs_update (t_upd k g)) s)"
  "sess Q s \<Longrightarrow> sess Q (modify (screenshots_update (t_del k)) s)" "sess Q s \<Longrightarrow> sess Q (add_trace who ty tid m s)"
  by (auto simp: add_trace_def intro!: sess_modify catalog_add catalog_upd shot_del trace_add intro: sess_work)

lemma keep_set_flag:
  "sess Q s \<Longrightarrow> (\<And>b d. keeps_refs d (f b)) \<Longrightarrow> sess Q (snd (set_flag f ID c s))"
  by (auto simp: set_flag_def intro!: with_login_keep keep_app split: option.split)

lemma set_attr_refs: "set_attr attr value = Inr f \<Longrightarrow> keeps_refs d f"
  by (auto simp: set_attr_def keeps_refs_def split: if_splits)

lemma keep_attr_loop: "sess Q s \<Longrightarrow> sess Q (snd (appliance_attr_loop u attr value ids s))"
proof (induction ids arbitrary: s)
  case (Cons ID ids)
  have "sess Q (modify (upd_appliance ID f) s)" if "set_attr attr value = Inr f" for f
    using Cons.prems that by (intro keep_app set_attr_refs)
  then show ?case using Cons by (auto split: option.split sum.split)
qed simp

lemma keep_AttrSet: "sess Q s \<Longrightarrow> sess Q (snd (Appliance_AttrSet_post c s))"
  unfolding Appliance_AttrSet_post_def Let_def
  using keep_attr_loop [of s]
  by (auto intro!: with_login_keep split: option.split prod.split sum.split) (metis snd_conv)+

lemma save_baseinfo_refs: "ApplianceForm_validate d f \<Longrightarrow> keeps_refs d (save_baseinfo f)"
  by (auto simp: ApplianceForm_validate_def choice_ok_def py_int_show_int keeps_refs_def save_baseinfo_def keys_in_def image_image
      intro: rev_image_eqI)

lemma with_admin_row_keep:
  "(\<And>u k x. c_user c = Some u \<Longrightarrow> t_get (t (work s)) k = Some x \<Longrightarrow> sess R (snd (h k x c s))) \<Longrightarrow> sess R s \<Longrightarrow>
   sess R (snd (with_admin_row t m1 m2 h c s))"
  by (auto simp: with_admin_row_def intro!: with_permission_keep split: option.split)

lemma keep_add_screenshots:
  "sess Q s \<Longrightarrow> ID \<in> keys_in (appliances (work s)) \<Longrightarrow> sess Q (snd (add_screenshots ID fs s))"
proof (induction fs arbitrary: s)
  case (Cons f fs)
  let ?S = "\<lparr>sc_appliance_id = Some ID, sc_filename = fo_name f, sc_size = fo_size f, sc_checksum = fo_checksum f\<rparr>"
  have "sess Q (commit (modify (screenshots_update (t_add ?S)) s))"
    using Cons.prems by (auto intro!: sess_modify shot_add dest: sess_work)
  then show ?case using Cons by simp
qed simp

lemma get_appliance_key: "get_appliance u c d = Inr (ID, A) \<Longrightarrow> ID \<in> keys_in (appliances d)"
  by (auto simp: get_appliance_def intro: t_get_keys split: option.splits if_splits)

lemma keep_ScreenshotAdd: "sess Q s \<Longrightarrow> sess Q (snd (ScreenshotAdd_post up c s))"
  unfolding ScreenshotAdd_post_def
  using keep_add_screenshots [of s]
  by (auto intro!: with_login_keep split: sum.split uploaded.split prod.split bool.split dest!: get_appliance_key) (metis snd_conv)+

lemma keep_handle_appliance_db: "sess Q s \<Longrightarrow> sess Q (snd (handle_appliance_db q c s))"
proof (cases q)
  case CatalogDelete
  then show "sess Q s \<Longrightarrow> ?thesis"
    by (auto simp: CatalogDelete_get_def intro!: with_admin_row_keep sess_modify catalog_del dest: sess_work)
next
  case ApplianceChangeUser
  then show "sess Q s \<Longrightarrow> ?thesis"
    by (auto simp: ApplianceChangeUser_post_def Let_def keeps_refs_def intro!: with_admin_row_keep keep_app split: option.split)
qed (auto simp: SetUseable_get_def SetPrivate_get_def islockedToggle_get_def isuseableToggle_get_def keep_AttrSet keep_ScreenshotAdd
    Appliance_BaseinfoEdit_post_def ApplianceEdit_post_def CatalogAdd_post_def CatalogEdit_post_def tuneCatalogPosition_get_def
    ScreenshotDelete_get_def Let_def keeps_refs_def
    intro!: keep_set_flag with_login_keep with_permission_keep with_admin_row_keep on_value_keep keep_app save_baseinfo_refs
    split: option.split sum.split)

end

section \<open>Tables and files\<close>

text \<open>
  Checksums name appliances; the file of each appliance is there; instances, appliances and screenshots
  refer to existing appliances and catalogues.
\<close>

definition store_ok :: "string list \<Rightarrow> db \<Rightarrow> bool" where
  "store_ok files d \<longleftrightarrow> t_ok (appliances d) \<and> t_ok (catalogs d) \<and>
     distinct (map (a_checksum \<circ> snd) (rows (appliances d))) \<and>
     (\<forall>(_, A) \<in> set (rows (appliances d)). a_checksum A \<in> set files \<and> a_catalog_id A \<in> insert None (Some ` keys_in (catalogs d))) \<and>
     (\<forall>(_, I) \<in> set (rows (instances d)). i_appliance_id I \<in> keys_in (appliances d)) \<and>
     (\<forall>(_, S) \<in> set (rows (screenshots d)). sc_appliance_id S \<in> insert None (Some ` keys_in (appliances d)))"

lemma rows_upd: "rows (t_upd k f t) = map (\<lambda>(a, b). (a, if a = k then f b else b)) (rows t)"
  by (simp add: t_upd_def t_upd_where_def)

lemma store_upd: "store_ok files d \<Longrightarrow> keeps_refs d f \<Longrightarrow> store_ok files (upd_appliance ID f d)"
proof -
  assume s: "store_ok files d" and f: "keeps_refs d f"
  have "map (a_checksum \<circ> snd) (rows (t_upd ID f (appliances d))) = map (a_checksum \<circ> snd) (rows (appliances d))"
    using f by (auto simp: rows_upd keeps_refs_def)
  moreover have "a_checksum B \<in> set files \<and> a_catalog_id B \<in> insert None (Some ` keys_in (catalogs d))"
    if row: "(k, B) \<in> set (rows (t_upd ID f (appliances d)))" for k B
  proof -
    obtain A where "(k, A) \<in> set (rows (appliances d))" "B = (if k = ID then f A else A)"
      using row unfolding rows_upd by force
    then show ?thesis using s f unfolding store_ok_def keeps_refs_def by (smt (verit) case_prodD insert_iff)
  qed
  ultimately show ?thesis using s by (auto simp: store_ok_def upd_appliance_def)
qed

interpretation store: appliance_keeper "store_ok files" for files
proof unfold_locales
  show "store_ok files d \<Longrightarrow> t_select (\<lambda>_ A. a_catalog_id A = Some k) (appliances d) = [] \<Longrightarrow> store_ok files (catalogs_update (t_del k) d)" for d k
    by (fastforce simp: store_ok_def t_select_def filter_empty_conv)
qed (auto simp: store_upd, auto simp: store_ok_def t_ok_add t_del_def t_del_where_def)

lemma store_more: "store_ok files d \<Longrightarrow> set files \<subseteq> set files' \<Longrightarrow> store_ok files' d"
  by (auto simp: store_ok_def)

lemma store_add:
  assumes "store_ok files d" "t_first (\<lambda>_ A. a_checksum A = h) (appliances d) = None" "set files \<subseteq> set files'" "h \<in> set files'"
  shows "store_ok files' (appliances_update (t_add (new_appliance name u sz h)) d)"
  using assms by (auto simp: store_ok_def t_ok_add t_first_None new_appliance_def)

lemma rows_del: "rows (t_del k t) = filter (\<lambda>(a, _). a \<noteq> k) (rows t)"
  by (auto simp: t_del_def t_del_where_def intro!: filter_cong)

lemma store_delete:
  assumes s: "store_ok files d" and A: "t_get (appliances d) ID = Some A"
    and none: "t_select (\<lambda>_ I. i_appliance_id I = ID) (instances d) = []"
  shows "store_ok (filter (\<lambda>x. x \<noteq> a_checksum A) files) (delete_appliance ID d)"
proof -
  have other: "a_checksum B \<noteq> a_checksum A" if "(k, B) \<in> set (rows (appliances d))" "k \<noteq> ID" for k B
    using that s t_get_in [OF A] by (fastforce simp: store_ok_def distinct_map inj_on_def)
  have d': "appliances (delete_appliance ID d) = t_del ID (appliances d)" "catalogs (delete_appliance ID d) = catalogs d"
    "instances (delete_appliance ID d) = instances d"
    "rows (screenshots (delete_appliance ID d)) =
       map (\<lambda>(k, S). (k, if sc_appliance_id S = Some ID then sc_appliance_id_update (\<lambda>_. None) S else S)) (rows (screenshots d))"
    by (simp_all add: delete_appliance_def t_upd_where_def)
  have "i_appliance_id I \<in> keys_in (appliances d) - {ID}" if "(k, I) \<in> set (rows (instances d))" for k I
    using that s none by (auto simp: store_ok_def t_select_def filter_empty_conv)
  moreover have "sc_appliance_id S' \<in> insert None (Some ` (keys_in (appliances d) - {ID}))"
    if "(k, S') \<in> set (rows (screenshots (delete_appliance ID d)))" for k S'
    using that s unfolding d' store_ok_def by (auto split: if_splits)
  moreover have "a_checksum B \<in> set (filter (\<lambda>x. x \<noteq> a_checksum A) files) \<and> a_catalog_id B \<in> insert None (Some ` keys_in (catalogs d))"
    if "(k, B) \<in> set (rows (t_del ID (appliances d)))" for k B
    using that s other by (auto simp: store_ok_def rows_del)
  ultimately show ?thesis
    using s unfolding store_ok_def d'(1-3) by (auto simp: rows_del distinct_map_filter)
qed

lemma save_upfile_files:
  "save_upfile e fpath h files = (m, files') \<Longrightarrow> set files \<subseteq> set files' \<and> (m = None \<longrightarrow> h \<in> set files')"
  by (auto simp: save_upfile_def split: link_result.splits if_splits)

text \<open>
  C10. Tables and files of the appliances agree: whatever request is made, checksums stay unique, every
  appliance keeps its file, no instance, appliance or screenshot refers to something that is gone.
\<close>

theorem appliance_store_safe:
  assumes "store_ok files d"
  shows "let (r, s', files') = handle_appliance q c (open_session d, files) in store_ok files' (on_finish s')"
proof (cases "\<exists>e. q = Upload e \<or> (\<exists>ok ID. q = ApplianceDelete ok ID)")
  case False
  then have "handle_appliance q c (open_session d, files) = (case handle_appliance_db q c (open_session d) of (r, s) \<Rightarrow> (r, s, files))"
    by (cases q) auto
  then show ?thesis using store.keep_handle_appliance_db [of files "open_session d" q c] assms
    by (auto simp: sess_def split: prod.split)
next
  case True
  then consider (up) e where "q = Upload e" | (del) ok ID where "q = ApplianceDelete ok ID" by blast
  then show ?thesis
  proof cases
    case up
    then show ?thesis using assms
      by (auto simp: Upload_post_def Let_def split: option.split prod.split dest!: save_upfile_files intro: store_more store_add)
  next
    case del
    then show ?thesis using assms
      by (auto simp: Appliance_Delete_get_def Let_def split: option.split intro: store_delete)
  qed
qed

section \<open>Instances\<close>

interpretation app_pools: appliance_keeper cloud_inv
  by unfold_locales (erule cloud_inv_cong [THEN iffD2, rotated -1]; simp add: upd_appliance_def)+

lemma appliance_cloud_inv:
  assumes "cloud_inv d"
  shows "cloud_inv (on_finish (fst (snd (handle_appliance q c (open_session d, files)))))"
proof (cases "\<exists>e. q = Upload e \<or> (\<exists>ok ID. q = ApplianceDelete ok ID)")
  case False
  then have "handle_appliance q c (open_session d, files) = (case handle_appliance_db q c (open_session d) of (r, s) \<Rightarrow> (r, s, files))"
    by (cases q) auto
  then show ?thesis using app_pools.keep_handle_appliance_db [of "open_session d" q c] assms
    by (auto simp: sess_def split: prod.split)
next
  case True
  have inv: "cloud_inv (appliances_update f d)" "cloud_inv (delete_appliance ID d)" for f ID
    using assms by (simp_all add: cloud_inv_defs delete_appliance_def)
  show ?thesis using True assms inv
    by (auto simp: Upload_post_def Appliance_Delete_get_def Let_def split: option.split prod.split)
qed

section \<open>Who may change an appliance\<close>

lemma add_screenshots_appliances:
  "sess (\<lambda>d. appliances d = t) s \<Longrightarrow> sess (\<lambda>d. appliances d = t) (snd (add_screenshots ID fs s))"
  by (induction ID fs s rule: add_screenshots.induct) (auto simp: sess_def)

lemma not_admin_refused:
  "\<forall>u. c_user c = Some u \<longrightarrow> \<not> isadmin (work s) u \<Longrightarrow> snd (with_permission ''admin'' h c s) = s"
  by (auto simp: with_permission_def require_permission_def isadmin_def split: option.split)

text \<open>
  C11. A user who is no administrator does not change the appliances of others: name, owner, file, flags
  and catalogue of a foreign appliance survive every request, except for the two handlers that ask
  the wrong function for the permission.
\<close>

theorem appliance_owner_only:
  assumes "\<forall>u. c_user c = Some u \<longrightarrow> \<not> isadmin d u \<and> u \<noteq> a_user_id A" "t_ok (appliances d)" "t_get (appliances d) k = Some A"
    "q \<noteq> ApplianceAttrSet" "\<forall>ID. q \<noteq> isuseableToggle ID"
  shows "t_get (appliances (on_finish (fst (snd (handle_appliance q c (open_session d, files)))))) k = Some A"
proof -
  let ?s = "open_session d" and ?R = "\<lambda>d. t_get (appliances d) k = Some A"
  have R: "sess ?R ?s" using assms(3) by simp
  have adm: "snd (with_permission ''admin'' h c ?s) = ?s" for h using assms(1) by (intro not_admin_refused) simp
  have new: "t_newid (appliances d) \<noteq> k" using t_get_newid [OF assms(2)] assms(3) by auto
  have flag: "sess ?R (snd (set_flag f ID c ?s))" for f ID
    using assms(1,3) R by (auto simp: set_flag_def may_manage_def upd_appliance_def t_get_upd sess_def with_login_def split: option.split)
  have shot: "sess ?R (snd (ScreenshotAdd_post up c ?s))" for up
  proof -
    have "sess ?R (snd (add_screenshots ID fs ?s))" for ID fs
      using add_screenshots_appliances [of "appliances d" ?s ID fs] assms(3) by (simp add: sess_def)
    then show ?thesis using R
      by (auto simp: ScreenshotAdd_post_def intro!: with_login_keep split: sum.split uploaded.split prod.split bool.split) (metis snd_conv)+
  qed
  have db: "sess ?R (snd (handle_appliance_db q c ?s))"
  proof (cases q)
    case (ApplianceBaseinfoEdit f)
    then show ?thesis using assms(1,3) R
      by (auto simp: Appliance_BaseinfoEdit_post_def ApplianceHandler_initialize_def Let_def upd_appliance_def t_get_upd sess_def
          on_value_def with_login_def split: option.split)
  next
    case ScreenshotDelete
    then show ?thesis using R by (auto simp: ScreenshotDelete_get_def sess_def with_login_def on_value_def split: sum.split option.split)
  qed (use R assms(4,5) in \<open>auto simp: flag shot SetUseable_get_def SetPrivate_get_def islockedToggle_get_def ApplianceEdit_post_def
      ApplianceChangeUser_post_def CatalogAdd_post_def CatalogEdit_post_def CatalogDelete_get_def tuneCatalogPosition_get_def
      with_admin_row_def adm\<close>)
  show ?thesis
  proof (cases q)
    case (Upload e)
    then show ?thesis using assms(3) new
      by (auto simp: Upload_post_def Let_def t_get_add [OF assms(2)] split: option.split prod.split)
  next
    case (ApplianceDelete ok ID)
    then show ?thesis using assms(1,3)
      by (auto simp: Appliance_Delete_get_def delete_appliance_def may_manage_def t_get_del [OF assms(2)] split: option.split)
  qed (use db in \<open>auto simp: sess_def split: prod.split\<close>)
qed

lemma attr_loop_all:
  assumes "set_attr attr v = Inr f" "\<And>A. f (f A) = f A"
  shows "\<exists>codes s'. appliance_attr_loop u attr v ids s = (Inr codes, s') \<and>
    (\<forall>k. t_get (appliances (work s')) k =
      (if k \<in> set ids then map_option f (t_get (appliances (work s)) k) else t_get (appliances (work s)) k))"
proof (induction ids arbitrary: s)
  case (Cons ID ids)
  from Cons [of s] Cons [of "modify (upd_appliance ID f) s"] show ?case
    using assms by (auto simp: upd_appliance_def t_get_upd option.map_comp comp_def split: option.split)
qed simp

text \<open>
  C38. Any user who is logged in makes all appliances of a list public, whoever owns them: the check of
  the permission in \<open>AttrSet\<close> never refuses.
\<close>

theorem attr_set_unprotected:
  assumes "c_user c = Some u" "get_argument c ''id'' = Some ids" "ids \<noteq> []"
    "get_argument c ''attr'' = Some ''isprivate''" "get_argument c ''value'' = Some ''false''"
    "t_get (appliances d) k = Some A" "k \<in> set (map (\<lambda>x. the (get_int x (Some 0))) (split_on CHR '','' ids))"
  shows "t_get (appliances (on_finish (snd (Appliance_AttrSet_post c (open_session d))))) k = Some (A\<lparr>a_isprivate := False\<rparr>)"
proof -
  have low: "strip (map lower_char ''false'') = ''false''" by code_simp
  obtain codes s' where l: "appliance_attr_loop u ''isprivate'' ''false'' (map (\<lambda>x. the (get_int x (Some 0))) (split_on CHR '','' ids)) (open_session d) = (Inr codes, s')"
    "t_get (appliances (work s')) k = Some (A\<lparr>a_isprivate := False\<rparr>)"
    using attr_loop_all [of "''isprivate''" "''false''" "a_isprivate_update (\<lambda>_. False)" u
        "map (\<lambda>x. the (get_int x (Some 0))) (split_on CHR '','' ids)" "open_session d"] assms(6,7)
    by (auto simp: set_attr_def)
  then show ?thesis
    unfolding Appliance_AttrSet_post_def with_login_def assms option.case Let_def low by (simp add: assms(3))
qed

section \<open>An example\<close>

text \<open>The appliance of user 1, with a screenshot; users 2 and 4 are ordinary users.\<close>

definition wiki_ex :: appliance where
  "wiki_ex = new_appliance ''wiki'' 1 700 ''c0ffee''"

definition appliance_db_ex :: db where
  "appliance_db_ex = message_db_ex\<lparr>
     appliances := \<lparr>rows = [(1, wiki_ex)], seq = 1\<rparr>,
     catalogs := \<lparr>rows = [(1, \<lparr>ac_name = ''tools'', ac_summary = ''Tools'', ac_description = [], ac_position = 0\<rparr>)], seq = 1\<rparr>,
     screenshots := \<lparr>rows = [(1, \<lparr>sc_appliance_id = Some 1, sc_filename = ''a.png'', sc_size = 10, sc_checksum = ''d1''\<rparr>)], seq = 1\<rparr>\<rparr>"

lemma appliance_db_ex_ok: "store_ok [''c0ffee''] appliance_db_ex"
  by (simp add: store_ok_def appliance_db_ex_def message_db_ex_def db_ex_def db_empty_def wiki_ex_def new_appliance_def keys_in_def t_ok_def)

theorem appliance_store_safe_witness:
  "let (r, s', files') = handle_appliance (ApplianceDelete True 1) (ctx_ex 1 []) (open_session appliance_db_ex, [''c0ffee''])
   in store_ok files' (on_finish s')"
  by (rule appliance_store_safe [OF appliance_db_ex_ok])

theorem appliance_owner_only_witness:
  "t_get (appliances (on_finish (fst (snd (handle_appliance (ApplianceDelete True 1) (ctx_ex 2 []) (open_session appliance_db_ex, [''c0ffee'']))))) ) 1 =
     Some wiki_ex"
proof (rule appliance_owner_only)
  have "\<not> isadmin appliance_db_ex 2 \<and> 2 \<noteq> a_user_id wiki_ex" by code_simp
  then show "\<forall>u. c_user (ctx_ex 2 []) = Some u \<longrightarrow> \<not> isadmin appliance_db_ex u \<and> u \<noteq> a_user_id wiki_ex" by (simp add: ctx_ex_def)
  show "t_ok (appliances appliance_db_ex)" by code_simp
  show "t_get (appliances appliance_db_ex) 1 = Some wiki_ex" by code_simp
qed simp_all

theorem attr_set_unprotected_witness:
  "t_get (appliances (on_finish (snd (Appliance_AttrSet_post (ctx_ex 2 [(''id'', ''7,1''), (''attr'', ''isprivate''), (''value'', ''false'')])
     (open_session appliance_db_ex))))) 1 = Some (wiki_ex\<lparr>a_isprivate := False\<rparr>)"
proof (rule attr_set_unprotected)
  show "c_user (ctx_ex 2 [(''id'', ''7,1''), (''attr'', ''isprivate''), (''value'', ''false'')]) = Some 2" by code_simp
  show "get_argument (ctx_ex 2 [(''id'', ''7,1''), (''attr'', ''isprivate''), (''value'', ''false'')]) ''id'' = Some ''7,1''" by code_simp
  show "get_argument (ctx_ex 2 [(''id'', ''7,1''), (''attr'', ''isprivate''), (''value'', ''false'')]) ''attr'' = Some ''isprivate''" by code_simp
  show "get_argument (ctx_ex 2 [(''id'', ''7,1''), (''attr'', ''isprivate''), (''value'', ''false'')]) ''value'' = Some ''false''" by code_simp
  show "t_get (appliances appliance_db_ex) 1 = Some wiki_ex" by code_simp
  show "1 \<in> set (map (\<lambda>x. the (get_int x (Some 0))) (split_on CHR '','' ''7,1''))" by code_simp
qed simp

text \<open>The owner may not delete the screenshot, a stranger may.\<close>

lemma screenshot_owner_refused:
  "map (\<lambda>u. length (rows (screenshots (on_finish (snd (ScreenshotDelete_get (ctx_ex u [(''screenshot_id'', ''1'')])
      (open_session (appliance_db_ex\<lparr>appliances := \<lparr>rows = [(1, wiki_ex\<lparr>a_user_id := 2\<rparr>)], seq = 1\<rparr>\<rparr>)))))))) [2, 4] = [1, 0]"
  by code_simp

end
