(* ===== verification/System.thy ===== *)
theory System
  imports Appliance_Inv
begin

text \<open>
  The service as a whole: a request names a handler of the URL tables
  (\<^verbatim>\<open>myun/urls.py\<close>, \<^verbatim>\<open>instance/urls.py\<close>, \<^verbatim>\<open>network/urls.py\<close>) with the data its form
  carries; serving it opens a session, runs the handler and drops what was not committed. The
  service runs requests one after the other, and the control server (\<^verbatim>\<open>platform/src/clc\<close>, not
  modelled) may change jobs and the state of instances between them.
\<close>

section \<open>Requests\<close>

text \<open>The requests of ordinary users for their instances.\<close>

datatype user_request =
    GlobalPasswordEdit string string string
  | BaseinfoEdit baseinfo_form
  | ResourceEdit resource_form
  | StorageAdd storage_form
  | StorageEdit storage_form
  | StorageDelete
  | NetworkAdd string
  | MyNetworkDelete
  | InstancePasswordEdit string password_form
  | InstancePublicKeyEdit string
  | DomainAdd string
  | DomainEdit string
  | DomainDelete
  | InstanceCreate string create_form
  | PortMappingAdd port_form
  | PortMappingDelete

text \<open>Requests of \<^verbatim>\<open>instance/urls.py\<close>, which administrators may make for any instance.\<close>

datatype instance_request = LifeControl | AttrSet | InstanceDelete

datatype admin_request = NetworkConfig network_form | NetworkDelete | GatewayConfig gateway_form

datatype request = UserReq user_request | InstanceReq instance_request | AdminReq admin_request

text \<open>What lies outside: address library, packet filter, control server.\<close>

record world =
  w_ipy :: ipy
  w_fw :: fw_env
  w_life :: life_env

type_synonym state = "db session \<times> chain"

definition on_db :: "(ctx \<Rightarrow> db session \<Rightarrow> resp \<times> db session) \<Rightarrow> ctx \<Rightarrow> state \<Rightarrow> resp \<times> state" where
  "on_db h c sc = (case h c (fst sc) of (r, s) \<Rightarrow> (r, s, snd sc))"

fun handle_user :: "world \<Rightarrow> user_request \<Rightarrow> ctx \<Rightarrow> state \<Rightarrow> resp \<times> state" where
  "handle_user w (GlobalPasswordEdit h pw cf) = on_db (GlobalPasswordEdit_post h pw cf)"
| "handle_user w (BaseinfoEdit f) = on_db (BaseinfoEdit_post f)"
| "handle_user w (ResourceEdit f) = on_db (ResourceEdit_post f)"
| "handle_user w (StorageAdd f) = on_db (StorageAdd_post f)"
| "handle_user w (StorageEdit f) = on_db (StorageEdit_post f)"
| "handle_user w StorageDelete = on_db StorageDelete_get"
| "handle_user w (NetworkAdd pool) = on_db (NetworkAdd_post pool)"
| "handle_user w MyNetworkDelete = on_db MyNetworkDelete_get"
| "handle_user w (InstancePasswordEdit h f) = on_db (InstancePasswordEdit_post h f)"
| "handle_user w (InstancePublicKeyEdit key) = on_db (InstancePublicKeyEdit_post key)"
| "handle_user w (DomainAdd name) = on_db (DomainAdd_post name)"
| "handle_user w (DomainEdit name) = on_db (DomainEdit_post name)"
| "handle_user w DomainDelete = on_db DomainDelete_get"
| "handle_user w (InstanceCreate cookie f) = on_db (InstanceCreate_post cookie f)"
| "handle_user w (PortMappingAdd f) = PortMappingAdd_post (w_fw w) f"
| "handle_user w PortMappingDelete = PortMappingDelete_get (w_fw w)"

fun handle_instance :: "world \<Rightarrow> instance_request \<Rightarrow> ctx \<Rightarrow> db session \<Rightarrow> resp \<times> db session" where
  "handle_instance w LifeControl c s = (case LifeControl_post (w_life w) c s of ((r, _), s') \<Rightarrow> (r, s'))"
| "handle_instance w AttrSet c s = (case AttrSet_post c s of ((r, _), s') \<Rightarrow> (r, s'))"
| "handle_instance w InstanceDelete c s = InstanceDelete_post (w_life w) c s"

fun handle_admin :: "world \<Rightarrow> admin_request \<Rightarrow> ctx \<Rightarrow> db session \<Rightarrow> resp \<times> db session" where
  "handle_admin w (NetworkConfig f) = NetworkConfig_post (w_ipy w) f"
| "handle_admin w NetworkDelete = NetworkDelete_get"
| "handle_admin w (GatewayConfig f) = GatewayConfig_post (w_ipy w) f"

fun handle :: "world \<Rightarrow> request \<Rightarrow> ctx \<Rightarrow> state \<Rightarrow> resp \<times> state" where
  "handle w (UserReq q) = handle_user w q"
| "handle w (InstanceReq q) = on_db (handle_instance w q)"
| "handle w (AdminReq q) = on_db (handle_admin w q)"

section \<open>Serving\<close>

record cloud =
  cl_db :: db
  cl_chain :: chain

definition serve :: "world \<Rightarrow> request \<Rightarrow> ctx \<Rightarrow> cloud \<Rightarrow> resp \<times> cloud" where
  "serve w q c x =
     (case handle w q c (open_session (cl_db x), cl_chain x) of
        (r, s, ch) \<Rightarrow> (r, \<lparr>cl_db = on_finish s, cl_chain = ch\<rparr>))"

text \<open>Requests that only concern the database: accounts, administration, messages.\<close>

definition serve_db :: "(ctx \<Rightarrow> db session \<Rightarrow> resp \<times> db session) \<Rightarrow> ctx \<Rightarrow> cloud \<Rightarrow> resp \<times> cloud" where
  "serve_db h c x = (case h c (open_session (cl_db x)) of (r, s) \<Rightarrow> (r, x\<lparr>cl_db := on_finish s\<rparr>))"

text \<open>
  The control server removes the row of an instance that is marked as deleted, once its node has destroyed
  it. A row that an address, a storage or a domain refers to is kept by the database: the foreign key
  makes the statement fail.
\<close>

definition instance_referred :: "int \<Rightarrow> db \<Rightarrow> bool" where
  "instance_referred iid d \<longleftrightarrow>
     list_ex (\<lambda>(_, r). ip_instance_id r = Some iid) (rows (ippools d)) \<or>
     list_ex (\<lambda>(_, r). st_instance_id r = iid) (rows (storages d)) \<or>
     list_ex (\<lambda>(_, r). ud_instance_id r = iid) (rows (user_domains d))"

definition db_instance_delete :: "int \<Rightarrow> db \<Rightarrow> db" where
  "db_instance_delete iid d =
     (if instance_referred iid d then d
      else instances_update (t_del_where (\<lambda>k I. k = iid \<and> i_status I = INSTANCE_DELETED_STATUS)) d)"

text \<open>
  The steps of the service. Between requests the control server reports the state of an instance
  (not its owner), removes a deleted one, or reports the progress of jobs.
\<close>

inductive cloud_step :: "world \<Rightarrow> cloud \<Rightarrow> cloud \<Rightarrow> bool" for w where
  request: "serve w q c x = (r, y) \<Longrightarrow> cloud_step w x y"
| account: "serve_db (handle_account e qa) c x = (r, y) \<Longrightarrow> cloud_step w x y"
| manage: "serve_db (handle_manage e qm) c x = (r, y) \<Longrightarrow> cloud_step w x y"
| message: "serve_db (handle_message qt) c x = (r, y) \<Longrightarrow> cloud_step w x y"
| appliance: "handle_appliance qp c (open_session (cl_db x), files) = (r, s, files') \<Longrightarrow> cloud_step w x (x\<lparr>cl_db := on_finish s\<rparr>)"
| report: "cloud_step w x (x\<lparr>cl_db := upd_instance iid (\<lambda>I. I\<lparr>i_status := st, i_ip := addr, i_node_id := nd\<rparr>) (cl_db x)\<rparr>)"
| destroy: "cloud_step w x (x\<lparr>cl_db := db_instance_delete iid (cl_db x)\<rparr>)"
| progress: "cloud_step w x (x\<lparr>cl_db := jobs_update (t_upd jid (\<lambda>j. j\<lparr>j_status := st\<rparr>)) (cl_db x)\<rparr>)"

inductive cloud_reach :: "world \<Rightarrow> cloud \<Rightarrow> cloud \<Rightarrow> bool" for w x where
  start: "cloud_reach w x x"
| more: "cloud_reach w x y \<Longrightarrow> cloud_step w y z \<Longrightarrow> cloud_reach w x z"

inductive_cases cloud_stepE: "cloud_step w x y"

section \<open>Requests of users\<close>

text \<open>Every handler of an ordinary user keeps what the interface's changes keep.\<close>

lemma keep_on_db:
  "(\<And>s. sess Q s \<Longrightarrow> sess Q (snd (h c s))) \<Longrightarrow> sess Q (fst sc) \<Longrightarrow> sess Q (fst (snd (on_db h c sc)))"
  by (simp add: on_db_def split: prod.split) (metis snd_conv)

context user_keeper
begin

lemmas keep_handlers =
  keep_GlobalPasswordEdit keep_BaseinfoEdit keep_ResourceEdit keep_StorageAdd keep_StorageEdit
  keep_StorageDelete keep_NetworkAdd keep_MyNetworkDelete keep_InstancePasswordEdit
  keep_InstancePublicKeyEdit keep_DomainAdd keep_DomainEdit keep_DomainDelete keep_InstanceCreate

lemma keep_handle_user:
  assumes "c_user c = Some u" "sess Q (fst sc)"
  shows "sess Q (fst (snd (handle_user w q c sc)))"
proof (cases q)
  case (PortMappingAdd f)
  then show ?thesis using keep_PortMappingAdd [OF assms, of "w_fw w" f "snd sc"] by simp
next
  case PortMappingDelete
  then show ?thesis using keep_PortMappingDelete [OF assms, of "w_fw w" "snd sc"] by simp
qed (use assms in \<open>auto intro!: keep_on_db keep_handlers\<close>)

end

section \<open>Anonymous requests\<close>

lemma anonymous_user: "c_user c = None \<Longrightarrow> snd (handle_user w q c sc) = sc"
  by (cases q; cases sc)
    (auto simp: on_db_def with_login_def with_permission_def require_permission_def with_myinstance_def with_storage_def
      with_ip_def with_domain_def StorageAdd_prepare_def NetworkAdd_prepare_def DomainAdd_prepare_def
      GlobalPasswordEdit_post_def BaseinfoEdit_post_def ResourceEdit_post_def StorageAdd_post_def StorageEdit_post_def
      StorageDelete_get_def NetworkAdd_post_def MyNetworkDelete_get_def InstancePasswordEdit_post_def
      InstancePublicKeyEdit_post_def DomainAdd_post_def DomainEdit_post_def DomainDelete_get_def InstanceCreate_post_def
      PortMappingAdd_post_def PortMappingAdd_prepare_def PortMappingDelete_get_def on_value_def
      split: sum.split)

lemma anonymous_instance: "c_user c = None \<Longrightarrow> snd (handle_instance w q c s) = s"
  by (cases q) (auto simp: LifeControl_post_def AttrSet_post_def InstanceDelete_post_def with_login_def)

lemma anonymous_admin: "c_user c = None \<Longrightarrow> snd (handle_admin w q c s) = s"
  by (cases q) (auto simp: NetworkConfig_post_def NetworkDelete_get_def GatewayConfig_post_def with_permission_def require_permission_def)

lemma anonymous_handle: "c_user c = None \<Longrightarrow> snd (handle w q c sc) = sc"
  by (cases q; cases sc) (auto simp: anonymous_user on_db_def anonymous_instance anonymous_admin split: prod.split
      dest: arg_cong [where f = snd])

section \<open>The invariant of the pools\<close>

lemma inv_work: "sess cloud_inv s \<Longrightarrow> cloud_inv (work s)"
  by (rule sess_work)

lemma inv_add_to_portmapping: "add_to_portmapping gid G s = Inr s' \<Longrightarrow> sess cloud_inv s \<Longrightarrow> sess cloud_inv s'"
  by (auto simp: add_to_portmapping_def intro!: sess_modify inv_add_ports intro: inv_work split: sum.splits)

lemma inv_GatewayConfig_save: "GatewayConfig_save gw G s = Inr (gid, s') \<Longrightarrow> sess cloud_inv s \<Longrightarrow> sess cloud_inv s'"
  by (auto simp: GatewayConfig_save_def Let_def inv_work intro!: sess_modify intro: inv_work split: option.splits if_splits)

lemma inv_GatewayConfig: "sess cloud_inv s \<Longrightarrow> sess cloud_inv (snd (GatewayConfig_post y f c s))"
  unfolding GatewayConfig_post_def
  by (intro with_permission_keep on_value_keep)
    (auto intro!: on_value_keep dest: inv_GatewayConfig_save inv_add_to_portmapping)

lemma inv_add_to_ippool: "add_to_ippool y now nid N s = Inr s' \<Longrightarrow> sess cloud_inv s \<Longrightarrow> sess cloud_inv s'"
  by (auto simp: add_to_ippool_def intro!: sess_modify inv_add_addresses intro: inv_work split: option.splits)

lemma inv_pools [intro!]: "sess cloud_inv s \<Longrightarrow> sess cloud_inv (modify (networkpools_update f) s)"
  by (auto intro!: sess_modify intro: inv_work)

lemma inv_NetworkConfig: "sess cloud_inv s \<Longrightarrow> sess cloud_inv (snd (NetworkConfig_post y f c s))"
  unfolding NetworkConfig_post_def
  by (intro with_permission_keep on_value_keep)
    (auto simp: Let_def intro!: on_value_keep intro: inv_add_to_ippool inv_pools)

lemma inv_NetworkDelete: "sess cloud_inv s \<Longrightarrow> sess cloud_inv (snd (NetworkDelete_get c s))"
  unfolding NetworkDelete_get_def
  by (intro with_permission_keep)
    (auto simp: Let_def intro!: on_value_keep sess_modify inv_delete_ips intro: inv_work split: option.split)

lemma inv_handle_admin: "sess cloud_inv s \<Longrightarrow> sess cloud_inv (snd (handle_admin w q c s))"
  by (cases q) (simp_all add: inv_GatewayConfig inv_NetworkConfig inv_NetworkDelete)

context life_keeper
begin

lemma keep_handle_instance:
  "c_user c = Some u \<Longrightarrow> sess Q s \<Longrightarrow> sess Q (snd (handle_instance w q c s))"
  using keep_LifeControl [of c s "w_life w"] keep_AttrSet [of c s] keep_InstanceDelete [of c s "w_life w"]
  by (cases q) (auto split: prod.split)

end

lemma inv_handle:
  assumes "sess cloud_inv (fst sc)"
  shows "sess cloud_inv (fst (snd (handle w q c sc)))"
proof (cases "c_user c")
  case None
  then show ?thesis using assms anonymous_handle by metis
next
  case (Some u)
  show ?thesis
  proof (cases q)
    case (UserReq r)
    then show ?thesis using pools.keep_handle_user [OF Some assms] by simp
  qed (use assms life.keep_handle_instance [OF Some] inv_handle_admin in \<open>auto intro!: keep_on_db\<close>)
qed

lemma inv_serve:
  assumes "cloud_inv (cl_db x)"
  shows "cloud_inv (cl_db (snd (serve w q c x)))"
proof -
  have "sess cloud_inv (fst (snd (handle w q c (open_session (cl_db x), cl_chain x))))"
    by (rule inv_handle) (simp add: assms)
  then show ?thesis by (auto simp: serve_def sess_def split: prod.split)
qed

lemma inv_serve_db:
  assumes "serve_db h c x = (r, y)" "\<And>s. sess cloud_inv s \<Longrightarrow> sess cloud_inv (snd (h c s))" "cloud_inv (cl_db x)"
  shows "cloud_inv (cl_db y)"
  using assms(1,3) assms(2) [of "open_session (cl_db x)"] by (auto simp: serve_db_def sess_def split: prod.splits)

lemma inv_appliance:
  "handle_appliance q c (open_session d, files) = (r, s, files') \<Longrightarrow> cloud_inv d \<Longrightarrow> cloud_inv (store s)"
  using appliance_cloud_inv [of d q c files] by simp

lemma inv_db_instance_delete:
  assumes "cloud_inv d"
  shows "cloud_inv (db_instance_delete iid d)"
proof (cases "instance_referred iid d")
  case False
  then have "ip_instance_id r \<noteq> Some iid" if "(k, r) \<in> set (rows (ippools d))" for k r
    using that by (auto simp: instance_referred_def list_ex_iff)
  moreover have "st_instance_id r \<noteq> iid" if "(k, r) \<in> set (rows (storages d))" for k r
    using that False by (auto simp: instance_referred_def list_ex_iff)
  ultimately have "refs_ok (db_instance_delete iid d)"
    using False assms by (fastforce simp: db_instance_delete_def cloud_inv_def refs_ok_def port_refs_ok_def image_iff)
  then show ?thesis
    using False assms by (simp add: db_instance_delete_def cloud_inv_def keys_ok_def uniq_ok_def single_ok_def t_ok_del)
qed (use assms in \<open>simp add: db_instance_delete_def\<close>)

lemma inv_step: "cloud_step w x y \<Longrightarrow> cloud_inv (cl_db x) \<Longrightarrow> cloud_inv (cl_db y)"
  by (erule cloud_stepE)
    (metis inv_serve snd_conv, metis inv_serve_db acc_pools.keep_handle_account, metis inv_serve_db admin_pools.keep_handle_manage,
     metis inv_serve_db admin_pools.keep_handle_message, simp add: inv_appliance, simp_all add: inv_upd_instance inv_db_instance_delete)

lemma inv_reach: "cloud_reach w x y \<Longrightarrow> cloud_inv (cl_db x) \<Longrightarrow> cloud_inv (cl_db y)"
  by (induction rule: cloud_reach.induct) (auto intro: inv_step)

lemma inv_empty: "cloud_inv db_empty"
  by (simp add: cloud_inv_defs db_empty_def ip_texts_def port_numbers_def)

section \<open>Isolation\<close>

lemma admin_refused: "c_user c = Some u \<Longrightarrow> \<not> isadmin (work s) u \<Longrightarrow> snd (handle_admin w q c s) = s"
  by (cases q) (auto simp: NetworkConfig_post_def NetworkDelete_get_def GatewayConfig_post_def with_permission_def
      require_permission_def isadmin_def)

lemma isolated_start: "cloud_inv d \<Longrightarrow> t_ok (profiles d) \<Longrightarrow> isolated u d d"
  by (simp add: isolated_def foreign_same_refl)

lemma isolated_handle:
  assumes "c_user c = Some u" "cloud_inv d" "t_ok (profiles d)" "\<not> isadmin d u \<or> (\<exists>r. q = UserReq r)"
  shows "sess (isolated u d) (fst (snd (handle w q c (open_session d, ch))))"
proof (cases q)
  case (UserReq r)
  then show ?thesis using iso.keep_handle_user [OF assms(1)] isolated_start [OF assms(2,3)] by simp
next
  case (InstanceReq r)
  let ?s = "snd (handle_instance w r c (open_session d))"
  have "\<not> isadmin d u" using assms(4) InstanceReq by simp
  then have "sess (\<lambda>x. isolated u d x \<and> \<not> isadmin x u) ?s"
    using isolated_start [OF assms(2,3)] by (intro isolife.keep_handle_instance [OF assms(1)]) simp
  moreover have "fst (snd (on_db (handle_instance w r) c (open_session d, ch))) = ?s"
    by (simp add: on_db_def split: prod.split)
  ultimately show ?thesis using InstanceReq by (simp add: sess_def)
next
  case (AdminReq r)
  then have "snd (handle_admin w r c (open_session d)) = open_session d"
    using assms(4) by (intro admin_refused [OF assms(1)]) simp
  then show ?thesis using AdminReq isolated_start [OF assms(2,3)] by (auto simp: on_db_def split: prod.split)
qed

lemma isolated_serve:
  assumes "c_user c = Some u" "cloud_inv (cl_db x)" "t_ok (profiles (cl_db x))" "\<not> isadmin (cl_db x) u \<or> (\<exists>r. q = UserReq r)"
  shows "foreign_same u (cl_db x) (cl_db (snd (serve w q c x)))"
  using isolated_handle [OF assms, of w "cl_chain x"] by (auto simp: serve_def sess_def isolated_def split: prod.split)

section \<open>An example\<close>

text \<open>Two instances, the first of user 2, the second of the administrator; one network, one storage pool.\<close>

definition profile_ex :: "int \<Rightarrow> profile" where
  "profile_ex u = \<lparr>pf_user_id = u, pf_cpu = 2, pf_memory = 512, pf_storage = 10, pf_instance = 3, pf_bandwidth = 1,
     pf_rx = 1, pf_tx = 1, pf_port = 6, pf_vlan = 1, pf_domain = 6, pf_config = None\<rparr>"

definition appliance_ex :: appliance where
  "appliance_ex = \<lparr>a_name = ''wiki'', a_summary = None, a_description = None, a_os = 1, a_user_id = 1, a_catalog_id = None,
     a_filesize = 7, a_checksum = ''ab'', a_islocked = False, a_isuseable = True, a_isprivate = False\<rparr>"

definition cloud_ex :: cloud where
  "cloud_ex = \<lparr>cl_db = instance_db_ex\<lparr>
       instances := \<lparr>rows = [(1, instance_ex), (2, instance_ex\<lparr>i_user_id := 1, i_isprivate := True\<rparr>)], seq = 2\<rparr>,
       profiles := \<lparr>rows = [(1, profile_ex 1), (2, profile_ex 2)], seq = 2\<rparr>,
       appliances := \<lparr>rows = [(1, appliance_ex)], seq = 1\<rparr>,
       storagepools := \<lparr>rows = [(1, \<lparr>sp_name = ''pool0'', sp_total = 20, sp_used = 0\<rparr>)], seq = 1\<rparr>\<rparr>,
     cl_chain = []\<rparr>"

definition world_ex :: world where
  "world_ex = \<lparr>w_ipy = ipy_ex, w_fw = env_ex,
     w_life = \<lparr>le_notify = (\<lambda>_. True), le_conf = (\<lambda>_ _. ''conf''), le_codec = codec_ex\<rparr>\<rparr>"

lemma cloud_ex_inv: "cloud_inv (cl_db cloud_ex)" "t_ok (profiles (cl_db cloud_ex))" "t_ok (instances (cl_db cloud_ex))"
  by (simp_all add: cloud_inv_defs cloud_ex_def instance_db_ex_def network_db_ex_def db_ex_def db_empty_def t_ok_def
      ip_texts_def port_numbers_def)

end
