(* ===== verification/Admission.thy ===== *)
theory Admission
  imports System
begin

text \<open>
  What the guards of the handlers achieve: resource limits, exclusive jobs, deletion.
\<close>

section \<open>Limits on running instances\<close>

lemma profile_of_user: "profile_of d u = Some p \<Longrightarrow> pf_user_id p = u"
  by (auto simp: profile_of_def dest!: t_first_Some)

lemma used_sums:
  "tt_cpu (get_resource_used d p) = running_sum i_cpus (instances_of d (pf_user_id p))"
  "tt_memory (get_resource_used d p) = running_sum i_memory (instances_of d (pf_user_id p))"
  "tt_instance (get_resource_used d p) = int (length (instances_of d (pf_user_id p)))"
  "tt_storage (get_resource_used d p) = (\<Sum>(iid, _) \<leftarrow> instances_of d (pf_user_id p). storage_sum d iid)"
  by (simp_all add: get_resource_used_def used_fields)

lemma total_sums:
  "tt_cpu (get_resource_total d now p) = pf_cpu p + active_sum d now (pf_user_id p) T_CPU"
  "tt_memory (get_resource_total d now p) = pf_memory p + active_sum d now (pf_user_id p) T_MEMORY"
  "tt_instance (get_resource_total d now p) = pf_instance p + active_sum d now (pf_user_id p) T_INSTANCE"
  "tt_storage (get_resource_total d now p) = pf_storage p + active_sum d now (pf_user_id p) T_STORAGE"
  by (simp_all add: get_resource_total_def total_fields active_sum_def)

lemma running_sum_upd:
  assumes "t_ok (instances d)" "t_get (instances d) iid = Some I" "i_user_id I = u" "\<And>I. i_user_id (f I) = i_user_id I"
  shows "running_sum g (instances_of (upd_instance iid f d) u) =
     running_sum g (instances_of d u) - (if is_running I then g I else 0) + (if is_running (f I) then g (f I) else 0)"
proof -
  have "(iid, I) \<in> set (instances_of d u)"
    using assms(2,3) by (simp add: instances_of_def t_select_iff t_get_in)
  moreover have "distinct (map fst (instances_of d u))"
    unfolding instances_of_def by (rule t_select_distinct [OF assms(1)])
  moreover have "instances_of (upd_instance iid f d) u = map (\<lambda>(a, b). (a, if a = iid then f b else b)) (instances_of d u)"
    unfolding instances_of_def upd_instance_def using assms(4) by (simp add: t_select_upd)
  ultimately show ?thesis
    using sum_rows_upd [of "instances_of d u" iid I "\<lambda>_ b. if is_running b then g b else 0" f]
    by (simp add: running_sum_def)
qed

lemma with_myinstance_result:
  "with_myinstance h c s = (r, s') \<Longrightarrow>
     s' = s \<or> (\<exists>u iid I. c_user c = Some u \<and> t_get (instances (work s)) iid = Some I \<and> i_user_id I = u \<and>
       i_status I \<noteq> INSTANCE_DELETED_STATUS \<and> iid = arg_id c ''id'' \<and> h u iid I c s = (r, s'))"
  by (auto simp: with_myinstance_def with_login_def dest!: set_myinstance_Inr split: option.splits sum.splits)

text \<open>
  Editing the processors and the memory of an instance never takes what the user's running
  instances use above the larger of the user's quota and what they used before, and needs no storage
  and no further instance.
\<close>

theorem resource_edit_within_quota:
  assumes "t_ok (instances (work s))" "c_user c = Some u" "profile_of (work s) u = Some p"
    "ResourceEdit_post f c s = (r, s')"
  shows "tt_cpu (get_resource_used (work s') p) \<le>
       max (tt_cpu (get_resource_total (work s) (c_now c) p)) (tt_cpu (get_resource_used (work s) p)) \<and>
    tt_memory (get_resource_used (work s') p) \<le>
       max (tt_memory (get_resource_total (work s) (c_now c) p)) (tt_memory (get_resource_used (work s) p)) \<and>
    tt_instance (get_resource_used (work s') p) = tt_instance (get_resource_used (work s) p)"
proof -
  let ?f = "\<lambda>I. I\<lparr>i_cpus := the (rf_cpus f), i_memory := the (rf_memory f), i_ischanged := (if is_running I then True else i_ischanged I)\<rparr>"
  have u: "pf_user_id p = u" using assms(3) by (rule profile_of_user)
  from with_myinstance_result [OF assms(4) [unfolded ResourceEdit_post_def]]
  consider "s' = s" | iid I where "t_get (instances (work s)) iid = Some I" "i_user_id I = u"
      "ResourceForm_validate (work s) (c_now c) u I f" "work s' = upd_instance iid ?f (work s)"
    using assms(2) by (auto split: if_splits)
  then show ?thesis
  proof cases
    case (2 iid I)
    have "running_sum g (instances_of (work s') u) =
        running_sum g (instances_of (work s) u) - (if is_running I then g I else 0) + (if is_running I then g (?f I) else 0)" for g
      using running_sum_upd [OF assms(1) 2(1,2), of ?f g] 2(4) by (simp add: is_running_def)
    moreover have "length (instances_of (work s') u) = length (instances_of (work s) u)"
      using 2(4) by (simp add: instances_of_def upd_instance_def t_select_upd)
    ultimately show ?thesis
      using 2(3) assms(3) u
      by (auto simp: used_sums total_sums ResourceForm_validate_def exceeds_def at_least_def cpu_remain_sum memory_remain_sum
          split: option.splits)
  qed simp
qed

theorem resource_edit_within_quota_witness:
  "let c = ctx_ex 2 [(''id'', ''1'')]; s = open_session (cl_db cloud_ex);
       s' = snd (ResourceEdit_post \<lparr>rf_cpus = Some 2, rf_memory = Some 256\<rparr> c s)
   in fst (ResourceEdit_post \<lparr>rf_cpus = Some 2, rf_memory = Some 256\<rparr> c s) = view_url 1 \<and>
      tt_cpu (get_resource_used (work s') (profile_ex 2)) \<le> 2"
proof -
  let ?c = "ctx_ex 2 [(''id'', ''1'')]" and ?s = "open_session (cl_db cloud_ex)"
  let ?f = "\<lparr>rf_cpus = Some 2, rf_memory = Some 256\<rparr>"
  have r: "fst (ResourceEdit_post ?f ?c ?s) = view_url 1" by code_simp
  have p: "profile_of (work ?s) 2 = Some (profile_ex 2)" by code_simp
  have t: "tt_cpu (get_resource_total (work ?s) (c_now ?c) (profile_ex 2)) = 2"
    "tt_cpu (get_resource_used (work ?s) (profile_ex 2)) = 0" by code_simp+
  have "c_user ?c = Some 2" by code_simp
  from resource_edit_within_quota [OF _ this p pair_of_fst [OF r]] cloud_ex_inv(3) r t
  show ?thesis by (simp add: Let_def)
qed

section \<open>Limits on storage\<close>

lemma sum_at:
  "distinct (map fst xs) \<Longrightarrow> k \<in> fst ` set xs \<Longrightarrow> (\<Sum>(a, _) \<leftarrow> xs. if a = k then n else 0) = (n :: int)"
proof (induction xs)
  case (Cons x xs)
  have "k \<notin> fst ` set xs \<Longrightarrow> (\<Sum>(a, _) \<leftarrow> xs. if a = k then n else 0) = 0"
    by (induction xs) auto
  then show ?case using Cons by (cases x) auto
qed simp

text \<open>A sum over a user's instances, after the summand of one of them changed by \<open>n\<close>.\<close>

lemma user_sum_change:
  assumes "t_ok (instances d)" "t_get (instances d) iid = Some I" "i_user_id I = u" "instances d' = instances d"
    and c: "\<And>j. F' j = F j + (if j = iid then n else 0)"
  shows "(\<Sum>(j, _) \<leftarrow> instances_of d' u. F' j) = (\<Sum>(j, _) \<leftarrow> instances_of d u. F j) + (n :: int)"
proof -
  have "(iid, I) \<in> set (instances_of d u)"
    using assms(2,3) by (simp add: instances_of_def t_select_iff t_get_in)
  then have "iid \<in> fst ` set (instances_of d u)" by force
  moreover have "distinct (map fst (instances_of d u))"
    unfolding instances_of_def by (rule t_select_distinct [OF assms(1)])
  moreover have "instances_of d' u = instances_of d u" by (simp add: instances_of_def assms(4))
  moreover have "(\<Sum>(j, _) \<leftarrow> xs. F' j) = (\<Sum>(j, _) \<leftarrow> xs. F j) + (\<Sum>(j, _) \<leftarrow> xs. if j = iid then n else 0)"
    for xs :: "(int \<times> instance_row) list"
    by (induction xs) (auto simp: c)
  ultimately show ?thesis by (simp add: sum_at)
qed

lemma storage_sum_add:
  "storage_sum (storages_update (t_add S) d) j = storage_sum d j + (if j = st_instance_id S then st_size S else 0)"
  by (simp add: storage_sum_def storages_of_def t_select_add_row)

lemma storage_sum_upd:
  assumes "t_ok (storages d)" "t_get (storages d) k = Some S" "\<And>S. st_instance_id (f S) = st_instance_id S"
  shows "storage_sum (storages_update (t_upd k f) d) j =
     storage_sum d j + (if j = st_instance_id S then st_size (f S) - st_size S else 0)"
proof -
  have m: "storages_of (storages_update (t_upd k f) d) j = map (\<lambda>(a, b). (a, if a = k then f b else b)) (storages_of d j)"
    unfolding storages_of_def using assms(3) by (simp add: t_select_upd)
  show ?thesis
  proof (cases "j = st_instance_id S")
    case True
    then have "(k, S) \<in> set (storages_of d j)" using assms(2) by (simp add: storages_of_def t_select_iff t_get_in)
    moreover have "distinct (map fst (storages_of d j))" unfolding storages_of_def by (rule t_select_distinct [OF assms(1)])
    ultimately show ?thesis
      using sum_rows_upd [of "storages_of d j" k S "\<lambda>_ S. st_size S" f] True unfolding storage_sum_def m by simp
  next
    case False
    then have "storages_of (storages_update (t_upd k f) d) j = storages_of d j"
      using assms t_get_unique [OF assms(1,2)] unfolding storages_of_def by simp (rule t_select_upd_other, auto)
    then show ?thesis using False by (simp add: storage_sum_def)
  qed
qed

lemma storage_sum_update_used [simp]: "storage_sum (update_used pid d) = storage_sum d" "instances (update_used pid d) = instances d"
  by (simp_all add: fun_eq_iff storage_sum_def storages_of_def update_used_def Let_def)

lemma StorageForm_limits:
  assumes "StorageForm_validate d now u f = Inr (Some (pid, pool))" "profile_of d u = Some p"
  shows "1 \<le> the (sf_size f) \<and> the (sf_size f) \<le> storage_remain d now p \<and> the (sf_size f) \<le> pool_remain pool"
  using assms by (auto simp: StorageForm_validate_def exceeds_def at_least_def split: sum.splits option.splits if_splits)

lemma with_storage_result:
  "with_storage h c s = (r, s') \<Longrightarrow>
     s' = s \<or> (\<exists>u sid S I. c_user c = Some u \<and> StorageAction_initialize c (work s) = Inr (Inr (sid, S, I)) \<and> h u sid S c s = (r, s'))"
  by (auto simp: with_storage_def with_login_def on_value_def split: option.splits sum.splits)

lemma StorageAdd_result:
  assumes "StorageAdd_post f c s = (r, s')" "c_user c = Some u"
  shows "s' = s \<or> (\<exists>iid I pid pool. t_get (instances (work s)) iid = Some I \<and> i_user_id I = u \<and> storages_of (work s) iid = [] \<and>
    StorageForm_validate (work s) (c_now c) u f = Inr (Some (pid, pool)) \<and>
    work s' = update_used pid (storages_update (t_add (new_storage (the (sf_size f)) pid pool iid)) (work s)))"
  using with_myinstance_result [OF assms(1) [unfolded StorageAdd_post_def StorageAdd_prepare_def]] assms(2)
  by (elim disjE exE conjE) (auto simp: Let_def not_le on_value_def split: if_splits option.splits sum.splits, blast)

lemma StorageEdit_result:
  assumes "StorageEdit_post f c s = (r, s')" "c_user c = Some u"
  shows "s' = s \<or> (\<exists>sid S I pid pool. t_get (storages (work s)) sid = Some S \<and> t_get (instances (work s)) (st_instance_id S) = Some I \<and>
    i_user_id I = u \<and> StorageForm_validate (work s) (c_now c) u f = Inr (Some (pid, pool)) \<and> st_size S \<le> the (sf_size f) \<and>
    work s' = update_used pid (storages_update (t_upd sid (\<lambda>S. S\<lparr>st_size := the (sf_size f), st_pool_id := pid\<rparr>)) (work s)))"
proof -
  from with_storage_result [OF assms(1) [unfolded StorageEdit_post_def]] assms(2)
  consider "s' = s" | sid S I where "StorageAction_initialize c (work s) = Inr (Inr (sid, S, I))"
    "on_value (StorageForm_validate (work s) (c_now c) u f) s (\<lambda>v. case v of
         None \<Rightarrow> (Render ''myun/instance/storage_add.html'', s)
       | Some (pid, pool) \<Rightarrow>
           if st_size S > the (sf_size f) then (RenderErr ''size'' ''Can not support grow down storage now.'', s)
           else (let s1 = commit (modify (storages_update (t_upd sid (\<lambda>S. S\<lparr>st_size := the (sf_size f), st_pool_id := pid\<rparr>))) s);
                  s2 = modify (update_used pid) s1 in (view_url (st_instance_id S), s2))) = (r, s')"
    by auto
  then show ?thesis
  proof cases
    case (2 sid S I)
    from StorageAction_Inr [OF 2(1) assms(2)] 2(2) show ?thesis
      by (cases "StorageForm_validate (work s) (c_now c) u f") (auto simp: Let_def not_less split: option.splits if_splits, blast)
  qed simp
qed

definition sizes_ok :: "db \<Rightarrow> bool" where
  "sizes_ok d \<longleftrightarrow> (\<forall>k S. (k, S) \<in> set (rows (storages d)) \<longrightarrow> 0 \<le> st_size S)"

lemma sizes_ok_used [simp]: "sizes_ok (update_used pid d) = sizes_ok d"
  by (simp add: sizes_ok_def update_used_def Let_def)

lemma sizes_ok_change:
  "sizes_ok d \<Longrightarrow> 0 \<le> st_size S \<Longrightarrow> sizes_ok (storages_update (t_add S) d)"
  "sizes_ok d \<Longrightarrow> 0 \<le> n \<Longrightarrow> sizes_ok (storages_update (t_upd k (\<lambda>S. S\<lparr>st_size := n, st_pool_id := pid\<rparr>)) d)"
  by (auto simp: sizes_ok_def dest!: row_upd)

text \<open>
  C7. Neither adding a storage nor changing the size of one takes the user's storage above the larger
  of the quota and what the user had before; a storage only grows, and no storage gets a negative size.
\<close>

theorem storage_within_quota:
  assumes "cloud_inv (work s)" "sizes_ok (work s)" "c_user c = Some u" "profile_of (work s) u = Some p"
    "StorageAdd_post f c s = (r, s') \<or> StorageEdit_post f c s = (r, s')"
  shows "sizes_ok (work s') \<and> tt_storage (get_resource_used (work s) p) \<le> tt_storage (get_resource_used (work s') p) \<and>
    tt_storage (get_resource_used (work s') p) \<le>
      max (tt_storage (get_resource_total (work s) (c_now c) p)) (tt_storage (get_resource_used (work s) p))"
proof -
  have u: "pf_user_id p = u" using assms(4) by (rule profile_of_user)
  have t: "t_ok (instances (work s))" "t_ok (storages (work s))" using assms(1) by (simp_all add: cloud_inv_def keys_ok_def)
  let ?n = "the (sf_size f)"
  have "s' = s \<or> sizes_ok (work s') \<and> (\<exists>iid I n. t_get (instances (work s)) iid = Some I \<and> i_user_id I = u \<and> instances (work s') = instances (work s) \<and>
      0 \<le> n \<and> n \<le> storage_remain (work s) (c_now c) p \<and>
      (\<forall>j. storage_sum (work s') j = storage_sum (work s) j + (if j = iid then n else 0)))"
    using assms(5)
  proof
    assume "StorageAdd_post f c s = (r, s')"
    from StorageAdd_result [OF this assms(3)] consider "s' = s"
      | iid I pid pool where "t_get (instances (work s)) iid = Some I" "i_user_id I = u"
          "StorageForm_validate (work s) (c_now c) u f = Inr (Some (pid, pool))"
          "work s' = update_used pid (storages_update (t_add (new_storage ?n pid pool iid)) (work s))"
      by blast
    then show ?thesis
    proof cases
      case (2 iid I pid pool)
      have l: "1 \<le> ?n \<and> ?n \<le> storage_remain (work s) (c_now c) p \<and> ?n \<le> pool_remain pool"
        by (rule StorageForm_limits [OF 2(3) assms(4)])
      then have "st_size (new_storage ?n pid pool iid) = ?n" "st_instance_id (new_storage ?n pid pool iid) = iid"
        by (simp_all add: new_storage_def)
      then show ?thesis
        using 2 l sizes_ok_change(1) [OF assms(2)]
        by (intro disjI2 conjI, simp) (rule exI [of _ iid], rule exI [of _ I], rule exI [of _ ?n], simp add: storage_sum_add)
    qed simp
  next
    assume "StorageEdit_post f c s = (r, s')"
    from StorageEdit_result [OF this assms(3)] consider "s' = s"
      | sid S I pid pool where "t_get (storages (work s)) sid = Some S" "t_get (instances (work s)) (st_instance_id S) = Some I"
          "i_user_id I = u" "StorageForm_validate (work s) (c_now c) u f = Inr (Some (pid, pool))" "st_size S \<le> ?n"
          "work s' = update_used pid (storages_update (t_upd sid (\<lambda>S. S\<lparr>st_size := ?n, st_pool_id := pid\<rparr>)) (work s))"
      by blast
    then show ?thesis
    proof cases
      case (2 sid S I pid pool)
      have "?n - st_size S \<le> storage_remain (work s) (c_now c) p"
        using StorageForm_limits [OF 2(4) assms(4)] assms(2) t_get_in [OF 2(1)] by (force simp: sizes_ok_def)
      then show ?thesis
        using 2 storage_sum_upd [OF t(2) 2(1)] StorageForm_limits [OF 2(4) assms(4)] sizes_ok_change(2) [OF assms(2)]
        by (intro disjI2 conjI, simp) (rule exI [of _ "st_instance_id S"], rule exI [of _ I], rule exI [of _ "?n - st_size S"], simp)
    qed simp
  qed
  then show ?thesis
    using user_sum_change [OF t(1), where F = "storage_sum (work s)" and F' = "storage_sum (work s')"] assms(2) by (fastforce simp: used_sums total_sums u storage_remain_sum)
qed

theorem storage_within_quota_witness:
  "let c = ctx_ex 2 [(''id'', ''1'')]; s = open_session (cl_db cloud_ex);
       s' = snd (StorageAdd_post \<lparr>sf_pool = ''1'', sf_size = Some 7\<rparr> c s)
   in length (storages_of (work s') 1) = 1 \<and> tt_storage (get_resource_used (work s') (profile_ex 2)) \<le> 10"
proof -
  let ?c = "ctx_ex 2 [(''id'', ''1'')]" and ?s = "open_session (cl_db cloud_ex)"
  let ?f = "\<lparr>sf_pool = ''1'', sf_size = Some 7\<rparr>"
  have r: "fst (StorageAdd_post ?f ?c ?s) = view_url 1" by code_simp
  have n: "length (storages_of (work (snd (StorageAdd_post ?f ?c ?s))) 1) = 1" by code_simp
  have p: "profile_of (work ?s) 2 = Some (profile_ex 2)" "c_user ?c = Some 2" by code_simp+
  have t: "tt_storage (get_resource_total (work ?s) (c_now ?c) (profile_ex 2)) = 10"
    "tt_storage (get_resource_used (work ?s) (profile_ex 2)) = 0" by code_simp+
  have z: "sizes_ok (work ?s)"
    by (simp add: sizes_ok_def cloud_ex_def instance_db_ex_def network_db_ex_def db_ex_def db_empty_def)
  have "cloud_inv (work ?s)" using cloud_ex_inv(1) by simp
  from storage_within_quota [OF this z p(2,1) disjI1 [OF pair_of_fst [OF r]]] n t show ?thesis
    by (simp add: Let_def)
qed

section \<open>Limits on the number of instances\<close>

lemma instances_of_upd_length:
  "(\<And>I. t_get (instances d) k = Some I \<Longrightarrow> i_user_id (f I) = i_user_id I) \<Longrightarrow> t_ok (instances d) \<Longrightarrow>
     length (instances_of (upd_instance k f d) u) = length (instances_of d u)"
proof -
  assume f: "\<And>I. t_get (instances d) k = Some I \<Longrightarrow> i_user_id (f I) = i_user_id I" and t: "t_ok (instances d)"
  have "(\<And>v. (k, v) \<in> set xs \<Longrightarrow> i_user_id (f v) = i_user_id v) \<Longrightarrow>
      length (filter (\<lambda>(_, v). i_user_id v = u) (map (\<lambda>(a, b). (a, if a = k then f b else b)) xs)) =
      length (filter (\<lambda>(_, v). i_user_id v = u) xs)" for xs
  proof (induction xs)
    case (Cons x xs)
    then have "length (filter (\<lambda>(_, v). i_user_id v = u) (map (\<lambda>(a, b). (a, if a = k then f b else b)) xs)) =
      length (filter (\<lambda>(_, v). i_user_id v = u) xs)" by simp
    then show ?case using Cons.prems [of "snd x"] by (cases x) auto
  qed simp
  with f t show ?thesis
    by (simp add: instances_of_def upd_instance_def t_select_def t_upd_def t_get_iff)
qed

text \<open>What the statements after the insertion of the row leave of the table of instances.\<close>

definition same_count :: "int \<Rightarrow> nat \<Rightarrow> db \<Rightarrow> bool" where
  "same_count u n d \<longleftrightarrow> t_ok (instances d) \<and> length (instances_of d u) = n"

lemma same_count_upd:
  "same_count u n d \<Longrightarrow> (\<And>I. t_get (instances d) k = Some I \<Longrightarrow> i_user_id (f I) = i_user_id I) \<Longrightarrow> same_count u n (upd_instance k f d)"
  by (auto simp: same_count_def instances_of_upd_length) (simp add: upd_instance_def)

lemma same_count_other:
  "instances d' = instances d \<Longrightarrow> same_count u n d' = same_count u n d"
  by (simp add: same_count_def instances_of_def)

lemma same_count_set_ip:
  "sess (same_count v n) s \<Longrightarrow> sess (same_count v n) (fst (set_ip u c iid s))"
proof -
  assume s: "sess (same_count v n) s"
  have 1: "sess (same_count v n) (commit (modify (set_ip_instance k i) s))" for k i
    using s same_count_other [of "set_ip_instance k i (work s)" "work s"] by (auto simp: set_ip_instance_def intro!: sess_modify dest: sess_work)
  have 2: "sess (same_count v n) s2" if "session_update_network c iid s1 = Inr s2" "sess (same_count v n) s1" for s1 s2
    using session_update_network_result [OF that(1)] that(2) by (auto intro!: sess_modify same_count_upd dest: sess_work)
  have 3: "sess (same_count v n) (add_trace w ty k msg s1)" if "sess (same_count v n) s1" for s1 w ty k msg
    using that same_count_other [of "traces_update f (work s1)" "work s1" for f]
    by (auto simp: add_trace_def intro!: sess_modify dest: sess_work)
  show ?thesis
  proof (cases "first_free_ip (work s) (map fst (rows (networkpools (work s))))")
    case (Some x)
    obtain k r where x: "x = (k, r)" by (cases x)
    show ?thesis
    proof (cases "session_update_network c iid (commit (modify (set_ip_instance k (Some iid)) s))")
      case (Inr s2)
      then show ?thesis
        using Some x 3 [OF sess_commit [OF 2 [OF Inr 1]]] by (simp add: set_ip_def Let_def sess_commit)
    qed (use Some x 1 in \<open>simp add: set_ip_def Let_def\<close>)
  qed (use s in \<open>simp add: set_ip_def\<close>)
qed

lemma same_count_set_secret:
  "sess (same_count v n) s \<Longrightarrow> sess (same_count v n) (set_secret u c p iid s)"
  by (auto simp: set_secret_def Let_def intro!: sess_modify same_count_upd dest: sess_work split: list.split)

lemma create_instance_count:
  assumes "t_ok (instances (work s))"
  shows "length (instances_of (work (snd (create_instance u cookie c p aid f s))) u) = Suc (length (instances_of (work s) u))"
proof -
  define I where "I = (new_instance (c_now c) cookie (cf_name f) u aid)\<lparr>i_cpus := the (cf_cpus f),
      i_memory := the (cf_memory f), i_isprivate := cf_isprivate f\<rparr>"
  define s1 where "s1 = commit (modify (instances_update (t_add I)) s)"
  let ?n = "Suc (length (instances_of (work s) u))"
  have "same_count u ?n (work s1)" "store s1 = work s1"
    using assms by (simp_all add: s1_def same_count_def instances_of_def t_select_add_row t_ok_add I_def new_instance_def)
  then have 1: "sess (same_count u ?n) s1" by (simp add: sess_def)
  obtain s2 r where s2: "set_ip u c (t_newid (instances (work s))) s1 = (s2, r)" by fastforce
  have "sess (same_count u ?n) s2" using same_count_set_ip [OF 1, of u c] s2 by (metis fst_conv)
  moreover have "snd (create_instance u cookie c p aid f s) =
      (case r of None \<Rightarrow> set_secret u c p (t_newid (instances (work s))) s2 | Some e \<Rightarrow> s2)"
    using s2 by (simp add: create_instance_def Let_def I_def s1_def split: option.split)
  ultimately have "sess (same_count u ?n) (snd (create_instance u cookie c p aid f s))"
    by (simp add: same_count_set_secret split: option.split)
  then show ?thesis by (simp add: sess_def same_count_def)
qed

lemma InstanceCreate_result:
  assumes "InstanceCreate_post cookie f c s = (r, s')" "c_user c = Some u"
  shows "s' = s \<or> (\<exists>A p aid. InstanceCreate_prepare u c (work s) = Inr (A, p) \<and>
     InstanceCreateBaseForm_validate (work s) (c_now c) u p f \<and> s' = snd (create_instance u cookie c p aid f s))"
proof -
  have *: "s' = snd x" if "x = (r, s')" for x using that by simp
  show ?thesis
    using assms by (auto simp: InstanceCreate_post_def with_permission_def require_permission_def on_value_def Let_def
        split: option.splits if_splits sum.splits prod.splits dest!: *)
qed

lemma InstanceCreate_prepare_Inr:
  "InstanceCreate_prepare u c d = Inr (A, p) \<Longrightarrow> profile_of d u = Some p \<and> 1 \<le> instance_remain d (c_now c) p"
  by (auto simp: InstanceCreate_prepare_def Let_def split: option.splits if_splits)

text \<open>
  C8. Creating an instance never takes the number of the user's instances above the quota: a new one
  is made only while there are fewer, with a name the user has not given yet, and with no more
  processors and memory than the user has left.
\<close>

theorem create_within_quota:
  assumes "t_ok (instances (work s))" "c_user c = Some u" "InstanceCreate_post cookie f c s = (r, s')" "work s' \<noteq> work s"
  shows "\<exists>p. profile_of (work s) u = Some p \<and>
    tt_instance (get_resource_used (work s') p) = tt_instance (get_resource_used (work s) p) + 1 \<and>
    tt_instance (get_resource_used (work s') p) \<le> tt_instance (get_resource_total (work s) (c_now c) p) \<and>
    (\<exists>n m. cf_cpus f = Some n \<and> 1 \<le> n \<and> n \<le> cpu_remain (work s) (c_now c) p \<and>
           cf_memory f = Some m \<and> 64 \<le> m \<and> m \<le> memory_remain (work s) (c_now c) p) \<and>
    (\<forall>k I. (k, I) \<in> set (instances_of (work s) u) \<longrightarrow> i_name I \<noteq> cf_name f)"
proof -
  from InstanceCreate_result [OF assms(3,2)] assms(4)
  obtain A p aid where p: "InstanceCreate_prepare u c (work s) = Inr (A, p)"
    and v: "InstanceCreateBaseForm_validate (work s) (c_now c) u p f"
    and s': "s' = snd (create_instance u cookie c p aid f s)" by auto
  have pr: "profile_of (work s) u = Some p" "1 \<le> instance_remain (work s) (c_now c) p"
    using InstanceCreate_prepare_Inr [OF p] by auto
  have u: "pf_user_id p = u" using pr(1) by (rule profile_of_user)
  have n: "length (instances_of (work s') u) = Suc (length (instances_of (work s) u))"
    unfolding s' by (rule create_instance_count [OF assms(1)])
  have l: "\<exists>n m. cf_cpus f = Some n \<and> 1 \<le> n \<and> n \<le> cpu_remain (work s) (c_now c) p \<and>
           cf_memory f = Some m \<and> 64 \<le> m \<and> m \<le> memory_remain (work s) (c_now c) p"
    using v by (auto simp: InstanceCreateBaseForm_validate_def exceeds_def at_least_def split: option.splits)
  have nm: "(k, I) \<in> set (instances_of (work s) u) \<Longrightarrow> i_name I \<noteq> cf_name f" for k I
    using v by (auto simp: InstanceCreateBaseForm_validate_def t_first_None instances_of_def t_select_iff)
  show ?thesis
    using pr n u l nm by (auto simp: used_sums total_sums instance_remain_def remain_max remain_total_sum)
qed

theorem create_within_quota_witness:
  "let c = ctx_ex 1 [(''appliance_id'', ''1'')]; s = open_session (cl_db cloud_ex);
       f = \<lparr>cf_name = ''wiki1'', cf_cpus = Some 1, cf_memory = Some 128, cf_isprivate = False, cf_appliance = ''1''\<rparr>;
       s' = snd (InstanceCreate_post ''ck'' f c s)
   in length (instances_of (work s') 1) = 2 \<and> tt_instance (get_resource_used (work s') (profile_ex 1)) \<le> 3"
proof -
  let ?c = "ctx_ex 1 [(''appliance_id'', ''1'')]" and ?s = "open_session (cl_db cloud_ex)"
  let ?f = "\<lparr>cf_name = ''wiki1'', cf_cpus = Some 1, cf_memory = Some 128, cf_isprivate = False, cf_appliance = ''1''\<rparr>"
  let ?t = "snd (InstanceCreate_post ''ck'' ?f ?c ?s)"
  have r: "fst (InstanceCreate_post ''ck'' ?f ?c ?s) = view_url 3" by code_simp
  have n: "length (instances_of (work ?t) 1) = 2" "length (instances_of (work ?s) 1) = 1" by code_simp+
  then have d: "work ?t \<noteq> work ?s" by (metis one_eq_numeral_iff num.distinct(1))
  have p: "profile_of (work ?s) 1 = Some (profile_ex 1)" "c_user ?c = Some 1" by code_simp+
  have t: "tt_instance (get_resource_total (work ?s) (c_now ?c) (profile_ex 1)) = 3" by code_simp
  have "t_ok (instances (work ?s))" using cloud_ex_inv(3) by simp
  from create_within_quota [OF this p(2) pair_of_fst [OF r] d] n t p(1) show ?thesis
    by (simp add: Let_def)
qed

section \<open>Exclusive jobs\<close>

lemma lastjob_add:
  "get_instance_lastjob (jobs_update (t_add j) d) iid =
     (if j_target_type j = TARGET_INSTANCE \<and> j_target_id j = iid then Some (t_newid (jobs d), j) else get_instance_lastjob d iid)"
  by (simp add: get_instance_lastjob_def t_newid_def)

lemma lastjob_upd_new:
  assumes "t_ok (jobs d)" "j_target_type j = TARGET_INSTANCE" "j_target_id j = iid" "j_target_type (f j) = TARGET_INSTANCE" "j_target_id (f j) = iid"
  shows "get_instance_lastjob (jobs_update (t_upd (t_newid (jobs d)) f \<circ> t_add j) d) iid = Some (t_newid (jobs d), f j)"
  using assms by (simp add: get_instance_lastjob_def t_newid_def t_upd_def)

text \<open>
  C6. A job for an instance is refused exactly within the 60 seconds after the last job of the instance was
  created, when that job has failed, or is not completed and the new one is not a STOP that can stop it; a
  refused request changes nothing. In every other case (a job that has waited for a minute does not block)
  the new job is committed before the control server is told and is the last job of the instance; when the server
  cannot be told, the job is marked as failed.
\<close>

theorem run_job_exclusive:
  assumes "run_job env u c iid act s = (ret, s')" "t_ok (jobs (work s))"
  shows "if \<exists>k j. get_instance_lastjob (work s) iid = Some (k, j) \<and> c_now c < j_created j + 60 \<and>
        (j_status j = JOB_S_FAILED \<or> \<not> completed j \<and> \<not> (act = STOP_INSTANCE \<and> canstop j))
    then ret \<noteq> None \<and> s' = s
    else store s' = work s' \<and> instances (work s') = instances (work s) \<and>
     (\<exists>j. get_instance_lastjob (work s') iid = Some (t_newid (jobs (work s)), j) \<and> j_action j = act \<and> j_user_id j = u \<and>
        (ret = None \<longleftrightarrow> le_notify env (t_newid (jobs (work s)))) \<and> (ret \<noteq> None \<longrightarrow> j_status j = JOB_S_FAILED))"
proof (cases "case get_instance_lastjob (work s) iid of None \<Rightarrow> None | Some (_, lastjob) \<Rightarrow> job_refused (c_now c) act lastjob")
  case None
  then have "\<not> (get_instance_lastjob (work s) iid = Some (k, j) \<and> c_now c < j_created j + 60 \<and>
        (j_status j = JOB_S_FAILED \<or> \<not> completed j \<and> \<not> (act = STOP_INSTANCE \<and> canstop j)))" for k j
    by (auto simp: job_refused_def Let_def split: if_splits)
  moreover have "store s' = work s' \<and> instances (work s') = instances (work s) \<and>
     (\<exists>j. get_instance_lastjob (work s') iid = Some (t_newid (jobs (work s)), j) \<and> j_action j = act \<and> j_user_id j = u \<and>
        (ret = None \<longleftrightarrow> le_notify env (t_newid (jobs (work s)))) \<and> (ret \<noteq> None \<longrightarrow> j_status j = JOB_S_FAILED))"
    using assms None
    by (auto simp: run_job_def Let_def lastjob_add lastjob_upd_new new_job_def split: if_splits)
  ultimately show ?thesis by (subst if_not_P) blast+
next
  case (Some msg)
  then have "\<exists>k j. get_instance_lastjob (work s) iid = Some (k, j) \<and> c_now c < j_created j + 60 \<and>
        (j_status j = JOB_S_FAILED \<or> \<not> completed j \<and> \<not> (act = STOP_INSTANCE \<and> canstop j))"
    by (auto simp: job_refused_def Let_def split: option.splits if_splits)
  moreover have "ret = Some msg \<and> s' = s" using assms(1) Some by (simp add: run_job_def)
  ultimately show ?thesis by simp
qed

theorem run_job_exclusive_witness:
  "let d = (cl_db cloud_ex)\<lparr>jobs := \<lparr>rows = [(1, new_job 90 2 TARGET_INSTANCE 1 RUN_INSTANCE)], seq = 1\<rparr>\<rparr>;
       (ret, s') = run_job (w_life world_ex) 2 (ctx_ex 2 []) 1 QUERY_INSTANCE (open_session d)
   in ret \<noteq> None \<and> s' = open_session d"
proof -
  let ?d = "(cl_db cloud_ex)\<lparr>jobs := \<lparr>rows = [(1, new_job 90 2 TARGET_INSTANCE 1 RUN_INSTANCE)], seq = 1\<rparr>\<rparr>"
  obtain ret s' where r: "run_job (w_life world_ex) 2 (ctx_ex 2 []) 1 QUERY_INSTANCE (open_session ?d) = (ret, s')" by fastforce
  have j: "get_instance_lastjob (work (open_session ?d)) 1 = Some (1, new_job 90 2 TARGET_INSTANCE 1 RUN_INSTANCE)"
    "c_now (ctx_ex 2 []) < j_created (new_job 90 2 TARGET_INSTANCE 1 RUN_INSTANCE) + 60"
    "\<not> completed (new_job 90 2 TARGET_INSTANCE 1 RUN_INSTANCE)" "QUERY_INSTANCE \<noteq> STOP_INSTANCE"
    by code_simp+
  have "t_ok (jobs (work (open_session ?d)))" by (simp add: t_ok_def)
  have c: "\<exists>k j. get_instance_lastjob (work (open_session ?d)) 1 = Some (k, j) \<and> c_now (ctx_ex 2 []) < j_created j + 60 \<and>
      (j_status j = JOB_S_FAILED \<or> \<not> completed j \<and> \<not> (QUERY_INSTANCE = STOP_INSTANCE \<and> canstop j))"
    using j by blast
  have "ret \<noteq> None \<and> s' = open_session ?d"
    using run_job_exclusive [OF r \<open>t_ok (jobs (work (open_session ?d)))\<close>] unfolding if_P [OF c] .
  then show ?thesis using r by (simp add: Let_def)
qed

section \<open>Starting\<close>

text \<open>
  What a user has committed to: the amounts of the running instances and of those with an
  unfinished job. It depends on these columns of the instances and on their last jobs.
\<close>

definition committed_sum :: "(instance_row \<Rightarrow> int) \<Rightarrow> db \<Rightarrow> int \<Rightarrow> int" where
  "committed_sum f d u = (\<Sum>(k, I) \<leftarrow> instances_of d u. if is_running I \<or> job_waits d k then f I else 0)"

definition life_fields :: "instance_row \<Rightarrow> int \<times> int \<times> int \<times> int" where
  "life_fields I = (i_status I, i_user_id I, i_cpus I, i_memory I)"

definition life_rows :: "db \<Rightarrow> (int \<times> int \<times> int \<times> int \<times> int) list" where
  "life_rows d = map (\<lambda>(k, I). (k, life_fields I)) (rows (instances d))"

definition keeps_life :: "int \<Rightarrow> db \<Rightarrow> db \<Rightarrow> bool" where
  "keeps_life iid d d' \<longleftrightarrow> t_ok (instances d') \<and> t_ok (jobs d') \<and> life_rows d' = life_rows d \<and>
     (\<forall>k. k \<noteq> iid \<longrightarrow> get_instance_lastjob d' k = get_instance_lastjob d k)"

lemma keeps_life_upd:
  assumes "keeps_life iid d0 d" "\<And>I. t_get (instances d) iid = Some I \<Longrightarrow> life_fields (f I) = life_fields I"
  shows "keeps_life iid d0 (upd_instance iid f d)"
proof -
  have t: "t_ok (instances d)" using assms(1) by (simp add: keeps_life_def)
  have "(iid, I) \<in> set (rows (instances d)) \<Longrightarrow> life_fields (f I) = life_fields I" for I
    using assms(2) t by (simp add: t_get_iff)
  then have "life_rows (upd_instance iid f d) = life_rows d"
    by (auto simp: life_rows_def upd_instance_def t_upd_def)
  then show ?thesis
    using assms(1) t by (simp add: keeps_life_def upd_instance_def get_instance_lastjob_def)
qed

lemma lastjob_upd_other:
  assumes "t_ok (jobs d)" "k \<noteq> j_target_id j" "k \<noteq> j_target_id (f j)"
  shows "get_instance_lastjob (jobs_update (t_upd (t_newid (jobs d)) f \<circ> t_add j) d) k = get_instance_lastjob d k"
proof -
  have "map (\<lambda>(a, b). (a, if a = seq (jobs d) + 1 then f b else b)) (rows (jobs d)) = rows (jobs d)"
    using t_ok_key [OF assms(1)] by (intro map_idI) force
  then show ?thesis
    using assms(2,3) by (simp add: get_instance_lastjob_def t_newid_def t_upd_def)
qed

lemma keeps_life_job:
  assumes "keeps_life iid d0 (work s)"
  shows "keeps_life iid d0 (work (snd (run_job env u c iid act s)))"
proof -
  have t: "t_ok (jobs (work s))" using assms by (simp add: keeps_life_def)
  show ?thesis
    using assms lastjob_upd_other [OF t] t
    by (auto simp: run_job_def Let_def keeps_life_def life_rows_def lastjob_add new_job_def t_ok_add split: option.split)
qed

lemma keeps_life_rebind:
  assumes "rebind_domain c iid s = Inr s'" "keeps_life iid d0 (work s)"
  shows "keeps_life iid d0 (work s')"
proof -
  obtain I I' where "t_get (instances (work s)) iid = Some I" "work s' = upd_instance iid (\<lambda>_. I') (work s)"
    "life_fields I' = life_fields I"
    using assms(1) by (auto simp: rebind_domain_def session_update_network_def life_fields_def
        dest!: update_network_other_fields split: sum.splits option.splits)
  then show ?thesis using keeps_life_upd [OF assms(2)] by simp
qed

lemma boot_config_life [simp]:
  "life_fields (set_libvirt_conf b64 now conf I) = life_fields I" "life_fields (update_storage now d k I) = life_fields I"
  "life_fields (inst_set now k' v I) = life_fields I"
  by (simp_all add: life_fields_def set_libvirt_conf_def update_storage_def secret_set_def inst_delete_def Let_def)

lemma set_root_passwd_life: "set_root_passwd now d I = Inr J \<Longrightarrow> life_fields J = life_fields I"
  by (auto simp: set_root_passwd_def split: if_splits option.splits sum.splits)

lemma LifeControl_run_life:
  assumes "LifeControl_run env v c iid I s = (ret, s')" "t_ok (instances (work s))" "t_ok (jobs (work s))"
    "t_get (instances (work s)) iid = Some I"
  shows "keeps_life iid (work s) (work s')"
proof -
  have 0: "keeps_life iid (work s) (work s)" using assms by (simp add: keeps_life_def)
  have "keeps_life iid (work s) (work (snd (case run_job env v c iid RUN_INSTANCE (commit (modify (upd_instance iid (\<lambda>_. J)) s)) of
      (ret, s2) \<Rightarrow> case rebind_domain c iid s2 of Inl e \<Rightarrow> (Inl e, s2) | Inr s3 \<Rightarrow> (Inr (job_answer iid ret), s3))))"
    if "life_fields J = life_fields I" for J
  proof -
    have "keeps_life iid (work s) (work (commit (modify (upd_instance iid (\<lambda>_. J)) s)))"
      using keeps_life_upd [OF 0, of "\<lambda>_. J"] that assms(4) by simp
    from keeps_life_job [OF this, of env v c RUN_INSTANCE] show ?thesis
      by (auto dest: keeps_life_rebind split: prod.split sum.split)
  qed
  then have "keeps_life iid (work s) (work (snd (LifeControl_run env v c iid I s)))"
    using 0 by (auto simp: LifeControl_run_def Let_def dest!: set_root_passwd_life split: option.split sum.split)
  then show ?thesis using assms(1) by simp
qed

lemma sum_life:
  assumes "life_rows d' = life_rows d" "\<And>k I I'. life_fields I = life_fields I' \<Longrightarrow> G k I = G k I'"
  shows "(\<Sum>(k, I) \<leftarrow> instances_of d' u. G k I) = ((\<Sum>(k, I) \<leftarrow> instances_of d u. G k I) :: int)"
proof -
  have "map (\<lambda>(k, I). (k, life_fields I)) xs = map (\<lambda>(k, I). (k, life_fields I)) ys \<Longrightarrow>
      (\<Sum>(k, I) \<leftarrow> filter (\<lambda>(k, I). i_user_id I = u) xs. G k I) = (\<Sum>(k, I) \<leftarrow> filter (\<lambda>(k, I). i_user_id I = u) ys. G k I)" for xs ys
  proof (induction xs arbitrary: ys)
    case (Cons x xs)
    then obtain y zs where y: "ys = y # zs" "fst x = fst y" "life_fields (snd x) = life_fields (snd y)"
      "map (\<lambda>(k, I). (k, life_fields I)) xs = map (\<lambda>(k, I). (k, life_fields I)) zs"
      by (cases ys) (auto simp: case_prod_unfold)
    then show ?case
      using Cons.IH [OF y(4)] assms(2) [OF y(3)] by (auto simp: case_prod_unfold life_fields_def)
  qed simp
  from this [OF assms(1) [unfolded life_rows_def]] show ?thesis by (simp add: instances_of_def t_select_def)
qed

lemma sum_three:
  "(\<Sum>(k, I) \<leftarrow> xs. A k I + B k I + C k I) = ((\<Sum>(k, I) \<leftarrow> xs. A k I) + (\<Sum>(k, I) \<leftarrow> xs. B k I) + (\<Sum>(k, I) \<leftarrow> xs. C k I) :: int)"
  by (induction xs) auto

lemma committed_bound:
  assumes "keeps_life iid d d'" "t_ok (instances d)" "t_get (instances d) iid = Some I" "\<not> is_running I" "u = i_user_id I"
    and f: "\<And>I I'. life_fields I = life_fields I' \<Longrightarrow> f I = f I'" "\<And>k J. (k, J) \<in> set (rows (instances d)) \<Longrightarrow> 0 \<le> f J"
  shows "committed_sum f d' u \<le> running_sum f (instances_of d u) + wait_sum f d u + f I"
proof -
  have same: "life_fields J = life_fields J' \<Longrightarrow> is_running J = is_running J'" for J J'
    by (simp add: life_fields_def is_running_def)
  have "committed_sum f d' u = (\<Sum>(k, J) \<leftarrow> instances_of d u. if is_running J \<or> job_waits d' k then f J else 0)"
    unfolding committed_sum_def
  proof (rule sum_life)
    show "life_rows d' = life_rows d" using assms(1) by (simp add: keeps_life_def)
    fix k J J' assume "life_fields J = life_fields (J' :: instance_row)"
    from f(1) [OF this] same [OF this]
    show "(if is_running J \<or> job_waits d' k then f J else 0) = (if is_running J' \<or> job_waits d' k then f J' else 0)" by simp
  qed
  also have "\<dots> \<le> (\<Sum>(k, J) \<leftarrow> instances_of d u. (if is_running J then f J else 0) + (if job_waits d k then f J else 0) + (if k = iid then f I else 0))"
  proof (rule sum_list_mono, clarify)
    fix k J assume kJ: "(k, J) \<in> set (instances_of d u)"
    then have 0: "0 \<le> f J" "0 \<le> f I"
      using f(2) t_get_in [OF assms(3)] by (auto simp: instances_of_def t_select_iff)
    have "J = I" if "k = iid" using kJ that t_get_unique [OF assms(2,3)] by (simp add: instances_of_def t_select_iff)
    moreover have "job_waits d' k = job_waits d k" if "k \<noteq> iid" using assms(1) that by (simp add: keeps_life_def job_waits_def)
    ultimately show "(if is_running J \<or> job_waits d' k then f J else 0) \<le>
        (if is_running J then f J else 0) + (if job_waits d k then f J else 0) + (if k = iid then f I else 0)"
      using 0 assms(4) by (cases "k = iid") auto
  qed
  also have "\<dots> = running_sum f (instances_of d u) + wait_sum f d u + (\<Sum>(k, J) \<leftarrow> instances_of d u. if k = iid then f I else 0)"
    unfolding sum_three running_sum_def wait_sum_def ..
  also have "(\<Sum>(k, J) \<leftarrow> instances_of d u. if k = iid then f I else 0) = f I"
  proof (rule sum_at)
    show "distinct (map fst (instances_of d u))" unfolding instances_of_def by (rule t_select_distinct [OF assms(2)])
    have "(iid, I) \<in> set (instances_of d u)" using assms(3,5) by (simp add: instances_of_def t_select_iff t_get_in)
    then show "iid \<in> fst ` set (instances_of d u)" by force
  qed
  finally show ?thesis .
qed

text \<open>
  C3. Starting an instance never commits its owner to more than the quota: when the request changes
  anything, then afterwards the processors of all his running instances and of all his instances
  with an unfinished job, the one just started among them, are within the quota, and so is the memory.
\<close>

theorem life_run_within_quota:
  assumes "LifeControl_run env v c iid I s = (ret, s')" "s' \<noteq> s"
    "t_ok (instances (work s))" "t_ok (jobs (work s))" "t_get (instances (work s)) iid = Some I"
    "\<And>k J. (k, J) \<in> set (rows (instances (work s))) \<Longrightarrow> 0 \<le> i_cpus J \<and> 0 \<le> i_memory J"
  shows "\<exists>p. profile_of (work s) (i_user_id I) = Some p \<and>
    committed_sum i_cpus (work s') (i_user_id I) \<le> tt_cpu (get_resource_total (work s) (c_now c) p) \<and>
    committed_sum i_memory (work s') (i_user_id I) \<le> tt_memory (get_resource_total (work s) (c_now c) p)"
proof -
  obtain p where p: "profile_of (work s) (i_user_id I) = Some p" "\<not> is_running I"
    "tt_cpu (get_resource_used (work s) p) + wait_sum i_cpus (work s) (i_user_id I) + i_cpus I
      \<le> tt_cpu (get_resource_total (work s) (c_now c) p)"
    "tt_memory (get_resource_used (work s) p) + wait_sum i_memory (work s) (i_user_id I) + i_memory I
      \<le> tt_memory (get_resource_total (work s) (c_now c) p)"
    using assms(1,2) by (auto simp: LifeControl_run_def Let_def split: option.splits if_splits)
  have k: "keeps_life iid (work s) (work s')" by (rule LifeControl_run_life [OF assms(1,3,4,5)])
  have "committed_sum f (work s') (i_user_id I) \<le> running_sum f (instances_of (work s) (i_user_id I)) + wait_sum f (work s) (i_user_id I) + f I"
    if "f = i_cpus \<or> f = i_memory" for f
    using that assms(6) by (intro committed_bound [OF k assms(3,5) p(2) refl]) (auto simp: life_fields_def)
  then show ?thesis
    using p by (force simp: used_sums profile_of_user [OF p(1)])
qed

theorem life_run_within_quota_witness:
  "let s = open_session (cl_db cloud_ex); s' = snd (LifeControl_run (w_life world_ex) 2 (ctx_ex 2 []) 1 instance_ex s)
   in job_waits (work s') 1 \<and> committed_sum i_cpus (work s') 2 \<le> 2"
proof -
  let ?s = "open_session (cl_db cloud_ex)"
  let ?x = "LifeControl_run (w_life world_ex) 2 (ctx_ex 2 []) 1 instance_ex ?s"
  have w: "job_waits (work (snd ?x)) 1" "\<not> job_waits (work ?s) 1" by code_simp+
  have u: "i_user_id instance_ex = 2" by code_simp
  have g: "t_get (instances (work ?s)) 1 = Some instance_ex" "profile_of (work ?s) 2 = Some (profile_ex 2)"
    "tt_cpu (get_resource_total (work ?s) (c_now (ctx_ex 2 [])) (profile_ex 2)) = 2" by code_simp+
  have ok: "t_ok (instances (work ?s))" "t_ok (jobs (work ?s))"
    using cloud_ex_inv(3) by (simp_all add: cloud_ex_def instance_db_ex_def network_db_ex_def db_ex_def db_empty_def)
  have pos: "0 \<le> i_cpus J \<and> 0 \<le> i_memory J" if "(k, J) \<in> set (rows (instances (work ?s)))" for k J
    using that by (auto simp: cloud_ex_def instance_ex_def new_instance_def)
  have ne: "snd ?x \<noteq> ?s" using w by metis
  have r: "?x = (fst ?x, snd ?x)" by simp
  note life_run_within_quota [OF r ne ok g(1) pos]
  then show ?thesis using w g by (simp add: u Let_def)
qed

section \<open>Deletion\<close>

lemma run_job_work: "\<exists>g. work (snd (run_job env u c iid act s)) = jobs_update g (work s) \<and>
    (store s = work s \<longrightarrow> store (snd (run_job env u c iid act s)) = work (snd (run_job env u c iid act s)))"
proof (cases "case get_instance_lastjob (work s) iid of None \<Rightarrow> None | Some (_, lastjob) \<Rightarrow> job_refused (c_now c) act lastjob")
  case None
  then show ?thesis by (auto simp: run_job_def Let_def)
next
  case (Some msg)
  then show ?thesis by (auto simp: run_job_def intro!: exI [of _ id])
qed

lemma relations_other_tables:
  "ips_of (jobs_update g d) j = ips_of d j" "storages_of (jobs_update g d) j = storages_of d j"
  "domains_of (jobs_update g d) j = domains_of d j" "user_view (jobs_update g d) j = user_view d j"
  "ips_of (traces_update h d) j = ips_of d j" "storages_of (traces_update h d) j = storages_of d j"
  "domains_of (traces_update h d) j = domains_of d j" "user_view (traces_update h d) j = user_view d j"
  "ips_of (upd_instance k f d) j = ips_of d j"
  by (simp_all add: user_view_def relation_defs View_portmappings_def upd_instance_def)

lemma user_view_upd: "j \<noteq> k \<Longrightarrow> user_view (upd_instance k f d) j = user_view d j"
  by (simp add: user_view_def upd_instance_def relation_defs View_portmappings_def)

lemma instances_release [simp]: "instances (release_all now k d) = instances d"
  by (simp add: release_all_def Let_def)

lemma InstanceDelete_result:
  assumes "InstanceDelete_post env c s = (Write msg [iid, code], s')"
  obtains u I I' g where "c_user c = Some u" "t_get (instances (work s)) iid = Some I" "u = i_user_id I \<or> isadmin (work s) u"
    "i_status I \<noteq> INSTANCE_DELETED_STATUS" "\<not> is_running I" "store s' = work s'"
    "\<exists>h. work s' = traces_update h (jobs_update g (release_all (c_now c) iid (upd_instance iid
        (\<lambda>I. I\<lparr>i_status := INSTANCE_DELETED_STATUS, i_name := ''_deleted_'' @ show_int iid @ ''_''\<rparr>)
        (upd_instance iid (\<lambda>_. I') (work s)))))"
proof -
  from assms obtain u I s1 where u: "c_user c = Some u" and I: "get_instance_byid u c (work s) = Inr (iid, I)"
    and r: "\<not> is_running I" "rebind_domain c iid s = Inr s1"
    and e: "(let s2 = commit (modify (upd_instance iid (\<lambda>I. I\<lparr>i_status := INSTANCE_DELETED_STATUS,
                         i_name := ''_deleted_'' @ show_int iid @ ''_''\<rparr>)) s1);
                 s3 = commit (modify (release_all (c_now c) iid) s2);
                 (ret, s4) = run_job env u c iid DESTROY_INSTANCE s3;
                 s5 = add_trace u TARGET_INSTANCE iid ''delete instance'' s4
             in (Write (case ret of Some msg \<Rightarrow> msg | None \<Rightarrow> ''Task starts successfully.'')
                   [iid, if ret = None then 0 else 1], s5)) = (Write msg [iid, code], s')"
    by (auto simp: InstanceDelete_post_def with_login_def on_value_def get_instance_byid_def check_instance_def Let_def
        split: option.splits sum.splits if_splits prod.splits)
  define s3 where "s3 = commit (modify (release_all (c_now c) iid) (commit (modify (upd_instance iid
      (\<lambda>I. I\<lparr>i_status := INSTANCE_DELETED_STATUS, i_name := ''_deleted_'' @ show_int iid @ ''_''\<rparr>)) s1)))"
  obtain I' where s1: "work s1 = upd_instance iid (\<lambda>_. I') (work s)"
    using r(2) by (auto simp: rebind_domain_def dest!: session_update_network_result split: sum.splits)
  obtain g where g: "work (snd (run_job env u c iid DESTROY_INSTANCE s3)) = jobs_update g (work s3)"
    using run_job_work by blast
  have "s' = add_trace u TARGET_INSTANCE iid ''delete instance'' (snd (run_job env u c iid DESTROY_INSTANCE s3))"
    using e by (auto simp: Let_def s3_def split: prod.splits)
  then have "store s' = work s'" "\<exists>h. work s' = traces_update h (jobs_update g (work s3))"
    using g by (auto simp: add_trace_def)
  moreover have "t_get (instances (work s)) iid = Some I \<and> (u = i_user_id I \<or> isadmin (work s) u) \<and> i_status I \<noteq> INSTANCE_DELETED_STATUS"
    using I by (auto simp: get_instance_byid_def check_instance_def Let_def split: option.splits if_splits)
  ultimately show ?thesis using u r(1) s1 by (intro that [of u I g I']) (auto simp: s3_def)
qed

text \<open>
  C4. Deleting an instance, which only its owner or an administrator can do and only while it is not
  running, leaves it marked as deleted and without addresses, storages and domains; no port mapping
  points to an address it had, so all these can be given away again. Every other instance keeps
  all it has. All of it is committed.
\<close>

theorem delete_releases_all:
  assumes "InstanceDelete_post env c s = (Write msg [iid, code], s')" "cloud_inv (work s)"
  shows "\<exists>u I J. c_user c = Some u \<and> t_get (instances (work s)) iid = Some I \<and> (u = i_user_id I \<or> isadmin (work s) u) \<and> \<not> is_running I \<and>
    t_get (instances (work s')) iid = Some J \<and> i_status J = INSTANCE_DELETED_STATUS \<and>
    ips_of (work s') iid = [] \<and> storages_of (work s') iid = [] \<and> domains_of (work s') iid = [] \<and>
    (\<forall>m P k r. (m, P) \<in> set (rows (port_mappings (work s'))) \<longrightarrow> (k, r) \<in> set (ips_of (work s) iid) \<longrightarrow> pm_ip_id P \<noteq> Some k) \<and>
    (\<forall>j. j \<noteq> iid \<longrightarrow> user_view (work s') j = user_view (work s) j) \<and> on_finish s' = work s'"
proof -
  from assms(1) obtain u I I' g where u: "c_user c = Some u" "t_get (instances (work s)) iid = Some I"
    "u = i_user_id I \<or> isadmin (work s) u" "\<not> is_running I" "store s' = work s'"
    and w: "\<exists>h. work s' = traces_update h (jobs_update g (release_all (c_now c) iid (upd_instance iid
        (\<lambda>I. I\<lparr>i_status := INSTANCE_DELETED_STATUS, i_name := ''_deleted_'' @ show_int iid @ ''_''\<rparr>)
        (upd_instance iid (\<lambda>_. I') (work s)))))"
    by (rule InstanceDelete_result)
  define d where "d = upd_instance iid (\<lambda>I. I\<lparr>i_status := INSTANCE_DELETED_STATUS, i_name := ''_deleted_'' @ show_int iid @ ''_''\<rparr>)
        (upd_instance iid (\<lambda>_. I') (work s))"
  from w obtain h where w: "work s' = traces_update h (jobs_update g (release_all (c_now c) iid d))" unfolding d_def by blast
  have i: "cloud_inv d" unfolding d_def using assms(2) by (intro inv_upd_instance)
  have "ips_of d iid = ips_of (work s) iid" by (simp add: d_def relations_other_tables)
  then have ports: "pm_ip_id P \<noteq> Some k"
    if "(m, P) \<in> set (rows (port_mappings (work s')))" "(k, r) \<in> set (ips_of (work s) iid)" for m P k r
    using release_all_frees(4) [of m P "c_now c" iid d k r] that w by simp
  define J where "J = I'\<lparr>i_status := INSTANCE_DELETED_STATUS, i_name := ''_deleted_'' @ show_int iid @ ''_''\<rparr>"
  have J: "t_get (instances (work s')) iid = Some J" "i_status J = INSTANCE_DELETED_STATUS"
    using u(2) by (simp_all add: w d_def upd_instance_def J_def)
  have free: "ips_of (work s') iid = []" "storages_of (work s') iid = []" "domains_of (work s') iid = []"
    by (simp_all add: w relations_other_tables release_all_frees)
  have other: "user_view (work s') j = user_view (work s) j" if "j \<noteq> iid" for j
    using that user_view_release [OF i] by (simp add: w relations_other_tables user_view_upd d_def)
  have fin: "on_finish s' = work s'" using u(5) by simp
  show ?thesis
    by (rule exI [of _ u], rule exI [of _ I], rule exI [of _ J]) (intro conjI allI impI; (fact u J free fin | rule ports other; assumption))
qed

theorem delete_releases_all_witness:
  "let s' = snd (InstanceDelete_post (w_life world_ex) (ctx_ex 2 [(''id'', ''1'')]) (open_session (cl_db cloud_ex)))
   in map fst (ips_of (cl_db cloud_ex) 1) = [2] \<and> ips_of (on_finish s') 1 = [] \<and> user_view (on_finish s') 2 = user_view (cl_db cloud_ex) 2"
proof -
  let ?s = "open_session (cl_db cloud_ex)" and ?c = "ctx_ex 2 [(''id'', ''1'')]"
  have r: "fst (InstanceDelete_post (w_life world_ex) ?c ?s) = Write ''Task starts successfully.'' [1, 0]" by code_simp
  have i: "map fst (ips_of (cl_db cloud_ex) 1) = [2]" by code_simp
  have "cloud_inv (work ?s)" using cloud_ex_inv(1) by simp
  from delete_releases_all [OF pair_of_fst [OF r] this] i show ?thesis
    unfolding Let_def session_simps(5) by (elim exE conjE) simp
qed

section \<open>Port mappings and domains\<close>

lemma used_ports_views: "used_ports d u = (\<Sum>(iid, _) \<leftarrow> instances_of d u. int (length (View_portmappings d iid)))"
proof -
  have "(\<Sum>(k, _) \<leftarrow> xs. int (length (g k))) = int (length (concat (map (\<lambda>(k, _). g k) xs)))"
    for xs :: "(int \<times> ippool) list" and g :: "int \<Rightarrow> (int \<times> port_mapping) list"
    by (induction xs) auto
  then show ?thesis by (simp add: used_ports_def View_portmappings_def)
qed

lemma View_portmappings_bind:
  assumes "cloud_inv d" "(m, P) \<in> set (rows (port_mappings d))" "\<not> truthy_int (pm_ip_id P)"
    "t_get (ippools d) k = Some r" "ip_instance_id r = Some iid" "pm_ip_id (f P) = Some k"
  shows "length (View_portmappings (port_mappings_update (t_upd m f) d) j) = length (View_portmappings d j) + (if j = iid then 1 else 0)"
proof -
  let ?d = "port_mappings_update (t_upd m f) d"
  have t: "t_ok (ippools d)" "t_ok (port_mappings d)" using assms(1) by (simp_all add: cloud_inv_def keys_ok_def)
  have P: "t_get (port_mappings d) m = Some P" using assms(2) t_get_iff [OF t(2)] by simp
  have sel: "length (t_select (\<lambda>_ Q. pm_ip_id Q = Some i) (t_upd m f (port_mappings d))) =
      length (t_select (\<lambda>_ Q. pm_ip_id Q = Some i) (port_mappings d)) + (if i = k then 1 else 0)" if "0 < i" for i
  proof (cases "i = k")
    case True
    then show ?thesis using t_select_upd_length [OF t(2) P, of "\<lambda>_ Q. pm_ip_id Q = Some k" f] assms(3,6) that
      by (auto simp: truthy_int_def split: option.splits)
  next
    case False
    then have "t_select (\<lambda>_ Q. pm_ip_id Q = Some i) (t_upd m f (port_mappings d)) = t_select (\<lambda>_ Q. pm_ip_id Q = Some i) (port_mappings d)"
      using t_get_unique [OF t(2) P] assms(3,6) that by (intro t_select_upd_other) (auto simp: truthy_int_def split: option.splits)
    then show ?thesis using False by simp
  qed
  have "(\<forall>x \<in> set xs. 0 < fst x) \<Longrightarrow> distinct (map fst xs) \<Longrightarrow>
      length (concat (map (\<lambda>(i, _). t_select (\<lambda>_ Q. pm_ip_id Q = Some i) (t_upd m f (port_mappings d))) xs)) =
      length (concat (map (\<lambda>(i, _). t_select (\<lambda>_ Q. pm_ip_id Q = Some i) (port_mappings d)) xs)) + (if k \<in> fst ` set xs then 1 else 0)"
    for xs :: "(int \<times> ippool) list"
    by (induction xs) (auto simp: sel image_iff)
  note this [of "ips_of d j"]
  moreover have "\<forall>x \<in> set (ips_of d j). 0 < fst x"
    using t_ok_key [OF t(1)] by (auto simp: ips_of_def t_select_iff)
  moreover have "distinct (map fst (ips_of d j))" unfolding ips_of_def by (rule t_select_distinct [OF t(1)])
  moreover have "k \<in> fst ` set (ips_of d j) \<longleftrightarrow> j = iid"
  proof
    assume "k \<in> fst ` set (ips_of d j)"
    then obtain v where "(k, v) \<in> set (rows (ippools d))" "ip_instance_id v = Some j" by (auto simp: ips_of_def t_select_iff)
    then show "j = iid" using t_get_unique [OF t(1) assms(4)] assms(5) by auto
  next
    assume "j = iid"
    then have "(k, r) \<in> set (ips_of d j)" using t_get_in [OF assms(4)] assms(5) by (simp add: ips_of_def t_select_iff)
    then show "k \<in> fst ` set (ips_of d j)" by force
  qed
  ultimately show ?thesis by (simp add: View_portmappings_def ips_of_def)
qed

lemma PortMappingAdd_result:
  assumes "PortMappingAdd_post e f c (s, ch) = (r, s', ch')"
  shows "s' = s \<and> ch' = ch \<or> (\<exists>gid G iid I k IP m FP. PortMappingAdd_prepare c (work s) = Inr (gid, G, iid, I) \<and>
    PortMappingForm_validate (work s) iid f = Inr (Some (k, IP)) \<and> get_free_port (work s) gid = Some (m, FP) \<and>
    work s' = port_mappings_update (t_upd m (\<lambda>P. P\<lparr>pm_ip_id := Some k, pm_ip_port := pof_port f\<rparr>)) (work s) \<and>
    ch' = Prerouting_add e (gw_ip G) (pm_gateway_port FP) (ip_ip IP) (the (pof_port f)) ch)"
proof (cases "PortMappingAdd_prepare c (work s)")
  case (Inr x)
  obtain gid G iid I where x: "x = (gid, G, iid, I)" by (cases x)
  show ?thesis
  proof (cases "PortMappingForm_validate (work s) iid f")
    case form: (Inr y)
    show ?thesis
    proof (cases y)
      case y: (Some ki)
      show ?thesis
      proof (cases "get_free_port (work s) gid")
        case (Some mf)
        obtain k IP m FP where "ki = (k, IP)" "mf = (m, FP)" by (cases ki; cases mf) auto
        with Inr form y Some x assms show ?thesis by (simp add: PortMappingAdd_post_def) (metis session_simps(1,3))
      qed (use Inr form y x assms in \<open>auto simp: PortMappingAdd_post_def\<close>)
    qed (use Inr form x assms in \<open>auto simp: PortMappingAdd_post_def\<close>)
  qed (use Inr x assms in \<open>auto simp: PortMappingAdd_post_def\<close>)
qed (use assms in \<open>auto simp: PortMappingAdd_post_def\<close>)

text \<open>
  C5. A new port mapping binds a port of the first gateway that was free to an address of the user's own
  instance and to a port of it between 20 and 65535 that no other mapping of the address has. The
  packet filter gets the rule that forwards this port of this gateway to that address and port, exactly when no rule
  forwards to this destination already; otherwise the packet filter stays as it was, even if the rule it has is a left-over
  one from another port. The number of the user's mappings grows by one and stays within the profile's limit.
\<close>

theorem port_mapping_add_correct:
  assumes "PortMappingAdd_post e f c (s, ch) = (r, s', ch')" "work s' \<noteq> work s" "cloud_inv (work s)" "chain_ok ch" "all_ok e"
  shows "\<exists>u p gid G m FP iid I k IP port. c_user c = Some u \<and> profile_of (work s) u = Some p \<and> t_get (instances (work s)) iid = Some I \<and> i_user_id I = u \<and>
    t_get (ippools (work s)) k = Some IP \<and> ip_instance_id IP = Some iid \<and>
    rows (gateways (work s)) \<noteq> [] \<and> hd (rows (gateways (work s))) = (gid, G) \<and> pm_gateway_id FP = gid \<and> t_get (port_mappings (work s)) m = Some FP \<and> \<not> truthy_int (pm_ip_id FP) \<and>
    pof_port f = Some port \<and> 20 \<le> port \<and> port \<le> 65535 \<and>
    (\<forall>j Q. (j, Q) \<in> set (rows (port_mappings (work s))) \<longrightarrow> \<not> (pm_ip_id Q = Some k \<and> pm_ip_port Q = Some port)) \<and>
    t_get (port_mappings (work s')) m = Some (FP\<lparr>pm_ip_id := Some k, pm_ip_port := Some port\<rparr>) \<and>
    rule_exists (get_rules e ch') (ip_ip IP) port \<and>
    ch' = (if rule_exists (get_rules e ch) (ip_ip IP) port then ch
           else dnat_rule e (gw_ip G) (pm_gateway_port FP) (ip_ip IP) port # ch) \<and>
    used_ports (work s') u = used_ports (work s) u + 1 \<and> used_ports (work s') u \<le> pf_port p"
proof -
  from PortMappingAdd_result [OF assms(1)] assms(2) obtain gid G iid I k IP m FP where
    prep: "PortMappingAdd_prepare c (work s) = Inr (gid, G, iid, I)"
    and form: "PortMappingForm_validate (work s) iid f = Inr (Some (k, IP))"
    and free: "get_free_port (work s) gid = Some (m, FP)"
    and w: "work s' = port_mappings_update (t_upd m (\<lambda>P. P\<lparr>pm_ip_id := Some k, pm_ip_port := pof_port f\<rparr>)) (work s)"
    and ch: "ch' = Prerouting_add e (gw_ip G) (pm_gateway_port FP) (ip_ip IP) (the (pof_port f)) ch" by auto
  obtain u p where u: "c_user c = Some u" "profile_of (work s) u = Some p" "t_get (instances (work s)) iid = Some I"
    "i_user_id I = u" "used_ports (work s) u < pf_port p" "rows (gateways (work s)) \<noteq> []" "hd (rows (gateways (work s))) = (gid, G)"
    using prep by (auto simp: PortMappingAdd_prepare_def dest!: set_myinstance_Inr split: option.splits list.splits sum.splits if_splits)
  obtain port where port: "pof_port f = Some port" "20 \<le> port" "port \<le> 65535"
    "t_get (ippools (work s)) k = Some IP" "ip_instance_id IP = Some iid"
    "t_first (\<lambda>_ P. pm_ip_id P = Some k \<and> pm_ip_port P = pof_port f) (port_mappings (work s)) = None"
    using form by (auto simp: PortMappingForm_validate_def number_range_def dest!: get_by_arg_Some split: sum.splits option.splits if_splits)
  have t: "t_ok (instances (work s))" "t_ok (port_mappings (work s))" using assms(3) by (simp_all add: cloud_inv_def keys_ok_def)
  have gw: "pm_gateway_id FP = gid"
    using free by (auto simp: get_free_port_def gateway_ports_def t_select_def dest!: find_Some_set)
  have fp: "(m, FP) \<in> set (rows (port_mappings (work s)))" "\<not> truthy_int (pm_ip_id FP)"
    using get_free_port_row [OF free] by auto
  then have m: "t_get (port_mappings (work s)) m = Some FP" using t_get_iff [OF t(2)] by simp
  have used: "used_ports (work s') u = used_ports (work s) u + 1"
    unfolding used_ports_views
    by (rule user_sum_change [OF t(1) u(3,4)])
      (simp_all add: w View_portmappings_bind [OF assms(3) fp port(4,5)])
  have add: "ch' = (if rule_exists (get_rules e ch) (ip_ip IP) port then ch
      else dnat_rule e (gw_ip G) (pm_gateway_port FP) (ip_ip IP) port # ch)"
    using assms(5) ch port(1) by (auto simp: Prerouting_add_def all_ok_def)
  then have rule: "rule_exists (get_rules e ch') (ip_ip IP) port"
    using get_rules_chain [of _ e] chain_ok_add [OF assms(4), of e "gw_ip G" "pm_gateway_port FP" "ip_ip IP" port] assms(4,5) ch port(1)
    by (auto simp: rule_exists_def parse_dnat_rule all_ok_def)
  have none: "\<not> (pm_ip_id Q = Some k \<and> pm_ip_port Q = Some port)" if "(j, Q) \<in> set (rows (port_mappings (work s)))" for j Q
    using port(1,6) that by (auto simp: t_first_None)
  have bound: "t_get (port_mappings (work s')) m = Some (FP\<lparr>pm_ip_id := Some k, pm_ip_port := Some port\<rparr>)"
    using m port(1) by (simp add: w)
  have lim: "used_ports (work s') u \<le> pf_port p" using used u(5) by simp
  show ?thesis
    by (rule exI [of _ u], rule exI [of _ p], rule exI [of _ gid], rule exI [of _ G], rule exI [of _ m], rule exI [of _ FP],
        rule exI [of _ iid], rule exI [of _ I], rule exI [of _ k], rule exI [of _ IP], rule exI [of _ port])
      (intro conjI allI impI; (fact u port fp m gw used rule bound lim add | rule none; assumption))
qed

definition port_db_ex :: db where
  "port_db_ex = (cl_db cloud_ex)\<lparr>
     gateways := \<lparr>rows = [(1, \<lparr>gw_name = ''gw'', gw_description = None, gw_ip = ''1'', gw_netmask = ''8'', gw_start = 30, gw_end = 40,
                               gw_exclude_ports = []\<rparr>)], seq = 1\<rparr>,
     port_mappings := \<lparr>rows = [(1, \<lparr>pm_gateway_port = 30, pm_gateway_id = 1, pm_ip_port = None, pm_ip_id = None\<rparr>)], seq = 1\<rparr>\<rparr>"

theorem port_mapping_add_correct_witness:
  "let (r, s', ch') = PortMappingAdd_post env_ex \<lparr>pof_ip = ''2'', pof_port = Some 22\<rparr> (ctx_ex 2 [(''id'', ''1'')]) (open_session port_db_ex, [])
   in \<exists>ip. rule_exists (get_rules env_ex ch') ip 22 \<and> used_ports (work s') 2 \<le> 6"
proof -
  let ?s = "open_session port_db_ex" and ?c = "ctx_ex 2 [(''id'', ''1'')]" and ?f = "\<lparr>pof_ip = ''2'', pof_port = Some 22\<rparr>"
  obtain r s' ch' where e: "PortMappingAdd_post env_ex ?f ?c (?s, []) = (r, s', ch')" by (metis prod_cases3)
  have "used_ports (work (fst (snd (PortMappingAdd_post env_ex ?f ?c (?s, []))))) 2 = 1" "used_ports (work ?s) 2 = 0" by code_simp+
  then have d: "work s' \<noteq> work ?s" unfolding e by auto
  have i: "cloud_inv (work ?s)"
    by (simp add: cloud_inv_defs port_db_ex_def cloud_ex_def instance_db_ex_def network_db_ex_def db_ex_def db_empty_def t_ok_def
        ip_texts_def port_numbers_def)
  have ok: "chain_ok []" "all_ok env_ex" by (simp_all add: chain_ok_def all_ok_def env_ex_def)
  have c: "c_user ?c = Some 2" "pof_port ?f = Some 22" by code_simp+
  have p: "profile_of (work ?s) 2 = Some (profile_ex 2)" "pf_port (profile_ex 2) = 6" by code_simp+
  from port_mapping_add_correct [OF e d i ok] obtain u p ip port where "c_user ?c = Some u" "profile_of (work ?s) u = Some p"
    "pof_port ?f = Some port" "rule_exists (get_rules env_ex ch') ip port" "used_ports (work s') u \<le> pf_port p"
    by (elim exE conjE)
  then show ?thesis using c p by (auto simp: e)
qed

text \<open>
  A domain is bound to an instance only when no instance of any user has it, and the number of
  the user's domains then stays within the limit of the profile.
\<close>

theorem domain_add_within_limit:
  assumes "DomainAdd_post name c s = (r, s')" "work s' \<noteq> work s" "c_user c = Some u"
  shows "\<exists>p iid I. profile_of (work s) u = Some p \<and> t_get (instances (work s)) iid = Some I \<and> i_user_id I = u \<and> domain_re name \<and>
    (\<forall>k D. (k, D) \<in> set (rows (user_domains (work s))) \<longrightarrow> ud_domain D \<noteq> name) \<and>
    domains_of (work s') iid = domains_of (work s) iid @ [(t_newid (user_domains (work s)), \<lparr>ud_domain = name, ud_user_id = u, ud_instance_id = iid\<rparr>)] \<and>
    used_domains (work s') u = used_domains (work s) u + 1 \<and> used_domains (work s') u \<le> pf_domain p"
proof -
  let ?add = "\<lambda>iid. user_domains_update (t_add \<lparr>ud_domain = name, ud_user_id = u, ud_instance_id = iid\<rparr>)"
  from with_myinstance_result [OF assms(1) [unfolded DomainAdd_post_def DomainAdd_prepare_def]] assms(2,3)
  obtain iid I where I: "t_get (instances (work s)) iid = Some I" "i_user_id I = u"
    and h: "(case profile_of (work s) (i_user_id I) of None \<Rightarrow> (Raise (AttributeError ''domain''), s)
     | Some p \<Rightarrow> if \<not> pf_domain p > used_domains (work s) u
         then (Write ''You have not domain binding now. used: %s, total: %s'' [used_domains (work s) u, pf_domain p], s)
         else if \<not> domain_re name then (Render ''myun/instance/domain_edit.html'', s)
         else if t_first (\<lambda>_ D. ud_domain D = name) (user_domains (work s)) \<noteq> None then (RenderErr ''domain'' ''This domain exist.'', s)
         else (let s1 = commit (modify (?add iid) s)
               in on_value (set_domain_entry c iid name s1) s1 (\<lambda>s2. (view_url iid, commit s2)))) = (r, s')"
    by auto
  then obtain p where p: "profile_of (work s) u = Some p" "used_domains (work s) u < pf_domain p" "domain_re name"
    "t_first (\<lambda>_ D. ud_domain D = name) (user_domains (work s)) = None"
    and o: "on_value (set_domain_entry c iid name (commit (modify (?add iid) s))) (commit (modify (?add iid) s)) (\<lambda>s2. (view_url iid, commit s2)) = (r, s')"
    using assms(2) by (auto simp: Let_def simp del: not_None_eq split: option.splits if_splits)
  have w: "user_domains (work s') = t_add \<lparr>ud_domain = name, ud_user_id = u, ud_instance_id = iid\<rparr> (user_domains (work s))"
    using o by (auto simp: on_value_def upd_instance_def dest!: set_domain_entry_result split: sum.splits)
  have "domains_of (work s') iid = domains_of (work s) iid @ [(t_newid (user_domains (work s)), \<lparr>ud_domain = name, ud_user_id = u, ud_instance_id = iid\<rparr>)]"
    "used_domains (work s') u = used_domains (work s) u + 1"
    by (simp_all add: domains_of_def used_domains_def w t_select_add_row t_newid_def)
  with p I show ?thesis by (fastforce simp: t_first_None)
qed

theorem domain_add_within_limit_witness:
  "let s = open_session (cl_db cloud_ex); s' = snd (DomainAdd_post ''a.org'' (ctx_ex 2 [(''id'', ''1'')]) s)
   in used_domains (work s') 2 = 1 \<and> used_domains (work s') 2 \<le> 6"
proof -
  let ?s = "open_session (cl_db cloud_ex)" and ?c = "ctx_ex 2 [(''id'', ''1'')]"
  have n: "used_domains (work (snd (DomainAdd_post ''a.org'' ?c ?s))) 2 = 1" "used_domains (work ?s) 2 = 0" by code_simp+
  have d: "work (snd (DomainAdd_post ''a.org'' ?c ?s)) \<noteq> work ?s"
  proof
    assume e: "work (snd (DomainAdd_post ''a.org'' ?c ?s)) = work ?s"
    from n(1) n(2) show False unfolding e by simp
  qed
  have c: "c_user ?c = Some 2" "profile_of (work ?s) 2 = Some (profile_ex 2)" "pf_domain (profile_ex 2) = 6" by code_simp+
  from domain_add_within_limit [OF prod.collapse [symmetric] d c(1)] c n show ?thesis by (auto simp: Let_def)
qed

end
