(* ===== verification/Spec2Isabelle.thy ===== *)
theory Spec2Isabelle
  imports Lyosm Mailer Osconfig Ioloop Node Forum_Inv Site Api Admission
begin

text \<open>
  LuoYunCloud, a small private cloud, as far as it is written in Python.

  \<^bold>\<open>The program.\<close> Users manage virtual machines ("instances") through a web application
  (\<^verbatim>\<open>src/lyweb\<close>, tornado handlers over SQLAlchemy). The handlers read and change one database; the
  control server (\<^verbatim>\<open>src/platform\<close>, in C) reads jobs from that database, starts and stops the
  instances on nodes and writes their state back. Port forwarding to instances is done by the web
  application itself through iptables. Mails are handed over a stream to a mail service
  (\<^verbatim>\<open>src/lyweb/tool/clc\<close>), which keeps them in a directory until they are sent. Inside an instance
  the OS manager (\<^verbatim>\<open>src/osmanager\<close>) sets the machine up, registers with the control server by a
  challenge and response, and reports the state of the application.

  \<^bold>\<open>The theories.\<close> Each definition carries the name of the function, method or class that it
  translates, with the class as a prefix (\<open>StorageAdd_post\<close> is \<open>StorageAdd.post\<close>).

  \<^item> \<open>Prelude\<close>: Python exceptions as values (\<open>pyexn\<close>, \<open>'a pyres\<close>), truth values, \<open>int()\<close>,
    \<open>strip\<close>, \<open>split\<close>; generic lemmas.
  \<^item> \<open>Lyauth\<close>, \<open>Lyutil\<close>, \<open>Lyconn\<close>: \<^verbatim>\<open>osmanager/bin/pyosm\<close>, the files \<^verbatim>\<open>lyauth.py\<close> (stream
    cipher), \<^verbatim>\<open>lyutil.py\<close>, \<^verbatim>\<open>lydef.py\<close> (packets) and \<^verbatim>\<open>lyconf.py\<close>, \<^verbatim>\<open>lyconn.py\<close>,
    \<^verbatim>\<open>lyproc.py\<close> (configuration, registration, queries). The cipher is RC4 as it is published, and never leaves its lists; packets
    survive any fragmentation; registration succeeds against an honest server and only against one
    that returns the manager's challenge in the clear, except for a reconnection. \<open>Lyosm\<close>:
    \<^verbatim>\<open>lyosm.py\<close> and \<^verbatim>\<open>lyapp.py\<close>, the main loop (\<open>osm_step\<close>, \<open>osm_loop\<close>) over the connection, the
    status script and the clock: the control server always has the current status, a first iteration
    registers and reports, and only the named exceptions end the program. The locale
    \<open>link_property\<close> carries a property of connections through the registration; it is interpreted
    for connections whose sends succeed and take whole packets. \<open>Osconfig\<close>: \<^verbatim>\<open>pyosc/osconfig.py\<close>, the files and
    commands that configure an instance; the password of root is set in its field and nowhere else.
  \<^item> \<open>Clc_Stream\<close>, \<open>Mailer\<close>: \<^verbatim>\<open>lib/lyc/handler.py\<close> (framing of messages and connections),
    \<^verbatim>\<open>tool/clc/handler/base.py\<close> (from requests to mails) and \<^verbatim>\<open>lib/yweb/mail.py\<close> (the
    directory and the thread that sends). Messages survive any fragmentation; a request becomes one
    mail, a request to many users one for each, and a round of the thread sends what is there.
    \<open>Ioloop\<close>: the event loop of this service (\<^verbatim>\<open>lib/lyc/ioloop.py\<close>) and how it takes connections
    (\<^verbatim>\<open>lib/lyc/netutil.py\<close>, \<^verbatim>\<open>tool/clc/clcapp.py\<close>). What callbacks and handlers do to the loop is a parameter,
    a list of operations or no return at all; the readings of the clock are one too. A turn that ends, ends in a well-formed state; under
    stated conditions on callbacks, handlers and clock every turn ends and what is due is run, once; a
    periodic callback is set to the first time after the present that the sums of its loop reach. \<open>Double\<close>: the
    rounding of floating point numbers, which the times of the loop are.
  \<^item> \<open>Orm\<close>: tables with primary keys and sessions (a working state and the committed one), with the
    laws of a keyed table as the locale \<open>keyed_table\<close>. \<open>Config_Store\<close>: the JSON configuration of
    instances and profiles with its cache, as an implementation of a dictionary (locale
    \<open>config_store\<close>). \<open>Schema\<close>: one record per model class of \<^verbatim>\<open>lyweb/app/*/models.py\<close>, the
    record \<open>db\<close> of all tables, and the relations between them.
  \<^item> \<open>Web\<close>: \<^verbatim>\<open>lycustom.py\<close> and \<^verbatim>\<open>app/auth\<close>: arguments, permissions, decorators, passwords and login
    sessions. A handler is a function from the request (\<open>ctx\<close>) and the session to the response and
    the session; an exception is the response \<open>Raise\<close>, with what had been committed before.
  \<^item> \<open>Job\<close>, \<open>Quota\<close>, \<open>Network\<close>, \<open>Firewall\<close>, \<open>Instance_Model\<close>: \<^verbatim>\<open>app/job\<close>, \<^verbatim>\<open>app/resource\<close>
    and \<^verbatim>\<open>app/account/models.py\<close>, \<^verbatim>\<open>app/network\<close>, \<^verbatim>\<open>tool/firewall.py\<close>, and \<^verbatim>\<open>app/instance/models.py\<close>
    with storages, domains and traces.
  \<^item> \<open>Myun\<close>, \<open>Instance_Views\<close>: the handlers of \<^verbatim>\<open>app/myun/instance/views.py\<close> (a user's instances)
    and \<^verbatim>\<open>app/instance/views.py\<close> (starting, stopping, deleting). \<open>Account\<close>: \<^verbatim>\<open>app/account/views.py\<close>
    and \<^verbatim>\<open>app/registration/views.py\<close>. \<open>Admin\<close>: \<^verbatim>\<open>app/admin/user_views.py\<close>, \<^verbatim>\<open>group_views.py\<close>
    and \<^verbatim>\<open>app/resource/admin_views.py\<close>. \<open>Message\<close>: \<^verbatim>\<open>app/message\<close>. \<open>Appliance\<close>:
    \<^verbatim>\<open>app/appliance\<close>, \<^verbatim>\<open>app/myun/appliance\<close> and \<^verbatim>\<open>app/admin/appliance_views.py\<close>, with the
    directory of the uploaded files. \<open>Node\<close>: \<^verbatim>\<open>app/node\<close>. \<open>Pagination\<close>: the list of pages of
    \<^verbatim>\<open>lib/yweb/utils/pagination.py\<close>.
  \<^item> \<open>Forum\<close>, \<open>Forum_Inv\<close>: \<^verbatim>\<open>app/forum\<close>, over tables of its own (\<open>serve_forum\<close>, \<open>forum_reach\<close>). The locale
    \<open>ballot\<close> has the counters of votes, \<open>forum_keeper\<close> the elementary changes of the forum; they show that the votes are counted, that posts keep their
    distance in time, and that users write in their own name only. \<open>Site\<close>: \<^verbatim>\<open>app/site\<close>, \<^verbatim>\<open>app/system\<close>, \<^verbatim>\<open>app/domain\<close> and
    the front page of \<^verbatim>\<open>app/home\<close> (\<open>serve_site\<close>, \<open>site_reach\<close>): entries, articles and keys stay unique and refer to what
    exists, and the configuration behaves as the dictionary that \<open>Schema\<close> has of it. \<open>Api\<close>: \<^verbatim>\<open>app/api\<close>, the
    interface for programs, which agrees with the web pages on logins and sessions.
  \<^item> \<open>Cloud_Inv\<close>, \<open>Keeper\<close>, \<open>Isolation\<close>, \<open>Life_Keeper\<close>, \<open>Account_Inv\<close>, \<open>Admin_Inv\<close>, \<open>Appliance_Inv\<close>: what
    all these handlers keep. \<open>cloud_inv\<close> is the invariant of the pools. The locales \<open>user_keeper\<close>, \<open>life_keeper\<close>,
    \<open>account_keeper\<close>, its extension \<open>admin_keeper\<close> and \<open>appliance_keeper\<close> list the elementary changes of the database under the guards with which the
    handlers make them; that a handler keeps a predicate is proved once inside the locale. The
    locales are interpreted for the invariant, for the isolation of users, for unique user
    names, and for the agreement of appliances and files. The same theories show what single
    handlers achieve: logging in, lost passwords, permissions and quotas, the delivery and privacy of
    messages, who may change an appliance.
  \<^item> \<open>System\<close>: requests of the URL tables, serving them (\<open>serve\<close>, \<open>serve_db\<close>), and the steps
    of the service with those of the control server (\<open>cloud_step\<close>, \<open>cloud_reach\<close>). \<open>Admission\<close>:
    what the guards achieve (quotas, exclusive jobs, deletion, port mappings, domains).
  \<^item> This theory: the properties of the service as a whole.

  \<^bold>\<open>Conventions.\<close> The service runs one request at a time (one tornado process), so a step is a
  whole request; a handler that waits for another server (\<open>QQLogin\<close>) is two steps, the part before
  the answer and the part after it. What was not committed at the end of
  a request is dropped (\<open>on_finish\<close>). Random values (salts, cookies, keys), the time, the answer of the
  iptables commands and of the socket to the control server, the digests (\<open>codec\<close>) and the library IPy
  (\<open>ipy\<close>) are parameters; what is assumed of the last two is stated in \<open>codec_ok\<close> and \<open>ipy_ok\<close>.
  Integers of Python and of the database are \<open>int\<close>; bytes of packets and of the cipher are numbers
  below 256 with the reductions written out. All functions are total: the loops of the sources run
  over finite data and are structural recursions or have a measure (\<open>add_ports\<close>: the ports that are
  left; \<open>strip_reply\<close>: the length of the subject; \<open>read_from_stream\<close>: the bytes and events that are
  left), receiving from a socket consumes the list of its events, so there is no fuel. The main loop
  of the OS manager does not end by itself: it is run for a list of inputs of any length. The loops of
  \<open>Ioloop\<close> need not end (\<open>advance\<close> for a period that rounding absorbs, \<open>run_timers\<close> for callbacks that keep setting
  timeouts in the past or a clock that is set back): they are partial functions with the value \<open>None\<close> where they do not, and it
  is proved when they do.

  \<^bold>\<open>Not modelled.\<close> Templates and translations, the texts of mails, pictures, the nginx files of
  domains: they are written and not read back. The deletion of a user and
  the change of a resource (\<^verbatim>\<open>UserDelete\<close>, \<^verbatim>\<open>ResourceEdit\<close>), which store \<open>NULL\<close> in columns that are
  values here. Pages that only list rows (the forum's topics and
  posts and the list of the API excepted). \<^verbatim>\<open>manage.py\<close> and the daemons (process control). The
  mail service is modelled event by event, its threads one after the other.  Doubles have no bounds of their exponent. Signals, options and
  logging of the OS manager, its local web pages and its terminal. The platform, which is
  written in C: its effect on the database enters as steps \<open>report\<close>, \<open>destroy\<close> (the row of a deleted instance is removed, unless a foreign key forbids it) and \<open>progress\<close> of \<open>cloud_step\<close>.
  The handlers of \<open>Node\<close> are not among the requests of \<open>cloud_step\<close>: they change nodes and jobs
  for nodes only. Third-party libraries, except for the validators and decorators that the handlers use.
\<close>

section \<open>The service\<close>

text \<open>
  C1. The invariant of the pools. Start from any database in which every address, gateway port and
  domain exists once, no instance has two addresses or two storages, and addresses, storages and port
  mappings refer to existing rows: after any sequence of requests (of any users, requests about
  accounts, administration, messages and appliances, refused, failing and malformed ones included), interleaved in any way with reports of the control
  server and with its removal of the rows of deleted instances, the same holds, so every instance has at most one address and one storage.
\<close>

theorem reachable_pools:
  assumes "cloud_inv (cl_db x)" "cloud_reach w x y"
  shows "cloud_inv (cl_db y) \<and> (\<forall>iid. length (ips_of (cl_db y) iid) \<le> 1 \<and> length (storages_of (cl_db y) iid) \<le> 1)"
  using inv_reach [OF assms(2,1)] inv_lengths by blast

theorem reachable_pools_witness:
  "let c = ctx_ex 2 [(''id'', ''1'')]; q = UserReq (StorageAdd \<lparr>sf_pool = ''1'', sf_size = Some 7\<rparr>);
       y = snd (serve world_ex q c cloud_ex); z = snd (serve world_ex q c y)
   in cloud_inv (cl_db z) \<and> length (storages_of (cl_db z) 1) = 1 \<and> length (storages_of (cl_db z) 1) \<le> 1"
proof -
  let ?c = "ctx_ex 2 [(''id'', ''1'')]" and ?q = "UserReq (StorageAdd \<lparr>sf_pool = ''1'', sf_size = Some 7\<rparr>)"
  let ?y = "snd (serve world_ex ?q ?c cloud_ex)" let ?z = "snd (serve world_ex ?q ?c ?y)"
  have "cloud_reach world_ex cloud_ex ?z"
    by (rule cloud_reach.more [OF cloud_reach.more [OF cloud_reach.start]]; rule cloud_step.request [OF prod.collapse [symmetric]])
  from reachable_pools [OF cloud_ex_inv(1) this] have "cloud_inv (cl_db ?z)" "length (storages_of (cl_db ?z) 1) \<le> 1" by auto
  moreover have "length (storages_of (cl_db ?z) 1) = 1" by code_simp
  ultimately show ?thesis by (simp add: Let_def)
qed

text \<open>
  C2. Isolation. A request of a user without the permission \<open>admin\<close>, whichever it is and
  whatever its arguments name, leaves every instance of the other users as it was, with its
  addresses, its storages, its domains and its port mappings, and the profiles of the other users; and
  so does every request of \<^verbatim>\<open>/myun\<close>, even of an administrator.
\<close>

theorem user_isolation:
  assumes "c_user c = Some u" "cloud_inv (cl_db x)" "t_ok (profiles (cl_db x))"
    "\<not> isadmin (cl_db x) u \<or> (\<exists>r. q = UserReq r)" "serve w q c x = (r, y)"
  shows "(\<forall>iid I. t_get (instances (cl_db x)) iid = Some I \<longrightarrow> i_user_id I \<noteq> u \<longrightarrow> user_view (cl_db y) iid = user_view (cl_db x) iid) \<and>
    (\<forall>v. v \<noteq> u \<longrightarrow> profile_of (cl_db y) v = profile_of (cl_db x) v)"
  using isolated_serve [OF assms(1-4), of w] assms(5) by (simp add: foreign_same_def)

theorem user_isolation_witness:
  "let c = ctx_ex 2 [(''id'', ''2'')]; y = snd (serve world_ex (InstanceReq InstanceDelete) c cloud_ex)
   in user_view (cl_db y) 2 = user_view (cl_db cloud_ex) 2"
proof -
  let ?c = "ctx_ex 2 [(''id'', ''2'')]"
  have c: "c_user ?c = Some 2" by code_simp
  have "\<not> isadmin (cl_db cloud_ex) 2" by code_simp
  then have a: "\<not> isadmin (cl_db cloud_ex) 2 \<or> (\<exists>r. InstanceReq InstanceDelete = UserReq r)" by simp
  have o: "map_option i_user_id (t_get (instances (cl_db cloud_ex)) 2) = Some 1" by code_simp
  from o obtain I where "t_get (instances (cl_db cloud_ex)) 2 = Some I" "i_user_id I \<noteq> 2" by auto
  with user_isolation [OF c cloud_ex_inv(1,2) a prod.collapse [symmetric], of world_ex] show ?thesis
    by (auto simp: Let_def)
qed

text \<open>
  C36. Without a logged in user, a request of the three URL tables of \<open>serve\<close> (a user's own
  instances and their resources, the control of instances, networks and gateways) changes neither the database nor the packet filter. The
  requests about accounts (registration, login, a forgotten password), which work without a login, and the
  administration pages are served by \<open>serve_db\<close> and are not meant here.
\<close>

theorem anonymous_no_effect:
  assumes "c_user c = None"
  shows "snd (serve w q c x) = x"
  using anonymous_handle [OF assms, of w q "(open_session (cl_db x), cl_chain x)"]
  by (auto simp: serve_def split: prod.split)

theorem anonymous_no_effect_witness:
  "snd (serve world_ex (InstanceReq InstanceDelete) ((ctx_ex 2 [(''id'', ''1'')])\<lparr>c_user := None\<rparr>) cloud_ex) = cloud_ex"
  by (rule anonymous_no_effect) simp

text \<open>
  The pages that show a form or an instance change nothing: after the method the session is what
  it was before, whatever the arguments.
\<close>

theorem pages_read_only:
  "snd (GlobalPasswordEdit_get c s) = s \<and> snd (BaseinfoEdit_get c s) = s \<and> snd (ResourceEdit_get c s) = s \<and>
   snd (InstancePasswordEdit_get c s) = s \<and> snd (InstancePublicKeyEdit_get c s) = s \<and> snd (StorageAdd_get c s) = s \<and>
   snd (StorageEdit_get c s) = s \<and> snd (NetworkAdd_get c s) = s \<and> snd (DomainAdd_get c s) = s \<and> snd (DomainEdit_get c s) = s \<and>
   snd (InstanceCreate_get c s) = s \<and> snd (PortMappingAdd_get c (s, ch)) = (s, ch) \<and> snd (View_get c s) = s \<and>
   snd (InstanceView_get c s) = s \<and> snd (snd (NetworkConfig_get nf c s)) = s \<and> snd (snd (GatewayConfig_get gf c s)) = s"
  by (simp add: GlobalPasswordEdit_get_def BaseinfoEdit_get_def ResourceEdit_get_def InstancePasswordEdit_get_def
      InstancePublicKeyEdit_get_def StorageAdd_get_def StorageEdit_get_def NetworkAdd_get_def DomainAdd_get_def DomainEdit_get_def
      InstanceCreate_get_def PortMappingAdd_get_def View_get_def InstanceView_get_def NetworkConfig_get_def GatewayConfig_get_def
      show_form_def with_myinstance_def with_login_def StorageAdd_prepare_def NetworkAdd_prepare_def DomainAdd_prepare_def
      with_storage_def with_domain_def on_value_def Let_def split: option.split sum.split resp.split)

end
